(* ===== verification/Prelude.thy ===== *)
theory Prelude
  imports Main
begin

text \<open>
  Shared vocabulary of the development: results of fallible Go functions, small facts
  about lists and maps, and the collections of rewrite rules the component theories fill.
\<close>

section \<open>Results of fallible functions\<close>

text \<open>
  A Go function returning \<open>(T, error)\<close> is modelled by a value of type \<open>'e + 'a\<close>:
  \<open>Inl e\<close> for a non-nil error, \<open>Inr x\<close> for a result with a nil error. A function
  returning only an \<open>error\<close> is modelled by an option: \<open>None\<close> is the nil error.
\<close>

type_synonym ('e, 'a) result = "'e + 'a"

abbreviation is_ok :: "('e, 'a) result \<Rightarrow> bool" where
  "is_ok r \<equiv> \<not> isl r"

definition map_error :: "('e \<Rightarrow> 'f) \<Rightarrow> ('e, 'a) result \<Rightarrow> ('f, 'a) result" where
  "map_error f r = (case r of Inl e \<Rightarrow> Inl (f e) | Inr x \<Rightarrow> Inr x)"

lemma map_error_simps [simp]:
  "map_error f (Inl e) = Inl (f e)"
  "map_error f (Inr x) = Inr x"
  by (simp_all add: map_error_def)

lemma map_error_eq_Inr [simp]: "map_error f r = Inr x \<longleftrightarrow> r = Inr x"
  by (cases r) auto

lemma map_error_isl [simp]: "isl (map_error f r) = isl r"
  by (cases r) auto

section \<open>Collections of rules\<close>

named_theorems handler_defs
  \<open>definitions of the controller steps, unfolded together in proofs about a handler\<close>

named_theorems string_facts
  \<open>facts on Go strings used to evaluate parsers and printers\<close>

section \<open>Lists\<close>

lemma filter_eq_all: "(\<And>x. x \<in> set xs \<Longrightarrow> P x) \<Longrightarrow> filter P xs = xs"
  by (induction xs) auto

lemma map_of_set_iff:
  "distinct (map fst al) \<Longrightarrow> map_of al k = Some v \<longleftrightarrow> (k, v) \<in> set al"
  by (rule map_of_eq_Some_iff)

lemma takeWhile_append_stop:
  "(\<And>x. x \<in> set xs \<Longrightarrow> P x) \<Longrightarrow> \<not> P y \<Longrightarrow> takeWhile P (xs @ y # ys) = xs"
  by (induction xs) auto

lemma dropWhile_append_stop:
  "(\<And>x. x \<in> set xs \<Longrightarrow> P x) \<Longrightarrow> \<not> P y \<Longrightarrow> dropWhile P (xs @ y # ys) = y # ys"
  by (induction xs) auto

section \<open>Loops over a slice that may return early\<close>

text \<open>
  \<open>for_each f xs s\<close> is a Go loop over \<open>xs\<close> whose body \<open>f\<close> updates the state \<open>s\<close>; a body that
  returns an error from the surrounding function ends the loop with \<open>Some e\<close>.
\<close>

fun for_each :: "('a \<Rightarrow> 's \<Rightarrow> 'e option \<times> 's) \<Rightarrow> 'a list \<Rightarrow> 's \<Rightarrow> 'e option \<times> 's" where
  "for_each f [] s = (None, s)"
| "for_each f (x # xs) s =
     (case f x s of (Some e, s') \<Rightarrow> (Some e, s') | (None, s') \<Rightarrow> for_each f xs s')"

lemma for_each_append:
  "for_each f (xs @ ys) s =
     (case for_each f xs s of (Some e, s') \<Rightarrow> (Some e, s') | (None, s') \<Rightarrow> for_each f ys s')"
  by (induction xs arbitrary: s) (auto split: prod.splits option.splits)

lemma for_each_inv:
  assumes "I s" "\<And>x s e s'. x \<in> set xs \<Longrightarrow> I s \<Longrightarrow> f x s = (e, s') \<Longrightarrow> I s'"
  shows "I (snd (for_each f xs s))"
  using assms
proof (induction xs arbitrary: s)
  case (Cons x xs)
  obtain e t where t: "f x s = (e, t)" by (cases "f x s")
  have "I t" using Cons.prems t by (metis list.set_intros(1))
  moreover have "I (snd (for_each f xs t))"
    using Cons.IH[OF \<open>I t\<close>] Cons.prems(2) by (metis list.set_intros(2))
  ultimately show ?case using t by (cases e) auto
qed simp

text \<open>A loop that ends without error establishes what each of its bodies establishes.\<close>

lemma for_each_each:
  assumes "for_each f xs s = (None, s')" "x \<in> set xs"
    and "\<And>s t. f x s = (None, t) \<Longrightarrow> P t"
    and "\<And>y s e t. y \<in> set xs \<Longrightarrow> P s \<Longrightarrow> f y s = (e, t) \<Longrightarrow> P t"
  shows "P s'"
  using assms
proof (induction xs arbitrary: s)
  case (Cons y ys)
  obtain t where t: "f y s = (None, t)" "for_each f ys t = (None, s')"
    using Cons.prems(1) by (auto split: prod.splits option.splits)
  show ?case
  proof (cases "x = y")
    case True
    then have "P t" using Cons.prems(3) t by blast
    then have "P (snd (for_each f ys t))"
      using for_each_inv[of P t ys f] Cons.prems(4) by (metis list.set_intros(2))
    then show ?thesis using t by simp
  next
    case False
    then show ?thesis
      using Cons.IH[OF t(2)] Cons.prems by (metis list.set_intros(2) set_ConsD)
  qed
qed simp

lemma for_each_no_error:
  "(\<And>x s. x \<in> set xs \<Longrightarrow> fst (f x s) = None) \<Longrightarrow> fst (for_each f xs s) = None"
proof (induction xs arbitrary: s)
  case (Cons x xs)
  obtain t where "f x s = (None, t)" using Cons.prems[of x s] by (cases "f x s") auto
  then show ?case using Cons by simp
qed simp

lemma for_each_error:
  "for_each f xs s = (Some e, t) \<Longrightarrow> \<exists>x\<in>set xs. \<exists>s t. f x s = (Some e, t)"
proof (induction xs arbitrary: s)
  case (Cons x xs)
  show ?case
  proof (cases "f x s")
    case (Pair r u)
    show ?thesis
    proof (cases r)
      case None
      then show ?thesis using Cons Pair by auto
    next
      case (Some e')
      then show ?thesis using Cons.prems Pair by auto
    qed
  qed
qed simp

lemma for_each_stops:
  assumes "x \<in> set xs" "\<And>s. fst (f x s) \<noteq> None"
  shows "fst (for_each f xs s) \<noteq> None"
  using assms(1)
proof (induction xs arbitrary: s)
  case (Cons y ys)
  then show ?case using assms(2)[of s] by (auto split: prod.splits option.splits)
qed simp

lemma for_each_error_inv:
  assumes "for_each f xs s = (Some e, t)" "I s"
    and "\<And>x s e s'. x \<in> set xs \<Longrightarrow> I s \<Longrightarrow> f x s = (e, s') \<Longrightarrow> I s'"
  shows "\<exists>x\<in>set xs. \<exists>s. I s \<and> f x s = (Some e, t)"
  using assms
proof (induction xs arbitrary: s)
  case (Cons x xs)
  obtain r u where u: "f x s = (r, u)" by (cases "f x s")
  show ?case
  proof (cases r)
    case None
    then have step: "for_each f xs u = (Some e, t)" using Cons.prems(1) u by simp
    have "I u" using Cons.prems(2,3) u by (metis list.set_intros(1))
    have "\<exists>x\<in>set xs. \<exists>s. I s \<and> f x s = (Some e, t)"
      by (rule Cons.IH[OF step \<open>I u\<close>]) (metis Cons.prems(3) list.set_intros(2))
    then show ?thesis by auto
  next
    case (Some e')
    then show ?thesis using Cons.prems(1,2) u by auto
  qed
qed simp

end
