(* ===== verification/GoStrings.thy ===== *)
theory GoStrings
  imports Prelude "HOL-Library.List_Lexorder" "HOL-Library.Char_ord"
begin

text \<open>
  The part of Go's \<open>strings\<close>, \<open>strconv\<close> and \<open>fmt\<close> packages the operator uses.
  A Go string is a sequence of bytes, a HOL \<open>string\<close> a list of 8-bit characters, and
  Go's \<open><\<close> on strings is the bytewise lexicographic order, which is the order
  \<open>List_Lexorder\<close> and \<open>Char_ord\<close> put on \<open>string\<close>.
\<close>

section \<open>Splitting and joining\<close>

text \<open>\<open>strings.Split(s, sep)\<close> for a separator of one byte: always at least one piece.\<close>

fun split_on :: "char \<Rightarrow> string \<Rightarrow> string list" where
  "split_on c [] = [[]]"
| "split_on c (x # xs) =
     (if x = c then [] # split_on c xs
      else (case split_on c xs of [] \<Rightarrow> [[x]] | y # ys \<Rightarrow> (x # y) # ys))"

text \<open>\<open>strings.Join(parts, sep)\<close>.\<close>

fun join_with :: "string \<Rightarrow> string list \<Rightarrow> string" where
  "join_with sep [] = []"
| "join_with sep [x] = x"
| "join_with sep (x # y # ys) = x @ sep @ join_with sep (y # ys)"

lemma split_on_not_Nil [simp]: "split_on c s \<noteq> []"
  by (cases s) (auto split: list.splits)

lemma split_on_no_sep: "c \<notin> set s \<Longrightarrow> split_on c s = [s]"
  by (induction s) auto

lemma split_on_append_sep:
  "c \<notin> set s \<Longrightarrow> split_on c (s @ c # t) = s # split_on c t"
  by (induction s) auto

lemma split_on_pieces: "p \<in> set (split_on c s) \<Longrightarrow> c \<notin> set p"
  by (induction s arbitrary: p) (auto split: list.splits if_splits)

lemma set_split_on_piece: "p \<in> set (split_on c s) \<Longrightarrow> set p \<subseteq> set s"
proof (induction s arbitrary: p)
  case Nil
  then show ?case by simp
next
  case (Cons x s)
  obtain y ys where y: "split_on c s = y # ys"
    by (cases "split_on c s") auto
  with Cons show ?case
    by (auto split: if_splits) blast+
qed

lemma join_with_Cons:
  "ps \<noteq> [] \<Longrightarrow> join_with sep (p # ps) = p @ sep @ join_with sep ps"
  by (cases ps) auto

lemma join_split: "join_with [c] (split_on c s) = s"
proof (induction s)
  case Nil
  then show ?case by simp
next
  case (Cons x s)
  obtain y ys where y: "split_on c s = y # ys"
    by (cases "split_on c s") auto
  show ?case
  proof (cases "x = c")
    case True
    with Cons show ?thesis by (simp add: join_with_Cons)
  next
    case False
    with Cons y show ?thesis by (cases ys) auto
  qed
qed

lemma split_join:
  assumes "ps \<noteq> []" and "\<And>p. p \<in> set ps \<Longrightarrow> c \<notin> set p"
  shows "split_on c (join_with [c] ps) = ps"
  using assms
proof (induction ps)
  case Nil
  then show ?case by simp
next
  case (Cons p ps)
  then show ?case
    by (cases "ps = []") (auto simp: split_on_no_sep split_on_append_sep join_with_Cons)
qed

lemma length_split_on: "length (split_on c s) = Suc (count_list s c)"
  by (induction s) (auto split: list.splits)

lemma count_list_zero: "c \<notin> set s \<Longrightarrow> count_list s c = 0"
  by (induction s) auto

text \<open>On symbolic strings the equations of \<open>split_on\<close> are unfolded by hand only.\<close>

declare split_on.simps(2) [simp del, string_facts]

section \<open>Prefixes, suffixes and substrings\<close>

definition has_prefix :: "string \<Rightarrow> string \<Rightarrow> bool" where
  "has_prefix s p \<longleftrightarrow> take (length p) s = p"

definition trim_prefix :: "string \<Rightarrow> string \<Rightarrow> string" where
  "trim_prefix s p = (if has_prefix s p then drop (length p) s else s)"

definition has_suffix :: "string \<Rightarrow> string \<Rightarrow> bool" where
  "has_suffix s p \<longleftrightarrow> length p \<le> length s \<and> drop (length s - length p) s = p"

definition trim_suffix :: "string \<Rightarrow> string \<Rightarrow> string" where
  "trim_suffix s p = (if has_suffix s p then take (length s - length p) s else s)"

text \<open>\<open>strings.Contains(s, sub)\<close>.\<close>

fun contains_str :: "string \<Rightarrow> string \<Rightarrow> bool" where
  "contains_str [] sub = (sub = [])"
| "contains_str (x # xs) sub = (has_prefix (x # xs) sub \<or> contains_str xs sub)"

lemma has_prefix_append [simp]: "has_prefix (p @ s) p"
  by (simp add: has_prefix_def)

lemma trim_prefix_append [simp]: "trim_prefix (p @ s) p = s"
  by (simp add: trim_prefix_def)

lemma trim_prefix_Cons [simp]: "trim_prefix (c # s) [c] = s"
  by (simp add: trim_prefix_def has_prefix_def)

lemma has_suffix_append [simp]: "has_suffix (s @ p) p"
  by (simp add: has_suffix_def)

lemma trim_suffix_append [simp]: "trim_suffix (s @ p) p = s"
  by (simp add: trim_suffix_def)

lemma has_prefix_iff: "has_prefix s p \<longleftrightarrow> (\<exists>t. s = p @ t)"
  by (metis append_take_drop_id has_prefix_append has_prefix_def)

lemma contains_str_iff: "contains_str s sub \<longleftrightarrow> (\<exists>a b. s = a @ sub @ b)"
proof (induction s)
  case Nil
  then show ?case by auto
next
  case (Cons x s)
  show ?case
  proof
    assume "contains_str (x # s) sub"
    then consider "has_prefix (x # s) sub" | "contains_str s sub" by auto
    then show "\<exists>a b. x # s = a @ sub @ b"
    proof cases
      case 1
      then obtain t where "x # s = [] @ sub @ t" by (auto simp: has_prefix_iff)
      then show ?thesis by blast
    next
      case 2
      with Cons.IH obtain a b where "x # s = (x # a) @ sub @ b" by auto
      then show ?thesis by blast
    qed
  next
    assume "\<exists>a b. x # s = a @ sub @ b"
    then obtain a b where ab: "x # s = a @ sub @ b" by blast
    show "contains_str (x # s) sub"
    proof (cases a)
      case Nil
      with ab have "has_prefix (x # s) sub" by (simp add: has_prefix_iff)
      then show ?thesis by simp
    next
      case (Cons y a')
      with ab Cons.IH have "contains_str s sub" by auto
      then show ?thesis by simp
    qed
  qed
qed

section \<open>Decimal integers\<close>

definition is_digit :: "char \<Rightarrow> bool" where
  "is_digit c \<longleftrightarrow> 48 \<le> (of_char c :: nat) \<and> (of_char c :: nat) \<le> 57"

definition digit_val :: "char \<Rightarrow> nat" where
  "digit_val c = of_char c - 48"

definition digit_char :: "nat \<Rightarrow> char" where
  "digit_char d = char_of (48 + d)"

text \<open>\<open>fmt\<close>'s \<open>%d\<close> (and \<open>%v\<close>) of an \<open>int\<close>.\<close>

fun show_nat :: "nat \<Rightarrow> string" where
  "show_nat n =
     (if n < 10 then [digit_char n] else show_nat (n div 10) @ [digit_char (n mod 10)])"

declare show_nat.simps [simp del]

definition show_int :: "int \<Rightarrow> string" where
  "show_int i = (if i < 0 then CHR ''-'' # show_nat (nat (- i)) else show_nat (nat i))"

text \<open>
  \<open>strconv.Atoi\<close> on a platform with 64-bit \<open>int\<close>: an optional sign, at least one
  decimal digit, nothing else, and a value that fits. \<open>None\<close> is a non-nil error
  (\<open>ErrSyntax\<close> or \<open>ErrRange\<close>, which the callers do not tell apart).
\<close>

fun parse_digits :: "nat \<Rightarrow> string \<Rightarrow> nat option" where
  "parse_digits acc [] = Some acc"
| "parse_digits acc (c # cs) =
     (if is_digit c then parse_digits (10 * acc + digit_val c) cs else None)"

definition max_int :: int where "max_int = 2 ^ 63 - 1"
definition min_int :: int where "min_int = - (2 ^ 63)"

definition fits_int :: "int \<Rightarrow> bool" where
  "fits_int i \<longleftrightarrow> min_int \<le> i \<and> i \<le> max_int"

definition unsigned_part :: "string \<Rightarrow> bool \<times> string" where
  "unsigned_part s = (case s of
       [] \<Rightarrow> (False, [])
     | c # cs \<Rightarrow> if c = CHR ''-'' then (True, cs)
                else if c = CHR ''+'' then (False, cs) else (False, s))"

definition atoi :: "string \<Rightarrow> int option" where
  "atoi s = (case unsigned_part s of (neg, body) \<Rightarrow>
     if body = [] then None
     else (case parse_digits 0 body of
         None \<Rightarrow> None
       | Some n \<Rightarrow> let i = (if neg then - int n else int n)
                   in if fits_int i then Some i else None))"

text \<open>Addition and subtraction of Go's 64-bit \<open>int\<close> wrap around.\<close>

definition wrap_int :: "int \<Rightarrow> int" where
  "wrap_int i = (i + 2 ^ 63) mod 2 ^ 64 - 2 ^ 63"

lemma wrap_int_fits [simp]: "fits_int i \<Longrightarrow> wrap_int i = i"
  by (simp add: wrap_int_def fits_int_def min_int_def max_int_def)

lemma digit_char_of_char: "d < 10 \<Longrightarrow> (of_char (digit_char d) :: nat) = 48 + d"
  by (simp add: digit_char_def)

lemma is_digit_digit_char [simp]: "d < 10 \<Longrightarrow> is_digit (digit_char d)"
  by (simp add: is_digit_def digit_char_of_char)

lemma digit_val_digit_char [simp]: "d < 10 \<Longrightarrow> digit_val (digit_char d) = d"
  by (simp add: digit_val_def digit_char_of_char)

lemma show_nat_not_Nil [simp]: "show_nat n \<noteq> []"
  by (subst show_nat.simps) simp

lemma show_nat_digits: "c \<in> set (show_nat n) \<Longrightarrow> is_digit c"
proof (induction n rule: show_nat.induct)
  case (1 n)
  show ?case
  proof (cases "n < 10")
    case True
    with "1.prems" show ?thesis by (simp add: show_nat.simps[of n])
  next
    case False
    with "1.prems" "1.IH" show ?thesis by (auto simp: show_nat.simps[of n])
  qed
qed

lemma parse_digits_append:
  "parse_digits acc (xs @ ys) = Option.bind (parse_digits acc xs) (\<lambda>a. parse_digits a ys)"
  by (induction xs arbitrary: acc) auto

lemma parse_digits_show_nat: "parse_digits 0 (show_nat n) = Some n"
proof (induction n rule: show_nat.induct)
  case (1 n)
  show ?case
  proof (cases "n < 10")
    case True
    then show ?thesis by (simp add: show_nat.simps[of n])
  next
    case False
    with "1.IH" have "parse_digits 0 (show_nat (n div 10)) = Some (n div 10)" by simp
    with False show ?thesis
      by (simp add: show_nat.simps[of n] parse_digits_append)
  qed
qed

lemma parse_digits_all_digits:
  "parse_digits acc s = Some n \<Longrightarrow> c \<in> set s \<Longrightarrow> is_digit c"
  by (induction s arbitrary: acc) (auto split: if_splits)

lemma parse_digits_total:
  "(\<And>c. c \<in> set s \<Longrightarrow> is_digit c) \<Longrightarrow> \<exists>n. parse_digits acc s = Some n"
  by (induction s arbitrary: acc) auto

lemma not_digit_sign [simp]:
  "\<not> is_digit CHR ''-''" "\<not> is_digit CHR ''+''" "\<not> is_digit CHR ''.''" "\<not> is_digit CHR ''v''"
  by (simp_all add: is_digit_def)

lemma show_nat_no_sep [simp]:
  "CHR ''-'' \<notin> set (show_nat n)" "CHR ''.'' \<notin> set (show_nat n)"
  using show_nat_digits not_digit_sign by blast+

lemma unsigned_part_digits:
  assumes "s \<noteq> []" and "\<And>c. c \<in> set s \<Longrightarrow> is_digit c"
  shows "unsigned_part s = (False, s)"
proof (cases s)
  case (Cons c cs)
  with assms(2) have "is_digit c" by simp
  then have "c \<noteq> CHR ''-''" "c \<noteq> CHR ''+''" by auto
  with Cons show ?thesis by (simp add: unsigned_part_def)
qed (use assms in simp)

lemma atoi_show_nat: "int n \<le> max_int \<Longrightarrow> atoi (show_nat n) = Some (int n)"
  using unsigned_part_digits[OF show_nat_not_Nil, of n] show_nat_digits[of _ n]
  by (simp add: atoi_def parse_digits_show_nat fits_int_def min_int_def)

lemma atoi_show_int: "fits_int i \<Longrightarrow> atoi (show_int i) = Some i"
proof (cases "i < 0")
  case True
  assume "fits_int i"
  with True show ?thesis
    by (simp add: show_int_def atoi_def unsigned_part_def parse_digits_show_nat)
next
  case False
  assume "fits_int i"
  with False show ?thesis
    using atoi_show_nat[of "nat i"] by (simp add: show_int_def fits_int_def)
qed

lemma atoi_fits: "atoi s = Some i \<Longrightarrow> fits_int i"
  by (auto simp: atoi_def Let_def split: prod.splits option.splits if_splits)

lemma atoi_not_Nil: "atoi s = Some i \<Longrightarrow> s \<noteq> []"
  by (auto simp: atoi_def unsigned_part_def)

lemma atoi_nonneg:
  assumes "atoi s = Some i" and "CHR ''-'' \<notin> set s"
  shows "0 \<le> i"
  using assms
  by (auto simp: atoi_def unsigned_part_def Let_def
      split: prod.splits option.splits if_splits list.splits)

lemma show_int_inj: "show_int i = show_int j \<Longrightarrow> fits_int i \<Longrightarrow> fits_int j \<Longrightarrow> i = j"
  by (metis atoi_show_int option.inject)

lemma show_int_nonneg_no_sep:
  "0 \<le> i \<Longrightarrow> CHR ''-'' \<notin> set (show_int i)"
  "CHR ''.'' \<notin> set (show_int i)"
  by (auto simp: show_int_def)

lemma show_int_nonneg_digits: "0 \<le> i \<Longrightarrow> c \<in> set (show_int i) \<Longrightarrow> is_digit c"
  by (auto simp: show_int_def intro: show_nat_digits)

lemma show_int_not_Nil [simp]: "show_int i \<noteq> []"
  by (simp add: show_int_def)

end
