(* ===== verification/Unstructured.thy ===== *)
theory Unstructured
  imports GoStrings "HOL-Library.AList"
begin

text \<open>
  Unstructured Kubernetes objects: JSON values, the accessors of apimachinery's vendored
  \<open>meta/v1/unstructured\<close> package (\<open>helpers.go\<close>, \<open>unstructured.go\<close>) and the group, version and
  kind of \<open>runtime/schema\<close>. A Go map is an association list read by its first entry; the
  functions below never look at the order of the entries.
\<close>

section \<open>Values\<close>

datatype json =
    JNull
  | JBool bool
  | JInt int
  | JFloat string
  | JString string
  | JArray "json list"
  | JObject "(string \<times> json) list"

type_synonym unstructured = "(string \<times> json) list"

text \<open>\<open>reflect.DeepEqual\<close> on decoded JSON: maps are compared as maps.\<close>

function json_equal :: "json \<Rightarrow> json \<Rightarrow> bool" where
  "json_equal v w = (case (v, w) of
       (JObject xs, JObject ys) \<Rightarrow>
         (\<forall>kv\<in>set xs. case map_of ys (fst kv) of
             Some y \<Rightarrow> json_equal (snd kv) y | None \<Rightarrow> False)
         \<and> (\<forall>kv\<in>set ys. fst kv \<in> fst ` set xs)
     | (JArray xs, JArray ys) \<Rightarrow>
         length xs = length ys \<and> (\<forall>p\<in>set (zip xs ys). json_equal (fst p) (snd p))
     | (JObject _, _) \<Rightarrow> False
     | (JArray _, _) \<Rightarrow> False
     | _ \<Rightarrow> v = w)"
  by pat_completeness auto

lemma size_json_member: "kv \<in> set xs \<Longrightarrow> size (snd kv) < size (JObject xs)"
  by (induction xs) (auto simp: less_Suc_eq_le)

lemma size_json_element: "x \<in> set xs \<Longrightarrow> size x < size (JArray xs)"
  by (induction xs) auto

termination json_equal
  by (relation "measure (\<lambda>(v, w). size v)")
    (use size_json_member size_json_element in \<open>fastforce dest: set_zip_leftD\<close>)+

declare json_equal.simps [simp del]

section \<open>Nested fields\<close>

datatype field_error = AccessorError | NotSettable | MissingSpec

fun NestedFieldNoCopy :: "string list \<Rightarrow> json \<Rightarrow> (field_error, json option) result" where
  "NestedFieldNoCopy [] v = Inr (Some v)"
| "NestedFieldNoCopy (f # fs) v =
     (case v of
        JNull \<Rightarrow> Inr None
      | JObject m \<Rightarrow>
          (case map_of m f of None \<Rightarrow> Inr None | Some w \<Rightarrow> NestedFieldNoCopy fs w)
      | _ \<Rightarrow> Inl AccessorError)"

definition NestedString :: "unstructured \<Rightarrow> string list \<Rightarrow> (field_error, string option) result" where
  "NestedString obj fs =
     (case NestedFieldNoCopy fs (JObject obj) of
        Inl e \<Rightarrow> Inl e
      | Inr None \<Rightarrow> Inr None
      | Inr (Some (JString s)) \<Rightarrow> Inr (Some s)
      | Inr (Some _) \<Rightarrow> Inl AccessorError)"

definition NestedBool :: "unstructured \<Rightarrow> string list \<Rightarrow> (field_error, bool option) result" where
  "NestedBool obj fs =
     (case NestedFieldNoCopy fs (JObject obj) of
        Inl e \<Rightarrow> Inl e
      | Inr None \<Rightarrow> Inr None
      | Inr (Some (JBool b)) \<Rightarrow> Inr (Some b)
      | Inr (Some _) \<Rightarrow> Inl AccessorError)"

definition getNestedString :: "unstructured \<Rightarrow> string list \<Rightarrow> string" where
  "getNestedString obj fs =
     (case NestedString obj fs of Inr (Some s) \<Rightarrow> s | _ \<Rightarrow> [])"

definition NestedMap ::
    "unstructured \<Rightarrow> string list \<Rightarrow> (field_error, unstructured option) result" where
  "NestedMap obj fs =
     (case NestedFieldNoCopy fs (JObject obj) of
        Inl e \<Rightarrow> Inl e
      | Inr None \<Rightarrow> Inr None
      | Inr (Some (JObject m)) \<Rightarrow> Inr (Some m)
      | Inr (Some _) \<Rightarrow> Inl AccessorError)"

fun string_entries :: "(string \<times> json) list \<Rightarrow> (string \<times> string) list option" where
  "string_entries [] = Some []"
| "string_entries ((k, v) # m) =
     (case v of
        JString s \<Rightarrow> map_option (\<lambda>r. (k, s) # r) (string_entries m)
      | _ \<Rightarrow> None)"

definition NestedStringMap ::
    "unstructured \<Rightarrow> string list \<Rightarrow> (field_error, (string \<times> string) list option) result" where
  "NestedStringMap obj fs =
     (case NestedMap obj fs of
        Inl e \<Rightarrow> Inl e
      | Inr None \<Rightarrow> Inr None
      | Inr (Some m) \<Rightarrow>
          (case string_entries m of None \<Rightarrow> Inl AccessorError | Some r \<Rightarrow> Inr (Some r)))"

text \<open>\<open>None\<close> is the error that a nesting level is not a map; the object is then unchanged.\<close>

fun SetNestedField :: "unstructured \<Rightarrow> json \<Rightarrow> string list \<Rightarrow> unstructured option" where
  "SetNestedField m v [] = None"
| "SetNestedField m v [f] = Some (AList.update f v m)"
| "SetNestedField m v (f # g # fs) =
     (case map_of m f of
        None \<Rightarrow>
          map_option (\<lambda>m'. AList.update f (JObject m') m) (SetNestedField [] v (g # fs))
      | Some (JObject m1) \<Rightarrow>
          map_option (\<lambda>m'. AList.update f (JObject m') m) (SetNestedField m1 v (g # fs))
      | Some _ \<Rightarrow> None)"

fun RemoveNestedField :: "unstructured \<Rightarrow> string list \<Rightarrow> unstructured" where
  "RemoveNestedField m [] = m"
| "RemoveNestedField m [f] = AList.delete f m"
| "RemoveNestedField m (f # g # fs) =
     (case map_of m f of
        Some (JObject m1) \<Rightarrow> AList.update f (JObject (RemoveNestedField m1 (g # fs))) m
      | _ \<Rightarrow> m)"

text \<open>The setters of \<open>Unstructured\<close> drop the error of \<open>SetNestedField\<close>.\<close>

definition setNestedField :: "unstructured \<Rightarrow> json \<Rightarrow> string list \<Rightarrow> unstructured" where
  "setNestedField m v fs = (case SetNestedField m v fs of None \<Rightarrow> m | Some m' \<Rightarrow> m')"

definition string_map_json :: "(string \<times> string) list \<Rightarrow> json" where
  "string_map_json m = JObject (map (\<lambda>(k, v). (k, JString v)) m)"

section \<open>The accessors of an object\<close>

definition GetAPIVersion :: "unstructured \<Rightarrow> string" where
  "GetAPIVersion u = getNestedString u [''apiVersion'']"

definition GetKind :: "unstructured \<Rightarrow> string" where
  "GetKind u = getNestedString u [''kind'']"

definition GetName :: "unstructured \<Rightarrow> string" where
  "GetName u = getNestedString u [''metadata'', ''name'']"

definition GetNamespace :: "unstructured \<Rightarrow> string" where
  "GetNamespace u = getNestedString u [''metadata'', ''namespace'']"

definition GetUID :: "unstructured \<Rightarrow> string" where
  "GetUID u = getNestedString u [''metadata'', ''uid'']"

definition string_map_at :: "string list \<Rightarrow> unstructured \<Rightarrow> (string \<times> string) list" where
  "string_map_at fs u = (case NestedStringMap u fs of Inr (Some m) \<Rightarrow> m | _ \<Rightarrow> [])"

definition GetLabels :: "unstructured \<Rightarrow> (string \<times> string) list" where
  "GetLabels = string_map_at [''metadata'', ''labels'']"

definition GetAnnotations :: "unstructured \<Rightarrow> (string \<times> string) list" where
  "GetAnnotations = string_map_at [''metadata'', ''annotations'']"

definition SetAPIVersion :: "string \<Rightarrow> unstructured \<Rightarrow> unstructured" where
  "SetAPIVersion s u = setNestedField u (JString s) [''apiVersion'']"

definition SetKind :: "string \<Rightarrow> unstructured \<Rightarrow> unstructured" where
  "SetKind s u = setNestedField u (JString s) [''kind'']"

definition set_or_remove :: "string list \<Rightarrow> string \<Rightarrow> unstructured \<Rightarrow> unstructured" where
  "set_or_remove fs s u =
     (if s = [] then RemoveNestedField u fs else setNestedField u (JString s) fs)"

definition SetName :: "string \<Rightarrow> unstructured \<Rightarrow> unstructured" where
  "SetName = set_or_remove [''metadata'', ''name'']"

definition SetNamespace :: "string \<Rightarrow> unstructured \<Rightarrow> unstructured" where
  "SetNamespace = set_or_remove [''metadata'', ''namespace'']"

definition SetUID :: "string \<Rightarrow> unstructured \<Rightarrow> unstructured" where
  "SetUID = set_or_remove [''metadata'', ''uid'']"

definition SetResourceVersion :: "string \<Rightarrow> unstructured \<Rightarrow> unstructured" where
  "SetResourceVersion = set_or_remove [''metadata'', ''resourceVersion'']"

definition SetSelfLink :: "string \<Rightarrow> unstructured \<Rightarrow> unstructured" where
  "SetSelfLink = set_or_remove [''metadata'', ''selfLink'']"

definition RemoveFinalizers :: "unstructured \<Rightarrow> unstructured" where
  "RemoveFinalizers u = RemoveNestedField u [''metadata'', ''finalizers'']"

definition SetLabels :: "(string \<times> string) list \<Rightarrow> unstructured \<Rightarrow> unstructured" where
  "SetLabels m u = setNestedField u (string_map_json m) [''metadata'', ''labels'']"

definition SetAnnotations :: "(string \<times> string) list \<Rightarrow> unstructured \<Rightarrow> unstructured" where
  "SetAnnotations m u = setNestedField u (string_map_json m) [''metadata'', ''annotations'']"

section \<open>Group, version and kind\<close>

record GroupVersion =
  gv_group :: string
  gv_version :: string

record GroupVersionKind = GroupVersion +
  gvk_kind :: string

definition ParseGroupVersion :: "string \<Rightarrow> GroupVersion option" where
  "ParseGroupVersion gv =
     (if gv = [] \<or> gv = ''/'' then Some \<lparr>gv_group = [], gv_version = []\<rparr>
      else (case split_on CHR ''/'' gv of
              [v] \<Rightarrow> Some \<lparr>gv_group = [], gv_version = v\<rparr>
            | [g, v] \<Rightarrow> Some \<lparr>gv_group = g, gv_version = v\<rparr>
            | _ \<Rightarrow> None))"

definition gvk_of :: "string \<Rightarrow> string \<Rightarrow> GroupVersionKind" where
  "gvk_of apiVersion kind =
     (case ParseGroupVersion apiVersion of
        None \<Rightarrow> \<lparr>gv_group = [], gv_version = [], gvk_kind = []\<rparr>
      | Some gv \<Rightarrow> \<lparr>gv_group = gv_group gv, gv_version = gv_version gv, gvk_kind = kind\<rparr>)"

definition FromAPIVersionAndKind :: "string \<Rightarrow> string \<Rightarrow> GroupVersionKind" where
  "FromAPIVersionAndKind apiVersion kind =
     (case ParseGroupVersion apiVersion of
        None \<Rightarrow> \<lparr>gv_group = [], gv_version = [], gvk_kind = kind\<rparr>
      | Some gv \<Rightarrow> \<lparr>gv_group = gv_group gv, gv_version = gv_version gv, gvk_kind = kind\<rparr>)"

definition u_GroupVersionKind :: "unstructured \<Rightarrow> GroupVersionKind" where
  "u_GroupVersionKind u = gvk_of (GetAPIVersion u) (GetKind u)"

section \<open>Reading after writing\<close>

named_theorems field_simps \<open>fields of an object after its setters\<close>

text \<open>Two paths that part at some key.\<close>

fun diverge :: "string list \<Rightarrow> string list \<Rightarrow> bool" where
  "diverge (a # as) (b # bs) = (a \<noteq> b \<or> diverge as bs)"
| "diverge _ _ = False"

lemma nested_after_set:
  "SetNestedField m v fs = Some m' \<Longrightarrow> NestedFieldNoCopy fs (JObject m') = Inr (Some v)"
proof (induction m v fs arbitrary: m' rule: SetNestedField.induct)
  case (3 m v f g fs)
  then show ?case
    by (cases "map_of m f") (auto simp: update_conv split: json.splits)
qed (auto simp: update_conv)

lemma nested_missing:
  "SetNestedField [] v fs = Some m' \<Longrightarrow> diverge fs gs \<Longrightarrow>
    NestedFieldNoCopy gs (JObject m') = Inr None"
proof (induction fs arbitrary: m' gs)
  case (Cons f fs)
  then show ?case
    by (cases gs; cases fs) (auto split: if_splits)
qed simp

lemma nested_other:
  "SetNestedField m v fs = Some m' \<Longrightarrow> diverge fs gs \<Longrightarrow>
    NestedFieldNoCopy gs (JObject m') = NestedFieldNoCopy gs (JObject m)"
proof (induction m v fs arbitrary: m' gs rule: SetNestedField.induct)
  case (2 m v f)
  then show ?case by (cases gs) (auto simp: update_conv)
next
  case (3 m v f g fs)
  obtain b bs where gs: "gs = b # bs" using "3.prems" by (cases gs) auto
  show ?case
  proof (cases "map_of m f")
    case None
    then show ?thesis using 3 gs
      by (auto simp: update_conv dest!: nested_missing)
  next
    case (Some w)
    then show ?thesis using 3 gs
      by (auto simp: update_conv split: json.splits)
  qed
qed simp

lemma nested_setNestedField:
  "diverge fs gs \<Longrightarrow>
    NestedFieldNoCopy gs (JObject (setNestedField m v fs)) = NestedFieldNoCopy gs (JObject m)"
  by (auto simp: setNestedField_def nested_other split: option.splits)

lemma nested_RemoveNestedField:
  "diverge fs gs \<Longrightarrow>
    NestedFieldNoCopy gs (JObject (RemoveNestedField m fs)) = NestedFieldNoCopy gs (JObject m)"
proof (induction m fs arbitrary: gs rule: RemoveNestedField.induct)
  case (2 m f)
  then show ?case by (cases gs) (auto simp: delete_conv)
next
  case (3 m f g fs)
  then show ?case
    by (cases gs) (auto simp: update_conv split: option.splits json.splits)
qed simp

lemma nested_removed:
  "fs \<noteq> [] \<Longrightarrow> NestedFieldNoCopy fs (JObject (RemoveNestedField m fs)) \<noteq> Inr (Some v)"
proof (induction m fs rule: RemoveNestedField.induct)
  case (3 m f g fs)
  then show ?case
    by (auto simp: update_conv split: option.splits json.splits)
qed (auto simp: delete_conv)

lemma readers_diverge:
  "diverge fs gs \<Longrightarrow> getNestedString (setNestedField m v fs) gs = getNestedString m gs"
  "diverge fs gs \<Longrightarrow> getNestedString (RemoveNestedField m fs) gs = getNestedString m gs"
  "diverge fs gs \<Longrightarrow> NestedMap (setNestedField m v fs) gs = NestedMap m gs"
  "diverge fs gs \<Longrightarrow> NestedMap (RemoveNestedField m fs) gs = NestedMap m gs"
  "diverge fs gs \<Longrightarrow> string_map_at gs (setNestedField m v fs) = string_map_at gs m"
  "diverge fs gs \<Longrightarrow> string_map_at gs (RemoveNestedField m fs) = string_map_at gs m"
  by (simp_all add: getNestedString_def NestedString_def NestedMap_def NestedStringMap_def
      string_map_at_def nested_setNestedField nested_RemoveNestedField)

text \<open>The metadata of an object can be written: it is a map or is not there.\<close>

definition has_metadata :: "unstructured \<Rightarrow> bool" where
  "has_metadata u =
     (case map_of u ''metadata'' of None \<Rightarrow> True | Some (JObject _) \<Rightarrow> True | Some _ \<Rightarrow> False)"

lemma set_metadata:
  assumes "has_metadata u"
  shows "NestedFieldNoCopy [''metadata'', k] (JObject (setNestedField u v [''metadata'', k]))
    = Inr (Some v)"
proof -
  have "SetNestedField u v [''metadata'', k] \<noteq> None"
    using assms by (auto simp: has_metadata_def split: option.splits json.splits)
  then show ?thesis
    using nested_after_set by (fastforce simp: setNestedField_def split: option.splits)
qed

lemma string_entries_map [simp]: "string_entries (map (\<lambda>(k, v). (k, JString v)) m) = Some m"
  by (induction m) auto

lemma get_set_string:
  "has_metadata u \<Longrightarrow> getNestedString (set_or_remove [''metadata'', k] s u) [''metadata'', k] = s"
  using nested_removed[of "[''metadata'', k]" u]
  by (cases "s = []")
    (auto simp: set_or_remove_def getNestedString_def NestedString_def set_metadata
      simp del: RemoveNestedField.simps NestedFieldNoCopy.simps
      split: sum.splits option.splits json.splits)

lemma get_set_string_map:
  "has_metadata u \<Longrightarrow>
    string_map_at [''metadata'', k] (setNestedField u (string_map_json m) [''metadata'', k]) = m"
  by (simp add: string_map_at_def NestedStringMap_def NestedMap_def string_map_json_def set_metadata
      del: NestedFieldNoCopy.simps)

lemma get_set_metadata [field_simps]:
  "has_metadata u \<Longrightarrow> GetName (SetName s u) = s"
  "has_metadata u \<Longrightarrow> GetNamespace (SetNamespace s u) = s"
  "has_metadata u \<Longrightarrow> GetLabels (SetLabels m u) = m"
  "has_metadata u \<Longrightarrow> GetAnnotations (SetAnnotations m u) = m"
  by (simp_all only: GetName_def SetName_def GetNamespace_def SetNamespace_def get_set_string
      GetLabels_def SetLabels_def GetAnnotations_def SetAnnotations_def get_set_string_map)

lemmas setter_defs = SetName_def SetNamespace_def SetUID_def SetResourceVersion_def
  SetSelfLink_def RemoveFinalizers_def SetLabels_def SetAnnotations_def SetAPIVersion_def
  SetKind_def set_or_remove_def
lemmas getter_defs = GetName_def GetNamespace_def GetUID_def GetLabels_def GetAnnotations_def
  GetAPIVersion_def GetKind_def

lemma get_unset [field_simps]:
  "GetName (SetLabels m u) = GetName u"
  "GetNamespace (SetLabels m u) = GetNamespace u"
  "GetKind (SetLabels m u) = GetKind u"
  "GetAPIVersion (SetLabels m u) = GetAPIVersion u"
  "GetName (SetAnnotations m u) = GetName u"
  "GetNamespace (SetAnnotations m u) = GetNamespace u"
  "GetKind (SetAnnotations m u) = GetKind u"
  "GetAPIVersion (SetAnnotations m u) = GetAPIVersion u"
  "GetLabels (SetAnnotations m u) = GetLabels u"
  "GetAnnotations (SetLabels m u) = GetAnnotations u"
  "GetName (SetAPIVersion s u) = GetName u"
  "GetNamespace (SetAPIVersion s u) = GetNamespace u"
  "GetKind (SetAPIVersion s u) = GetKind u"
  "GetLabels (SetAPIVersion s u) = GetLabels u"
  "GetAnnotations (SetAPIVersion s u) = GetAnnotations u"
  "GetName (SetKind s u) = GetName u"
  "GetNamespace (SetKind s u) = GetNamespace u"
  "GetAPIVersion (SetKind s u) = GetAPIVersion u"
  "GetLabels (SetKind s u) = GetLabels u"
  "GetAnnotations (SetKind s u) = GetAnnotations u"
  "GetName (SetNamespace s u) = GetName u"
  by (simp_all add: getter_defs setter_defs readers_diverge del: RemoveNestedField.simps)

lemma has_metadata_setter:
  "has_metadata u \<Longrightarrow> has_metadata (setNestedField u v [f])" if "f \<noteq> ''metadata''"
  using that by (simp add: has_metadata_def setNestedField_def update_conv)

lemma has_metadata_setNested:
  "has_metadata u \<Longrightarrow> has_metadata (setNestedField u v (f # g # fs))"
  by (auto simp: has_metadata_def setNestedField_def update_conv
      split: option.splits json.splits if_splits)

lemma has_metadata_remove:
  "has_metadata u \<Longrightarrow> has_metadata (RemoveNestedField u (f # g # fs))"
  by (auto simp: has_metadata_def update_conv split: option.splits json.splits if_splits)

lemma has_metadata_setters [field_simps]:
  "has_metadata u \<Longrightarrow> has_metadata (SetName s u)"
  "has_metadata u \<Longrightarrow> has_metadata (SetNamespace s u)"
  "has_metadata u \<Longrightarrow> has_metadata (SetUID s u)"
  "has_metadata u \<Longrightarrow> has_metadata (SetResourceVersion s u)"
  "has_metadata u \<Longrightarrow> has_metadata (SetSelfLink s u)"
  "has_metadata u \<Longrightarrow> has_metadata (RemoveFinalizers u)"
  "has_metadata u \<Longrightarrow> has_metadata (SetLabels m u)"
  "has_metadata u \<Longrightarrow> has_metadata (SetAnnotations m u)"
  by (simp_all add: setter_defs has_metadata_setNested has_metadata_remove
      del: RemoveNestedField.simps)

end
