(* ===== verification/GoRegexp.thy ===== *)
theory GoRegexp
  imports GoStrings
begin

text \<open>
  The fragment of Go's \<open>regexp\<close> syntax the operator's two patterns use: a byte class, a
  class repeated one or more times, the ASCII word boundary, concatenation and an optional
  group. A match state is the byte before the current position (none at the start of the
  text) and the rest of the text; running an expression lists the states it can reach.
\<close>

datatype rx =
    RChar "char \<Rightarrow> bool"
  | RPlus "char \<Rightarrow> bool"
  | RWordB
  | RSeq rx rx
  | ROpt rx

type_synonym rx_state = "char option \<times> string"

definition is_word :: "char \<Rightarrow> bool" where
  "is_word c \<longleftrightarrow> is_digit c
     \<or> (65 \<le> (of_char c :: nat) \<and> (of_char c :: nat) \<le> 90)
     \<or> (97 \<le> (of_char c :: nat) \<and> (of_char c :: nat) \<le> 122)
     \<or> c = CHR ''_''"

definition word_at :: "char option \<Rightarrow> bool" where
  "word_at p = (case p of None \<Rightarrow> False | Some c \<Rightarrow> is_word c)"

definition first_char :: "string \<Rightarrow> char option" where
  "first_char s = (case s of [] \<Rightarrow> None | c # _ \<Rightarrow> Some c)"

fun plus_run :: "(char \<Rightarrow> bool) \<Rightarrow> string \<Rightarrow> rx_state list" where
  "plus_run P [] = []"
| "plus_run P (c # cs) = (if P c then (Some c, cs) # plus_run P cs else [])"

primrec rx_run :: "rx \<Rightarrow> rx_state \<Rightarrow> rx_state list" where
  "rx_run (RChar P) st =
     (case snd st of [] \<Rightarrow> [] | c # cs \<Rightarrow> if P c then [(Some c, cs)] else [])"
| "rx_run (RPlus P) st = plus_run P (snd st)"
| "rx_run RWordB st = (if word_at (fst st) \<noteq> word_at (first_char (snd st)) then [st] else [])"
| "rx_run (RSeq a b) st = concat (map (rx_run b) (rx_run a st))"
| "rx_run (ROpt a) st = st # rx_run a st"

text \<open>\<open>MatchString\<close> of a pattern anchored at both ends, \<open>^r$\<close>.\<close>

definition rx_full :: "rx \<Rightarrow> string \<Rightarrow> bool" where
  "rx_full r s \<longleftrightarrow> list_ex (\<lambda>st. snd st = []) (rx_run r (None, s))"

section \<open>What a run reaches\<close>

lemma set_plus_run:
  "(q, t) \<in> set (plus_run P s) \<longleftrightarrow>
     (\<exists>w. w \<noteq> [] \<and> s = w @ t \<and> list_all P w \<and> q = Some (last w))"
proof (induction s)
  case Nil
  then show ?case by simp
next
  case (Cons c cs)
  show ?case
  proof
    assume r: "(q, t) \<in> set (plus_run P (c # cs))"
    then have c: "P c" by (auto split: if_splits)
    with r consider "q = Some c" "t = cs" | "(q, t) \<in> set (plus_run P cs)" by auto
    then show "\<exists>w. w \<noteq> [] \<and> c # cs = w @ t \<and> list_all P w \<and> q = Some (last w)"
    proof cases
      case 1
      with c show ?thesis by (intro exI[of _ "[c]"]) simp
    next
      case 2
      with Cons.IH obtain w where "w \<noteq> []" "cs = w @ t" "list_all P w" "q = Some (last w)"
        by blast
      with c show ?thesis by (intro exI[of _ "c # w"]) simp
    qed
  next
    assume "\<exists>w. w \<noteq> [] \<and> c # cs = w @ t \<and> list_all P w \<and> q = Some (last w)"
    then obtain w where w: "w \<noteq> []" "c # cs = w @ t" "list_all P w" "q = Some (last w)"
      by blast
    then obtain w' where w': "w = c # w'" by (cases w) auto
    with w Cons.IH show "(q, t) \<in> set (plus_run P (c # cs))"
      by (cases "w' = []") auto
  qed
qed

lemma rx_run_char:
  "(q, t) \<in> set (rx_run (RChar P) (p, s)) \<longleftrightarrow> (\<exists>c. P c \<and> s = c # t \<and> q = Some c)"
  by (auto split: list.splits)

lemma rx_run_plus:
  "(q, t) \<in> set (rx_run (RPlus P) (p, s)) \<longleftrightarrow>
     (\<exists>w. w \<noteq> [] \<and> s = w @ t \<and> list_all P w \<and> q = Some (last w))"
  by (simp add: set_plus_run)

lemma rx_run_seq:
  "(q, t) \<in> set (rx_run (RSeq a b) (p, s)) \<longleftrightarrow>
     (\<exists>q' t'. (q', t') \<in> set (rx_run a (p, s)) \<and> (q, t) \<in> set (rx_run b (q', t')))"
  by force

lemma rx_run_wordb:
  "(q, t) \<in> set (rx_run RWordB (p, s)) \<longleftrightarrow> q = p \<and> t = s \<and> word_at p \<noteq> word_at (first_char s)"
  by auto

lemma rx_run_opt:
  "(q, t) \<in> set (rx_run (ROpt a) (p, s)) \<longleftrightarrow> (q = p \<and> t = s) \<or> (q, t) \<in> set (rx_run a (p, s))"
  by auto

declare rx_run.simps [simp del]

lemmas rx_run_iff = rx_run_char rx_run_plus rx_run_seq rx_run_wordb rx_run_opt

lemma rx_full_iff: "rx_full r s \<longleftrightarrow> (\<exists>q. (q, []) \<in> set (rx_run r (None, s)))"
  by (force simp: rx_full_def list_ex_iff)

section \<open>Word characters\<close>

lemma not_word_sep [simp]:
  "\<not> is_word CHR ''-''" "\<not> is_word CHR ''.''" "\<not> is_word CHR ''/''" "\<not> is_word CHR ''+''"
  by (simp_all add: is_word_def is_digit_def)

lemma is_digit_is_word: "is_digit c \<Longrightarrow> is_word c"
  by (simp add: is_word_def)

lemma word_no_sep:
  "list_all is_word w \<Longrightarrow> CHR ''-'' \<notin> set w"
  "list_all is_word w \<Longrightarrow> CHR ''.'' \<notin> set w"
  by (auto simp: list_all_iff)

lemma word_at_simps [simp]:
  "word_at None = False" "word_at (Some c) = is_word c"
  by (simp_all add: word_at_def)

lemma first_char_simps [simp]:
  "first_char [] = None" "first_char (c # s) = Some c"
  by (simp_all add: first_char_def)

lemma first_char_append [simp]: "w \<noteq> [] \<Longrightarrow> first_char (w @ s) = Some (hd w)"
  by (cases w) auto

end
