(* ===== verification/Versions.thy ===== *)
theory Versions
  imports GoRegexp
begin

text \<open>
  Package \<open>pkg/version\<close>: release channels, the parsers of the two notations of a cluster
  stack version (\<open>v1-alpha-1\<close> in release tags, \<open>v1-alpha.1\<close> in metadata and specs), the
  validation, the comparison and the printers.
\<close>

section \<open>Channels and versions\<close>

type_synonym Channel = string

definition ChannelStable :: Channel where "ChannelStable = ''stable''"
definition ChannelCustom :: Channel where "ChannelCustom = ''custom''"

definition channel_IsValid :: "Channel \<Rightarrow> bool" where
  "channel_IsValid c \<longleftrightarrow> c = ChannelStable \<or> c = ChannelCustom"

record Version =
  ver_major :: int
  ver_channel :: Channel
  ver_patch :: string

text \<open>The zero value \<open>Version{}\<close>, which the code returns beside an error.\<close>

definition zero_version :: Version where
  "zero_version = \<lparr>ver_major = 0, ver_channel = '''', ver_patch = ''''\<rparr>"

datatype version_error =
    InvalidVersionString string
  | InvalidMajorVersion string
  | InvalidReleaseTag string
  | NegativeMajor
  | NegativePatch
  | EmptyPatch

section \<open>Validation\<close>

definition isInteger :: "string \<Rightarrow> bool" where
  "isInteger s \<longleftrightarrow> atoi s \<noteq> None"

definition version_Validate :: "Version \<Rightarrow> version_error option" where
  "version_Validate csv =
     (if ver_major csv < 0 then Some NegativeMajor
      else if ver_channel csv \<noteq> ChannelStable then
        (if isInteger (ver_patch csv) \<and> the (atoi (ver_patch csv)) < 0 then Some NegativePatch
         else if ver_patch csv = [] then Some EmptyPatch
         else None)
      else None)"

section \<open>Parsers\<close>

text \<open>The patterns \<open>^v\d+(-\b\w+\b\-\w+)?$\<close> and \<open>^v\d+(-\b\w+\b\.\w+)?$\<close>.\<close>

definition version_rx :: "char \<Rightarrow> rx" where
  "version_rx sep =
     RSeq (RChar (\<lambda>c. c = CHR ''v'')) (RSeq (RPlus is_digit)
       (ROpt (RSeq (RChar (\<lambda>c. c = CHR ''-'')) (RSeq RWordB (RSeq (RPlus is_word)
         (RSeq RWordB (RSeq (RChar (\<lambda>c. c = sep)) (RPlus is_word))))))))"

definition ParseVersionString :: "string \<Rightarrow> (version_error, Version) result" where
  "ParseVersionString version =
     (if \<not> rx_full (version_rx CHR ''-'') version then Inl (InvalidVersionString version)
      else let ver = split_on CHR ''-'' version in
        (case atoi (trim_prefix (ver ! 0) ''v'') of
           None \<Rightarrow> Inl (InvalidMajorVersion (ver ! 0))
         | Some major \<Rightarrow>
             let (channel, patch) =
                   (if length ver = 3 then (ver ! 1, ver ! 2) else (ChannelStable, ''''));
                 v = \<lparr>ver_major = major, ver_channel = channel, ver_patch = patch\<rparr>
             in (case version_Validate v of Some e \<Rightarrow> Inl e | None \<Rightarrow> Inr v)))"

definition version_New :: "string \<Rightarrow> (version_error, Version) result" where
  "version_New version =
     (if \<not> rx_full (version_rx CHR ''.'') version then Inl (InvalidVersionString version)
      else let ver = split_on CHR ''-'' version in
        (case atoi (trim_prefix (ver ! 0) ''v'') of
           None \<Rightarrow> Inl (InvalidMajorVersion (ver ! 0))
         | Some major \<Rightarrow>
             (let cp = (if length ver = 2 then
                  (let splitted = split_on CHR ''.'' (ver ! 1) in
                   if length splitted \<noteq> 2 then Inl (InvalidVersionString version)
                   else Inr (splitted ! 0, splitted ! 1))
                else Inr (ChannelStable, '''')) in
              case cp of
                Inl e \<Rightarrow> Inl e
              | Inr (channel, patch) \<Rightarrow>
                  let v = \<lparr>ver_major = major, ver_channel = channel, ver_patch = patch\<rparr>
                  in (case version_Validate v of Some e \<Rightarrow> Inl e | None \<Rightarrow> Inr v))))"

definition FromReleaseTag :: "string \<Rightarrow> (version_error, Version) result" where
  "FromReleaseTag releaseTag =
     (let v = split_on CHR ''-'' releaseTag in
      if length v \<noteq> 5 \<and> length v \<noteq> 7 then Inl (InvalidReleaseTag releaseTag)
      else if length v = 5 then ParseVersionString (v ! 4)
      else ParseVersionString (v ! 4 @ ''-'' @ v ! 5 @ ''-'' @ v ! 6))"

section \<open>Comparison and printing\<close>

datatype compare_error = DifferentChannels Channel Channel

definition version_Compare :: "Version \<Rightarrow> Version \<Rightarrow> (compare_error, int) result" where
  "version_Compare csv input =
     (if ver_channel csv \<noteq> ver_channel input
      then Inl (DifferentChannels (ver_channel csv) (ver_channel input))
      else if ver_major csv > ver_major input then Inr 1
      else if ver_major csv < ver_major input then Inr (-1)
      else if ver_patch csv > ver_patch input then Inr 1
      else if ver_patch csv < ver_patch input then Inr (-1)
      else Inr 0)"

definition version_String :: "Version \<Rightarrow> string" where
  "version_String csv =
     (if ver_channel csv = ChannelStable then ''v'' @ show_int (ver_major csv)
      else ''v'' @ show_int (ver_major csv) @ ''-'' @ ver_channel csv @ ''-'' @ ver_patch csv)"

definition version_StringWithDot :: "Version \<Rightarrow> string" where
  "version_StringWithDot csv =
     (if ver_channel csv = ChannelStable then ''v'' @ show_int (ver_major csv)
      else ''v'' @ show_int (ver_major csv) @ ''-'' @ ver_channel csv @ ''.'' @ ver_patch csv)"

section \<open>What the patterns accept\<close>

definition word_string :: "string \<Rightarrow> bool" where
  "word_string w \<longleftrightarrow> w \<noteq> [] \<and> list_all is_word w"

definition digit_string :: "string \<Rightarrow> bool" where
  "digit_string w \<longleftrightarrow> w \<noteq> [] \<and> list_all is_digit w"

lemma word_string_no_sep [simp]:
  "word_string w \<Longrightarrow> CHR ''-'' \<notin> set w" "word_string w \<Longrightarrow> CHR ''.'' \<notin> set w"
  by (auto simp: word_string_def dest: word_no_sep)

lemma digit_string_no_sep [simp]:
  "digit_string w \<Longrightarrow> CHR ''-'' \<notin> set w" "digit_string w \<Longrightarrow> CHR ''.'' \<notin> set w"
  "digit_string w \<Longrightarrow> CHR ''v'' \<notin> set w"
  by (auto simp: digit_string_def list_all_iff dest: bspec)

definition channel_group :: "char \<Rightarrow> rx" where
  "channel_group sep =
     RSeq (RChar (\<lambda>c. c = CHR ''-'')) (RSeq RWordB (RSeq (RPlus is_word)
       (RSeq RWordB (RSeq (RChar (\<lambda>c. c = sep)) (RPlus is_word)))))"

lemma hd_last_word:
  assumes "w \<noteq> []" and "list_all is_word w"
  shows "is_word (hd w)" and "is_word (last w)"
  using assms by (auto simp: list_all_iff)

lemma channel_group_iff:
  assumes "\<not> is_word sep"
  shows "(q, t) \<in> set (rx_run (channel_group sep) (p, s)) \<longleftrightarrow>
    (\<exists>ch pt. word_string ch \<and> word_string pt \<and> s = CHR ''-'' # ch @ sep # pt @ t
       \<and> q = Some (last pt))" (is "?l \<longleftrightarrow> ?r")
proof
  assume ?l
  then show ?r
    by (clarsimp simp: channel_group_def rx_run_iff word_string_def) blast
next
  assume ?r
  then obtain ch pt where w: "ch \<noteq> []" "list_all is_word ch" "pt \<noteq> []" "list_all is_word pt"
    and s: "s = CHR ''-'' # ch @ sep # pt @ t" "q = Some (last pt)"
    by (auto simp: word_string_def)
  note w' = hd_last_word[OF w(1,2)]
  have 1: "(q, t) \<in> set (rx_run (RSeq (RChar (\<lambda>c. c = sep)) (RPlus is_word))
      (Some (last ch), sep # pt @ t))"
    unfolding rx_run_iff using w s by blast
  have 2: "(q, t) \<in> set (rx_run (RSeq RWordB (RSeq (RChar (\<lambda>c. c = sep)) (RPlus is_word)))
      (Some (last ch), sep # pt @ t))"
    unfolding rx_run_seq[of _ _ RWordB] rx_run_wordb using 1 w' assms by simp
  have 3: "(Some (last ch), sep # pt @ t)
      \<in> set (rx_run (RPlus is_word) (Some CHR ''-'', ch @ sep # pt @ t))"
    unfolding rx_run_plus using w by blast
  have 4: "(Some CHR ''-'', ch @ sep # pt @ t)
      \<in> set (rx_run RWordB (Some CHR ''-'', ch @ sep # pt @ t))"
    unfolding rx_run_wordb using w w' by simp
  have 5: "(Some CHR ''-'', ch @ sep # pt @ t)
      \<in> set (rx_run (RChar (\<lambda>c. c = CHR ''-'')) (p, s))"
    unfolding rx_run_char using s by blast
  from 2 3 4 5 show ?l
    unfolding channel_group_def by (blast intro: rx_run_seq[THEN iffD2])
qed

lemma version_rx_iff:
  assumes "\<not> is_word sep"
  shows "rx_full (version_rx sep) s \<longleftrightarrow>
    (\<exists>ds. digit_string ds \<and> s = ''v'' @ ds) \<or>
    (\<exists>ds ch pt. digit_string ds \<and> word_string ch \<and> word_string pt \<and>
       s = ''v'' @ ds @ ''-'' @ ch @ sep # pt)"
proof -
  have "version_rx sep = RSeq (RChar (\<lambda>c. c = CHR ''v''))
      (RSeq (RPlus is_digit) (ROpt (channel_group sep)))"
    by (simp add: version_rx_def channel_group_def)
  then have "rx_full (version_rx sep) s \<longleftrightarrow>
    (\<exists>q ds t. digit_string ds \<and> s = ''v'' @ ds @ t \<and>
       (q, []) \<in> set (rx_run (ROpt (channel_group sep)) (Some (last ds), t)))"
    by (simp add: rx_full_iff rx_run_seq rx_run_char rx_run_plus digit_string_def) blast
  also have "\<dots> \<longleftrightarrow> (\<exists>ds t. digit_string ds \<and> s = ''v'' @ ds @ t \<and>
       (t = [] \<or> (\<exists>ch pt. word_string ch \<and> word_string pt \<and> t = CHR ''-'' # ch @ sep # pt)))"
    by (simp add: rx_run_opt channel_group_iff[OF assms]) blast
  finally show ?thesis by auto
qed

section \<open>The parsers on accepted texts\<close>

text \<open>
  A parsed version has a non-negative major number of 64 bits, and either the stable channel
  with an empty patch (the short form) or a channel and a patch made of word characters.
\<close>

definition valid_version :: "Version \<Rightarrow> bool" where
  "valid_version v \<longleftrightarrow> 0 \<le> ver_major v \<and> ver_major v \<le> max_int \<and>
     (ver_channel v = ChannelStable \<and> ver_patch v = [] \<or>
      word_string (ver_channel v) \<and> word_string (ver_patch v))"

text \<open>The printers drop the patch of the stable channel; a canonical version has none.\<close>

definition canonical_version :: "Version \<Rightarrow> bool" where
  "canonical_version v \<longleftrightarrow> valid_version v \<and> (ver_channel v = ChannelStable \<longrightarrow> ver_patch v = [])"

lemma atoi_digits_nonneg: "digit_string ds \<Longrightarrow> atoi ds = Some m \<Longrightarrow> 0 \<le> m"
  using atoi_nonneg[of ds m] by simp

lemma atoi_max: "atoi s = Some m \<Longrightarrow> m \<le> max_int"
  by (auto dest: atoi_fits simp: fits_int_def)

lemma patch_not_negative:
  "word_string pt \<Longrightarrow> isInteger pt \<Longrightarrow> \<not> the (atoi pt) < 0"
  using atoi_nonneg[of pt] by (auto simp: isInteger_def not_less)

lemma validate_word_patch:
  "0 \<le> m \<Longrightarrow> word_string pt \<Longrightarrow>
    version_Validate \<lparr>ver_major = m, ver_channel = ch, ver_patch = pt\<rparr> = None"
  using patch_not_negative[of pt] by (auto simp: version_Validate_def word_string_def)

lemma split_version_stable:
  "digit_string ds \<Longrightarrow> split_on CHR ''-'' (CHR ''v'' # ds) = [CHR ''v'' # ds]"
  by (rule split_on_no_sep) simp

lemma split_version_channel:
  assumes "digit_string ds" and "CHR ''-'' \<notin> set r"
  shows "split_on CHR ''-'' (CHR ''v'' # ds @ CHR ''-'' # r) = [CHR ''v'' # ds, r]"
  using split_on_append_sep[of "CHR ''-''" "CHR ''v'' # ds" r] assms
  by (simp add: split_on_no_sep)

lemma split_version_channel3:
  assumes "digit_string ds" and "word_string ch" and "word_string pt"
  shows "split_on CHR ''-'' (CHR ''v'' # ds @ CHR ''-'' # ch @ CHR ''-'' # pt)
    = [CHR ''v'' # ds, ch, pt]"
  using split_on_append_sep[of "CHR ''-''" "CHR ''v'' # ds" "ch @ CHR ''-'' # pt"] assms
  by (simp add: split_on_append_sep split_on_no_sep)

lemma parse_stable:
  assumes "digit_string ds"
  shows "ParseVersionString (''v'' @ ds) = (case atoi ds of
      None \<Rightarrow> Inl (InvalidMajorVersion (''v'' @ ds))
    | Some m \<Rightarrow> Inr \<lparr>ver_major = m, ver_channel = ChannelStable, ver_patch = []\<rparr>)"
proof -
  have "rx_full (version_rx CHR ''-'') (''v'' @ ds)"
    using assms by (auto simp: version_rx_iff)
  with assms show ?thesis
    using atoi_digits_nonneg[OF assms]
    by (auto simp: ParseVersionString_def split_version_stable version_Validate_def
        split: option.splits)
qed

lemma parse_channel:
  assumes "digit_string ds" and "word_string ch" and "word_string pt"
  shows "ParseVersionString (''v'' @ ds @ ''-'' @ ch @ ''-'' @ pt) = (case atoi ds of
      None \<Rightarrow> Inl (InvalidMajorVersion (''v'' @ ds))
    | Some m \<Rightarrow> Inr \<lparr>ver_major = m, ver_channel = ch, ver_patch = pt\<rparr>)"
proof -
  have "rx_full (version_rx CHR ''-'') (''v'' @ ds @ ''-'' @ ch @ ''-'' @ pt)"
    using assms by (auto simp: version_rx_iff)
  with assms show ?thesis
    using atoi_digits_nonneg[OF assms(1)]
    by (auto simp: ParseVersionString_def split_version_channel3 validate_word_patch
        split: option.splits)
qed

lemma parse_rejects:
  "\<not> rx_full (version_rx CHR ''-'') s \<Longrightarrow> ParseVersionString s = Inl (InvalidVersionString s)"
  by (simp add: ParseVersionString_def)

lemma new_stable:
  assumes "digit_string ds"
  shows "version_New (''v'' @ ds) = (case atoi ds of
      None \<Rightarrow> Inl (InvalidMajorVersion (''v'' @ ds))
    | Some m \<Rightarrow> Inr \<lparr>ver_major = m, ver_channel = ChannelStable, ver_patch = []\<rparr>)"
proof -
  have "rx_full (version_rx CHR ''.'') (''v'' @ ds)"
    using assms by (auto simp: version_rx_iff)
  with assms show ?thesis
    using atoi_digits_nonneg[OF assms]
    by (auto simp: version_New_def split_version_stable version_Validate_def
        split: option.splits)
qed

lemma new_channel:
  assumes "digit_string ds" and "word_string ch" and "word_string pt"
  shows "version_New (''v'' @ ds @ ''-'' @ ch @ ''.'' @ pt) = (case atoi ds of
      None \<Rightarrow> Inl (InvalidMajorVersion (''v'' @ ds))
    | Some m \<Rightarrow> Inr \<lparr>ver_major = m, ver_channel = ch, ver_patch = pt\<rparr>)"
proof -
  have rx: "rx_full (version_rx CHR ''.'') (''v'' @ ds @ ''-'' @ ch @ ''.'' @ pt)"
    using assms by (auto simp: version_rx_iff)
  have sp: "split_on CHR ''-'' (CHR ''v'' # ds @ CHR ''-'' # ch @ CHR ''.'' # pt)
      = [CHR ''v'' # ds, ch @ CHR ''.'' # pt]"
    using assms by (intro split_version_channel) auto
  have sp': "split_on CHR ''.'' (ch @ CHR ''.'' # pt) = [ch, pt]"
    using assms by (simp add: split_on_append_sep split_on_no_sep)
  from rx sp sp' assms show ?thesis
    using atoi_digits_nonneg[OF assms(1)]
    by (auto simp: version_New_def validate_word_patch split: option.splits)
qed

lemma parse_cases:
  assumes "ParseVersionString s = Inr v"
  obtains (stable) ds where "digit_string ds" "s = ''v'' @ ds"
      "atoi ds = Some (ver_major v)" "ver_channel v = ChannelStable" "ver_patch v = []"
  | (channel) ds where "digit_string ds" "word_string (ver_channel v)" "word_string (ver_patch v)"
      "s = ''v'' @ ds @ ''-'' @ ver_channel v @ ''-'' @ ver_patch v" "atoi ds = Some (ver_major v)"
proof -
  from assms have "rx_full (version_rx CHR ''-'') s"
    by (cases "rx_full (version_rx CHR ''-'') s") (auto simp: parse_rejects)
  then consider ds where "digit_string ds" "s = ''v'' @ ds"
    | ds ch pt where "digit_string ds" "word_string ch" "word_string pt"
        "s = ''v'' @ ds @ ''-'' @ ch @ ''-'' @ pt"
    by (auto simp: version_rx_iff)
  then show thesis
  proof cases
    case 1
    with assms show ?thesis by (auto simp only: parse_stable Version.select_convs split: option.splits intro!: stable)
  next
    case 2
    with assms show ?thesis by (auto simp only: parse_channel Version.select_convs split: option.splits intro!: channel)
  qed
qed

lemma new_cases:
  assumes "version_New s = Inr v"
  obtains (stable) ds where "digit_string ds" "s = ''v'' @ ds"
      "atoi ds = Some (ver_major v)" "ver_channel v = ChannelStable" "ver_patch v = []"
  | (channel) ds where "digit_string ds" "word_string (ver_channel v)" "word_string (ver_patch v)"
      "s = ''v'' @ ds @ ''-'' @ ver_channel v @ ''.'' @ ver_patch v" "atoi ds = Some (ver_major v)"
proof -
  from assms have "rx_full (version_rx CHR ''.'') s"
    by (auto simp: version_New_def split: if_splits)
  then consider ds where "digit_string ds" "s = ''v'' @ ds"
    | ds ch pt where "digit_string ds" "word_string ch" "word_string pt"
        "s = ''v'' @ ds @ ''-'' @ ch @ ''.'' @ pt"
    by (auto simp: version_rx_iff)
  then show thesis
  proof cases
    case 1
    with assms show ?thesis by (auto simp only: new_stable Version.select_convs split: option.splits intro!: stable)
  next
    case 2
    with assms show ?thesis by (auto simp only: new_channel Version.select_convs split: option.splits intro!: channel)
  qed
qed

lemma parse_valid: "ParseVersionString s = Inr v \<Longrightarrow> valid_version v"
  by (erule parse_cases) (auto simp: valid_version_def dest: atoi_max atoi_digits_nonneg)

lemma new_valid: "version_New s = Inr v \<Longrightarrow> valid_version v"
  by (erule new_cases) (auto simp: valid_version_def dest: atoi_max atoi_digits_nonneg)

lemma show_int_digit_string: "0 \<le> i \<Longrightarrow> digit_string (show_int i)"
  by (auto simp: digit_string_def list_all_iff intro: show_int_nonneg_digits)

lemma atoi_show_major: "valid_version v \<Longrightarrow> atoi (show_int (ver_major v)) = Some (ver_major v)"
  by (rule atoi_show_int) (simp add: valid_version_def fits_int_def min_int_def)

text \<open>The long forms, which keep a patch of the stable channel, are accepted too.\<close>

definition long_form :: "char \<Rightarrow> Version \<Rightarrow> string" where
  "long_form sep v = ''v'' @ show_int (ver_major v) @
     (if ver_patch v = [] then [] else ''-'' @ ver_channel v @ [sep] @ ver_patch v)"

lemma parse_long_form: "valid_version v \<Longrightarrow> ParseVersionString (long_form CHR ''-'' v) = Inr v"
  using show_int_digit_string[of "ver_major v"] atoi_show_major[of v]
    parse_stable[of "show_int (ver_major v)"]
    parse_channel[of "show_int (ver_major v)" "ver_channel v" "ver_patch v"]
  by (auto simp: valid_version_def long_form_def word_string_def)

lemma new_long_form: "valid_version v \<Longrightarrow> version_New (long_form CHR ''.'' v) = Inr v"
  using show_int_digit_string[of "ver_major v"] atoi_show_major[of v]
    new_stable[of "show_int (ver_major v)"]
    new_channel[of "show_int (ver_major v)" "ver_channel v" "ver_patch v"]
  by (auto simp: valid_version_def long_form_def word_string_def)

lemma canonical_long_form:
  "canonical_version v \<Longrightarrow>
    version_String v = long_form CHR ''-'' v \<and> version_StringWithDot v = long_form CHR ''.'' v"
  by (auto simp: canonical_version_def valid_version_def long_form_def version_String_def
      version_StringWithDot_def word_string_def)

lemma canonicalI:
  "valid_version v \<Longrightarrow> ver_channel v \<noteq> ChannelStable \<or> ver_patch v = [] \<Longrightarrow> canonical_version v"
  by (auto simp: canonical_version_def)

section \<open>Properties\<close>

text \<open>
  C30. Both parsers produce exactly the valid versions: whatever they accept has a non-negative
  64-bit major number and either the stable channel with an empty patch or a word-character
  channel and patch, and every such version is the result of parsing some text in each notation.
\<close>

theorem version_parsers_range:
  "(\<exists>s. ParseVersionString s = Inr v) = valid_version v \<and>
   (\<exists>s. version_New s = Inr v) = valid_version v"
  using parse_long_form[of v] new_long_form[of v] parse_valid[of _ v] new_valid[of _ v] by blast

text \<open>
  Printing and parsing a version round-trips in both notations, for every version whose
  stable channel carries no patch.
\<close>

theorem version_print_parse:
  assumes "canonical_version v"
  shows "ParseVersionString (version_String v) = Inr v \<and>
    version_New (version_StringWithDot v) = Inr v"
  using assms canonical_long_form[of v] parse_long_form[of v] new_long_form[of v]
  by (simp add: canonical_version_def)

text \<open>A sample version used by the witnesses: \<open>v1-alpha-9\<close>.\<close>

definition alpha9 :: Version where
  "alpha9 = \<lparr>ver_major = 1, ver_channel = ''alpha'', ver_patch = ''9''\<rparr>"

lemma alpha9_canonical: "canonical_version alpha9"
  by (simp add: alpha9_def canonical_version_def valid_version_def max_int_def ChannelStable_def
      word_string_def is_word_def is_digit_def)

theorem version_print_parse_witness:
  "ParseVersionString (version_String alpha9) = Inr alpha9 \<and>
   version_New (version_StringWithDot alpha9) = Inr alpha9"
  by (rule version_print_parse[OF alpha9_canonical])

text \<open>
  Two versions are comparable exactly when they are of the same channel; the comparison is
  antisymmetric, finds two versions equal only when they are, and its order is transitive.
\<close>

theorem version_Compare_order:
  "(isl (version_Compare a b) = (ver_channel a \<noteq> ver_channel b)) \<and>
   (version_Compare a b = Inr 0 \<longleftrightarrow> a = b) \<and>
   (version_Compare a b = Inr 1 \<longleftrightarrow> version_Compare b a = Inr (-1)) \<and>
   (version_Compare a b = Inr (-1) \<and> version_Compare b c = Inr (-1)
      \<longrightarrow> version_Compare a c = Inr (-1))"
  by (auto simp: version_Compare_def)

theorem version_Compare_order_witness:
  "version_Compare alpha9 (alpha9\<lparr>ver_major := 3\<rparr>) = Inr (-1)"
  using version_Compare_order[of alpha9 "alpha9\<lparr>ver_major := 2\<rparr>" "alpha9\<lparr>ver_major := 3\<rparr>"]
  by (simp add: version_Compare_def alpha9_def)

text \<open>
  Patches are compared as texts: the tenth alpha patch of a major version sorts before the
  ninth, so it is not the latest one.
\<close>

theorem version_Compare_patch_as_text:
  "\<exists>nine ten. ParseVersionString ''v1-alpha-9'' = Inr nine \<and>
     ParseVersionString ''v1-alpha-10'' = Inr ten \<and> version_Compare ten nine = Inr (-1)"
proof -
  let ?t = "\<lparr>ver_major = 1, ver_channel = ''alpha'', ver_patch = ''10''\<rparr>"
  have nine: "ParseVersionString ''v1-alpha-9'' = Inr alpha9"
    using parse_channel[of "''1''" "''alpha''" "''9''"]
    by (simp add: alpha9_def digit_string_def word_string_def is_word_def is_digit_def atoi_def
        unsigned_part_def digit_val_def fits_int_def min_int_def max_int_def)
  have ten: "ParseVersionString ''v1-alpha-10'' = Inr ?t"
    using parse_channel[of "''1''" "''alpha''" "''10''"]
    by (simp add: alpha9_def digit_string_def word_string_def is_word_def is_digit_def atoi_def
        unsigned_part_def digit_val_def fits_int_def min_int_def max_int_def)
  have "version_Compare ?t alpha9 = Inr (-1)"
    by (simp add: version_Compare_def alpha9_def less_char_def)
  with nine ten show ?thesis by blast
qed

end
