(* ===== verification/KubeVersions.thy ===== *)
theory KubeVersions
  imports GoStrings
begin

text \<open>
  Package \<open>pkg/kubernetesversion\<close>: the major and minor Kubernetes version, its two
  constructors, its validation and its printers.
\<close>

record KubernetesVersion =
  kv_major :: int
  kv_minor :: int

datatype kv_error =
    KvErrInvalidFormat
  | KvErrInvalidMajorVersion
  | KvErrInvalidMinorVersion

definition kubernetesversion_New :: "string \<Rightarrow> string \<Rightarrow> (kv_error, KubernetesVersion) result" where
  "kubernetesversion_New majorStr minorStr =
     (case atoi majorStr of
        None \<Rightarrow> Inl KvErrInvalidMajorVersion
      | Some major \<Rightarrow>
          (case atoi minorStr of
             None \<Rightarrow> Inl KvErrInvalidMinorVersion
           | Some minor \<Rightarrow> Inr \<lparr>kv_major = major, kv_minor = minor\<rparr>))"

definition kubernetesversion_NewFromString ::
    "string \<Rightarrow> (kv_error, KubernetesVersion) result" where
  "kubernetesversion_NewFromString str =
     (let splitted = split_on CHR ''.'' str in
      if length splitted \<noteq> 2 then Inl KvErrInvalidFormat
      else (case atoi (splitted ! 0) of
        None \<Rightarrow> Inl KvErrInvalidMajorVersion
      | Some major \<Rightarrow>
          (case atoi (splitted ! 1) of
             None \<Rightarrow> Inl KvErrInvalidMinorVersion
           | Some minor \<Rightarrow> Inr \<lparr>kv_major = major, kv_minor = minor\<rparr>)))"

definition kv_Validate :: "KubernetesVersion \<Rightarrow> kv_error option" where
  "kv_Validate kv =
     (if kv_major kv = 0 then Some KvErrInvalidMajorVersion
      else if kv_minor kv = 0 then Some KvErrInvalidMinorVersion
      else None)"

definition kv_String :: "KubernetesVersion \<Rightarrow> string" where
  "kv_String kv = show_int (kv_major kv) @ ''-'' @ show_int (kv_minor kv)"

definition kv_StringWithDot :: "KubernetesVersion \<Rightarrow> string" where
  "kv_StringWithDot kv = show_int (kv_major kv) @ ''.'' @ show_int (kv_minor kv)"

section \<open>Ranges and round trips\<close>

definition kv_fits :: "KubernetesVersion \<Rightarrow> bool" where
  "kv_fits kv \<longleftrightarrow> fits_int (kv_major kv) \<and> fits_int (kv_minor kv)"

definition kv_unsigned :: "KubernetesVersion \<Rightarrow> bool" where
  "kv_unsigned kv \<longleftrightarrow> kv_fits kv \<and> 0 \<le> kv_major kv \<and> 0 \<le> kv_minor kv"

lemma kv_New_show:
  "kv_fits kv \<Longrightarrow>
    kubernetesversion_New (show_int (kv_major kv)) (show_int (kv_minor kv)) = Inr kv"
  by (simp add: kubernetesversion_New_def atoi_show_int kv_fits_def)

lemma kv_New_fits: "kubernetesversion_New a b = Inr kv \<Longrightarrow> kv_fits kv"
  by (auto simp: kubernetesversion_New_def kv_fits_def split: option.splits dest: atoi_fits)

lemma kv_New_unsigned:
  assumes "kubernetesversion_New a b = Inr kv" and "CHR ''-'' \<notin> set a" and "CHR ''-'' \<notin> set b"
  shows "kv_unsigned kv"
  using assms kv_New_fits[OF assms(1)]
  by (auto simp: kubernetesversion_New_def kv_unsigned_def split: option.splits dest: atoi_nonneg)

lemma kv_NewFromString_fits: "kubernetesversion_NewFromString s = Inr kv \<Longrightarrow> kv_fits kv"
  by (auto simp: kubernetesversion_NewFromString_def kv_fits_def Let_def
      split: option.splits if_splits dest: atoi_fits)

lemma kv_StringWithDot_inj:
  assumes "kv_StringWithDot a = kv_StringWithDot b" and "kv_fits a" and "kv_fits b"
  shows "a = b"
proof -
  have sp: "split_on CHR ''.'' (kv_StringWithDot k) = [show_int (kv_major k), show_int (kv_minor k)]"
    for k :: KubernetesVersion
    using split_on_append_sep[of "CHR ''.''" "show_int (kv_major k)" "show_int (kv_minor k)"]
    by (simp add: kv_StringWithDot_def show_int_nonneg_no_sep split_on_no_sep)
  from assms sp[of a] sp[of b] have "show_int (kv_major a) = show_int (kv_major b)"
    "show_int (kv_minor a) = show_int (kv_minor b)" by auto
  with assms have "kv_major a = kv_major b" "kv_minor a = kv_minor b"
    by (auto simp: kv_fits_def dest: show_int_inj)
  then show ?thesis by simp
qed

text \<open>
  A Kubernetes version printed as \<open>major.minor\<close> parses back to itself, whatever its
  64-bit numbers are.
\<close>

theorem kubernetesversion_roundtrip:
  assumes "kv_fits kv"
  shows "kubernetesversion_NewFromString (kv_StringWithDot kv) = Inr kv"
proof -
  have "split_on CHR ''.'' (kv_StringWithDot kv) = [show_int (kv_major kv), show_int (kv_minor kv)]"
    using split_on_append_sep[of "CHR ''.''" "show_int (kv_major kv)" "show_int (kv_minor kv)"]
    by (simp add: kv_StringWithDot_def show_int_nonneg_no_sep split_on_no_sep)
  with assms show ?thesis
    by (simp add: kubernetesversion_NewFromString_def atoi_show_int kv_fits_def)
qed

theorem kubernetesversion_roundtrip_witness:
  "kubernetesversion_NewFromString (kv_StringWithDot \<lparr>kv_major = 1, kv_minor = 27\<rparr>)
     = Inr \<lparr>kv_major = 1, kv_minor = 27\<rparr>"
  by (rule kubernetesversion_roundtrip)
    (simp add: kv_fits_def fits_int_def min_int_def max_int_def)

end
