(* ===== verification/ClusterStacks.thy ===== *)
theory ClusterStacks
  imports Versions KubeVersions "HOL-Library.Multiset"
begin

text \<open>
  Package \<open>pkg/clusterstack\<close>: the parsed form of a cluster stack release tag
  \<open>provider-name-major-minor-version\<close>, its parsers and printers in the notation of
  ClusterStackRelease names (\<open>v0-sha-abc\<close>) and of ClusterClass names (\<open>v0-sha.abc\<close>), and the
  sortable slices of cluster stacks. The sorting function of Go's \<open>sort\<close> package enters by its
  documented contract, the locale \<open>go_sort\<close>.
\<close>

section \<open>Cluster stacks and their parsers\<close>

record ClusterStack =
  cs_provider :: string
  cs_name :: string
  cs_kube :: KubernetesVersion
  cs_version :: Version

datatype cs_error =
    CsErrInvalidFormat
  | CsErrInvalidProvider
  | CsErrInvalidName
  | CsErrKubernetesVersion kv_error
  | CsErrVersion version_error

definition Separator :: char where "Separator = CHR ''-''"

text \<open>
  The two parsers take the same steps; they differ in the number of pieces of the long form and
  in the parser of the version. The common steps are \<open>parse_pieces\<close>.
\<close>

definition parse_pieces ::
    "nat \<Rightarrow> (string \<Rightarrow> (version_error, Version) result) \<Rightarrow> string list \<Rightarrow> (cs_error, ClusterStack) result"
  where
  "parse_pieces long new_version splitted =
     (if length splitted \<noteq> 5 \<and> length splitted \<noteq> long then Inl CsErrInvalidFormat
      else if splitted ! 0 = '''' then Inl CsErrInvalidProvider
      else if splitted ! 1 = '''' then Inl CsErrInvalidName
      else (case kubernetesversion_New (splitted ! 2) (splitted ! 3) of
        Inl e \<Rightarrow> Inl (CsErrKubernetesVersion e)
      | Inr kv \<Rightarrow>
          let versionString =
                (if length splitted = 5 then splitted ! 4
                 else join_with [Separator] (take (long - 4) (drop 4 splitted)))
          in (case new_version versionString of
                Inl e \<Rightarrow> Inl (CsErrVersion e)
              | Inr v \<Rightarrow> Inr \<lparr>cs_provider = splitted ! 0, cs_name = splitted ! 1,
                               cs_kube = kv, cs_version = v\<rparr>)))"

definition NewFromClusterClassProperties :: "string \<Rightarrow> (cs_error, ClusterStack) result" where
  "NewFromClusterClassProperties str = parse_pieces 6 version_New (split_on Separator str)"

definition NewFromClusterStackReleaseProperties :: "string \<Rightarrow> (cs_error, ClusterStack) result" where
  "NewFromClusterStackReleaseProperties str =
     parse_pieces 7 ParseVersionString (split_on Separator str)"

definition cs_Validate :: "ClusterStack \<Rightarrow> cs_error option" where
  "cs_Validate cs =
     (if cs_provider cs = '''' then Some CsErrInvalidProvider
      else if cs_name cs = '''' then Some CsErrInvalidName
      else (case version_Validate (cs_version cs) of
        Some e \<Rightarrow> Some (CsErrVersion e)
      | None \<Rightarrow>
          (case kv_Validate (cs_kube cs) of
             Some e \<Rightarrow> Some (CsErrKubernetesVersion e)
           | None \<Rightarrow> None)))"

definition clusterstack_New ::
    "string \<Rightarrow> string \<Rightarrow> string \<Rightarrow> string \<Rightarrow> (cs_error, ClusterStack) result" where
  "clusterstack_New provider name kubernetesVersion csVersion =
     (case kubernetesversion_NewFromString kubernetesVersion of
        Inl e \<Rightarrow> Inl (CsErrKubernetesVersion e)
      | Inr k8sVersion \<Rightarrow>
          (case version_New csVersion of
             Inl e \<Rightarrow> Inl (CsErrVersion e)
           | Inr v \<Rightarrow>
               let cs = \<lparr>cs_provider = provider, cs_name = name,
                         cs_kube = k8sVersion, cs_version = v\<rparr>
               in (case cs_Validate cs of Some e \<Rightarrow> Inl e | None \<Rightarrow> Inr cs)))"

definition cs_String :: "ClusterStack \<Rightarrow> string" where
  "cs_String cs = join_with [Separator]
     [cs_provider cs, cs_name cs, kv_String (cs_kube cs), version_String (cs_version cs)]"

definition cs_StringWithDot :: "ClusterStack \<Rightarrow> string" where
  "cs_StringWithDot cs = join_with [Separator]
     [cs_provider cs, cs_name cs, kv_String (cs_kube cs), version_StringWithDot (cs_version cs)]"

section \<open>Slices of cluster stacks\<close>

type_synonym ClusterStacks = "ClusterStack list"

fun stacks_Contains :: "ClusterStacks \<Rightarrow> string \<Rightarrow> bool" where
  "stacks_Contains [] name = False"
| "stacks_Contains (release # r) name = (cs_String release = name \<or> stacks_Contains r name)"

definition stacks_Latest :: "ClusterStacks \<Rightarrow> ClusterStack option" where
  "stacks_Latest r = (if length r > 0 then Some (r ! (length r - 1)) else None)"

definition stacks_Len :: "ClusterStacks \<Rightarrow> nat" where
  "stacks_Len r = length r"

definition stacks_Swap :: "ClusterStacks \<Rightarrow> nat \<Rightarrow> nat \<Rightarrow> ClusterStacks" where
  "stacks_Swap r i j = r[i := r ! j, j := r ! i]"

definition cs_less :: "ClusterStack \<Rightarrow> ClusterStack \<Rightarrow> bool" where
  "cs_less a b = (case version_Compare (cs_version a) (cs_version b) of
     Inl _ \<Rightarrow> False
   | Inr cmp \<Rightarrow> cmp = -1)"

definition stacks_Less :: "ClusterStacks \<Rightarrow> nat \<Rightarrow> nat \<Rightarrow> bool" where
  "stacks_Less r i j = cs_less (r ! i) (r ! j)"

section \<open>Go's \<open>sort.Sort\<close>\<close>

text \<open>
  The documentation of \<open>sort.Interface\<close> asks of \<open>Less\<close> a transitive ordering: it is transitive
  and so is the relation "neither is less". For such an order the result is a sorted
  permutation; for any other only a permutation is promised. The order of equal elements is not
  specified.
\<close>

definition transitive_ordering :: "('a \<Rightarrow> 'a \<Rightarrow> bool) \<Rightarrow> 'a set \<Rightarrow> bool" where
  "transitive_ordering lt S \<longleftrightarrow>
     (\<forall>a\<in>S. \<not> lt a a) \<and>
     (\<forall>a\<in>S. \<forall>b\<in>S. \<forall>c\<in>S. lt a b \<longrightarrow> lt b c \<longrightarrow> lt a c) \<and>
     (\<forall>a\<in>S. \<forall>b\<in>S. \<forall>c\<in>S. \<not> lt a b \<longrightarrow> \<not> lt b c \<longrightarrow> \<not> lt a c)"

lemma ordering_irrefl: "transitive_ordering lt S \<Longrightarrow> a \<in> S \<Longrightarrow> \<not> lt a a"
  by (simp add: transitive_ordering_def)

lemma ordering_trans:
  "transitive_ordering lt S \<Longrightarrow> lt a b \<Longrightarrow> lt b c \<Longrightarrow> a \<in> S \<Longrightarrow> b \<in> S \<Longrightarrow> c \<in> S \<Longrightarrow> lt a c"
  unfolding transitive_ordering_def by blast

lemma ordering_asym:
  "transitive_ordering lt S \<Longrightarrow> lt a b \<Longrightarrow> a \<in> S \<Longrightarrow> b \<in> S \<Longrightarrow> \<not> lt b a"
  using ordering_trans ordering_irrefl by metis

lemma ordering_not_trans:
  "transitive_ordering lt S \<Longrightarrow> \<not> lt a b \<Longrightarrow> \<not> lt b c \<Longrightarrow> a \<in> S \<Longrightarrow> b \<in> S \<Longrightarrow> c \<in> S
    \<Longrightarrow> \<not> lt a c"
  unfolding transitive_ordering_def by blast

lemma ordering_subset: "transitive_ordering lt S \<Longrightarrow> T \<subseteq> S \<Longrightarrow> transitive_ordering lt T"
  unfolding transitive_ordering_def by (intro conjI; blast dest: subsetD)

locale go_sort =
  fixes srt :: "('a \<Rightarrow> 'a \<Rightarrow> bool) \<Rightarrow> 'a list \<Rightarrow> 'a list"
  assumes sort_perm: "mset (srt lt xs) = mset xs"
    and sort_sorted: "transitive_ordering lt (set xs) \<Longrightarrow>
          sorted_wrt (\<lambda>a b. \<not> lt b a) (srt lt xs)"
begin

lemma sort_set [simp]: "set (srt lt xs) = set xs"
  by (metis sort_perm set_mset_mset)

lemma sort_length [simp]: "length (srt lt xs) = length xs"
  by (metis sort_perm size_mset)

lemma sort_Nil_iff [simp]: "srt lt xs = [] \<longleftrightarrow> xs = []"
  using sort_length[of lt xs] by (cases "srt lt xs"; cases xs) auto

lemma sort_hd_min:
  assumes "transitive_ordering lt (set xs)" and "xs \<noteq> []" and "x \<in> set xs"
  shows "\<not> lt x (hd (srt lt xs))"
proof -
  obtain y ys where ys: "srt lt xs = y # ys" using assms(2) by (cases "srt lt xs") auto
  have "sorted_wrt (\<lambda>a b. \<not> lt b a) (y # ys)"
    using sort_sorted[OF assms(1)] ys by simp
  moreover have "x \<in> insert y (set ys)" and "y \<in> set xs"
    using assms(3) sort_set[of lt xs] ys by auto
  ultimately show ?thesis using ordering_irrefl[OF assms(1)] ys by auto
qed

lemma sort_last_max:
  assumes "transitive_ordering lt (set xs)" and "xs \<noteq> []" and "x \<in> set xs"
  shows "\<not> lt (last (srt lt xs)) x"
proof -
  let ?ys = "srt lt xs"
  have ys: "?ys = butlast ?ys @ [last ?ys]" using assms(2) by simp
  have "sorted_wrt (\<lambda>a b. \<not> lt b a) (butlast ?ys @ [last ?ys])"
    using sort_sorted[OF assms(1)] ys by simp
  then have "\<forall>a \<in> set (butlast ?ys). \<not> lt (last ?ys) a"
    by (simp add: sorted_wrt_append)
  moreover have "x \<in> set (butlast ?ys) \<or> x = last ?ys"
    using assms(3) ys by (metis Un_iff empty_iff list.set(1) set_ConsD set_append sort_set)
  moreover have "last ?ys \<in> set xs"
    using assms(2) by (metis last_in_set sort_Nil_iff sort_set)
  ultimately show ?thesis
    using ordering_irrefl[OF assms(1)] by auto
qed

end

text \<open>
  The insertion sort of package \<open>sort\<close>, which \<open>sort.Sort\<close> runs on slices of at most twelve
  elements: each element moves left while it is less than its left neighbour.
\<close>

fun insert_left :: "('a \<Rightarrow> 'a \<Rightarrow> bool) \<Rightarrow> 'a \<Rightarrow> 'a list \<Rightarrow> 'a list" where
  "insert_left lt x [] = [x]"
| "insert_left lt x (y # ys) = (if lt x y then y # insert_left lt x ys else x # y # ys)"

definition go_insertion_sort :: "('a \<Rightarrow> 'a \<Rightarrow> bool) \<Rightarrow> 'a list \<Rightarrow> 'a list" where
  "go_insertion_sort lt xs = rev (foldl (\<lambda>acc x. insert_left lt x acc) [] xs)"

lemma mset_insert_left: "mset (insert_left lt x ys) = add_mset x (mset ys)"
  by (induction ys) auto

lemma set_insert_left [simp]: "set (insert_left lt x ys) = insert x (set ys)"
  by (induction ys) auto

lemma mset_foldl_insert_left:
  "mset (foldl (\<lambda>acc x. insert_left lt x acc) ys xs) = mset ys + mset xs"
  by (induction xs arbitrary: ys) (auto simp: mset_insert_left)

lemma sorted_insert_left:
  assumes "transitive_ordering lt (insert x (set ys))"
    and "sorted_wrt (\<lambda>a b. \<not> lt a b) ys"
  shows "sorted_wrt (\<lambda>a b. \<not> lt a b) (insert_left lt x ys)"
  using assms
proof (induction ys)
  case Nil
  then show ?case by simp
next
  case (Cons y ys)
  have to: "transitive_ordering lt (insert x (set ys))"
    using Cons.prems(1) by (rule ordering_subset) auto
  show ?case
  proof (cases "lt x y")
    case True
    then have "\<not> lt y x"
      using ordering_asym[OF Cons.prems(1)] by simp
    with True Cons.IH[OF to] Cons.prems(2) show ?thesis by auto
  next
    case False
    have "\<not> lt x z" if "z \<in> set ys" for z
    proof -
      have "\<not> lt y z" using Cons.prems(2) that by simp
      with False show ?thesis
        using ordering_not_trans[OF Cons.prems(1)] that by simp
    qed
    with False Cons.prems(2) show ?thesis by auto
  qed
qed

lemma sorted_foldl_insert_left:
  assumes "transitive_ordering lt (set ys \<union> set xs)"
    and "sorted_wrt (\<lambda>a b. \<not> lt a b) ys"
  shows "sorted_wrt (\<lambda>a b. \<not> lt a b) (foldl (\<lambda>acc x. insert_left lt x acc) ys xs)"
  using assms
proof (induction xs arbitrary: ys)
  case Nil
  then show ?case by simp
next
  case (Cons x xs)
  have "transitive_ordering lt (insert x (set ys))"
    using Cons.prems(1) by (rule ordering_subset) auto
  then have "sorted_wrt (\<lambda>a b. \<not> lt a b) (insert_left lt x ys)"
    using Cons.prems(2) by (rule sorted_insert_left)
  with Cons.IH[of "insert_left lt x ys"] Cons.prems(1) show ?case by simp
qed

interpretation insertion: go_sort "go_insertion_sort :: ('a \<Rightarrow> 'a \<Rightarrow> bool) \<Rightarrow> 'a list \<Rightarrow> 'a list"
proof
  fix lt :: "'a \<Rightarrow> 'a \<Rightarrow> bool" and xs
  show "mset (go_insertion_sort lt xs) = mset xs"
    using mset_foldl_insert_left[of lt "[]" xs] by (simp add: go_insertion_sort_def)
  assume "transitive_ordering lt (set xs)"
  then show "sorted_wrt (\<lambda>a b. \<not> lt b a) (go_insertion_sort lt xs)"
    using sorted_foldl_insert_left[of lt "[]" xs]
    by (simp add: go_insertion_sort_def sorted_wrt_rev)
qed

section \<open>The order of cluster stacks of one channel\<close>

lemma cs_less_iff:
  "cs_less a b \<longleftrightarrow> version_Compare (cs_version a) (cs_version b) = Inr (-1)"
  by (auto simp: cs_less_def split: sum.splits)

lemma cs_less_ordering:
  assumes "\<And>a. a \<in> S \<Longrightarrow> ver_channel (cs_version a) = ch"
  shows "transitive_ordering cs_less S"
  unfolding transitive_ordering_def cs_less_iff using assms
  by (auto simp: version_Compare_def)

lemma stacks_Contains_iff: "stacks_Contains r name \<longleftrightarrow> (\<exists>cs \<in> set r. cs_String cs = name)"
  by (induction r) auto

lemma stacks_Latest_last: "stacks_Latest r = (if r = [] then None else Some (last r))"
  by (simp add: stacks_Latest_def last_conv_nth)

section \<open>Well-formed stacks\<close>

definition dash_free :: "string \<Rightarrow> bool" where
  "dash_free s \<longleftrightarrow> s \<noteq> [] \<and> CHR ''-'' \<notin> set s"

text \<open>What a parser can produce; the canonical ones among these are what the printers keep.\<close>

definition parsed_stack :: "ClusterStack \<Rightarrow> bool" where
  "parsed_stack cs \<longleftrightarrow> dash_free (cs_provider cs) \<and> dash_free (cs_name cs) \<and>
     kv_unsigned (cs_kube cs) \<and> valid_version (cs_version cs)"

definition canonical_stack :: "ClusterStack \<Rightarrow> bool" where
  "canonical_stack cs \<longleftrightarrow> parsed_stack cs \<and> canonical_version (cs_version cs)"

definition head_pieces :: "ClusterStack \<Rightarrow> string list" where
  "head_pieces cs = [cs_provider cs, cs_name cs,
     show_int (kv_major (cs_kube cs)), show_int (kv_minor (cs_kube cs))]"

lemma split_head_pieces:
  assumes "parsed_stack cs"
  shows "split_on CHR ''-'' (join_with [CHR ''-''] [cs_provider cs, cs_name cs, kv_String (cs_kube cs), r])
    = head_pieces cs @ split_on CHR ''-'' r"
proof -
  let ?maj = "show_int (kv_major (cs_kube cs))" and ?min = "show_int (kv_minor (cs_kube cs))"
  have nd: "CHR ''-'' \<notin> set (cs_provider cs)" "CHR ''-'' \<notin> set (cs_name cs)"
    "CHR ''-'' \<notin> set ?maj" "CHR ''-'' \<notin> set ?min"
    using assms by (auto simp: parsed_stack_def dash_free_def kv_unsigned_def show_int_nonneg_no_sep)
  have "join_with [CHR ''-''] [cs_provider cs, cs_name cs, kv_String (cs_kube cs), r] =
    cs_provider cs @ CHR ''-'' # cs_name cs @ CHR ''-'' # ?maj @ CHR ''-'' # ?min @ CHR ''-'' # r"
    by (simp add: kv_String_def)
  with nd show ?thesis
    by (simp add: split_on_append_sep head_pieces_def)
qed

lemma split_cs_String:
  "parsed_stack cs \<Longrightarrow>
    split_on CHR ''-'' (cs_String cs) = head_pieces cs @ split_on CHR ''-'' (version_String (cs_version cs))"
  "parsed_stack cs \<Longrightarrow>
    split_on CHR ''-'' (cs_StringWithDot cs) =
      head_pieces cs @ split_on CHR ''-'' (version_StringWithDot (cs_version cs))"
  unfolding cs_String_def cs_StringWithDot_def Separator_def by (rule split_head_pieces, assumption)+

lemma split_show_major:
  "0 \<le> i \<Longrightarrow> split_on CHR ''-'' (CHR ''v'' # show_int i) = [CHR ''v'' # show_int i]"
  by (simp add: split_version_stable show_int_digit_string)

lemma split_version_String:
  assumes "canonical_version v"
  shows "split_on CHR ''-'' (version_String v) =
    (if ver_channel v = ChannelStable then [version_String v]
     else [CHR ''v'' # show_int (ver_major v), ver_channel v, ver_patch v])"
  using assms split_version_channel3[of "show_int (ver_major v)" "ver_channel v" "ver_patch v"]
  by (auto simp: version_String_def canonical_version_def valid_version_def split_show_major
      show_int_digit_string)

lemma split_version_StringWithDot:
  assumes "canonical_version v"
  shows "split_on CHR ''-'' (version_StringWithDot v) =
    (if ver_channel v = ChannelStable then [version_StringWithDot v]
     else [CHR ''v'' # show_int (ver_major v), ver_channel v @ CHR ''.'' # ver_patch v])"
  using assms
    split_version_channel[of "show_int (ver_major v)" "ver_channel v @ CHR ''.'' # ver_patch v"]
  by (auto simp: version_StringWithDot_def canonical_version_def valid_version_def split_show_major
      show_int_digit_string)

lemma parse_pieces_head:
  assumes "parsed_stack cs" and "length ps = 1 \<or> length ps = n - 4" and "n > 5"
  shows "parse_pieces n f (head_pieces cs @ ps) =
    (case f (join_with [CHR ''-''] ps) of
       Inl e \<Rightarrow> Inl (CsErrVersion e)
     | Inr v \<Rightarrow> Inr (cs\<lparr>cs_version := v\<rparr>))"
proof -
  have kv: "kubernetesversion_New (show_int (kv_major (cs_kube cs))) (show_int (kv_minor (cs_kube cs)))
      = Inr (cs_kube cs)"
    using assms(1) by (simp add: parsed_stack_def kv_unsigned_def kv_New_show)
  have vs: "(if length (head_pieces cs @ ps) = 5 then (head_pieces cs @ ps) ! 4
      else join_with [Separator] (take (n - 4) (drop 4 (head_pieces cs @ ps)))) =
    join_with [CHR ''-''] ps"
    using assms(2,3) by (cases ps) (auto simp: head_pieces_def Separator_def nth_append)
  have len: "length (head_pieces cs @ ps) = 5 \<or> length (head_pieces cs @ ps) = n"
    using assms(2,3) by (auto simp: head_pieces_def)
  have nth: "(head_pieces cs @ ps) ! 0 = cs_provider cs" "(head_pieces cs @ ps) ! 1 = cs_name cs"
    "(head_pieces cs @ ps) ! 2 = show_int (kv_major (cs_kube cs))"
    "(head_pieces cs @ ps) ! 3 = show_int (kv_minor (cs_kube cs))"
    by (simp_all add: head_pieces_def)
  have ne: "cs_provider cs \<noteq> []" "cs_name cs \<noteq> []"
    using assms(1) by (simp_all add: parsed_stack_def dash_free_def)
  show ?thesis
    unfolding parse_pieces_def vs nth Let_def
    using len ne kv by (auto split: sum.splits)
qed

lemma parse_pieces_parsed:
  assumes "parse_pieces n f ps = Inr cs" and "\<And>p. p \<in> set ps \<Longrightarrow> CHR ''-'' \<notin> set p"
    and "n > 5" and "\<And>s v. f s = Inr v \<Longrightarrow> valid_version v"
  shows "parsed_stack cs"
proof -
  from assms(1) have len: "length ps = 5 \<or> length ps = n"
    by (auto simp: parse_pieces_def split: if_splits)
  with assms(3) have mem: "ps ! 0 \<in> set ps" "ps ! 1 \<in> set ps" "ps ! 2 \<in> set ps" "ps ! 3 \<in> set ps"
    by (auto intro!: nth_mem)
  from assms(1) obtain kv v where *: "ps ! 0 \<noteq> []" "ps ! 1 \<noteq> []"
    "kubernetesversion_New (ps ! 2) (ps ! 3) = Inr kv" "\<exists>s. f s = Inr v"
    "cs = \<lparr>cs_provider = ps ! 0, cs_name = ps ! 1, cs_kube = kv, cs_version = v\<rparr>"
    by (auto simp: parse_pieces_def Let_def split: if_splits sum.splits)
  with mem assms(2,4) show ?thesis
    by (auto simp: parsed_stack_def dash_free_def intro: kv_New_unsigned)
qed

lemma release_parsed: "NewFromClusterStackReleaseProperties s = Inr cs \<Longrightarrow> parsed_stack cs"
  unfolding NewFromClusterStackReleaseProperties_def Separator_def
  by (erule parse_pieces_parsed) (auto dest: split_on_pieces parse_valid)

lemma class_parsed: "NewFromClusterClassProperties s = Inr cs \<Longrightarrow> parsed_stack cs"
  unfolding NewFromClusterClassProperties_def Separator_def
  by (erule parse_pieces_parsed) (auto dest: split_on_pieces new_valid)

lemma join_split_dash: "join_with ''-'' (split_on CHR ''-'' s) = s"
  by (rule join_split)

lemma release_of_String:
  assumes "canonical_stack cs"
  shows "NewFromClusterStackReleaseProperties (cs_String cs) = Inr cs"
proof -
  let ?v = "cs_version cs"
  from assms have p: "parsed_stack cs" and v: "canonical_version ?v"
    by (simp_all add: canonical_stack_def)
  have "parse_pieces 7 ParseVersionString (head_pieces cs @ split_on CHR ''-'' (version_String ?v))
    = (case ParseVersionString (version_String ?v) of Inl e \<Rightarrow> Inl (CsErrVersion e)
       | Inr v \<Rightarrow> Inr (cs\<lparr>cs_version := v\<rparr>))"
  proof -
    have "length (split_on CHR ''-'' (version_String ?v)) \<in> {1, 3}"
      by (simp add: split_version_String[OF v])
    then show ?thesis
      using parse_pieces_head[OF p, of "split_on CHR ''-'' (version_String ?v)" 7 ParseVersionString]
      by (auto simp: join_split_dash)
  qed
  moreover have "ParseVersionString (version_String ?v) = Inr ?v"
    using v canonical_long_form[of ?v] parse_long_form[of ?v] by (simp add: canonical_version_def)
  ultimately show ?thesis
    by (simp add: NewFromClusterStackReleaseProperties_def Separator_def split_cs_String[OF p])
qed

lemma class_of_StringWithDot:
  assumes "canonical_stack cs"
  shows "NewFromClusterClassProperties (cs_StringWithDot cs) = Inr cs"
proof -
  let ?v = "cs_version cs"
  from assms have p: "parsed_stack cs" and v: "canonical_version ?v"
    by (simp_all add: canonical_stack_def)
  have "parse_pieces 6 version_New (head_pieces cs @ split_on CHR ''-'' (version_StringWithDot ?v))
    = (case version_New (version_StringWithDot ?v) of Inl e \<Rightarrow> Inl (CsErrVersion e)
       | Inr v \<Rightarrow> Inr (cs\<lparr>cs_version := v\<rparr>))"
  proof -
    have "length (split_on CHR ''-'' (version_StringWithDot ?v)) \<in> {1, 2}"
      by (simp add: split_version_StringWithDot[OF v])
    then show ?thesis
      using parse_pieces_head[OF p, of "split_on CHR ''-'' (version_StringWithDot ?v)" 6 version_New]
      by (auto simp: join_split_dash)
  qed
  moreover have "version_New (version_StringWithDot ?v) = Inr ?v"
    using v canonical_long_form[of ?v] new_long_form[of ?v] by (simp add: canonical_version_def)
  ultimately show ?thesis
    by (simp add: NewFromClusterClassProperties_def Separator_def split_cs_String[OF p])
qed

lemma cs_String_inj:
  "canonical_stack a \<Longrightarrow> canonical_stack b \<Longrightarrow> cs_String a = cs_String b \<Longrightarrow> a = b"
  by (metis release_of_String sum.inject(2))

text \<open>A sample stack used by witnesses.\<close>

definition ferrol :: "Version \<Rightarrow> ClusterStack" where
  "ferrol v = \<lparr>cs_provider = ''docker'', cs_name = ''ferrol'',
     cs_kube = \<lparr>kv_major = 1, kv_minor = 27\<rparr>, cs_version = v\<rparr>"

lemma ferrol_canonical:
  assumes "canonical_version v"
  shows "canonical_stack (ferrol v)"
proof -
  have "kv_unsigned \<lparr>kv_major = 1, kv_minor = 27\<rparr>"
    by (simp add: kv_unsigned_def kv_fits_def fits_int_def min_int_def max_int_def)
  moreover have "dash_free ''docker''" "dash_free ''ferrol''"
    by (simp_all add: dash_free_def)
  moreover have "valid_version v" using assms by (simp add: canonical_version_def)
  ultimately show ?thesis
    using assms by (simp add: canonical_stack_def parsed_stack_def ferrol_def)
qed

section \<open>Properties\<close>

text \<open>
  C29. A canonical cluster stack survives both notations: its release name parses, as a release,
  back to it, and its dotted name parses, as a cluster class, back to it.
\<close>

theorem cluster_stack_roundtrip:
  assumes "canonical_stack cs"
  shows "NewFromClusterStackReleaseProperties (cs_String cs) = Inr cs \<and>
    NewFromClusterClassProperties (cs_StringWithDot cs) = Inr cs"
  using assms release_of_String class_of_StringWithDot by blast

theorem cluster_stack_roundtrip_witness:
  "NewFromClusterStackReleaseProperties (cs_String (ferrol alpha9)) = Inr (ferrol alpha9) \<and>
   NewFromClusterClassProperties (cs_StringWithDot (ferrol alpha9)) = Inr (ferrol alpha9)"
  by (rule cluster_stack_roundtrip[OF ferrol_canonical[OF alpha9_canonical]])

text \<open>
  C28. Whatever a release tag or a class name parses to has a provider and a name that are
  non-empty and free of dashes, Kubernetes numbers that are non-negative 64-bit integers, and a
  valid version.
\<close>

theorem parsed_stack_invariant:
  assumes "NewFromClusterStackReleaseProperties s = Inr cs \<or> NewFromClusterClassProperties s = Inr cs"
  shows "parsed_stack cs"
  using assms release_parsed class_parsed by blast

theorem parsed_stack_invariant_witness: "parsed_stack (ferrol alpha9)"
  by (rule parsed_stack_invariant[of "cs_String (ferrol alpha9)"])
    (simp add: release_of_String ferrol_canonical alpha9_canonical)

text \<open>
  A spec whose provider or name holds a dash is accepted by the constructor, but the release
  name printed from it never parses back to the same stack.
\<close>

theorem dashed_stack_not_recovered:
  assumes "clusterstack_New provider name k v = Inr cs"
    and "CHR ''-'' \<in> set provider \<or> CHR ''-'' \<in> set name"
  shows "NewFromClusterStackReleaseProperties (cs_String cs) \<noteq> Inr cs"
proof
  assume "NewFromClusterStackReleaseProperties (cs_String cs) = Inr cs"
  then have "dash_free (cs_provider cs)" "dash_free (cs_name cs)"
    by (auto dest: release_parsed simp: parsed_stack_def)
  moreover have "cs_provider cs = provider" "cs_name cs = name"
    using assms(1) by (auto simp: clusterstack_New_def Let_def split: sum.splits option.splits)
  ultimately show False using assms(2) by (simp add: dash_free_def)
qed

theorem dashed_stack_not_recovered_witness:
  "\<exists>cs. clusterstack_New ''open-stack'' ''ferrol'' ''1.27'' ''v1'' = Inr cs \<and>
     NewFromClusterStackReleaseProperties (cs_String cs) \<noteq> Inr cs"
proof -
  let ?cs = "\<lparr>cs_provider = ''open-stack'', cs_name = ''ferrol'',
    cs_kube = \<lparr>kv_major = 1, kv_minor = 27\<rparr>,
    cs_version = \<lparr>ver_major = 1, ver_channel = ChannelStable, ver_patch = []\<rparr>\<rparr>"
  have "version_New ''v1'' = Inr \<lparr>ver_major = 1, ver_channel = ChannelStable, ver_patch = []\<rparr>"
    using new_stable[of "''1''"]
    by (simp add: digit_string_def is_digit_def atoi_def unsigned_part_def digit_val_def
        fits_int_def min_int_def max_int_def)
  moreover have "kubernetesversion_NewFromString ''1.27'' = Inr \<lparr>kv_major = 1, kv_minor = 27\<rparr>"
    by (simp add: kubernetesversion_NewFromString_def split_on.simps is_digit_def atoi_def
        unsigned_part_def digit_val_def fits_int_def min_int_def max_int_def)
  ultimately have new: "clusterstack_New ''open-stack'' ''ferrol'' ''1.27'' ''v1'' = Inr ?cs"
    by (simp add: clusterstack_New_def cs_Validate_def version_Validate_def kv_Validate_def)
  have "NewFromClusterStackReleaseProperties (cs_String ?cs) \<noteq> Inr ?cs"
    by (rule dashed_stack_not_recovered[OF new]) simp
  with new show ?thesis by blast
qed

end
