(* ===== verification/Conditions.thy ===== *)
theory Conditions
  imports ClusterStacks
begin

text \<open>
  Status conditions: the condition types and reasons of \<open>api/v1alpha1/conditions_const.go\<close> and
  the functions of Cluster API's vendored \<open>util/conditions\<close> the controllers call
  (\<open>setter.go\<close>, \<open>getter.go\<close>, \<open>merge.go\<close>, \<open>merge_strategies.go\<close>). The free-text message and
  the transition time of a condition are left out: no code under \<open>src/\<close> outside
  \<open>util/conditions\<close> reads them.
\<close>

section \<open>Condition types and reasons\<close>

datatype ConditionType =
    ReadyCondition
  | ClusterReadyCondition
  | EvaluatedCELCondition
  | HelmChartFoundCondition
  | HelmChartTemplatedCondition
  | ClusterAddonConfigValidatedCondition
  | HelmChartAppliedCondition
  | HookServerReadyCondition
  | HelmChartDeletedCondition
  | ProviderClusterStackReleasesSyncedCondition
  | ClusterStackReleasesSyncedCondition
  | ClusterStackReleaseAvailableCondition
  | ClusterStackReleaseAssetsReadyCondition
  | ProviderClusterStackReleaseReadyCondition
  | AssetsClientAPIAvailableCondition
  | ReleasesSyncedCondition

fun condition_type_name :: "ConditionType \<Rightarrow> string" where
  "condition_type_name ReadyCondition = ''Ready''"
| "condition_type_name ClusterReadyCondition = ''ClusterReady''"
| "condition_type_name EvaluatedCELCondition = ''EvaluatedCEL''"
| "condition_type_name HelmChartFoundCondition = ''HelmChartFound''"
| "condition_type_name HelmChartTemplatedCondition = ''HelmChartTemplated''"
| "condition_type_name ClusterAddonConfigValidatedCondition = ''ClusterAddonConfigValidated''"
| "condition_type_name HelmChartAppliedCondition = ''HelmChartApplied''"
| "condition_type_name HookServerReadyCondition = ''HookServerReady''"
| "condition_type_name HelmChartDeletedCondition = ''HelmChartDeleted''"
| "condition_type_name ProviderClusterStackReleasesSyncedCondition = ''ProviderClusterStackReleasesSynced''"
| "condition_type_name ClusterStackReleasesSyncedCondition = ''ClusterStackReleasesSynced''"
| "condition_type_name ClusterStackReleaseAvailableCondition = ''ClusterStackReleaseAvailable''"
| "condition_type_name ClusterStackReleaseAssetsReadyCondition = ''ClusterStackReleaseDownloaded''"
| "condition_type_name ProviderClusterStackReleaseReadyCondition = ''ProviderClusterStackReleaseReady''"
| "condition_type_name AssetsClientAPIAvailableCondition = ''AssetsClientAPIAvailable''"
| "condition_type_name ReleasesSyncedCondition = ''ReleasesSynced''"

datatype ConditionReason =
    NoReason
  | ControlPlaneNotReadyReason
  | FailedToEvaluatePreConditionReason
  | FailedToEvaluatePostConditionReason
  | HelmChartMissingReason
  | TemplateOldClusterStackOverwriteFailedReason
  | TemplateOldClusterStackFailedReason
  | TemplateNewClusterStackOverwriteFailedReason
  | TemplateNewClusterStackFailedReason
  | ParsingClusterAddonConfigFailedReason
  | FailedToApplyObjectsReason
  | ObjectsApplyingOngoingReason
  | HookServerUnresponsiveReason
  | FailedToDeleteObjectsReason
  | ProviderTemplateNotFoundReason
  | FailedToCreateOrUpdateReason
  | ReleaseAssetsNotDownloadedYetReason
  | IssueWithReleaseAssetsReason
  | ProcessOngoingReason
  | FailedCreateAssetsClientReason
  | FailedToSyncReason

fun condition_reason_name :: "ConditionReason \<Rightarrow> string" where
  "condition_reason_name NoReason = []"
| "condition_reason_name ControlPlaneNotReadyReason = ''ControlPlaneNotReady''"
| "condition_reason_name FailedToEvaluatePreConditionReason = ''FailedToEvaluatePreCondition''"
| "condition_reason_name FailedToEvaluatePostConditionReason = ''FailedToEvaluatePostCondition''"
| "condition_reason_name HelmChartMissingReason = ''HelmChartMissing''"
| "condition_reason_name TemplateOldClusterStackOverwriteFailedReason = ''TemplateOldClusterStackOverwriteFailed''"
| "condition_reason_name TemplateOldClusterStackFailedReason = ''TemplateOldClusterStackFailed''"
| "condition_reason_name TemplateNewClusterStackOverwriteFailedReason = ''TemplateNewClusterStackOverwriteFailed''"
| "condition_reason_name TemplateNewClusterStackFailedReason = ''TemplateNewClusterStackFailed''"
| "condition_reason_name ParsingClusterAddonConfigFailedReason = ''ParsingClusterAddonConfigFailed''"
| "condition_reason_name FailedToApplyObjectsReason = ''FailedToApplyObjects''"
| "condition_reason_name ObjectsApplyingOngoingReason = ''ObjectsApplyingOngoing''"
| "condition_reason_name HookServerUnresponsiveReason = ''HookServerUnresponsive''"
| "condition_reason_name FailedToDeleteObjectsReason = ''FailedToDeleteObjects''"
| "condition_reason_name ProviderTemplateNotFoundReason = ''ProviderTemplateNotFound''"
| "condition_reason_name FailedToCreateOrUpdateReason = ''FailedToCreateOrUpdate''"
| "condition_reason_name ReleaseAssetsNotDownloadedYetReason = ''ReleaseAssetsNotDownloadedYet''"
| "condition_reason_name IssueWithReleaseAssetsReason = ''IssueWithReleaseAssets''"
| "condition_reason_name ProcessOngoingReason = ''ProcessOngoing''"
| "condition_reason_name FailedCreateAssetsClientReason = ''FailedCreateAssetsClient''"
| "condition_reason_name FailedToSyncReason = ''FailedToSync''"

datatype ConditionStatus = ConditionTrue | ConditionFalse | ConditionUnknown

datatype ConditionSeverity =
    ConditionSeverityNone
  | ConditionSeverityError
  | ConditionSeverityWarning
  | ConditionSeverityInfo

record Condition =
  c_type :: ConditionType
  c_status :: ConditionStatus
  c_severity :: ConditionSeverity
  c_reason :: ConditionReason

type_synonym Conditions = "Condition list"

section \<open>Getters and setters\<close>

fun cond_Get :: "Conditions \<Rightarrow> ConditionType \<Rightarrow> Condition option" where
  "cond_Get [] t = None"
| "cond_Get (c # cs) t = (if c_type c = t then Some c else cond_Get cs t)"

definition cond_IsTrue :: "Conditions \<Rightarrow> ConditionType \<Rightarrow> bool" where
  "cond_IsTrue cs t =
     (case cond_Get cs t of Some c \<Rightarrow> c_status c = ConditionTrue | None \<Rightarrow> False)"

definition cond_IsFalse :: "Conditions \<Rightarrow> ConditionType \<Rightarrow> bool" where
  "cond_IsFalse cs t =
     (case cond_Get cs t of Some c \<Rightarrow> c_status c = ConditionFalse | None \<Rightarrow> False)"

definition cond_GetReason :: "Conditions \<Rightarrow> ConditionType \<Rightarrow> ConditionReason" where
  "cond_GetReason cs t = (case cond_Get cs t of Some c \<Rightarrow> c_reason c | None \<Rightarrow> NoReason)"

definition lexicographicLess :: "Condition \<Rightarrow> Condition \<Rightarrow> bool" where
  "lexicographicLess i j \<longleftrightarrow>
     (c_type i = ReadyCondition \<or> condition_type_name (c_type i) < condition_type_name (c_type j))
     \<and> c_type j \<noteq> ReadyCondition"

fun put_condition :: "Conditions \<Rightarrow> Condition \<Rightarrow> Conditions" where
  "put_condition [] c = [c]"
| "put_condition (d # cs) c = (if c_type d = c_type c then c # cs else d # put_condition cs c)"

definition cond_Set :: "Conditions \<Rightarrow> Condition \<Rightarrow> Conditions" where
  "cond_Set cs c = go_insertion_sort lexicographicLess (put_condition cs c)"

definition TrueCondition :: "ConditionType \<Rightarrow> Condition" where
  "TrueCondition t = \<lparr>c_type = t, c_status = ConditionTrue,
     c_severity = ConditionSeverityNone, c_reason = NoReason\<rparr>"

definition FalseCondition :: "ConditionType \<Rightarrow> ConditionReason \<Rightarrow> ConditionSeverity \<Rightarrow> Condition" where
  "FalseCondition t reason severity = \<lparr>c_type = t, c_status = ConditionFalse,
     c_severity = severity, c_reason = reason\<rparr>"

definition UnknownCondition :: "ConditionType \<Rightarrow> ConditionReason \<Rightarrow> Condition" where
  "UnknownCondition t reason = \<lparr>c_type = t, c_status = ConditionUnknown,
     c_severity = ConditionSeverityNone, c_reason = reason\<rparr>"

definition cond_MarkTrue :: "ConditionType \<Rightarrow> Conditions \<Rightarrow> Conditions" where
  "cond_MarkTrue t cs = cond_Set cs (TrueCondition t)"

definition cond_MarkFalse ::
    "ConditionType \<Rightarrow> ConditionReason \<Rightarrow> ConditionSeverity \<Rightarrow> Conditions \<Rightarrow> Conditions" where
  "cond_MarkFalse t reason severity cs = cond_Set cs (FalseCondition t reason severity)"

definition cond_Delete :: "ConditionType \<Rightarrow> Conditions \<Rightarrow> Conditions" where
  "cond_Delete t cs = filter (\<lambda>c. c_type c \<noteq> t) cs"

section \<open>The summary\<close>

record conditionGroup =
  g_status :: ConditionStatus
  g_severity :: ConditionSeverity
  g_conditions :: Conditions

definition mergePriority :: "conditionGroup \<Rightarrow> nat" where
  "mergePriority g = (case g_status g of
       ConditionFalse \<Rightarrow>
         (case g_severity g of
            ConditionSeverityError \<Rightarrow> 0
          | ConditionSeverityWarning \<Rightarrow> 1
          | ConditionSeverityInfo \<Rightarrow> 2
          | ConditionSeverityNone \<Rightarrow> 99)
     | ConditionTrue \<Rightarrow> 3
     | ConditionUnknown \<Rightarrow> 4)"

fun add_to_groups :: "conditionGroup list \<Rightarrow> Condition \<Rightarrow> conditionGroup list" where
  "add_to_groups [] c =
     [\<lparr>g_status = c_status c, g_severity = c_severity c, g_conditions = [c]\<rparr>]"
| "add_to_groups (g # gs) c =
     (if g_status g = c_status c \<and> g_severity g = c_severity c
      then g\<lparr>g_conditions := g_conditions g @ [c]\<rparr> # gs
      else g # add_to_groups gs c)"

definition group_less :: "conditionGroup \<Rightarrow> conditionGroup \<Rightarrow> bool" where
  "group_less g h \<longleftrightarrow> mergePriority g < mergePriority h"

text \<open>
  There are at most twelve groups, one per pair of status and severity, so \<open>sort.Sort\<close> sorts
  them by insertion. The top group is then sorted like the conditions of an object.
\<close>

definition getConditionGroups :: "Conditions \<Rightarrow> conditionGroup list" where
  "getConditionGroups cs =
     (case go_insertion_sort group_less (foldl add_to_groups [] cs) of
        [] \<Rightarrow> []
      | g # gs \<Rightarrow>
          g\<lparr>g_conditions := go_insertion_sort lexicographicLess (g_conditions g)\<rparr> # gs)"

definition cond_merge :: "Conditions \<Rightarrow> ConditionType \<Rightarrow> Condition option" where
  "cond_merge cs target =
     (case getConditionGroups cs of
        [] \<Rightarrow> None
      | g # _ \<Rightarrow>
          if g_status g = ConditionTrue then Some (TrueCondition target)
          else
            let reason = (case g_conditions g of [] \<Rightarrow> NoReason | c # _ \<Rightarrow> c_reason c)
            in if g_status g = ConditionFalse
               then Some (FalseCondition target reason (g_severity g))
               else Some (UnknownCondition target reason))"

definition cond_summary :: "Conditions \<Rightarrow> Condition option" where
  "cond_summary cs = cond_merge (filter (\<lambda>c. c_type c \<noteq> ReadyCondition) cs) ReadyCondition"

definition cond_SetSummary :: "Conditions \<Rightarrow> Conditions" where
  "cond_SetSummary cs = (case cond_summary cs of None \<Rightarrow> cs | Some c \<Rightarrow> cond_Set cs c)"

section \<open>The laws of a condition store\<close>

text \<open>
  The controllers rely on three operations. What they may assume is the interface below; the
  list of conditions, with no type listed twice, implements it.
\<close>

locale condition_store =
  fixes get :: "'s \<Rightarrow> ConditionType \<Rightarrow> Condition option"
    and put :: "'s \<Rightarrow> Condition \<Rightarrow> 's"
    and del :: "ConditionType \<Rightarrow> 's \<Rightarrow> 's"
    and ok :: "'s \<Rightarrow> bool"
  assumes get_put: "ok s \<Longrightarrow> get (put s c) t = (if t = c_type c then Some c else get s t)"
    and get_del: "ok s \<Longrightarrow> get (del t' s) t = (if t = t' then None else get s t)"
    and ok_put: "ok s \<Longrightarrow> ok (put s c)"
    and ok_del: "ok s \<Longrightarrow> ok (del t s)"
begin

lemma put_overwrites:
  "ok s \<Longrightarrow> c_type c = c_type d \<Longrightarrow> get (put (put s c) d) t = get (put s d) t"
  by (simp add: get_put ok_put)

lemma put_commutes:
  "ok s \<Longrightarrow> c_type c \<noteq> c_type d \<Longrightarrow> get (put (put s c) d) t = get (put (put s d) c) t"
  by (simp add: get_put ok_put)

lemma del_forgets: "ok s \<Longrightarrow> get (del (c_type c) (put s c)) t = get (del (c_type c) s) t"
  by (simp add: get_put get_del ok_put)

end

definition conds_ok :: "Conditions \<Rightarrow> bool" where
  "conds_ok cs \<longleftrightarrow> distinct (map c_type cs)"

lemma conds_ok_Nil [simp]: "conds_ok []"
  by (simp add: conds_ok_def)

lemma cond_Get_Some_iff:
  "conds_ok cs \<Longrightarrow> cond_Get cs t = Some c \<longleftrightarrow> c \<in> set cs \<and> c_type c = t"
  by (induction cs) (auto simp: conds_ok_def)

lemma cond_Get_None_iff: "cond_Get cs t = None \<longleftrightarrow> t \<notin> c_type ` set cs"
  by (induction cs) auto

lemma cond_Get_perm:
  assumes "mset cs = mset ds" and "conds_ok cs"
  shows "cond_Get cs t = cond_Get ds t"
proof -
  have s: "set cs = set ds" using assms(1) by (metis set_mset_mset)
  have "mset (map c_type cs) = mset (map c_type ds)" using assms(1) by simp
  then have ok: "conds_ok ds"
    using assms(2) unfolding conds_ok_def by (metis mset_eq_imp_distinct_iff)
  show ?thesis
    by (rule option.expand)
      (auto simp: s cond_Get_None_iff, metis cond_Get_Some_iff assms(2) ok s option.collapse)
qed

lemma conds_ok_perm: "mset cs = mset ds \<Longrightarrow> conds_ok cs = conds_ok ds"
  unfolding conds_ok_def by (metis mset_eq_imp_distinct_iff mset_map)

lemma set_put_condition_types: "c_type ` set (put_condition cs c) = insert (c_type c) (c_type ` set cs)"
  by (induction cs) auto

lemma conds_ok_put_condition: "conds_ok cs \<Longrightarrow> conds_ok (put_condition cs c)"
  using set_put_condition_types[of _ c] by (induction cs) (auto simp: conds_ok_def)

lemma cond_Get_put_condition:
  "cond_Get (put_condition cs c) t = (if t = c_type c then Some c else cond_Get cs t)"
  by (induction cs) auto

lemma mset_cond_Set: "mset (cond_Set cs c) = mset (put_condition cs c)"
  by (simp add: cond_Set_def insertion.sort_perm)

interpretation conds: condition_store cond_Get cond_Set cond_Delete conds_ok
proof
  fix s :: Conditions and c t t'
  assume ok: "conds_ok s"
  show "conds_ok (cond_Set s c)"
    using conds_ok_perm[OF mset_cond_Set] conds_ok_put_condition[OF ok] by blast
  show "cond_Get (cond_Set s c) t = (if t = c_type c then Some c else cond_Get s t)"
    using cond_Get_perm[OF mset_cond_Set[symmetric] conds_ok_put_condition[OF ok], of c t]
    by (simp add: cond_Get_put_condition)
  show "conds_ok (cond_Delete t s)"
    using ok by (simp add: conds_ok_def cond_Delete_def distinct_map_filter)
  show "cond_Get (cond_Delete t' s) t = (if t = t' then None else cond_Get s t)"
    by (induction s) (auto simp: cond_Delete_def)
qed

section \<open>Rules for the marks\<close>

named_theorems cond_simps \<open>reading conditions after marking, deleting and summarising\<close>

lemma mark_ok [cond_simps]:
  "conds_ok cs \<Longrightarrow> conds_ok (cond_MarkTrue t cs)"
  "conds_ok cs \<Longrightarrow> conds_ok (cond_MarkFalse t r s cs)"
  "conds_ok cs \<Longrightarrow> conds_ok (cond_Delete t cs)"
  by (simp_all add: cond_MarkTrue_def cond_MarkFalse_def conds.ok_put conds.ok_del)

lemma get_mark [cond_simps]:
  "conds_ok cs \<Longrightarrow> cond_Get (cond_MarkTrue t cs) t' =
     (if t' = t then Some (TrueCondition t) else cond_Get cs t')"
  "conds_ok cs \<Longrightarrow> cond_Get (cond_MarkFalse t r s cs) t' =
     (if t' = t then Some (FalseCondition t r s) else cond_Get cs t')"
  "conds_ok cs \<Longrightarrow> cond_Get (cond_Delete t cs) t' = (if t' = t then None else cond_Get cs t')"
  by (simp_all add: cond_MarkTrue_def cond_MarkFalse_def conds.get_put conds.get_del
      TrueCondition_def FalseCondition_def)

lemma mark_reads [cond_simps]:
  "conds_ok cs \<Longrightarrow> cond_IsTrue (cond_MarkTrue t cs) t' = (t' = t \<or> cond_IsTrue cs t')"
  "conds_ok cs \<Longrightarrow> cond_IsFalse (cond_MarkTrue t cs) t' = (t' \<noteq> t \<and> cond_IsFalse cs t')"
  "conds_ok cs \<Longrightarrow> cond_IsTrue (cond_MarkFalse t r s cs) t' = (t' \<noteq> t \<and> cond_IsTrue cs t')"
  "conds_ok cs \<Longrightarrow> cond_IsFalse (cond_MarkFalse t r s cs) t' = (t' = t \<or> cond_IsFalse cs t')"
  "conds_ok cs \<Longrightarrow> cond_IsTrue (cond_Delete t cs) t' = (t' \<noteq> t \<and> cond_IsTrue cs t')"
  "conds_ok cs \<Longrightarrow> cond_IsFalse (cond_Delete t cs) t' = (t' \<noteq> t \<and> cond_IsFalse cs t')"
  by (auto simp: cond_IsTrue_def cond_IsFalse_def get_mark TrueCondition_def FalseCondition_def)

lemma true_not_false: "cond_IsTrue cs t \<Longrightarrow> \<not> cond_IsFalse cs t"
  by (auto simp: cond_IsTrue_def cond_IsFalse_def split: option.splits)

section \<open>What the summary says\<close>

definition group_key :: "conditionGroup \<Rightarrow> ConditionStatus \<times> ConditionSeverity" where
  "group_key g = (g_status g, g_severity g)"

definition condition_key :: "Condition \<Rightarrow> ConditionStatus \<times> ConditionSeverity" where
  "condition_key c = (c_status c, c_severity c)"

lemma group_keys_add:
  "group_key ` set (add_to_groups gs c) = insert (condition_key c) (group_key ` set gs)"
  by (induction gs) (auto simp: group_key_def condition_key_def)

lemma group_keys_foldl:
  "group_key ` set (foldl add_to_groups gs cs) = condition_key ` set cs \<union> group_key ` set gs"
  by (induction cs arbitrary: gs) (auto simp: group_keys_add)

lemma group_less_ordering: "transitive_ordering group_less S"
  by (auto simp: transitive_ordering_def group_less_def)

text \<open>A condition that keeps the summary from being True.\<close>

definition blocking :: "Condition \<Rightarrow> bool" where
  "blocking c \<longleftrightarrow> c_status c = ConditionFalse \<and> c_severity c \<noteq> ConditionSeverityNone"

definition key_priority :: "ConditionStatus \<times> ConditionSeverity \<Rightarrow> nat" where
  "key_priority k = mergePriority \<lparr>g_status = fst k, g_severity = snd k, g_conditions = []\<rparr>"

lemma mergePriority_key: "mergePriority g = key_priority (group_key g)"
  by (simp add: key_priority_def group_key_def mergePriority_def split: ConditionStatus.split)

lemma key_priority_cases:
  "key_priority (condition_key c) < 3 \<longleftrightarrow> blocking c"
  "key_priority (condition_key c) = 3 \<longleftrightarrow> c_status c = ConditionTrue"
  by (auto simp: key_priority_def condition_key_def mergePriority_def blocking_def
      split: ConditionStatus.splits ConditionSeverity.splits)

lemma getConditionGroups_top:
  assumes "cs \<noteq> []"
  obtains g gs c where "getConditionGroups cs = g # gs" "c \<in> set cs"
    "group_key g = condition_key c"
    "\<And>d. d \<in> set cs \<Longrightarrow> key_priority (condition_key c) \<le> key_priority (condition_key d)"
proof -
  let ?raw = "foldl add_to_groups [] cs"
  have keys: "group_key ` set ?raw = condition_key ` set cs"
    using group_keys_foldl[of "[]" cs] by simp
  then have raw: "?raw \<noteq> []" using assms by auto
  then obtain g gs where srt: "go_insertion_sort group_less ?raw = g # gs"
    using insertion.sort_Nil_iff[of group_less ?raw] by (cases "go_insertion_sort group_less ?raw") auto
  have "g \<in> set ?raw"
    using insertion.sort_set[of group_less ?raw] srt by auto
  then obtain c where c: "c \<in> set cs" "group_key g = condition_key c"
    using keys by force
  have "key_priority (condition_key c) \<le> key_priority (condition_key d)" if "d \<in> set cs" for d
  proof -
    obtain h where h: "h \<in> set ?raw" "group_key h = condition_key d"
      using keys \<open>d \<in> set cs\<close> by force
    have "\<not> group_less h (hd (go_insertion_sort group_less ?raw))"
      by (rule insertion.sort_hd_min[OF group_less_ordering raw h(1)])
    then show ?thesis using srt c h by (simp add: group_less_def mergePriority_key)
  qed
  moreover have "\<exists>g'. getConditionGroups cs = g' # gs \<and> group_key g' = group_key g"
    using srt by (simp add: getConditionGroups_def group_key_def)
  ultimately show thesis using c that by metis
qed

lemma cond_merge_status:
  assumes "cs \<noteq> []"
  shows "\<exists>c. cond_merge cs t = Some c \<and> c_type c = t \<and>
    (c_status c = ConditionTrue \<longleftrightarrow>
       (\<exists>d\<in>set cs. c_status d = ConditionTrue) \<and> (\<forall>d\<in>set cs. \<not> blocking d))"
proof -
  obtain g gs c where g: "getConditionGroups cs = g # gs" "c \<in> set cs"
    "group_key g = condition_key c"
    "\<And>d. d \<in> set cs \<Longrightarrow> key_priority (condition_key c) \<le> key_priority (condition_key d)"
    using getConditionGroups_top[OF assms] by metis
  have st: "g_status g = c_status c" using g(3) by (simp add: group_key_def condition_key_def)
  have iff: "c_status c = ConditionTrue \<longleftrightarrow>
      (\<exists>d\<in>set cs. c_status d = ConditionTrue) \<and> (\<forall>d\<in>set cs. \<not> blocking d)"
  proof
    assume "c_status c = ConditionTrue"
    then have "3 \<le> key_priority (condition_key d)" if "d \<in> set cs" for d
      using g(4)[OF that] key_priority_cases(2)[of c] by simp
    then show "(\<exists>d\<in>set cs. c_status d = ConditionTrue) \<and> (\<forall>d\<in>set cs. \<not> blocking d)"
      using g(2) \<open>c_status c = ConditionTrue\<close> key_priority_cases(1) by (meson leD)
  next
    assume r: "(\<exists>d\<in>set cs. c_status d = ConditionTrue) \<and> (\<forall>d\<in>set cs. \<not> blocking d)"
    then obtain d where "d \<in> set cs" "c_status d = ConditionTrue" by blast
    then have "key_priority (condition_key c) \<le> 3"
      using g(4)[of d] key_priority_cases(2)[of d] by simp
    moreover have "\<not> key_priority (condition_key c) < 3"
      using r g(2) key_priority_cases(1) by blast
    ultimately show "c_status c = ConditionTrue"
      using key_priority_cases(2)[of c] by simp
  qed
  show ?thesis
    unfolding cond_merge_def g(1) using st iff
    by (auto simp: Let_def TrueCondition_def FalseCondition_def UnknownCondition_def
        split: list.splits)
qed

lemma cond_summary_type: "cond_summary cs = Some c \<Longrightarrow> c_type c = ReadyCondition"
  by (auto simp: cond_summary_def cond_merge_def TrueCondition_def FalseCondition_def
      UnknownCondition_def Let_def split: list.splits if_splits)

lemma conds_ok_SetSummary [cond_simps]: "conds_ok cs \<Longrightarrow> conds_ok (cond_SetSummary cs)"
  by (simp add: cond_SetSummary_def conds.ok_put split: option.splits)

lemma get_SetSummary [cond_simps]:
  "conds_ok cs \<Longrightarrow> t \<noteq> ReadyCondition \<Longrightarrow> cond_Get (cond_SetSummary cs) t = cond_Get cs t"
  by (auto simp: cond_SetSummary_def conds.get_put dest: cond_summary_type split: option.splits)

lemma reads_SetSummary [cond_simps]:
  "conds_ok cs \<Longrightarrow> t \<noteq> ReadyCondition \<Longrightarrow> cond_IsTrue (cond_SetSummary cs) t = cond_IsTrue cs t"
  "conds_ok cs \<Longrightarrow> t \<noteq> ReadyCondition \<Longrightarrow> cond_IsFalse (cond_SetSummary cs) t = cond_IsFalse cs t"
  by (simp_all add: cond_IsTrue_def cond_IsFalse_def get_SetSummary)

text \<open>
  After the summary an object with some condition besides Ready is marked Ready exactly when
  one of these conditions is True and none is False with a severity.
\<close>

theorem SetSummary_ready_iff:
  assumes "conds_ok cs" and "\<exists>c\<in>set cs. c_type c \<noteq> ReadyCondition"
  shows "cond_IsTrue (cond_SetSummary cs) ReadyCondition \<longleftrightarrow>
    (\<exists>c\<in>set cs. c_type c \<noteq> ReadyCondition \<and> c_status c = ConditionTrue) \<and>
    (\<forall>c\<in>set cs. c_type c \<noteq> ReadyCondition \<longrightarrow> \<not> blocking c)"
proof -
  let ?others = "filter (\<lambda>c. c_type c \<noteq> ReadyCondition) cs"
  have "?others \<noteq> []" using assms(2) by (auto simp: filter_empty_conv)
  then obtain s where s: "cond_merge ?others ReadyCondition = Some s" "c_type s = ReadyCondition"
    "c_status s = ConditionTrue \<longleftrightarrow>
       (\<exists>d\<in>set ?others. c_status d = ConditionTrue) \<and> (\<forall>d\<in>set ?others. \<not> blocking d)"
    using cond_merge_status[of ?others ReadyCondition] by blast
  then have "cond_Get (cond_SetSummary cs) ReadyCondition = Some s"
    using assms(1) by (simp add: cond_SetSummary_def cond_summary_def conds.get_put)
  with s(3) show ?thesis by (auto simp: cond_IsTrue_def)
qed

theorem SetSummary_ready_iff_witness:
  "cond_IsTrue (cond_SetSummary [TrueCondition ClusterReadyCondition]) ReadyCondition \<longleftrightarrow>
    (\<exists>c\<in>set [TrueCondition ClusterReadyCondition].
       c_type c \<noteq> ReadyCondition \<and> c_status c = ConditionTrue) \<and>
    (\<forall>c\<in>set [TrueCondition ClusterReadyCondition]. c_type c \<noteq> ReadyCondition \<longrightarrow> \<not> blocking c)"
  by (rule SetSummary_ready_iff) (simp_all add: conds_ok_def TrueCondition_def)

end
