(* ===== verification/ApiTypes.thy ===== *)
theory ApiTypes
  imports Unstructured Conditions KubeVersions
begin

text \<open>
  The API objects of \<open>api/v1alpha1\<close> (\<open>resources.go\<close>, \<open>clusterstack_types.go\<close>,
  \<open>clusterstackrelease_types.go\<close>, \<open>clusteraddon_types.go\<close>) with their methods, the parts of the
  Kubernetes metadata the controllers read, and the errors of the API server. A pointer to an
  object that may be nil is an option; an absent map or slice is the empty list.
\<close>

section \<open>Kubernetes metadata\<close>

datatype api_error =
    NotFound string
  | AlreadyExists string
  | OtherError string

fun error_text :: "api_error \<Rightarrow> string" where
  "error_text (NotFound s) = s"
| "error_text (AlreadyExists s) = s"
| "error_text (OtherError s) = s"

definition IsNotFound :: "api_error \<Rightarrow> bool" where
  "IsNotFound e = (case e of NotFound _ \<Rightarrow> True | _ \<Rightarrow> False)"

record NamespacedName =
  nn_name :: string
  nn_namespace :: string

record OwnerReference =
  or_apiVersion :: string
  or_kind :: string
  or_name :: string
  or_uid :: string

record ObjectReference =
  ref_apiVersion :: string
  ref_kind :: string
  ref_name :: string
  ref_namespace :: string
  ref_uid :: string

text \<open>Type and object metadata; \<open>m_deleting\<close> says that the deletion timestamp is set.\<close>

record ObjectMeta =
  m_apiVersion :: string
  m_kind :: string
  m_name :: string
  m_namespace :: string
  m_uid :: string
  m_labels :: "(string \<times> string) list"
  m_annotations :: "(string \<times> string) list"
  m_finalizers :: "string list"
  m_ownerReferences :: "OwnerReference list"
  m_deleting :: bool

definition empty_meta :: ObjectMeta where
  "empty_meta = \<lparr>m_apiVersion = [], m_kind = [], m_name = [], m_namespace = [], m_uid = [],
     m_labels = [], m_annotations = [], m_finalizers = [], m_ownerReferences = [],
     m_deleting = False\<rparr>"

text \<open>\<open>controllerutil.AddFinalizer\<close> and \<open>controllerutil.RemoveFinalizer\<close>.\<close>

definition AddFinalizer :: "string \<Rightarrow> ObjectMeta \<Rightarrow> ObjectMeta" where
  "AddFinalizer f m = (if f \<in> set (m_finalizers m) then m
     else m\<lparr>m_finalizers := m_finalizers m @ [f]\<rparr>)"

definition RemoveFinalizer :: "string \<Rightarrow> ObjectMeta \<Rightarrow> ObjectMeta" where
  "RemoveFinalizer f m = m\<lparr>m_finalizers := filter (\<lambda>g. g \<noteq> f) (m_finalizers m)\<rparr>"

section \<open>Resources\<close>

type_synonym ResourceStatus = string

definition ResourceStatusSynced :: ResourceStatus where
  "ResourceStatusSynced = ''synced''"

definition ResourceStatusNotSynced :: ResourceStatus where
  "ResourceStatusNotSynced = ''not-synced''"

record Resource =
  r_group :: string
  r_version :: string
  r_kind :: string
  r_namespace :: string
  r_name :: string
  r_status :: ResourceStatus
  r_error :: string

definition resource_NamespacedName :: "Resource \<Rightarrow> string" where
  "resource_NamespacedName r = r_namespace r @ ''/'' @ r_name r"

definition NewResourceFromUnstructured :: "unstructured option \<Rightarrow> Resource option" where
  "NewResourceFromUnstructured u = (case u of
       None \<Rightarrow> None
     | Some u \<Rightarrow> Some \<lparr>r_group = gv_group (u_GroupVersionKind u),
         r_version = gv_version (u_GroupVersionKind u), r_kind = gvk_kind (u_GroupVersionKind u),
         r_namespace = GetNamespace u, r_name = GetName u, r_status = [], r_error = []\<rparr>)"

definition resource_GroupVersionKind :: "Resource \<Rightarrow> GroupVersionKind" where
  "resource_GroupVersionKind r =
     \<lparr>gv_group = r_group r, gv_version = r_version r, gvk_kind = r_kind r\<rparr>"

text \<open>The key under which resources and objects are compared.\<close>

definition resource_key :: "Resource \<Rightarrow> NamespacedName" where
  "resource_key r = \<lparr>nn_name = r_name r, nn_namespace = r_namespace r\<rparr>"

definition object_key :: "unstructured \<Rightarrow> NamespacedName" where
  "object_key u = \<lparr>nn_name = GetName u, nn_namespace = GetNamespace u\<rparr>"

section \<open>ClusterStack\<close>

record ClusterStackSpec =
  css_provider :: string
  css_name :: string
  css_kubernetesVersion :: string
  css_channel :: Channel
  css_versions :: "string list"
  css_autoSubscribe :: bool
  css_noProvider :: bool
  css_providerRef :: "ObjectReference option"

datatype ClusterStackReleasePhase =
    ClusterStackReleasePhaseNone
  | ClusterStackReleasePhaseDownloadingAssets
  | ClusterStackReleasePhaseProviderSpecificWork
  | ClusterStackReleasePhaseApplyingObjects
  | ClusterStackReleasePhaseDone

record ClusterStackReleaseSummary =
  sum_name :: string
  sum_ready :: bool
  sum_phase :: ClusterStackReleasePhase
  sum_message :: string

record ClusterStackStatus =
  st_latestRelease :: string
  st_summary :: "ClusterStackReleaseSummary list"
  st_usableVersions :: string
  st_conditions :: Conditions

record ClusterStackObject =
  csk_meta :: ObjectMeta
  csk_spec :: ClusterStackSpec
  csk_status :: ClusterStackStatus

definition csk_conditions :: "(Conditions \<Rightarrow> Conditions) \<Rightarrow> ClusterStackObject \<Rightarrow> ClusterStackObject" where
  "csk_conditions f o1 = o1\<lparr>csk_status := (csk_status o1)
     \<lparr>st_conditions := f (st_conditions (csk_status o1))\<rparr>\<rparr>"

section \<open>ClusterStackRelease\<close>

definition ClusterStackReleaseFinalizer :: string where
  "ClusterStackReleaseFinalizer = ''clusterstackrelease.clusterstack.x-k8s.io''"

record ClusterStackReleaseStatus =
  rs_resources :: "Resource list"
  rs_kubernetesVersion :: string
  rs_ready :: bool
  rs_conditions :: Conditions

record ClusterStackRelease =
  csr_meta :: ObjectMeta
  csr_providerRef :: "ObjectReference option"
  csr_status :: ClusterStackReleaseStatus

definition empty_release :: ClusterStackRelease where
  "empty_release = \<lparr>csr_meta = empty_meta, csr_providerRef = None,
     csr_status = \<lparr>rs_resources = [], rs_kubernetesVersion = [], rs_ready = False,
       rs_conditions = []\<rparr>\<rparr>"

definition csr_name :: "ClusterStackRelease \<Rightarrow> string" where
  "csr_name r = m_name (csr_meta r)"

definition csr_ready :: "ClusterStackRelease \<Rightarrow> bool" where
  "csr_ready r = rs_ready (csr_status r)"

definition csr_conditions :: "(Conditions \<Rightarrow> Conditions) \<Rightarrow> ClusterStackRelease \<Rightarrow> ClusterStackRelease" where
  "csr_conditions f r = r\<lparr>csr_status := (csr_status r)
     \<lparr>rs_conditions := f (rs_conditions (csr_status r))\<rparr>\<rparr>"

section \<open>ClusterAddon\<close>

definition ClusterAddonFinalizer :: string where
  "ClusterAddonFinalizer = ''clusteraddon.clusterstack.x-k8s.io''"

definition StageAnnotation :: string where
  "StageAnnotation = ''ClusterAddonStage''"

type_synonym StageAnnotationValue = string

definition StageAnnotationValueCreated :: StageAnnotationValue where
  "StageAnnotationValueCreated = ''created''"

definition StageAnnotationValueUpgraded :: StageAnnotationValue where
  "StageAnnotationValueUpgraded = ''upgraded''"

datatype StagePhase =
    StagePhaseNone
  | StagePhasePending
  | StagePhaseWaitingForPreCondition
  | StagePhaseApplyingOrDeleting
  | StagePhaseWaitingForPostCondition
  | StagePhaseDone

text \<open>An action is a string read from a file, so it may be neither \<open>apply\<close> nor \<open>delete\<close>.\<close>

type_synonym Action = string

definition ActionApply :: Action where "ActionApply = ''apply''"
definition ActionDelete :: Action where "ActionDelete = ''delete''"

record StageStatus =
  ss_name :: string
  ss_action :: Action
  ss_phase :: StagePhase

record ClusterAddonSpec =
  cas_clusterStack :: string
  cas_version :: string
  cas_hook :: string
  cas_clusterRef :: "ObjectReference option"

record ClusterAddonStatus =
  as_resources :: "Resource list"
  as_stages :: "StageStatus list"
  as_ready :: bool
  as_conditions :: Conditions

record ClusterAddon =
  ca_meta :: ObjectMeta
  ca_spec :: ClusterAddonSpec
  ca_status :: ClusterAddonStatus

definition ca_conditions :: "(Conditions \<Rightarrow> Conditions) \<Rightarrow> ClusterAddon \<Rightarrow> ClusterAddon" where
  "ca_conditions f a = a\<lparr>ca_status := (ca_status a)
     \<lparr>as_conditions := f (as_conditions (ca_status a))\<rparr>\<rparr>"

fun stage_phase_in :: "string \<Rightarrow> Action \<Rightarrow> StageStatus list \<Rightarrow> StagePhase" where
  "stage_phase_in n act [] = StagePhaseNone"
| "stage_phase_in n act (s # ss) =
     (if ss_name s = n \<and> ss_action s = act then ss_phase s else stage_phase_in n act ss)"

definition GetStagePhase :: "string \<Rightarrow> Action \<Rightarrow> ClusterAddon \<Rightarrow> StagePhase" where
  "GetStagePhase n act a = stage_phase_in n act (as_stages (ca_status a))"

definition set_phase_in ::
    "string \<Rightarrow> Action \<Rightarrow> StagePhase \<Rightarrow> StageStatus list \<Rightarrow> StageStatus list" where
  "set_phase_in n act p =
     map (\<lambda>s. if ss_name s = n \<and> ss_action s = act then s\<lparr>ss_phase := p\<rparr> else s)"

definition SetStagePhase :: "string \<Rightarrow> Action \<Rightarrow> StagePhase \<Rightarrow> ClusterAddon \<Rightarrow> ClusterAddon" where
  "SetStagePhase n act p a = a\<lparr>ca_status := (ca_status a)
     \<lparr>as_stages := set_phase_in n act p (as_stages (ca_status a))\<rparr>\<rparr>"

definition SetStageAnnotations :: "StageAnnotationValue \<Rightarrow> ClusterAddon \<Rightarrow> ClusterAddon" where
  "SetStageAnnotations v a =
     (case map_of (m_annotations (ca_meta a)) StageAnnotation of
        Some _ \<Rightarrow> a
      | None \<Rightarrow> a\<lparr>ca_meta := (ca_meta a)
          \<lparr>m_annotations := AList.update StageAnnotation v (m_annotations (ca_meta a))\<rparr>\<rparr>)"

definition HasStageAnnotation :: "StageAnnotationValue \<Rightarrow> ClusterAddon \<Rightarrow> bool" where
  "HasStageAnnotation v a = (map_of (m_annotations (ca_meta a)) StageAnnotation = Some v)"

section \<open>Cluster\<close>

text \<open>
  The parts of a Cluster API \<open>Cluster\<close> the operator reads: the class and the version of the
  topology, \<open>None\<close> when \<open>spec.topology\<close> is nil, and the references to the control plane and the
  infrastructure object.
\<close>

record Topology =
  top_class :: string
  top_version :: string

record Cluster =
  cl_meta :: ObjectMeta
  cl_topology :: "Topology option"
  cl_controlPlaneRef :: "ObjectReference option"
  cl_infrastructureRef :: "ObjectReference option"

section \<open>Phases of stages\<close>

text \<open>
  What the execution of stages relies on: a phase that was set is read back, for a stage the
  status lists, and no other stage is touched.
\<close>

locale phase_store =
  fixes get :: "string \<Rightarrow> Action \<Rightarrow> 's \<Rightarrow> StagePhase"
    and put :: "string \<Rightarrow> Action \<Rightarrow> StagePhase \<Rightarrow> 's \<Rightarrow> 's"
    and listed :: "string \<Rightarrow> Action \<Rightarrow> 's \<Rightarrow> bool"
  assumes get_put: "get n act (put n' act' p s) =
      (if n = n' \<and> act = act' \<and> listed n act s then p else get n act s)"
    and listed_put: "listed n act (put n' act' p s) = listed n act s"
    and unlisted: "\<not> listed n act s \<Longrightarrow> get n act s = StagePhaseNone"
begin

lemma put_put: "get n act (put n1 a1 p (put n1 a1 q s)) = get n act (put n1 a1 p s)"
  by (auto simp: get_put listed_put)

lemma put_commute:
  "(n1, a1) \<noteq> (n2, a2) \<Longrightarrow>
    get n act (put n1 a1 p (put n2 a2 q s)) = get n act (put n2 a2 q (put n1 a1 p s))"
  by (auto simp: get_put listed_put)

lemma set_phase_seen: "listed n act s \<Longrightarrow> get n act (put n act p s) = p"
  by (simp add: get_put)

end

definition stage_listed :: "string \<Rightarrow> Action \<Rightarrow> ClusterAddon \<Rightarrow> bool" where
  "stage_listed n act a \<longleftrightarrow>
     (\<exists>s\<in>set (as_stages (ca_status a)). ss_name s = n \<and> ss_action s = act)"

lemma stage_phase_in_set:
  "stage_phase_in n act (set_phase_in n' act' p ss) =
     (if n = n' \<and> act = act' \<and> (\<exists>s\<in>set ss. ss_name s = n \<and> ss_action s = act)
      then p else stage_phase_in n act ss)"
  by (induction ss) (auto simp: set_phase_in_def)

interpretation phases: phase_store GetStagePhase SetStagePhase stage_listed
proof
  show "GetStagePhase n act (SetStagePhase n' act' p s) =
      (if n = n' \<and> act = act' \<and> stage_listed n act s then p else GetStagePhase n act s)"
    for n act n' act' p s
    by (auto simp: GetStagePhase_def SetStagePhase_def stage_phase_in_set stage_listed_def)
  show "stage_listed n act (SetStagePhase n' act' p s) = stage_listed n act s" for n act n' act' p s
  proof -
    have "(\<exists>s\<in>set (set_phase_in n' act' p ss). ss_name s = n \<and> ss_action s = act) =
        (\<exists>s\<in>set ss. ss_name s = n \<and> ss_action s = act)" for ss
      by (induction ss) (auto simp: set_phase_in_def)
    then show "stage_listed n act (SetStagePhase n' act' p s) = stage_listed n act s"
      by (simp add: stage_listed_def SetStagePhase_def)
  qed
  show "\<not> stage_listed n act s \<Longrightarrow> GetStagePhase n act s = StagePhaseNone" for n act s
  proof -
    have "\<forall>s\<in>set ss. \<not> (ss_name s = n \<and> ss_action s = act) \<Longrightarrow>
        stage_phase_in n act ss = StagePhaseNone" for ss
      by (induction ss) auto
    then show "\<not> stage_listed n act s \<Longrightarrow> GetStagePhase n act s = StagePhaseNone"
      by (simp add: stage_listed_def GetStagePhase_def)
  qed
qed

section \<open>Facts\<close>

lemma finalizer_simps [simp]:
  "f \<in> set (m_finalizers (AddFinalizer f m))"
  "f \<notin> set (m_finalizers (RemoveFinalizer f m))"
  "g \<noteq> f \<Longrightarrow> g \<in> set (m_finalizers (RemoveFinalizer f m)) \<longleftrightarrow> g \<in> set (m_finalizers m)"
  by (auto simp: AddFinalizer_def RemoveFinalizer_def)

lemma csk_conditions_simps [simp]:
  "csk_meta (csk_conditions f s) = csk_meta s"
  "csk_spec (csk_conditions f s) = csk_spec s"
  "st_conditions (csk_status (csk_conditions f s)) = f (st_conditions (csk_status s))"
  "st_latestRelease (csk_status (csk_conditions f s)) = st_latestRelease (csk_status s)"
  "st_summary (csk_status (csk_conditions f s)) = st_summary (csk_status s)"
  "st_usableVersions (csk_status (csk_conditions f s)) = st_usableVersions (csk_status s)"
  by (simp_all add: csk_conditions_def)

lemma csr_conditions_simps [simp]:
  "csr_meta (csr_conditions f r) = csr_meta r"
  "csr_providerRef (csr_conditions f r) = csr_providerRef r"
  "rs_conditions (csr_status (csr_conditions f r)) = f (rs_conditions (csr_status r))"
  "rs_ready (csr_status (csr_conditions f r)) = rs_ready (csr_status r)"
  "rs_resources (csr_status (csr_conditions f r)) = rs_resources (csr_status r)"
  "rs_kubernetesVersion (csr_status (csr_conditions f r)) = rs_kubernetesVersion (csr_status r)"
  by (simp_all add: csr_conditions_def)

lemma ca_conditions_simps [simp]:
  "ca_meta (ca_conditions f a) = ca_meta a"
  "ca_spec (ca_conditions f a) = ca_spec a"
  "as_conditions (ca_status (ca_conditions f a)) = f (as_conditions (ca_status a))"
  "as_resources (ca_status (ca_conditions f a)) = as_resources (ca_status a)"
  "as_stages (ca_status (ca_conditions f a)) = as_stages (ca_status a)"
  "as_ready (ca_status (ca_conditions f a)) = as_ready (ca_status a)"
  by (simp_all add: ca_conditions_def)

lemma resource_of_object_key:
  "NewResourceFromUnstructured (Some u) = Some r \<Longrightarrow> resource_key r = object_key u"
  by (auto simp: NewResourceFromUnstructured_def resource_key_def object_key_def)

text \<open>
  The stage annotation is written once: whatever the addon is marked with afterwards, it
  keeps the first value, and it has that value and no other.
\<close>

theorem stage_annotation_first_wins:
  assumes "map_of (m_annotations (ca_meta a)) StageAnnotation = None"
  shows "HasStageAnnotation x (SetStageAnnotations w (SetStageAnnotations v a)) \<longleftrightarrow> x = v"
  using assms by (auto simp: SetStageAnnotations_def HasStageAnnotation_def update_conv')

definition fresh_addon :: ClusterAddon where
  "fresh_addon = \<lparr>ca_meta = empty_meta,
     ca_spec = \<lparr>cas_clusterStack = [], cas_version = [], cas_hook = [], cas_clusterRef = None\<rparr>,
     ca_status = \<lparr>as_resources = [], as_stages = [], as_ready = False, as_conditions = []\<rparr>\<rparr>"

theorem stage_annotation_first_wins_witness:
  "HasStageAnnotation StageAnnotationValueCreated
     (SetStageAnnotations StageAnnotationValueUpgraded
       (SetStageAnnotations StageAnnotationValueCreated fresh_addon))"
  using stage_annotation_first_wins[of fresh_addon StageAnnotationValueCreated
      StageAnnotationValueUpgraded StageAnnotationValueCreated]
  by (simp add: fresh_addon_def empty_meta_def)

end
