(* ===== verification/Memory.thy ===== *)
theory Memory
  imports ApiTypes
begin

text \<open>
  An explicit memory for the API types, and what it means that a function copies deeply. The rest of
  the development has objects as values; here they are laid out as in memory, with addresses for
  pointers, slices and maps, so that sharing can be expressed. The locale \<open>deep_copier\<close> is the
  contract, with a rule for each of the idioms the generated functions are made of.
\<close>

section \<open>Layout\<close>

text \<open>
  A type with pointers is a record that leaves open what stands for the contents of the pointers:
  in memory an address, or \<open>None\<close> for nil, and in a view of the memory what is found there. A slice
  is the address of its elements, all of them, and a map that of its entries.
\<close>

type_synonym addr = nat

record 'flag owner_layout = OwnerReference +
  ol_controller :: 'flag
  ol_blockOwnerDeletion :: 'flag

record 'bytes fields_layout =
  fl_raw :: 'bytes

record ('time, 'fields) managed_layout =
  mf_manager :: string
  mf_operation :: string
  mf_apiVersion :: string
  mf_time :: 'time
  mf_fieldsType :: string
  mf_fieldsV1 :: 'fields
  mf_subresource :: string

record ('time, 'number, 'entries, 'owners, 'strings, 'managed) meta_layout =
  ml_name :: string
  ml_namespace :: string
  ml_uid :: string
  ml_deletionTimestamp :: 'time
  ml_deletionGracePeriodSeconds :: 'number
  ml_labels :: 'entries
  ml_annotations :: 'entries
  ml_ownerReferences :: 'owners
  ml_finalizers :: 'strings
  ml_managedFields :: 'managed

record ('meta, 'spec, 'status) object_layout =
  ob_typeMeta :: "string \<times> string"
  ob_objectMeta :: 'meta
  ob_spec :: 'spec
  ob_status :: 'status

record ('number, 'items) list_layout =
  ll_typeMeta :: "string \<times> string"
  ll_resourceVersion :: string
  ll_remainingItemCount :: 'number
  ll_items :: 'items

record 'reference addon_spec =
  adp_clusterStack :: string
  adp_version :: string
  adp_hook :: string
  adp_clusterRef :: 'reference

record ('resources, 'stages, 'conditions) addon_status =
  adt_resources :: 'resources
  adt_stages :: 'stages
  adt_ready :: bool
  adt_conditions :: 'conditions

record ('versions, 'reference) stack_spec =
  skp_provider :: string
  skp_name :: string
  skp_kubernetesVersion :: string
  skp_channel :: Channel
  skp_versions :: 'versions
  skp_autoSubscribe :: bool
  skp_noProvider :: bool
  skp_providerRef :: 'reference

record ('summary, 'conditions) stack_status =
  skt_latestRelease :: string
  skt_summary :: 'summary
  skt_usableVersions :: string
  skt_conditions :: 'conditions

record 'reference release_spec =
  rlp_providerRef :: 'reference

record ('resources, 'conditions) release_status =
  rlt_resources :: 'resources
  rlt_kubernetesVersion :: string
  rlt_ready :: bool
  rlt_conditions :: 'conditions

type_synonym pointer = "addr option"

type_synonym mem_meta = "(pointer, pointer, pointer, pointer, pointer, pointer) meta_layout"
type_synonym mem_addon = "(mem_meta, pointer addon_spec, (pointer, pointer, pointer) addon_status) object_layout"
type_synonym mem_stack = "(mem_meta, (pointer, pointer) stack_spec, (pointer, pointer) stack_status) object_layout"
type_synonym mem_release = "(mem_meta, pointer release_spec, (pointer, pointer) release_status) object_layout"
type_synonym mem_list = "(pointer, pointer) list_layout"

datatype cell =
    FlagCell bool
  | NumberCell int
  | TimeCell string
  | EntriesCell "(string \<times> string) list"
  | OwnersCell "pointer owner_layout list"
  | StringsCell "string list"
  | BytesCell string
  | FieldsCell "pointer fields_layout"
  | ManagedCell "(pointer, pointer) managed_layout list"
  | ReferenceCell ObjectReference
  | ResourceCell Resource
  | ResourcesCell "pointer list"
  | StageCell StageStatus
  | StagesCell "StageStatus list"
  | ConditionsCell "Condition list"
  | SummaryCell ClusterStackReleaseSummary
  | SummariesCell "ClusterStackReleaseSummary list"
  | AddonSpecCell "pointer addon_spec"
  | AddonStatusCell "(pointer, pointer, pointer) addon_status"
  | AddonCell mem_addon
  | AddonsCell "mem_addon list"
  | AddonListCell mem_list
  | StackSpecCell "(pointer, pointer) stack_spec"
  | StackStatusCell "(pointer, pointer) stack_status"
  | StackCell mem_stack
  | StacksCell "mem_stack list"
  | StackListCell mem_list
  | ReleaseSpecCell "pointer release_spec"
  | ReleaseStatusCell "(pointer, pointer) release_status"
  | ReleaseCell mem_release
  | ReleasesCell "mem_release list"
  | ReleaseListCell mem_list

section \<open>Memory\<close>

text \<open>Addresses below \<open>mem_next\<close> are allocated.\<close>

record memory =
  mem_next :: addr
  mem_cell :: "addr \<Rightarrow> cell"

definition alloc :: "cell \<Rightarrow> memory \<Rightarrow> addr \<times> memory" where
  "alloc c h = (mem_next h, h\<lparr>mem_next := Suc (mem_next h), mem_cell := (mem_cell h)(mem_next h := c)\<rparr>)"

text \<open>\<open>grows h h'\<close>: the memory \<open>h'\<close> has all cells of \<open>h\<close>, unchanged.\<close>

definition mem_grows :: "memory \<Rightarrow> memory \<Rightarrow> bool" where
  "mem_grows h h' \<longleftrightarrow> mem_next h \<le> mem_next h' \<and> (\<forall>a<mem_next h. mem_cell h' a = mem_cell h a)"

lemma mem_grows_refl [simp]: "mem_grows h h"
  by (simp add: mem_grows_def)

lemma mem_grows_trans: "mem_grows h h' \<Longrightarrow> mem_grows h' h'' \<Longrightarrow> mem_grows h h''"
  by (auto simp: mem_grows_def)

lemma mem_grows_alloc: "alloc c h = (a, h') \<Longrightarrow> mem_grows h h' \<and> a = mem_next h \<and> mem_next h' = Suc a \<and> mem_cell h' a = c"
  by (auto simp: alloc_def mem_grows_def)

section \<open>Copying\<close>

text \<open>
  What the generated functions do with a field: a value is assigned, a slice of structs is copied
  element by element, and for a pointer, a slice or a map that is not nil a new cell is made whose
  contents are copied from the old one. \<open>get\<close> is the type of the cell; the last line is for a memory
  that is not well typed and is never reached.
\<close>

type_synonym 'm copier = "'m \<Rightarrow> memory \<Rightarrow> 'm \<times> memory"

definition assign :: "'m copier" where
  "assign x h = (x, h)"

fun copy_each :: "'m copier \<Rightarrow> 'm list copier" where
  "copy_each into [] h = ([], h)"
| "copy_each into (x # xs) h =
     (let (y, h) = into x h; (ys, h) = copy_each into xs h in (y # ys, h))"

definition copy_new ::
    "('m \<Rightarrow> cell) \<Rightarrow> (cell \<Rightarrow> 'm option) \<Rightarrow> 'm copier \<Rightarrow> pointer copier" where
  "copy_new put get into p h =
     (case p of
        None \<Rightarrow> (None, h)
      | Some a \<Rightarrow>
          (case get (mem_cell h a) of
             Some x \<Rightarrow> (let (y, h) = into x h; (b, h) = alloc (put y) h in (Some b, h))
           | None \<Rightarrow> (None, h)))"

definition copy_pair :: "'a copier \<Rightarrow> 'b copier \<Rightarrow> ('a \<times> 'b) copier" where
  "copy_pair f g xy h = (let (x, h) = f (fst xy) h; (y, h) = g (snd xy) h in ((x, y), h))"

section \<open>The contract of a deep copy\<close>

text \<open>
  \<open>view h x\<close> is the value \<open>x\<close> stands for in the memory, \<open>cells h x\<close> the cells it is made of, and \<open>fit\<close>
  says that they are allocated and of the right type.
\<close>

locale deep_copier =
  fixes into :: "'m copier"
    and view :: "memory \<Rightarrow> 'm \<Rightarrow> 'v"
    and cells :: "memory \<Rightarrow> 'm \<Rightarrow> addr set"
    and fit :: "memory \<Rightarrow> 'm \<Rightarrow> bool"
  assumes copied: "fit h x \<Longrightarrow> into x h = (y, h') \<Longrightarrow>
      mem_grows h h' \<and> fit h' y \<and> view h' y = view h x \<and> cells h' y \<subseteq> {mem_next h..<mem_next h'}"
    and allocated: "fit h x \<Longrightarrow> cells h x \<subseteq> {..<mem_next h}"
    and local: "fit h x \<Longrightarrow> mem_next h \<le> mem_next h' \<Longrightarrow> \<forall>a\<in>cells h x. mem_cell h' a = mem_cell h a \<Longrightarrow>
      fit h' x \<and> view h' x = view h x \<and> cells h' x = cells h x"
begin

lemma kept: "fit h x \<Longrightarrow> mem_grows h h' \<Longrightarrow> fit h' x \<and> view h' x = view h x \<and> cells h' x = cells h x"
  using local[of h x h'] allocated[of h x] by (auto simp: mem_grows_def)

text \<open>Whatever is written to the cells made by the copy, or after it, the original does not change.\<close>

lemma original_isolated:
  assumes "fit h x" and "into x h = (y, h')" and "mem_next h' \<le> mem_next h''"
    and "\<forall>a<mem_next h. mem_cell h'' a = mem_cell h' a"
  shows "view h'' x = view h x"
proof -
  have "mem_grows h h''" using copied[OF assms(1,2)] assms(3,4) by (auto simp: mem_grows_def)
  then show ?thesis using kept assms(1) by blast
qed

lemma copy_isolated:
  assumes "fit h x" and "into x h = (y, h')" and "mem_next h' \<le> mem_next h''"
    and "\<forall>a. mem_next h \<le> a \<and> a < mem_next h' \<longrightarrow> mem_cell h'' a = mem_cell h' a"
  shows "view h'' y = view h x"
proof -
  have c: "fit h' y" "view h' y = view h x" "cells h' y \<subseteq> {mem_next h..<mem_next h'}"
    using copied[OF assms(1,2)] by auto
  then have "\<forall>a\<in>cells h' y. mem_cell h'' a = mem_cell h' a" using assms(4) by auto
  then show ?thesis using local[OF c(1) assms(3)] c(2) by simp
qed

end

lemma copier_assign: "deep_copier assign (\<lambda>h x. x) (\<lambda>h x. {}) (\<lambda>h x. True)"
  by unfold_locales (auto simp: assign_def)

lemma copier_pair:
  assumes "deep_copier f fv fk ff" and "deep_copier g gv gk gf"
  shows "deep_copier (copy_pair f g) (\<lambda>h xy. (fv h (fst xy), gv h (snd xy)))
    (\<lambda>h xy. fk h (fst xy) \<union> gk h (snd xy)) (\<lambda>h xy. ff h (fst xy) \<and> gf h (snd xy))"
proof
  fix h xy z h'
  assume fit: "ff h (fst xy) \<and> gf h (snd xy)" and run: "copy_pair f g xy h = (z, h')"
  obtain x1 h1 where 1: "f (fst xy) h = (x1, h1)" by fastforce
  obtain y1 where 2: "g (snd xy) h1 = (y1, h')" and z: "z = (x1, y1)"
    using run 1 by (auto simp: copy_pair_def split: prod.splits)
  have c1: "mem_grows h h1" "ff h1 x1" "fv h1 x1 = fv h (fst xy)" "fk h1 x1 \<subseteq> {mem_next h..<mem_next h1}"
    using deep_copier.copied[OF assms(1) _ 1] fit by auto
  have g1: "gf h1 (snd xy)" "gv h1 (snd xy) = gv h (snd xy)"
    using deep_copier.kept[OF assms(2) _ c1(1)] fit by auto
  have c2: "mem_grows h1 h'" "gf h' y1" "gv h' y1 = gv h1 (snd xy)" "gk h' y1 \<subseteq> {mem_next h1..<mem_next h'}"
    using deep_copier.copied[OF assms(2) g1(1) 2] by auto
  have k1: "ff h' x1" "fv h' x1 = fv h1 x1" "fk h' x1 = fk h1 x1"
    using deep_copier.kept[OF assms(1) c1(2) c2(1)] by auto
  have le: "mem_next h \<le> mem_next h1" "mem_next h1 \<le> mem_next h'" using c1(1) c2(1) by (auto simp: mem_grows_def)
  have "fk h' x1 \<union> gk h' y1 \<subseteq> {mem_next h..<mem_next h'}"
    using c1(4) c2(4) k1(3) le by fastforce
  then show "mem_grows h h' \<and> (ff h' (fst z) \<and> gf h' (snd z)) \<and>
      (fv h' (fst z), gv h' (snd z)) = (fv h (fst xy), gv h (snd xy)) \<and>
      fk h' (fst z) \<union> gk h' (snd z) \<subseteq> {mem_next h..<mem_next h'}"
    using z c1 c2 k1 g1 mem_grows_trans[OF c1(1) c2(1)] by simp
next
  fix h xy
  show "ff h (fst xy) \<and> gf h (snd xy) \<Longrightarrow> fk h (fst xy) \<union> gk h (snd xy) \<subseteq> {..<mem_next h}"
    using deep_copier.allocated[OF assms(1)] deep_copier.allocated[OF assms(2)] by simp
next
  fix h h' :: memory and xy
  assume fit: "ff h (fst xy) \<and> gf h (snd xy)" and le: "mem_next h \<le> mem_next h'"
    and same: "\<forall>a\<in>fk h (fst xy) \<union> gk h (snd xy). mem_cell h' a = mem_cell h a"
  have "ff h' (fst xy) \<and> fv h' (fst xy) = fv h (fst xy) \<and> fk h' (fst xy) = fk h (fst xy)"
    using deep_copier.local[OF assms(1) _ le] fit same by simp
  moreover have "gf h' (snd xy) \<and> gv h' (snd xy) = gv h (snd xy) \<and> gk h' (snd xy) = gk h (snd xy)"
    using deep_copier.local[OF assms(2) _ le] fit same by simp
  ultimately show "(ff h' (fst xy) \<and> gf h' (snd xy)) \<and>
      (fv h' (fst xy), gv h' (snd xy)) = (fv h (fst xy), gv h (snd xy)) \<and>
      fk h' (fst xy) \<union> gk h' (snd xy) = fk h (fst xy) \<union> gk h (snd xy)"
    by simp
qed

text \<open>A struct copies its fields one after the other; \<open>parts\<close> are those with pointers.\<close>

lemma copier_struct:
  assumes "deep_copier into view cells fit"
    and "\<And>s h. struct s h = (let (x, h) = into (parts s) h in (upd x s, h))"
    and "\<And>x s. parts (upd x s) = x" and "\<And>x s v. build (upd x s) v = build s v"
  shows "deep_copier struct (\<lambda>h s. build s (view h (parts s))) (\<lambda>h s. cells h (parts s)) (\<lambda>h s. fit h (parts s))"
proof
  fix h s t h'
  assume fit: "fit h (parts s)" and run: "struct s h = (t, h')"
  obtain x where x: "into (parts s) h = (x, h')" "t = upd x s"
    using run by (auto simp: assms(2) split: prod.splits)
  show "mem_grows h h' \<and> fit h' (parts t) \<and> build t (view h' (parts t)) = build s (view h (parts s)) \<and>
      cells h' (parts t) \<subseteq> {mem_next h..<mem_next h'}"
    using deep_copier.copied[OF assms(1) fit x(1)] x(2) assms(3,4) by simp
next
  fix h s
  show "fit h (parts s) \<Longrightarrow> cells h (parts s) \<subseteq> {..<mem_next h}"
    by (rule deep_copier.allocated[OF assms(1)])
next
  fix h h' :: memory and s
  assume "fit h (parts s)" "mem_next h \<le> mem_next h'" "\<forall>a\<in>cells h (parts s). mem_cell h' a = mem_cell h a"
  from deep_copier.local[OF assms(1) this]
  show "fit h' (parts s) \<and> build s (view h' (parts s)) = build s (view h (parts s)) \<and>
      cells h' (parts s) = cells h (parts s)" by simp
qed

lemma copier_each:
  assumes "deep_copier into view cells fit"
  shows "deep_copier (copy_each into) (\<lambda>h. map (view h)) (\<lambda>h xs. \<Union>x\<in>set xs. cells h x) (\<lambda>h xs. \<forall>x\<in>set xs. fit h x)"
proof
  show "mem_grows h h' \<and> (\<forall>y\<in>set ys. fit h' y) \<and> map (view h') ys = map (view h) xs \<and>
      (\<Union>y\<in>set ys. cells h' y) \<subseteq> {mem_next h..<mem_next h'}"
    if "\<forall>x\<in>set xs. fit h x" and "copy_each into xs h = (ys, h')" for h xs ys h'
    using that
  proof (induction xs arbitrary: h ys)
    case Nil
    then show ?case by simp
  next
    case (Cons x xs)
    obtain y h1 where 1: "into x h = (y, h1)" by fastforce
    obtain zs where 2: "copy_each into xs h1 = (zs, h')" and ys: "ys = y # zs"
      using Cons.prems(2) 1 by (auto split: prod.splits)
    have c1: "mem_grows h h1" "fit h1 y" "view h1 y = view h x" "cells h1 y \<subseteq> {mem_next h..<mem_next h1}"
      using deep_copier.copied[OF assms _ 1] Cons.prems(1) by auto
    have rest: "fit h1 z \<and> view h1 z = view h z" if "z \<in> set xs" for z
      using deep_copier.kept[OF assms _ c1(1)] Cons.prems(1) that by simp
    have c2: "mem_grows h1 h'" "\<forall>z\<in>set zs. fit h' z" "map (view h') zs = map (view h1) xs"
      "(\<Union>z\<in>set zs. cells h' z) \<subseteq> {mem_next h1..<mem_next h'}"
      using Cons.IH[OF _ 2] rest by auto
    have k1: "fit h' y" "view h' y = view h1 y" "cells h' y = cells h1 y"
      using deep_copier.kept[OF assms c1(2) c2(1)] by auto
    have le: "mem_next h \<le> mem_next h1" "mem_next h1 \<le> mem_next h'" using c1(1) c2(1) by (auto simp: mem_grows_def)
    have "(\<Union>z\<in>set ys. cells h' z) \<subseteq> {mem_next h..<mem_next h'}"
      using c1(4) c2(4) k1(3) le by (fastforce simp: ys)
    then show ?case using c1 c2 k1 rest ys mem_grows_trans[OF c1(1) c2(1)] by simp
  qed
next
  fix h xs
  show "\<forall>x\<in>set xs. fit h x \<Longrightarrow> (\<Union>x\<in>set xs. cells h x) \<subseteq> {..<mem_next h}"
    using deep_copier.allocated[OF assms] by blast
next
  fix h h' :: memory and xs
  assume fit: "\<forall>x\<in>set xs. fit h x" and le: "mem_next h \<le> mem_next h'"
    and same: "\<forall>a\<in>(\<Union>x\<in>set xs. cells h x). mem_cell h' a = mem_cell h a"
  have "fit h' x \<and> view h' x = view h x \<and> cells h' x = cells h x" if "x \<in> set xs" for x
    using deep_copier.local[OF assms _ le] fit same that by blast
  then show "(\<forall>x\<in>set xs. fit h' x) \<and> map (view h') xs = map (view h) xs \<and>
      (\<Union>x\<in>set xs. cells h' x) = (\<Union>x\<in>set xs. cells h x)"
    by simp
qed

definition new_view :: "(cell \<Rightarrow> 'm option) \<Rightarrow> (memory \<Rightarrow> 'm \<Rightarrow> 'v) \<Rightarrow> memory \<Rightarrow> pointer \<Rightarrow> 'v option" where
  "new_view get view h p = map_option (\<lambda>a. view h (the (get (mem_cell h a)))) p"

definition new_cells :: "(cell \<Rightarrow> 'm option) \<Rightarrow> (memory \<Rightarrow> 'm \<Rightarrow> addr set) \<Rightarrow> memory \<Rightarrow> pointer \<Rightarrow> addr set" where
  "new_cells get cells h p = (case p of None \<Rightarrow> {} | Some a \<Rightarrow> insert a (cells h (the (get (mem_cell h a)))))"

definition new_fit :: "(cell \<Rightarrow> 'm option) \<Rightarrow> (memory \<Rightarrow> 'm \<Rightarrow> bool) \<Rightarrow> memory \<Rightarrow> pointer \<Rightarrow> bool" where
  "new_fit get fit h p = (case p of None \<Rightarrow> True
     | Some a \<Rightarrow> a < mem_next h \<and> (case get (mem_cell h a) of None \<Rightarrow> False | Some x \<Rightarrow> fit h x))"

lemma copier_new:
  assumes "deep_copier into view cells fit" and "\<And>x. get (put x) = Some x"
  shows "deep_copier (copy_new put get into) (new_view get view) (new_cells get cells) (new_fit get fit)"
proof
  fix h p q h'
  assume fit: "new_fit get fit h p" and run: "copy_new put get into p h = (q, h')"
  show "mem_grows h h' \<and> new_fit get fit h' q \<and> new_view get view h' q = new_view get view h p \<and>
      new_cells get cells h' q \<subseteq> {mem_next h..<mem_next h'}"
  proof (cases p)
    case None
    then show ?thesis using run by (auto simp: copy_new_def new_fit_def new_view_def new_cells_def)
  next
    case (Some a)
    then obtain x where x: "get (mem_cell h a) = Some x" "fit h x"
      using fit by (auto simp: new_fit_def split: option.splits)
    obtain y h1 where 1: "into x h = (y, h1)" by fastforce
    obtain b where 2: "alloc (put y) h1 = (b, h')" and q: "q = Some b"
      using run Some x(1) 1 by (auto simp: copy_new_def split: prod.splits)
    have c1: "mem_grows h h1" "fit h1 y" "view h1 y = view h x" "cells h1 y \<subseteq> {mem_next h..<mem_next h1}"
      using deep_copier.copied[OF assms(1) x(2) 1] by auto
    have c2: "mem_grows h1 h'" "b = mem_next h1" "mem_next h' = Suc b" "mem_cell h' b = put y"
      using mem_grows_alloc[OF 2] by auto
    have k: "fit h' y" "view h' y = view h1 y" "cells h' y = cells h1 y"
      using deep_copier.kept[OF assms(1) c1(2) c2(1)] by auto
    have "mem_next h \<le> mem_next h1" using c1(1) by (simp add: mem_grows_def)
    then have "insert b (cells h' y) \<subseteq> {mem_next h..<mem_next h'}"
      using c1(4) c2(2,3) k(3) by auto
    then show ?thesis
      using Some x q c1 c2 k mem_grows_trans[OF c1(1) c2(1)] assms(2)
      by (simp add: new_fit_def new_view_def new_cells_def)
  qed
next
  fix h p
  show "new_fit get fit h p \<Longrightarrow> new_cells get cells h p \<subseteq> {..<mem_next h}"
    using deep_copier.allocated[OF assms(1)]
    by (fastforce simp: new_fit_def new_cells_def split: option.splits)
next
  fix h h' :: memory and p
  assume fit: "new_fit get fit h p" and le: "mem_next h \<le> mem_next h'"
    and same: "\<forall>a\<in>new_cells get cells h p. mem_cell h' a = mem_cell h a"
  show "new_fit get fit h' p \<and> new_view get view h' p = new_view get view h p \<and>
      new_cells get cells h' p = new_cells get cells h p"
  proof (cases p)
    case None
    then show ?thesis by (simp add: new_fit_def new_view_def new_cells_def)
  next
    case (Some a)
    then obtain x where x: "a < mem_next h" "get (mem_cell h a) = Some x" "fit h x"
      using fit by (auto simp: new_fit_def split: option.splits)
    have a: "mem_cell h' a = mem_cell h a" and k: "\<forall>b\<in>cells h x. mem_cell h' b = mem_cell h b"
      using same Some x(2) by (simp_all add: new_cells_def)
    from deep_copier.local[OF assms(1) x(3) le k] show ?thesis
      using Some x a le by (simp add: new_fit_def new_view_def new_cells_def)
  qed
qed

end
