(* ===== verification/DeepCopy.thy ===== *)
theory DeepCopy
  imports Memory
begin

text \<open>
  The deep copies of the API types (\<open>api/v1alpha1/zz_generated.deepcopy.go\<close>, and of the vendored
  \<open>meta/v1\<close> package those of the metadata). A controller changes the copy the client gives it, among
  others the resources its status points to, while the cache keeps the original.
\<close>

section \<open>Typed cells\<close>

named_theorems cell_types

definition flag_in :: "cell \<Rightarrow> bool option" where
  [cell_types]: "flag_in c = (case c of FlagCell x \<Rightarrow> Some x | _ \<Rightarrow> None)"

definition number_in :: "cell \<Rightarrow> int option" where
  [cell_types]: "number_in c = (case c of NumberCell x \<Rightarrow> Some x | _ \<Rightarrow> None)"

definition time_in :: "cell \<Rightarrow> string option" where
  [cell_types]: "time_in c = (case c of TimeCell x \<Rightarrow> Some x | _ \<Rightarrow> None)"

definition entries_in :: "cell \<Rightarrow> (string \<times> string) list option" where
  [cell_types]: "entries_in c = (case c of EntriesCell x \<Rightarrow> Some x | _ \<Rightarrow> None)"

definition owners_in :: "cell \<Rightarrow> pointer owner_layout list option" where
  [cell_types]: "owners_in c = (case c of OwnersCell x \<Rightarrow> Some x | _ \<Rightarrow> None)"

definition strings_in :: "cell \<Rightarrow> string list option" where
  [cell_types]: "strings_in c = (case c of StringsCell x \<Rightarrow> Some x | _ \<Rightarrow> None)"

definition bytes_in :: "cell \<Rightarrow> string option" where
  [cell_types]: "bytes_in c = (case c of BytesCell x \<Rightarrow> Some x | _ \<Rightarrow> None)"

definition fields_in :: "cell \<Rightarrow> pointer fields_layout option" where
  [cell_types]: "fields_in c = (case c of FieldsCell x \<Rightarrow> Some x | _ \<Rightarrow> None)"

definition managed_in :: "cell \<Rightarrow> (pointer, pointer) managed_layout list option" where
  [cell_types]: "managed_in c = (case c of ManagedCell x \<Rightarrow> Some x | _ \<Rightarrow> None)"

definition reference_in :: "cell \<Rightarrow> ObjectReference option" where
  [cell_types]: "reference_in c = (case c of ReferenceCell x \<Rightarrow> Some x | _ \<Rightarrow> None)"

definition resource_in :: "cell \<Rightarrow> Resource option" where
  [cell_types]: "resource_in c = (case c of ResourceCell x \<Rightarrow> Some x | _ \<Rightarrow> None)"

definition resources_in :: "cell \<Rightarrow> pointer list option" where
  [cell_types]: "resources_in c = (case c of ResourcesCell x \<Rightarrow> Some x | _ \<Rightarrow> None)"

definition stage_in :: "cell \<Rightarrow> StageStatus option" where
  [cell_types]: "stage_in c = (case c of StageCell x \<Rightarrow> Some x | _ \<Rightarrow> None)"

definition stages_in :: "cell \<Rightarrow> StageStatus list option" where
  [cell_types]: "stages_in c = (case c of StagesCell x \<Rightarrow> Some x | _ \<Rightarrow> None)"

definition conditions_in :: "cell \<Rightarrow> Condition list option" where
  [cell_types]: "conditions_in c = (case c of ConditionsCell x \<Rightarrow> Some x | _ \<Rightarrow> None)"

definition summary_in :: "cell \<Rightarrow> ClusterStackReleaseSummary option" where
  [cell_types]: "summary_in c = (case c of SummaryCell x \<Rightarrow> Some x | _ \<Rightarrow> None)"

definition summaries_in :: "cell \<Rightarrow> ClusterStackReleaseSummary list option" where
  [cell_types]: "summaries_in c = (case c of SummariesCell x \<Rightarrow> Some x | _ \<Rightarrow> None)"

definition addon_spec_in :: "cell \<Rightarrow> pointer addon_spec option" where
  [cell_types]: "addon_spec_in c = (case c of AddonSpecCell x \<Rightarrow> Some x | _ \<Rightarrow> None)"

definition addon_status_in :: "cell \<Rightarrow> (pointer, pointer, pointer) addon_status option" where
  [cell_types]: "addon_status_in c = (case c of AddonStatusCell x \<Rightarrow> Some x | _ \<Rightarrow> None)"

definition addon_in :: "cell \<Rightarrow> mem_addon option" where
  [cell_types]: "addon_in c = (case c of AddonCell x \<Rightarrow> Some x | _ \<Rightarrow> None)"

definition addons_in :: "cell \<Rightarrow> mem_addon list option" where
  [cell_types]: "addons_in c = (case c of AddonsCell x \<Rightarrow> Some x | _ \<Rightarrow> None)"

definition addon_list_in :: "cell \<Rightarrow> mem_list option" where
  [cell_types]: "addon_list_in c = (case c of AddonListCell x \<Rightarrow> Some x | _ \<Rightarrow> None)"

definition stack_spec_in :: "cell \<Rightarrow> (pointer, pointer) stack_spec option" where
  [cell_types]: "stack_spec_in c = (case c of StackSpecCell x \<Rightarrow> Some x | _ \<Rightarrow> None)"

definition stack_status_in :: "cell \<Rightarrow> (pointer, pointer) stack_status option" where
  [cell_types]: "stack_status_in c = (case c of StackStatusCell x \<Rightarrow> Some x | _ \<Rightarrow> None)"

definition stack_in :: "cell \<Rightarrow> mem_stack option" where
  [cell_types]: "stack_in c = (case c of StackCell x \<Rightarrow> Some x | _ \<Rightarrow> None)"

definition stacks_in :: "cell \<Rightarrow> mem_stack list option" where
  [cell_types]: "stacks_in c = (case c of StacksCell x \<Rightarrow> Some x | _ \<Rightarrow> None)"

definition stack_list_in :: "cell \<Rightarrow> mem_list option" where
  [cell_types]: "stack_list_in c = (case c of StackListCell x \<Rightarrow> Some x | _ \<Rightarrow> None)"

definition release_spec_in :: "cell \<Rightarrow> pointer release_spec option" where
  [cell_types]: "release_spec_in c = (case c of ReleaseSpecCell x \<Rightarrow> Some x | _ \<Rightarrow> None)"

definition release_status_in :: "cell \<Rightarrow> (pointer, pointer) release_status option" where
  [cell_types]: "release_status_in c = (case c of ReleaseStatusCell x \<Rightarrow> Some x | _ \<Rightarrow> None)"

definition release_in :: "cell \<Rightarrow> mem_release option" where
  [cell_types]: "release_in c = (case c of ReleaseCell x \<Rightarrow> Some x | _ \<Rightarrow> None)"

definition releases_in :: "cell \<Rightarrow> mem_release list option" where
  [cell_types]: "releases_in c = (case c of ReleasesCell x \<Rightarrow> Some x | _ \<Rightarrow> None)"

definition release_list_in :: "cell \<Rightarrow> mem_list option" where
  [cell_types]: "release_list_in c = (case c of ReleaseListCell x \<Rightarrow> Some x | _ \<Rightarrow> None)"

section \<open>The generated functions\<close>

text \<open>
  \<open>DeepCopyInto\<close> takes the value behind \<open>in\<close> and gives the value it leaves in \<open>out\<close>; \<open>*out = *in\<close> is
  the record it starts from. \<open>DeepCopy\<close> gives a pointer to a new cell, and nil for nil.
\<close>

definition copy_slice ::
    "('m list \<Rightarrow> cell) \<Rightarrow> (cell \<Rightarrow> 'm list option) \<Rightarrow> 'm copier \<Rightarrow> pointer copier" where
  "copy_slice put get into = copy_new put get (copy_each into)"

definition OwnerReference_DeepCopyInto :: "pointer owner_layout copier" where
  "OwnerReference_DeepCopyInto in' h =
     (let (controller, h) = copy_new FlagCell flag_in assign (ol_controller in') h;
          (block, h) = copy_new FlagCell flag_in assign (ol_blockOwnerDeletion in') h
      in (in'\<lparr>ol_controller := controller, ol_blockOwnerDeletion := block\<rparr>, h))"

definition FieldsV1_DeepCopyInto :: "pointer fields_layout copier" where
  "FieldsV1_DeepCopyInto in' h =
     (let (raw, h) = copy_new BytesCell bytes_in assign (fl_raw in') h
      in (in'\<lparr>fl_raw := raw\<rparr>, h))"

definition ManagedFieldsEntry_DeepCopyInto :: "(pointer, pointer) managed_layout copier" where
  "ManagedFieldsEntry_DeepCopyInto in' h =
     (let (time, h) = copy_new TimeCell time_in assign (mf_time in') h;
          (managed, h) = copy_new FieldsCell fields_in FieldsV1_DeepCopyInto (mf_fieldsV1 in') h
      in (in'\<lparr>mf_time := time, mf_fieldsV1 := managed\<rparr>, h))"

definition ObjectMeta_DeepCopyInto :: "mem_meta copier" where
  "ObjectMeta_DeepCopyInto in' h =
     (let (time, h) = copy_new TimeCell time_in assign (ml_deletionTimestamp in') h;
          (grace, h) = copy_new NumberCell number_in assign (ml_deletionGracePeriodSeconds in') h;
          (labels, h) = copy_new EntriesCell entries_in assign (ml_labels in') h;
          (annotations, h) = copy_new EntriesCell entries_in assign (ml_annotations in') h;
          (owners, h) = copy_slice OwnersCell owners_in OwnerReference_DeepCopyInto (ml_ownerReferences in') h;
          (finalizers, h) = copy_new StringsCell strings_in assign (ml_finalizers in') h;
          (managed, h) = copy_slice ManagedCell managed_in ManagedFieldsEntry_DeepCopyInto (ml_managedFields in') h
      in (in'\<lparr>ml_deletionTimestamp := time, ml_deletionGracePeriodSeconds := grace, ml_labels := labels,
            ml_annotations := annotations, ml_ownerReferences := owners, ml_finalizers := finalizers,
            ml_managedFields := managed\<rparr>, h))"

definition object_DeepCopyInto ::
    "'spec copier \<Rightarrow> 'status copier \<Rightarrow> (mem_meta, 'spec, 'status) object_layout copier" where
  "object_DeepCopyInto spec_into status_into in' h =
     (let (meta, h) = ObjectMeta_DeepCopyInto (ob_objectMeta in') h;
          (spec, h) = spec_into (ob_spec in') h;
          (status, h) = status_into (ob_status in') h
      in (in'\<lparr>ob_objectMeta := meta, ob_spec := spec, ob_status := status\<rparr>, h))"

definition list_DeepCopyInto ::
    "('m list \<Rightarrow> cell) \<Rightarrow> (cell \<Rightarrow> 'm list option) \<Rightarrow> 'm copier \<Rightarrow> mem_list copier" where
  "list_DeepCopyInto put get into in' h =
     (let (number, h) = copy_new NumberCell number_in assign (ll_remainingItemCount in') h;
          (items, h) = copy_slice put get into (ll_items in') h
      in (in'\<lparr>ll_remainingItemCount := number, ll_items := items\<rparr>, h))"

definition Resource_DeepCopyInto :: "Resource copier" where
  "Resource_DeepCopyInto in' h = (in', h)"

definition Resource_DeepCopy :: "pointer copier" where
  "Resource_DeepCopy = copy_new ResourceCell resource_in Resource_DeepCopyInto"

definition StageStatus_DeepCopyInto :: "StageStatus copier" where
  "StageStatus_DeepCopyInto in' h = (in', h)"

definition StageStatus_DeepCopy :: "pointer copier" where
  "StageStatus_DeepCopy = copy_new StageCell stage_in StageStatus_DeepCopyInto"

definition ClusterStackReleaseSummary_DeepCopyInto :: "ClusterStackReleaseSummary copier" where
  "ClusterStackReleaseSummary_DeepCopyInto in' h = (in', h)"

definition ClusterStackReleaseSummary_DeepCopy :: "pointer copier" where
  "ClusterStackReleaseSummary_DeepCopy = copy_new SummaryCell summary_in ClusterStackReleaseSummary_DeepCopyInto"

subsection \<open>ClusterAddon\<close>

definition ClusterAddonSpec_DeepCopyInto :: "pointer addon_spec copier" where
  "ClusterAddonSpec_DeepCopyInto in' h =
     (let (ref, h) = copy_new ReferenceCell reference_in assign (adp_clusterRef in') h
      in (in'\<lparr>adp_clusterRef := ref\<rparr>, h))"

definition ClusterAddonSpec_DeepCopy :: "pointer copier" where
  "ClusterAddonSpec_DeepCopy = copy_new AddonSpecCell addon_spec_in ClusterAddonSpec_DeepCopyInto"

definition ClusterAddonStatus_DeepCopyInto :: "(pointer, pointer, pointer) addon_status copier" where
  "ClusterAddonStatus_DeepCopyInto in' h =
     (let (resources, h) = copy_slice ResourcesCell resources_in (copy_new ResourceCell resource_in assign)
            (adt_resources in') h;
          (stages, h) = copy_new StagesCell stages_in assign (adt_stages in') h;
          (conditions, h) = copy_slice ConditionsCell conditions_in assign (adt_conditions in') h
      in (in'\<lparr>adt_resources := resources, adt_stages := stages, adt_conditions := conditions\<rparr>, h))"

definition ClusterAddonStatus_DeepCopy :: "pointer copier" where
  "ClusterAddonStatus_DeepCopy = copy_new AddonStatusCell addon_status_in ClusterAddonStatus_DeepCopyInto"

definition ClusterAddon_DeepCopyInto :: "mem_addon copier" where
  "ClusterAddon_DeepCopyInto = object_DeepCopyInto ClusterAddonSpec_DeepCopyInto ClusterAddonStatus_DeepCopyInto"

definition ClusterAddon_DeepCopy :: "pointer copier" where
  "ClusterAddon_DeepCopy = copy_new AddonCell addon_in ClusterAddon_DeepCopyInto"

definition ClusterAddonList_DeepCopyInto :: "mem_list copier" where
  "ClusterAddonList_DeepCopyInto = list_DeepCopyInto AddonsCell addons_in ClusterAddon_DeepCopyInto"

definition ClusterAddonList_DeepCopy :: "pointer copier" where
  "ClusterAddonList_DeepCopy = copy_new AddonListCell addon_list_in ClusterAddonList_DeepCopyInto"

subsection \<open>ClusterStack\<close>

definition ClusterStackSpec_DeepCopyInto :: "(pointer, pointer) stack_spec copier" where
  "ClusterStackSpec_DeepCopyInto in' h =
     (let (versions, h) = copy_new StringsCell strings_in assign (skp_versions in') h;
          (ref, h) = copy_new ReferenceCell reference_in assign (skp_providerRef in') h
      in (in'\<lparr>skp_versions := versions, skp_providerRef := ref\<rparr>, h))"

definition ClusterStackSpec_DeepCopy :: "pointer copier" where
  "ClusterStackSpec_DeepCopy = copy_new StackSpecCell stack_spec_in ClusterStackSpec_DeepCopyInto"

definition ClusterStackStatus_DeepCopyInto :: "(pointer, pointer) stack_status copier" where
  "ClusterStackStatus_DeepCopyInto in' h =
     (let (summary, h) = copy_new SummariesCell summaries_in assign (skt_summary in') h;
          (conditions, h) = copy_slice ConditionsCell conditions_in assign (skt_conditions in') h
      in (in'\<lparr>skt_summary := summary, skt_conditions := conditions\<rparr>, h))"

definition ClusterStackStatus_DeepCopy :: "pointer copier" where
  "ClusterStackStatus_DeepCopy = copy_new StackStatusCell stack_status_in ClusterStackStatus_DeepCopyInto"

definition ClusterStack_DeepCopyInto :: "mem_stack copier" where
  "ClusterStack_DeepCopyInto = object_DeepCopyInto ClusterStackSpec_DeepCopyInto ClusterStackStatus_DeepCopyInto"

definition ClusterStack_DeepCopy :: "pointer copier" where
  "ClusterStack_DeepCopy = copy_new StackCell stack_in ClusterStack_DeepCopyInto"

definition ClusterStackList_DeepCopyInto :: "mem_list copier" where
  "ClusterStackList_DeepCopyInto = list_DeepCopyInto StacksCell stacks_in ClusterStack_DeepCopyInto"

definition ClusterStackList_DeepCopy :: "pointer copier" where
  "ClusterStackList_DeepCopy = copy_new StackListCell stack_list_in ClusterStackList_DeepCopyInto"

subsection \<open>ClusterStackRelease\<close>

definition ClusterStackReleaseSpec_DeepCopyInto :: "pointer release_spec copier" where
  "ClusterStackReleaseSpec_DeepCopyInto in' h =
     (let (ref, h) = copy_new ReferenceCell reference_in assign (rlp_providerRef in') h
      in (in'\<lparr>rlp_providerRef := ref\<rparr>, h))"

definition ClusterStackReleaseSpec_DeepCopy :: "pointer copier" where
  "ClusterStackReleaseSpec_DeepCopy = copy_new ReleaseSpecCell release_spec_in ClusterStackReleaseSpec_DeepCopyInto"

definition ClusterStackReleaseStatus_DeepCopyInto :: "(pointer, pointer) release_status copier" where
  "ClusterStackReleaseStatus_DeepCopyInto in' h =
     (let (resources, h) = copy_slice ResourcesCell resources_in (copy_new ResourceCell resource_in assign)
            (rlt_resources in') h;
          (conditions, h) = copy_slice ConditionsCell conditions_in assign (rlt_conditions in') h
      in (in'\<lparr>rlt_resources := resources, rlt_conditions := conditions\<rparr>, h))"

definition ClusterStackReleaseStatus_DeepCopy :: "pointer copier" where
  "ClusterStackReleaseStatus_DeepCopy = copy_new ReleaseStatusCell release_status_in ClusterStackReleaseStatus_DeepCopyInto"

definition ClusterStackRelease_DeepCopyInto :: "mem_release copier" where
  "ClusterStackRelease_DeepCopyInto =
     object_DeepCopyInto ClusterStackReleaseSpec_DeepCopyInto ClusterStackReleaseStatus_DeepCopyInto"

definition ClusterStackRelease_DeepCopy :: "pointer copier" where
  "ClusterStackRelease_DeepCopy = copy_new ReleaseCell release_in ClusterStackRelease_DeepCopyInto"

definition ClusterStackReleaseList_DeepCopyInto :: "mem_list copier" where
  "ClusterStackReleaseList_DeepCopyInto = list_DeepCopyInto ReleasesCell releases_in ClusterStackRelease_DeepCopyInto"

definition ClusterStackReleaseList_DeepCopy :: "pointer copier" where
  "ClusterStackReleaseList_DeepCopy = copy_new ReleaseListCell release_list_in ClusterStackReleaseList_DeepCopyInto"

subsection \<open>Runtime objects\<close>

text \<open>A \<open>runtime.Object\<close> is nil or a pointer with its type; the method is chosen by the type.\<close>

datatype runtime_object =
    NilObject
  | ClusterAddonObject pointer
  | ClusterAddonListObject pointer
  | ClusterStackObject pointer
  | ClusterStackListObject pointer
  | ClusterStackReleaseObject pointer
  | ClusterStackReleaseListObject pointer

definition copied_object :: "(pointer \<Rightarrow> runtime_object) \<Rightarrow> pointer copier \<Rightarrow> pointer \<Rightarrow> memory \<Rightarrow> runtime_object \<times> memory" where
  "copied_object obj deep_copy p h =
     (let (c, h) = deep_copy p h in (if c \<noteq> None then obj c else NilObject, h))"

definition ClusterAddon_DeepCopyObject :: "pointer \<Rightarrow> memory \<Rightarrow> runtime_object \<times> memory" where
  "ClusterAddon_DeepCopyObject = copied_object ClusterAddonObject ClusterAddon_DeepCopy"

definition ClusterAddonList_DeepCopyObject :: "pointer \<Rightarrow> memory \<Rightarrow> runtime_object \<times> memory" where
  "ClusterAddonList_DeepCopyObject = copied_object ClusterAddonListObject ClusterAddonList_DeepCopy"

definition ClusterStack_DeepCopyObject :: "pointer \<Rightarrow> memory \<Rightarrow> runtime_object \<times> memory" where
  "ClusterStack_DeepCopyObject = copied_object ClusterStackObject ClusterStack_DeepCopy"

definition ClusterStackList_DeepCopyObject :: "pointer \<Rightarrow> memory \<Rightarrow> runtime_object \<times> memory" where
  "ClusterStackList_DeepCopyObject = copied_object ClusterStackListObject ClusterStackList_DeepCopy"

definition ClusterStackRelease_DeepCopyObject :: "pointer \<Rightarrow> memory \<Rightarrow> runtime_object \<times> memory" where
  "ClusterStackRelease_DeepCopyObject = copied_object ClusterStackReleaseObject ClusterStackRelease_DeepCopy"

definition ClusterStackReleaseList_DeepCopyObject :: "pointer \<Rightarrow> memory \<Rightarrow> runtime_object \<times> memory" where
  "ClusterStackReleaseList_DeepCopyObject =
     copied_object ClusterStackReleaseListObject ClusterStackReleaseList_DeepCopy"

fun runtime_DeepCopyObject :: "runtime_object copier" where
  "runtime_DeepCopyObject NilObject h = (NilObject, h)"
| "runtime_DeepCopyObject (ClusterAddonObject p) h = ClusterAddon_DeepCopyObject p h"
| "runtime_DeepCopyObject (ClusterAddonListObject p) h = ClusterAddonList_DeepCopyObject p h"
| "runtime_DeepCopyObject (ClusterStackObject p) h = ClusterStack_DeepCopyObject p h"
| "runtime_DeepCopyObject (ClusterStackListObject p) h = ClusterStackList_DeepCopyObject p h"
| "runtime_DeepCopyObject (ClusterStackReleaseObject p) h = ClusterStackRelease_DeepCopyObject p h"
| "runtime_DeepCopyObject (ClusterStackReleaseListObject p) h = ClusterStackReleaseList_DeepCopyObject p h"

section \<open>What the types stand for\<close>

text \<open>
  The view, the cells and the fitness of a type together. A struct with the pointers \<open>parts\<close> stands
  for the record \<open>build\<close> makes of it and of what the parts stand for.
\<close>

record ('m, 'v) shape =
  sh_view :: "memory \<Rightarrow> 'm \<Rightarrow> 'v"
  sh_cells :: "memory \<Rightarrow> 'm \<Rightarrow> addr set"
  sh_fit :: "memory \<Rightarrow> 'm \<Rightarrow> bool"

definition flat :: "('m, 'm) shape" where
  "flat = \<lparr>sh_view = \<lambda>h x. x, sh_cells = \<lambda>h x. {}, sh_fit = \<lambda>h x. True\<rparr>"

definition pair_of :: "('a, 'v) shape \<Rightarrow> ('b, 'w) shape \<Rightarrow> ('a \<times> 'b, 'v \<times> 'w) shape" where
  "pair_of A B = \<lparr>sh_view = \<lambda>h xy. (sh_view A h (fst xy), sh_view B h (snd xy)),
     sh_cells = \<lambda>h xy. sh_cells A h (fst xy) \<union> sh_cells B h (snd xy),
     sh_fit = \<lambda>h xy. sh_fit A h (fst xy) \<and> sh_fit B h (snd xy)\<rparr>"

definition all_of :: "('m, 'v) shape \<Rightarrow> ('m list, 'v list) shape" where
  "all_of A = \<lparr>sh_view = \<lambda>h. map (sh_view A h), sh_cells = \<lambda>h xs. \<Union>x\<in>set xs. sh_cells A h x,
     sh_fit = \<lambda>h xs. \<forall>x\<in>set xs. sh_fit A h x\<rparr>"

definition pointer_to :: "(cell \<Rightarrow> 'm option) \<Rightarrow> ('m, 'v) shape \<Rightarrow> (pointer, 'v option) shape" where
  "pointer_to get A = \<lparr>sh_view = new_view get (sh_view A), sh_cells = new_cells get (sh_cells A),
     sh_fit = new_fit get (sh_fit A)\<rparr>"

definition slice_of :: "(cell \<Rightarrow> 'm list option) \<Rightarrow> ('m, 'v) shape \<Rightarrow> (pointer, 'v list option) shape" where
  "slice_of get A = pointer_to get (all_of A)"

definition struct_of :: "('s \<Rightarrow> 'm) \<Rightarrow> ('s \<Rightarrow> 'v \<Rightarrow> 't) \<Rightarrow> ('m, 'v) shape \<Rightarrow> ('s, 't) shape" where
  "struct_of parts build A = \<lparr>sh_view = \<lambda>h s. build s (sh_view A h (parts s)),
     sh_cells = \<lambda>h s. sh_cells A h (parts s), sh_fit = \<lambda>h s. sh_fit A h (parts s)\<rparr>"

definition deep_copies :: "'m copier \<Rightarrow> ('m, 'v) shape \<Rightarrow> bool" where
  "deep_copies into A = deep_copier into (sh_view A) (sh_cells A) (sh_fit A)"

lemma deep_copies_assign: "deep_copies assign flat"
  by (simp add: deep_copies_def flat_def copier_assign)

lemma deep_copies_pair:
  "deep_copies f A \<Longrightarrow> deep_copies g B \<Longrightarrow> deep_copies (copy_pair f g) (pair_of A B)"
  by (simp add: deep_copies_def pair_of_def copier_pair)

lemma deep_copies_each: "deep_copies into A \<Longrightarrow> deep_copies (copy_each into) (all_of A)"
  by (simp add: deep_copies_def all_of_def copier_each)

lemma deep_copies_new:
  "deep_copies into A \<Longrightarrow> (\<And>x. get (put x) = Some x) \<Longrightarrow> deep_copies (copy_new put get into) (pointer_to get A)"
  by (simp add: deep_copies_def pointer_to_def copier_new)

lemma deep_copies_slice:
  "deep_copies into A \<Longrightarrow> (\<And>x. get (put x) = Some x) \<Longrightarrow> deep_copies (copy_slice put get into) (slice_of get A)"
  unfolding copy_slice_def slice_of_def by (intro deep_copies_new deep_copies_each)

lemma deep_copies_struct:
  assumes "deep_copies into A"
    and "\<And>s h. struct s h = (let (x, h) = into (parts s) h in (upd x s, h))"
    and "\<And>x s. parts (upd x s) = x" and "\<And>x s v. build (upd x s) v = build s v"
  shows "deep_copies struct (struct_of parts build A)"
  using copier_struct[OF assms(1)[unfolded deep_copies_def], of struct parts upd build] assms(2-)
  by (simp add: deep_copies_def struct_of_def)

definition owner_shape :: "(pointer owner_layout, bool option owner_layout) shape" where
  "owner_shape = struct_of (\<lambda>s. (ol_controller s, ol_blockOwnerDeletion s))
     (\<lambda>s v. \<lparr>or_apiVersion = or_apiVersion s, or_kind = or_kind s, or_name = or_name s, or_uid = or_uid s,
        ol_controller = fst v, ol_blockOwnerDeletion = snd v\<rparr>)
     (pair_of (pointer_to flag_in flat) (pointer_to flag_in flat))"

definition fields_shape :: "(pointer fields_layout, string option fields_layout) shape" where
  "fields_shape = struct_of fl_raw (\<lambda>s v. \<lparr>fl_raw = v\<rparr>) (pointer_to bytes_in flat)"

type_synonym managed_view = "(string option, string option fields_layout option) managed_layout"

definition managed_shape :: "((pointer, pointer) managed_layout, managed_view) shape" where
  "managed_shape = struct_of (\<lambda>s. (mf_time s, mf_fieldsV1 s))
     (\<lambda>s v. \<lparr>mf_manager = mf_manager s, mf_operation = mf_operation s, mf_apiVersion = mf_apiVersion s,
        mf_time = fst v, mf_fieldsType = mf_fieldsType s, mf_fieldsV1 = snd v, mf_subresource = mf_subresource s\<rparr>)
     (pair_of (pointer_to time_in flat) (pointer_to fields_in fields_shape))"

type_synonym meta_view =
  "(string option, int option, (string \<times> string) list option, bool option owner_layout list option,
    string list option, managed_view list option) meta_layout"

definition meta_shape :: "(mem_meta, meta_view) shape" where
  "meta_shape = struct_of
     (\<lambda>s. (ml_deletionTimestamp s, ml_deletionGracePeriodSeconds s, ml_labels s, ml_annotations s,
        ml_ownerReferences s, ml_finalizers s, ml_managedFields s))
     (\<lambda>s v. case v of (time, grace, labels, annotations, owners, finalizers, managed) \<Rightarrow>
        \<lparr>ml_name = ml_name s, ml_namespace = ml_namespace s, ml_uid = ml_uid s, ml_deletionTimestamp = time,
         ml_deletionGracePeriodSeconds = grace, ml_labels = labels, ml_annotations = annotations,
         ml_ownerReferences = owners, ml_finalizers = finalizers, ml_managedFields = managed\<rparr>)
     (pair_of (pointer_to time_in flat) (pair_of (pointer_to number_in flat) (pair_of (pointer_to entries_in flat)
       (pair_of (pointer_to entries_in flat) (pair_of (slice_of owners_in owner_shape)
       (pair_of (pointer_to strings_in flat) (slice_of managed_in managed_shape)))))))"

definition object_shape ::
    "('spec, 'specv) shape \<Rightarrow> ('status, 'statusv) shape
      \<Rightarrow> ((mem_meta, 'spec, 'status) object_layout, (meta_view, 'specv, 'statusv) object_layout) shape" where
  "object_shape A B = struct_of (\<lambda>s. (ob_objectMeta s, ob_spec s, ob_status s))
     (\<lambda>s v. case v of (meta, spec, status) \<Rightarrow> \<lparr>ob_typeMeta = ob_typeMeta s, ob_objectMeta = meta, ob_spec = spec,
        ob_status = status\<rparr>)
     (pair_of meta_shape (pair_of A B))"

definition list_shape ::
    "(cell \<Rightarrow> 'm list option) \<Rightarrow> ('m, 'v) shape \<Rightarrow> (mem_list, (int option, 'v list option) list_layout) shape" where
  "list_shape get A = struct_of (\<lambda>s. (ll_remainingItemCount s, ll_items s))
     (\<lambda>s v. \<lparr>ll_typeMeta = ll_typeMeta s, ll_resourceVersion = ll_resourceVersion s,
        ll_remainingItemCount = fst v, ll_items = snd v\<rparr>)
     (pair_of (pointer_to number_in flat) (slice_of get A))"

type_synonym resources_view = "Resource option list option"
type_synonym conditions_view = "Condition list option"

type_synonym addon_view = "(meta_view, ObjectReference option addon_spec,
  (resources_view, StageStatus list option, conditions_view) addon_status) object_layout"

type_synonym stack_view = "(meta_view, (string list option, ObjectReference option) stack_spec,
  (ClusterStackReleaseSummary list option, conditions_view) stack_status) object_layout"

type_synonym release_view = "(meta_view, ObjectReference option release_spec,
  (resources_view, conditions_view) release_status) object_layout"

definition addon_spec_shape :: "(pointer addon_spec, ObjectReference option addon_spec) shape" where
  "addon_spec_shape = struct_of adp_clusterRef
     (\<lambda>s v. \<lparr>adp_clusterStack = adp_clusterStack s, adp_version = adp_version s, adp_hook = adp_hook s,
        adp_clusterRef = v\<rparr>)
     (pointer_to reference_in flat)"

definition addon_status_shape ::
    "((pointer, pointer, pointer) addon_status,
      (resources_view, StageStatus list option, conditions_view) addon_status) shape" where
  "addon_status_shape = struct_of (\<lambda>s. (adt_resources s, adt_stages s, adt_conditions s))
     (\<lambda>s v. case v of (resources, stages, conditions) \<Rightarrow> \<lparr>adt_resources = resources, adt_stages = stages,
        adt_ready = adt_ready s, adt_conditions = conditions\<rparr>)
     (pair_of (slice_of resources_in (pointer_to resource_in flat))
       (pair_of (pointer_to stages_in flat) (slice_of conditions_in flat)))"

definition addon_shape :: "(mem_addon, addon_view) shape" where
  "addon_shape = object_shape addon_spec_shape addon_status_shape"

definition stack_spec_shape ::
    "((pointer, pointer) stack_spec, (string list option, ObjectReference option) stack_spec) shape" where
  "stack_spec_shape = struct_of (\<lambda>s. (skp_versions s, skp_providerRef s))
     (\<lambda>s v. \<lparr>skp_provider = skp_provider s, skp_name = skp_name s, skp_kubernetesVersion = skp_kubernetesVersion s,
        skp_channel = skp_channel s, skp_versions = fst v, skp_autoSubscribe = skp_autoSubscribe s,
        skp_noProvider = skp_noProvider s, skp_providerRef = snd v\<rparr>)
     (pair_of (pointer_to strings_in flat) (pointer_to reference_in flat))"

definition stack_status_shape ::
    "((pointer, pointer) stack_status, (ClusterStackReleaseSummary list option, conditions_view) stack_status) shape" where
  "stack_status_shape = struct_of (\<lambda>s. (skt_summary s, skt_conditions s))
     (\<lambda>s v. \<lparr>skt_latestRelease = skt_latestRelease s, skt_summary = fst v,
        skt_usableVersions = skt_usableVersions s, skt_conditions = snd v\<rparr>)
     (pair_of (pointer_to summaries_in flat) (slice_of conditions_in flat))"

definition stack_shape :: "(mem_stack, stack_view) shape" where
  "stack_shape = object_shape stack_spec_shape stack_status_shape"

definition release_spec_shape :: "(pointer release_spec, ObjectReference option release_spec) shape" where
  "release_spec_shape = struct_of rlp_providerRef (\<lambda>s v. \<lparr>rlp_providerRef = v\<rparr>) (pointer_to reference_in flat)"

definition release_status_shape ::
    "((pointer, pointer) release_status, (resources_view, conditions_view) release_status) shape" where
  "release_status_shape = struct_of (\<lambda>s. (rlt_resources s, rlt_conditions s))
     (\<lambda>s v. \<lparr>rlt_resources = fst v, rlt_kubernetesVersion = rlt_kubernetesVersion s, rlt_ready = rlt_ready s,
        rlt_conditions = snd v\<rparr>)
     (pair_of (slice_of resources_in (pointer_to resource_in flat)) (slice_of conditions_in flat))"

definition release_shape :: "(mem_release, release_view) shape" where
  "release_shape = object_shape release_spec_shape release_status_shape"

section \<open>The generated functions are deep copies\<close>

lemma struct_pair:
  "(let (z, h') = copy_pair f g (x, y) h in k z h') =
    (let (x', h1) = f x h; (y', h2) = g y h1 in k (x', y') h2)"
  by (simp add: copy_pair_def Let_def split_def)

lemma cell_types_simps [simp]:
  "flag_in (FlagCell b) = Some b" "number_in (NumberCell i) = Some i" "time_in (TimeCell t) = Some t"
  "entries_in (EntriesCell es) = Some es" "owners_in (OwnersCell os) = Some os"
  "strings_in (StringsCell ss) = Some ss" "bytes_in (BytesCell bs) = Some bs" "fields_in (FieldsCell f) = Some f"
  "managed_in (ManagedCell gs) = Some gs" "reference_in (ReferenceCell r) = Some r"
  "resource_in (ResourceCell x) = Some x" "resources_in (ResourcesCell ps) = Some ps"
  "stage_in (StageCell s) = Some s" "stages_in (StagesCell ts) = Some ts"
  "conditions_in (ConditionsCell cs) = Some cs" "summary_in (SummaryCell m) = Some m"
  "summaries_in (SummariesCell ms) = Some ms"
  by (simp_all add: cell_types)

lemma owner_copies: "deep_copies OwnerReference_DeepCopyInto owner_shape"
  unfolding owner_shape_def
proof (rule deep_copies_struct[where upd = "\<lambda>v s. (s :: pointer owner_layout)\<lparr>ol_controller := fst v, ol_blockOwnerDeletion := snd v\<rparr>"])
  show "deep_copies (copy_pair (copy_new FlagCell flag_in assign) (copy_new FlagCell flag_in assign))
      (pair_of (pointer_to flag_in flat) (pointer_to flag_in flat))"
    by (intro deep_copies_pair deep_copies_new deep_copies_slice deep_copies_assign) simp_all
qed (simp_all add: OwnerReference_DeepCopyInto_def struct_pair)

lemma fields_copies: "deep_copies FieldsV1_DeepCopyInto fields_shape"
  unfolding fields_shape_def
proof (rule deep_copies_struct[where upd = "\<lambda>v s. (s :: pointer fields_layout)\<lparr>fl_raw := v\<rparr>"])
  show "deep_copies (copy_new BytesCell bytes_in assign) (pointer_to bytes_in flat)"
    by (intro deep_copies_new deep_copies_assign) simp_all
qed (simp_all add: FieldsV1_DeepCopyInto_def)

lemma managed_copies: "deep_copies ManagedFieldsEntry_DeepCopyInto managed_shape"
  unfolding managed_shape_def
proof (rule deep_copies_struct[where upd = "\<lambda>v s. (s :: (pointer, pointer) managed_layout)\<lparr>mf_time := fst v, mf_fieldsV1 := snd v\<rparr>"])
  show "deep_copies (copy_pair (copy_new TimeCell time_in assign) (copy_new FieldsCell fields_in FieldsV1_DeepCopyInto))
      (pair_of (pointer_to time_in flat) (pointer_to fields_in fields_shape))"
    by (intro fields_copies deep_copies_pair deep_copies_new deep_copies_assign) simp_all
qed (simp_all add: ManagedFieldsEntry_DeepCopyInto_def struct_pair)

lemma meta_copies: "deep_copies ObjectMeta_DeepCopyInto meta_shape"
  unfolding meta_shape_def
proof (rule deep_copies_struct[where upd = "\<lambda>v s. case v of (time, grace, labels, annotations, owners, finalizers, managed) \<Rightarrow>
    (s :: mem_meta)\<lparr>ml_deletionTimestamp := time, ml_deletionGracePeriodSeconds := grace, ml_labels := labels,
      ml_annotations := annotations, ml_ownerReferences := owners, ml_finalizers := finalizers,
      ml_managedFields := managed\<rparr>"])
  show "deep_copies (copy_pair (copy_new TimeCell time_in assign) (copy_pair (copy_new NumberCell number_in assign)
      (copy_pair (copy_new EntriesCell entries_in assign) (copy_pair (copy_new EntriesCell entries_in assign)
      (copy_pair (copy_slice OwnersCell owners_in OwnerReference_DeepCopyInto)
      (copy_pair (copy_new StringsCell strings_in assign)
        (copy_slice ManagedCell managed_in ManagedFieldsEntry_DeepCopyInto)))))))
      (pair_of (pointer_to time_in flat) (pair_of (pointer_to number_in flat) (pair_of (pointer_to entries_in flat)
        (pair_of (pointer_to entries_in flat) (pair_of (slice_of owners_in owner_shape)
        (pair_of (pointer_to strings_in flat) (slice_of managed_in managed_shape)))))))"
    by (intro owner_copies managed_copies deep_copies_pair deep_copies_new deep_copies_slice deep_copies_assign) simp_all
qed (simp_all add: ObjectMeta_DeepCopyInto_def struct_pair split: prod.splits)

lemma object_copies:
  assumes "deep_copies f A" and "deep_copies g B"
  shows "deep_copies (object_DeepCopyInto f g) (object_shape A B)"
  unfolding object_shape_def
proof (rule deep_copies_struct[where upd = "\<lambda>v s. case v of (meta, spec, status) \<Rightarrow> s\<lparr>ob_objectMeta := meta, ob_spec := spec, ob_status := status\<rparr>"])
  show "deep_copies (copy_pair ObjectMeta_DeepCopyInto (copy_pair f g))
      (pair_of meta_shape (pair_of A B))"
    by (intro meta_copies assms deep_copies_pair deep_copies_new deep_copies_slice deep_copies_assign) 
qed (simp_all add: object_DeepCopyInto_def struct_pair split: prod.splits)

lemma list_copies:
  assumes "deep_copies into A" and "\<And>x. get (put x) = Some x"
  shows "deep_copies (list_DeepCopyInto put get into) (list_shape get A)"
  unfolding list_shape_def
proof (rule deep_copies_struct[where upd = "\<lambda>v s. (s :: mem_list)\<lparr>ll_remainingItemCount := fst v, ll_items := snd v\<rparr>"])
  show "deep_copies (copy_pair (copy_new NumberCell number_in assign) (copy_slice put get into))
      (pair_of (pointer_to number_in flat) (slice_of get A))"
    by (intro assms(1) deep_copies_pair deep_copies_new deep_copies_slice deep_copies_assign) (simp_all add: assms)
qed (simp_all add: list_DeepCopyInto_def struct_pair split: prod.splits)

lemma addon_spec_copies: "deep_copies ClusterAddonSpec_DeepCopyInto addon_spec_shape"
  unfolding addon_spec_shape_def
proof (rule deep_copies_struct[where upd = "\<lambda>v s. (s :: pointer addon_spec)\<lparr>adp_clusterRef := v\<rparr>"])
  show "deep_copies (copy_new ReferenceCell reference_in assign)
      (pointer_to reference_in flat)"
    by (intro deep_copies_pair deep_copies_new deep_copies_slice deep_copies_assign) simp_all
qed (simp_all add: ClusterAddonSpec_DeepCopyInto_def struct_pair split: prod.splits)

lemma addon_status_copies: "deep_copies ClusterAddonStatus_DeepCopyInto addon_status_shape"
  unfolding addon_status_shape_def
proof (rule deep_copies_struct[where upd = "\<lambda>v s. case v of (resources, stages, conditions) \<Rightarrow>
    (s :: (pointer, pointer, pointer) addon_status)\<lparr>adt_resources := resources, adt_stages := stages,
      adt_conditions := conditions\<rparr>"])
  show "deep_copies (copy_pair (copy_slice ResourcesCell resources_in (copy_new ResourceCell resource_in assign))
      (copy_pair (copy_new StagesCell stages_in assign) (copy_slice ConditionsCell conditions_in assign)))
      (pair_of (slice_of resources_in (pointer_to resource_in flat))
        (pair_of (pointer_to stages_in flat) (slice_of conditions_in flat)))"
    by (intro deep_copies_pair deep_copies_new deep_copies_slice deep_copies_assign) simp_all
qed (simp_all add: ClusterAddonStatus_DeepCopyInto_def struct_pair split: prod.splits)

lemma stack_spec_copies: "deep_copies ClusterStackSpec_DeepCopyInto stack_spec_shape"
  unfolding stack_spec_shape_def
proof (rule deep_copies_struct[where upd = "\<lambda>v s. (s :: (pointer, pointer) stack_spec)\<lparr>skp_versions := fst v, skp_providerRef := snd v\<rparr>"])
  show "deep_copies (copy_pair (copy_new StringsCell strings_in assign) (copy_new ReferenceCell reference_in assign))
      (pair_of (pointer_to strings_in flat) (pointer_to reference_in flat))"
    by (intro deep_copies_pair deep_copies_new deep_copies_slice deep_copies_assign) simp_all
qed (simp_all add: ClusterStackSpec_DeepCopyInto_def struct_pair split: prod.splits)

lemma stack_status_copies: "deep_copies ClusterStackStatus_DeepCopyInto stack_status_shape"
  unfolding stack_status_shape_def
proof (rule deep_copies_struct[where upd = "\<lambda>v s. (s :: (pointer, pointer) stack_status)\<lparr>skt_summary := fst v, skt_conditions := snd v\<rparr>"])
  show "deep_copies (copy_pair (copy_new SummariesCell summaries_in assign) (copy_slice ConditionsCell conditions_in assign))
      (pair_of (pointer_to summaries_in flat) (slice_of conditions_in flat))"
    by (intro deep_copies_pair deep_copies_new deep_copies_slice deep_copies_assign) simp_all
qed (simp_all add: ClusterStackStatus_DeepCopyInto_def struct_pair split: prod.splits)

lemma release_spec_copies: "deep_copies ClusterStackReleaseSpec_DeepCopyInto release_spec_shape"
  unfolding release_spec_shape_def
proof (rule deep_copies_struct[where upd = "\<lambda>v s. (s :: pointer release_spec)\<lparr>rlp_providerRef := v\<rparr>"])
  show "deep_copies (copy_new ReferenceCell reference_in assign)
      (pointer_to reference_in flat)"
    by (intro deep_copies_pair deep_copies_new deep_copies_slice deep_copies_assign) simp_all
qed (simp_all add: ClusterStackReleaseSpec_DeepCopyInto_def struct_pair split: prod.splits)

lemma release_status_copies: "deep_copies ClusterStackReleaseStatus_DeepCopyInto release_status_shape"
  unfolding release_status_shape_def
proof (rule deep_copies_struct[where upd = "\<lambda>v s. (s :: (pointer, pointer) release_status)\<lparr>rlt_resources := fst v, rlt_conditions := snd v\<rparr>"])
  show "deep_copies (copy_pair (copy_slice ResourcesCell resources_in (copy_new ResourceCell resource_in assign)) (copy_slice ConditionsCell conditions_in assign))
      (pair_of (slice_of resources_in (pointer_to resource_in flat)) (slice_of conditions_in flat))"
    by (intro deep_copies_pair deep_copies_new deep_copies_slice deep_copies_assign) simp_all
qed (simp_all add: ClusterStackReleaseStatus_DeepCopyInto_def struct_pair split: prod.splits)

lemma object_copies_all:
  "deep_copies ClusterAddon_DeepCopyInto addon_shape"
  "deep_copies ClusterStack_DeepCopyInto stack_shape"
  "deep_copies ClusterStackRelease_DeepCopyInto release_shape"
  unfolding ClusterAddon_DeepCopyInto_def addon_shape_def ClusterStack_DeepCopyInto_def stack_shape_def
    ClusterStackRelease_DeepCopyInto_def release_shape_def
  by (intro object_copies addon_spec_copies addon_status_copies stack_spec_copies stack_status_copies
      release_spec_copies release_status_copies)+

lemma list_copies_all:
  "deep_copies ClusterAddonList_DeepCopyInto (list_shape addons_in addon_shape)"
  "deep_copies ClusterStackList_DeepCopyInto (list_shape stacks_in stack_shape)"
  "deep_copies ClusterStackReleaseList_DeepCopyInto (list_shape releases_in release_shape)"
  unfolding ClusterAddonList_DeepCopyInto_def ClusterStackList_DeepCopyInto_def ClusterStackReleaseList_DeepCopyInto_def
  by (rule list_copies, rule object_copies_all, simp add: cell_types)+

lemma pointer_copies_all:
  "deep_copies ClusterAddon_DeepCopy (pointer_to addon_in addon_shape)"
  "deep_copies ClusterAddonList_DeepCopy (pointer_to addon_list_in (list_shape addons_in addon_shape))"
  "deep_copies ClusterStack_DeepCopy (pointer_to stack_in stack_shape)"
  "deep_copies ClusterStackList_DeepCopy (pointer_to stack_list_in (list_shape stacks_in stack_shape))"
  "deep_copies ClusterStackRelease_DeepCopy (pointer_to release_in release_shape)"
  "deep_copies ClusterStackReleaseList_DeepCopy (pointer_to release_list_in (list_shape releases_in release_shape))"
  unfolding ClusterAddon_DeepCopy_def ClusterAddonList_DeepCopy_def ClusterStack_DeepCopy_def
    ClusterStackList_DeepCopy_def ClusterStackRelease_DeepCopy_def ClusterStackReleaseList_DeepCopy_def
  by (rule deep_copies_new, rule object_copies_all list_copies_all, simp add: cell_types)+

text \<open>The copies of the smaller types, which the controllers do not use on their own.\<close>

lemma part_copies_all:
  "deep_copies ClusterAddonSpec_DeepCopy (pointer_to addon_spec_in addon_spec_shape)"
  "deep_copies ClusterAddonStatus_DeepCopy (pointer_to addon_status_in addon_status_shape)"
  "deep_copies ClusterStackSpec_DeepCopy (pointer_to stack_spec_in stack_spec_shape)"
  "deep_copies ClusterStackStatus_DeepCopy (pointer_to stack_status_in stack_status_shape)"
  "deep_copies ClusterStackReleaseSpec_DeepCopy (pointer_to release_spec_in release_spec_shape)"
  "deep_copies ClusterStackReleaseStatus_DeepCopy (pointer_to release_status_in release_status_shape)"
  "deep_copies Resource_DeepCopy (pointer_to resource_in flat)"
  "deep_copies StageStatus_DeepCopy (pointer_to stage_in flat)"
  "deep_copies ClusterStackReleaseSummary_DeepCopy (pointer_to summary_in flat)"
proof -
  have flat: "Resource_DeepCopyInto = assign" "StageStatus_DeepCopyInto = assign"
    "ClusterStackReleaseSummary_DeepCopyInto = assign"
    by (simp_all add: fun_eq_iff Resource_DeepCopyInto_def StageStatus_DeepCopyInto_def
        ClusterStackReleaseSummary_DeepCopyInto_def assign_def)
  show "deep_copies ClusterAddonSpec_DeepCopy (pointer_to addon_spec_in addon_spec_shape)"
    "deep_copies ClusterAddonStatus_DeepCopy (pointer_to addon_status_in addon_status_shape)"
    "deep_copies ClusterStackSpec_DeepCopy (pointer_to stack_spec_in stack_spec_shape)"
    "deep_copies ClusterStackStatus_DeepCopy (pointer_to stack_status_in stack_status_shape)"
    "deep_copies ClusterStackReleaseSpec_DeepCopy (pointer_to release_spec_in release_spec_shape)"
    "deep_copies ClusterStackReleaseStatus_DeepCopy (pointer_to release_status_in release_status_shape)"
    "deep_copies Resource_DeepCopy (pointer_to resource_in flat)"
    "deep_copies StageStatus_DeepCopy (pointer_to stage_in flat)"
    "deep_copies ClusterStackReleaseSummary_DeepCopy (pointer_to summary_in flat)"
    unfolding ClusterAddonSpec_DeepCopy_def ClusterAddonStatus_DeepCopy_def ClusterStackSpec_DeepCopy_def
      ClusterStackStatus_DeepCopy_def ClusterStackReleaseSpec_DeepCopy_def ClusterStackReleaseStatus_DeepCopy_def
      Resource_DeepCopy_def StageStatus_DeepCopy_def ClusterStackReleaseSummary_DeepCopy_def flat
    by (rule deep_copies_new, rule addon_spec_copies addon_status_copies stack_spec_copies stack_status_copies
        release_spec_copies release_status_copies deep_copies_assign, simp add: cell_types)+
qed

section \<open>Runtime objects as deep copies\<close>

datatype object_view =
    NoObject
  | AddonView addon_view
  | AddonListView "(int option, addon_view list option) list_layout"
  | StackView stack_view
  | StackListView "(int option, stack_view list option) list_layout"
  | ReleaseView release_view
  | ReleaseListView "(int option, release_view list option) list_layout"

definition view_of :: "('v \<Rightarrow> object_view) \<Rightarrow> 'v option \<Rightarrow> object_view" where
  "view_of con v = (case v of None \<Rightarrow> NoObject | Some x \<Rightarrow> con x)"

fun view_object :: "memory \<Rightarrow> runtime_object \<Rightarrow> object_view" where
  "view_object h NilObject = NoObject"
| "view_object h (ClusterAddonObject p) = view_of AddonView (sh_view (pointer_to addon_in addon_shape) h p)"
| "view_object h (ClusterAddonListObject p) =
     view_of AddonListView (sh_view (pointer_to addon_list_in (list_shape addons_in addon_shape)) h p)"
| "view_object h (ClusterStackObject p) = view_of StackView (sh_view (pointer_to stack_in stack_shape) h p)"
| "view_object h (ClusterStackListObject p) =
     view_of StackListView (sh_view (pointer_to stack_list_in (list_shape stacks_in stack_shape)) h p)"
| "view_object h (ClusterStackReleaseObject p) = view_of ReleaseView (sh_view (pointer_to release_in release_shape) h p)"
| "view_object h (ClusterStackReleaseListObject p) =
     view_of ReleaseListView (sh_view (pointer_to release_list_in (list_shape releases_in release_shape)) h p)"

fun object_cells :: "memory \<Rightarrow> runtime_object \<Rightarrow> addr set" where
  "object_cells h NilObject = {}"
| "object_cells h (ClusterAddonObject p) = sh_cells (pointer_to addon_in addon_shape) h p"
| "object_cells h (ClusterAddonListObject p) =
     sh_cells (pointer_to addon_list_in (list_shape addons_in addon_shape)) h p"
| "object_cells h (ClusterStackObject p) = sh_cells (pointer_to stack_in stack_shape) h p"
| "object_cells h (ClusterStackListObject p) =
     sh_cells (pointer_to stack_list_in (list_shape stacks_in stack_shape)) h p"
| "object_cells h (ClusterStackReleaseObject p) = sh_cells (pointer_to release_in release_shape) h p"
| "object_cells h (ClusterStackReleaseListObject p) =
     sh_cells (pointer_to release_list_in (list_shape releases_in release_shape)) h p"

fun object_fit :: "memory \<Rightarrow> runtime_object \<Rightarrow> bool" where
  "object_fit h NilObject = True"
| "object_fit h (ClusterAddonObject p) = sh_fit (pointer_to addon_in addon_shape) h p"
| "object_fit h (ClusterAddonListObject p) =
     sh_fit (pointer_to addon_list_in (list_shape addons_in addon_shape)) h p"
| "object_fit h (ClusterStackObject p) = sh_fit (pointer_to stack_in stack_shape) h p"
| "object_fit h (ClusterStackListObject p) =
     sh_fit (pointer_to stack_list_in (list_shape stacks_in stack_shape)) h p"
| "object_fit h (ClusterStackReleaseObject p) = sh_fit (pointer_to release_in release_shape) h p"
| "object_fit h (ClusterStackReleaseListObject p) =
     sh_fit (pointer_to release_list_in (list_shape releases_in release_shape)) h p"

lemma copied_object_ok:
  assumes "deep_copies deep_copy (pointer_to get A)" and "sh_fit (pointer_to get A) h p"
    and "copied_object obj deep_copy p h = (q, h')"
    and "\<And>h p. view_object h (obj p) = view_of con (sh_view (pointer_to get A) h p)"
    and "\<And>h p. object_cells h (obj p) = sh_cells (pointer_to get A) h p"
    and "\<And>h p. object_fit h (obj p) = sh_fit (pointer_to get A) h p"
  shows "mem_grows h h' \<and> object_fit h' q \<and> view_object h' q = view_object h (obj p) \<and>
    object_cells h' q \<subseteq> {mem_next h..<mem_next h'}"
proof -
  obtain c where run: "deep_copy p h = (c, h')" and q: "q = (if c \<noteq> None then obj c else NilObject)"
    using assms(3) by (auto simp: copied_object_def split: prod.splits)
  have c: "mem_grows h h'" "sh_fit (pointer_to get A) h' c"
    "sh_view (pointer_to get A) h' c = sh_view (pointer_to get A) h p"
    "sh_cells (pointer_to get A) h' c \<subseteq> {mem_next h..<mem_next h'}"
    using deep_copier.copied[OF assms(1)[unfolded deep_copies_def] assms(2) run] by auto
  show ?thesis
  proof (cases c)
    case None
    then have "sh_view (pointer_to get A) h p = None" using c(3) by (simp add: pointer_to_def new_view_def)
    then show ?thesis using None q c(1) assms(4) by (simp add: view_of_def)
  qed (use q c assms(4-6) in \<open>simp\<close>)
qed

lemmas copy_object_defs = ClusterAddon_DeepCopyObject_def ClusterAddonList_DeepCopyObject_def
  ClusterStack_DeepCopyObject_def ClusterStackList_DeepCopyObject_def
  ClusterStackRelease_DeepCopyObject_def ClusterStackReleaseList_DeepCopyObject_def

lemma object_allocated: "object_fit h x \<Longrightarrow> object_cells h x \<subseteq> {..<mem_next h}"
  using pointer_copies_all[unfolded deep_copies_def, THEN deep_copier.allocated] by (cases x) simp_all

lemma object_local:
  assumes "object_fit h x" and "mem_next h \<le> mem_next h'" and "\<forall>a\<in>object_cells h x. mem_cell h' a = mem_cell h a"
  shows "object_fit h' x \<and> view_object h' x = view_object h x \<and> object_cells h' x = object_cells h x"
  using pointer_copies_all[unfolded deep_copies_def, THEN deep_copier.local, OF _ assms(2)] assms(1,3)
  by (cases x) simp_all

interpretation runtime: deep_copier runtime_DeepCopyObject view_object object_cells object_fit
proof
  show "mem_grows h h' \<and> object_fit h' y \<and> view_object h' y = view_object h x \<and>
      object_cells h' y \<subseteq> {mem_next h..<mem_next h'}"
    if "object_fit h x" and "runtime_DeepCopyObject x h = (y, h')" for h x y h'
    using that
  proof (cases x)
    case (ClusterAddonObject p)
    with that show ?thesis
      using copied_object_ok[OF pointer_copies_all(1), of h p ClusterAddonObject y h' AddonView]
      by (simp add: copy_object_defs)
  next
    case (ClusterAddonListObject p)
    with that show ?thesis
      using copied_object_ok[OF pointer_copies_all(2), of h p ClusterAddonListObject y h' AddonListView]
      by (simp add: copy_object_defs)
  next
    case (ClusterStackObject p)
    with that show ?thesis
      using copied_object_ok[OF pointer_copies_all(3), of h p ClusterStackObject y h' StackView]
      by (simp add: copy_object_defs)
  next
    case (ClusterStackListObject p)
    with that show ?thesis
      using copied_object_ok[OF pointer_copies_all(4), of h p ClusterStackListObject y h' StackListView]
      by (simp add: copy_object_defs)
  next
    case (ClusterStackReleaseObject p)
    with that show ?thesis
      using copied_object_ok[OF pointer_copies_all(5), of h p ClusterStackReleaseObject y h' ReleaseView]
      by (simp add: copy_object_defs)
  next
    case (ClusterStackReleaseListObject p)
    with that show ?thesis
      using copied_object_ok[OF pointer_copies_all(6), of h p ClusterStackReleaseListObject y h' ReleaseListView]
      by (simp add: copy_object_defs)
  qed auto
  show "object_cells h x \<subseteq> {..<mem_next h}" if "object_fit h x" for h x
    using that by (rule object_allocated)
  show "object_fit h' x \<and> view_object h' x = view_object h x \<and> object_cells h' x = object_cells h x"
    if "object_fit h x" "mem_next h \<le> mem_next h'" "\<forall>a\<in>object_cells h x. mem_cell h' a = mem_cell h a"
    for h h' :: memory and x
    using that by (rule object_local)
qed

section \<open>Properties\<close>

text \<open>
  C32. The deep copy of an API object or of a list of them, at whatever address it starts, stands for
  the same object, down to which pointers, slices and maps are nil, and shares no cell with the
  original or with anything else that was allocated before.
\<close>

theorem deep_copy_faithful:
  assumes "object_fit h x" and "runtime_DeepCopyObject x h = (y, h')"
  shows "view_object h' y = view_object h x \<and> object_cells h' y \<inter> {..<mem_next h} = {} \<and>
    object_cells h' y \<inter> object_cells h' x = {}"
proof -
  have c: "mem_grows h h'" "view_object h' y = view_object h x" "object_cells h' y \<subseteq> {mem_next h..<mem_next h'}"
    using runtime.copied[OF assms] by auto
  moreover have "object_cells h' x \<subseteq> {..<mem_next h}"
    using runtime.kept[OF assms(1) c(1)] runtime.allocated[OF assms(1)] by simp
  ultimately show ?thesis by fastforce
qed

text \<open>
  C31. A controller that works on a deep copy cannot change the original: as long as only cells made
  by the copy or later are written, the original stands for the same object. Nor do writes to the
  cells that were there before reach the copy.
\<close>

theorem deep_copy_isolated:
  assumes "object_fit h x" and "runtime_DeepCopyObject x h = (y, h')" and "mem_next h' \<le> mem_next h''"
  shows "((\<forall>a<mem_next h. mem_cell h'' a = mem_cell h' a) \<longrightarrow> view_object h'' x = view_object h x) \<and>
    ((\<forall>a. mem_next h \<le> a \<and> a < mem_next h' \<longrightarrow> mem_cell h'' a = mem_cell h' a) \<longrightarrow>
      view_object h'' y = view_object h x)"
  using runtime.original_isolated[OF assms] runtime.copy_isolated[OF assms] by blast

section \<open>Witnesses\<close>

definition sample_resource :: Resource where
  "sample_resource = \<lparr>r_group = [], r_version = ''v1'', r_kind = ''ConfigMap'', r_namespace = ''kube-system'',
     r_name = ''cni'', r_status = ResourceStatusSynced, r_error = []\<rparr>"

definition sample_cells :: "cell list" where
  "sample_cells =
     [AddonCell \<lparr>ob_typeMeta = (''clusterstack.x-k8s.io/v1alpha1'', ''ClusterAddon''),
        ob_objectMeta = \<lparr>ml_name = ''cluster-addon-c'', ml_namespace = ''ns'', ml_uid = ''u'',
          ml_deletionTimestamp = None, ml_deletionGracePeriodSeconds = None, ml_labels = None, ml_annotations = Some 1,
          ml_ownerReferences = Some 2, ml_finalizers = Some 3, ml_managedFields = None\<rparr>,
        ob_spec = \<lparr>adp_clusterStack = ''docker-ferrol-1-27-v1'', adp_version = ''v1'', adp_hook = [],
          adp_clusterRef = Some 4\<rparr>,
        ob_status = \<lparr>adt_resources = Some 5, adt_stages = None, adt_ready = False, adt_conditions = None\<rparr>\<rparr>,
      EntriesCell [(StageAnnotation, StageAnnotationValueCreated)],
      OwnersCell [\<lparr>or_apiVersion = ''cluster.x-k8s.io/v1beta1'', or_kind = ''Cluster'', or_name = ''c'', or_uid = ''w'',
        ol_controller = None, ol_blockOwnerDeletion = None\<rparr>],
      StringsCell [ClusterAddonFinalizer],
      ReferenceCell \<lparr>ref_apiVersion = ''cluster.x-k8s.io/v1beta1'', ref_kind = ''Cluster'', ref_name = ''c'',
        ref_namespace = ''ns'', ref_uid = ''w''\<rparr>,
      ResourcesCell [Some 6, None, Some 6],
      ResourceCell sample_resource]"

definition sample_memory :: memory where
  "sample_memory = \<lparr>mem_next = 7, mem_cell = \<lambda>a. sample_cells ! a\<rparr>"

definition sample_copy :: "runtime_object \<times> memory" where
  "sample_copy = runtime_DeepCopyObject (ClusterAddonObject (Some 0)) sample_memory"

lemma sample_memory_fit: "object_fit sample_memory (ClusterAddonObject (Some 0))"
  by code_simp

lemma sample_copy_run:
  "runtime_DeepCopyObject (ClusterAddonObject (Some 0)) sample_memory = (fst sample_copy, snd sample_copy)"
  by (simp add: sample_copy_def)

text \<open>The copy of the addon has two resources of its own, which the original did not keep apart.\<close>

lemma sample_copied_resources:
  "mem_cell (snd sample_copy) 11 = ResourceCell sample_resource"
  "mem_cell (snd sample_copy) 12 = ResourceCell sample_resource"
  "mem_cell (snd sample_copy) 13 = ResourcesCell [Some 11, None, Some 12]"
  "fst sample_copy = ClusterAddonObject (Some 14)" "mem_next (snd sample_copy) = 15"
  by code_simp+

theorem deep_copy_faithful_witness:
  "view_object (snd sample_copy) (fst sample_copy) = view_object sample_memory (ClusterAddonObject (Some 0)) \<and>
    object_cells (snd sample_copy) (fst sample_copy) \<inter> {..<mem_next sample_memory} = {}"
  using deep_copy_faithful[OF sample_memory_fit sample_copy_run] by blast

definition resource_refused :: "memory \<Rightarrow> memory" where
  "resource_refused h = h\<lparr>mem_cell := (mem_cell h)(11 := ResourceCell
     (sample_resource\<lparr>r_status := ResourceStatusNotSynced\<rparr>))\<rparr>"

theorem deep_copy_isolated_witness:
  "view_object (resource_refused (snd sample_copy)) (ClusterAddonObject (Some 0)) =
    view_object sample_memory (ClusterAddonObject (Some 0))"
proof -
  have "mem_next (snd sample_copy) \<le> mem_next (resource_refused (snd sample_copy))"
    "\<forall>a<mem_next sample_memory. mem_cell (resource_refused (snd sample_copy)) a = mem_cell (snd sample_copy) a"
    by (simp_all add: resource_refused_def sample_memory_def)
  then show ?thesis using deep_copy_isolated[OF sample_memory_fit sample_copy_run] by blast
qed

end
