(* ===== verification/StackDiff.thy ===== *)
theory StackDiff
  imports ApiTypes
begin

text \<open>
  The decisions of the ClusterStack controller (\<open>internal/controller/clusterstack_controller.go\<close>,
  \<open>internal/controller/utils.go\<close>, \<open>internal/clusterstackrelease/util.go\<close>): which releases
  belong to a cluster stack, which of them to keep, create and delete, and what to report. A Go
  map used as a set of names is the list of its keys; \<open>sort.Sort\<close> is the argument \<open>srt\<close>.
\<close>

section \<open>Ownership\<close>

definition matchesOwnerRef :: "OwnerReference \<Rightarrow> ClusterStackObject \<Rightarrow> bool" where
  "matchesOwnerRef a clusterStack =
     (case ParseGroupVersion (or_apiVersion a) of
        None \<Rightarrow> False
      | Some aGV \<Rightarrow>
          gv_group aGV = gv_group (FromAPIVersionAndKind (m_apiVersion (csk_meta clusterStack))
                            (m_kind (csk_meta clusterStack)))
          \<and> or_kind a = m_kind (csk_meta clusterStack)
          \<and> or_name a = m_name (csk_meta clusterStack))"

definition generateOwnerReference :: "ClusterStackObject \<Rightarrow> OwnerReference" where
  "generateOwnerReference clusterStack =
     \<lparr>or_apiVersion = m_apiVersion (csk_meta clusterStack),
      or_kind = m_kind (csk_meta clusterStack),
      or_name = m_name (csk_meta clusterStack),
      or_uid = m_uid (csk_meta clusterStack)\<rparr>"

definition owned_by :: "ClusterStackObject \<Rightarrow> ClusterStackRelease \<Rightarrow> bool" where
  "owned_by clusterStack csr =
     list_ex (\<lambda>ref. matchesOwnerRef ref clusterStack) (m_ownerReferences (csr_meta csr))"

definition getExistingClusterStackReleases ::
    "(api_error, ClusterStackRelease list) result \<Rightarrow> ClusterStackObject
      \<Rightarrow> (api_error, ClusterStackRelease list) result" where
  "getExistingClusterStackReleases listed clusterStack =
     (case listed of Inl e \<Rightarrow> Inl e | Inr items \<Rightarrow> Inr (filter (owned_by clusterStack) items))"

section \<open>Releases in use and in the spec\<close>

definition getUsedClusterClasses ::
    "(api_error, Cluster list) result \<Rightarrow> (api_error, string list) result" where
  "getUsedClusterClasses listed =
     (case listed of
        Inl e \<Rightarrow> Inl e
      | Inr items \<Rightarrow> Inr (concat (map (\<lambda>cluster. case cl_topology cluster of
            None \<Rightarrow> [] | Some tp \<Rightarrow> if top_class tp \<noteq> [] then [top_class tp] else []) items)))"

definition add_key :: "string list \<Rightarrow> string \<Rightarrow> string list" where
  "add_key m k = (if k \<in> set m then m else m @ [k])"

definition getClusterStackReleasesInUse ::
    "(api_error, Cluster list) result \<Rightarrow> (api_error, string list) result" where
  "getClusterStackReleasesInUse listed =
     (case getUsedClusterClasses listed of
        Inl e \<Rightarrow> Inl e
      | Inr classes \<Rightarrow> Inr (foldl add_key [] classes))"

fun releases_in_spec ::
    "ClusterStackSpec \<Rightarrow> string list \<Rightarrow> string list \<Rightarrow> (cs_error, string list) result" where
  "releases_in_spec spec [] m = Inr m"
| "releases_in_spec spec (v # vs) m =
     (case clusterstack_New (css_provider spec) (css_name spec) (css_kubernetesVersion spec) v of
        Inl e \<Rightarrow> Inl e
      | Inr cs \<Rightarrow> releases_in_spec spec vs (add_key m (cs_String cs)))"

definition getClusterStackReleasesInSpec :: "ClusterStackSpec \<Rightarrow> (cs_error, string list) result" where
  "getClusterStackReleasesInSpec spec = releases_in_spec spec (css_versions spec) []"

section \<open>The latest releases\<close>

fun ready_stacks ::
    "ClusterStackRelease list \<Rightarrow> (cs_error, (ClusterStack \<times> string) list) result" where
  "ready_stacks [] = Inr []"
| "ready_stacks (csr # csrs) =
     (if csr_ready csr
      then (case NewFromClusterStackReleaseProperties (csr_name csr) of
              Inl e \<Rightarrow> Inl e
            | Inr cs \<Rightarrow> (case ready_stacks csrs of
                  Inl e \<Rightarrow> Inl e
                | Inr rest \<Rightarrow> Inr ((cs, rs_kubernetesVersion (csr_status csr)) # rest)))
      else ready_stacks csrs)"

text \<open>The map of Kubernetes versions keeps the last entry written under a name.\<close>

definition getLatestReadyClusterStackRelease ::
    "((ClusterStack \<Rightarrow> ClusterStack \<Rightarrow> bool) \<Rightarrow> ClusterStack list \<Rightarrow> ClusterStack list)
      \<Rightarrow> ClusterStackRelease list \<Rightarrow> (cs_error, string option \<times> string) result" where
  "getLatestReadyClusterStackRelease srt csrs =
     (case ready_stacks csrs of
        Inl e \<Rightarrow> Inl e
      | Inr [] \<Rightarrow> Inr (None, [])
      | Inr found \<Rightarrow>
          let versions = map (\<lambda>(cs, k). (cs_StringWithDot cs, k)) (rev found);
              latest = cs_StringWithDot (last (srt cs_less (map fst found)))
          in Inr (Some latest, case map_of versions latest of None \<Rightarrow> [] | Some k \<Rightarrow> k))"

definition matchesSpec :: "string \<Rightarrow> ClusterStackSpec \<Rightarrow> ClusterStack option" where
  "matchesSpec str spec =
     (case NewFromClusterStackReleaseProperties str of
        Inl _ \<Rightarrow> None
      | Inr csObject \<Rightarrow>
          if ver_channel (cs_version csObject) = css_channel spec
             \<and> kv_StringWithDot (cs_kube csObject) = css_kubernetesVersion spec
             \<and> cs_name csObject = css_name spec
             \<and> cs_provider csObject = css_provider spec
          then Some csObject else None)"

definition matching_stacks :: "string list \<Rightarrow> ClusterStackSpec \<Rightarrow> ClusterStack list" where
  "matching_stacks releases spec =
     concat (map (\<lambda>r. case matchesSpec r spec of None \<Rightarrow> [] | Some cs \<Rightarrow> [cs]) releases)"

definition getLatestReleaseFromRemoteRepository ::
    "((ClusterStack \<Rightarrow> ClusterStack \<Rightarrow> bool) \<Rightarrow> ClusterStack list \<Rightarrow> ClusterStack list)
      \<Rightarrow> (string, string list) result \<Rightarrow> ClusterStackSpec \<Rightarrow> (string, string option) result" where
  "getLatestReleaseFromRemoteRepository srt listed spec =
     (case listed of
        Inl e \<Rightarrow> Inl e
      | Inr releases \<Rightarrow>
          let clusterStacks = matching_stacks releases spec
          in if length clusterStacks = 0 then Inr None
             else Inr (map_option cs_String (stacks_Latest (srt cs_less clusterStacks))))"

fun getUsableClusterStackReleaseVersions ::
    "ClusterStackRelease list \<Rightarrow> (version_error, string list) result" where
  "getUsableClusterStackReleaseVersions [] = Inr []"
| "getUsableClusterStackReleaseVersions (csr # csrs) =
     (if csr_ready csr
      then (case FromReleaseTag (csr_name csr) of
              Inl e \<Rightarrow> Inl e
            | Inr v \<Rightarrow> (case getUsableClusterStackReleaseVersions csrs of
                  Inl e \<Rightarrow> Inl e
                | Inr rest \<Rightarrow> Inr (version_StringWithDot v # rest)))
      else getUsableClusterStackReleaseVersions csrs)"

section \<open>What to keep, to create and to delete\<close>

definition named_release :: "string \<Rightarrow> ClusterStackRelease" where
  "named_release name = empty_release\<lparr>csr_meta := empty_meta\<lparr>m_name := name\<rparr>\<rparr>"

definition keep_release ::
    "string option \<Rightarrow> string option \<Rightarrow> string list \<Rightarrow> string list \<Rightarrow> ClusterStackRelease \<Rightarrow> bool" where
  "keep_release latest latestReady inSpec inUse cs \<longleftrightarrow>
     latest = Some (csr_name cs) \<or> latestReady = Some (csr_name cs)
     \<or> csr_name cs \<in> set inSpec \<or> csr_name cs \<in> set inUse"

text \<open>
  \<open>inSpec\<close> lists the keys of the Go map in the order of the iteration. The names already in the
  result are those of the kept releases: the name of the latest one is not added to them.
\<close>

definition makeDiff ::
    "ClusterStackRelease list \<Rightarrow> string option \<Rightarrow> string option \<Rightarrow> string list \<Rightarrow> string list
      \<Rightarrow> ClusterStackRelease list \<times> ClusterStackRelease list" where
  "makeDiff csrs latest latestReady inSpec inUse =
     (let keep = keep_release latest latestReady inSpec inUse;
          kept = filter keep csrs;
          mapToCreate = map csr_name kept;
          fromRemote = (case latest of
              None \<Rightarrow> []
            | Some l \<Rightarrow> if l \<in> set mapToCreate then [] else [named_release l]);
          fromSpec = map named_release (filter (\<lambda>cs. cs \<notin> set mapToCreate) inSpec)
      in (kept @ fromRemote @ fromSpec, filter (\<lambda>cs. \<not> keep cs) csrs))"

section \<open>The summary of a release\<close>

definition release_Summary ::
    "ClusterStackRelease \<Rightarrow> (cs_error, ClusterStackReleaseSummary) result" where
  "release_Summary csr =
     (case NewFromClusterStackReleaseProperties (csr_name csr) of
        Inl e \<Rightarrow> Inl e
      | Inr clusterStack \<Rightarrow>
          let conds = rs_conditions (csr_status csr);
              summary = \<lparr>sum_name = version_String (cs_version clusterStack), sum_ready = False,
                sum_phase = ClusterStackReleasePhaseNone, sum_message = []\<rparr>
          in if cond_IsTrue conds ReadyCondition
             then Inr (summary\<lparr>sum_ready := True, sum_phase := ClusterStackReleasePhaseDone\<rparr>)
             else
               let summary = (if cond_IsFalse conds ReadyCondition
                     then summary\<lparr>sum_message :=
                       condition_reason_name (cond_GetReason conds ReadyCondition)\<rparr>
                     else summary)
               in if cond_IsTrue conds ProviderClusterStackReleaseReadyCondition
                  then Inr (summary\<lparr>sum_phase := ClusterStackReleasePhaseApplyingObjects\<rparr>)
                  else if cond_IsTrue conds ClusterStackReleaseAssetsReadyCondition
                  then Inr (summary\<lparr>sum_phase := ClusterStackReleasePhaseProviderSpecificWork\<rparr>)
                  else if cond_IsFalse conds ClusterStackReleaseAssetsReadyCondition
                  then Inr (summary\<lparr>sum_phase := ClusterStackReleasePhaseDownloadingAssets\<rparr>)
                  else Inr summary)"

section \<open>Events\<close>

datatype watch_event =
    UpdateEvent ClusterStackRelease ClusterStackRelease
  | GenericEvent
  | CreateEvent
  | DeleteEvent

definition release_event_filter :: "watch_event \<Rightarrow> bool" where
  "release_event_filter ev = (case ev of
       UpdateEvent old new \<Rightarrow> csr_status old \<noteq> csr_status new
     | GenericEvent \<Rightarrow> False
     | CreateEvent \<Rightarrow> False
     | DeleteEvent \<Rightarrow> True)"

definition ClusterStackReleaseToClusterStack :: "ClusterStackRelease \<Rightarrow> NamespacedName list" where
  "ClusterStackReleaseToClusterStack m =
     map (\<lambda>ref. \<lparr>nn_name = or_name ref, nn_namespace = m_namespace (csr_meta m)\<rparr>)
       (m_ownerReferences (csr_meta m))"

section \<open>Facts\<close>

lemma version_notations_agree:
  "version_String v = version_StringWithDot v \<longleftrightarrow> ver_channel v = ChannelStable"
  by (simp add: version_String_def version_StringWithDot_def)

lemma notations_agree: "cs_String cs = cs_StringWithDot cs \<longleftrightarrow> ver_channel (cs_version cs) = ChannelStable"
  using version_notations_agree[of "cs_version cs"]
  by (simp add: cs_String_def cs_StringWithDot_def)

lemma named_release_name [simp]: "csr_name (named_release n) = n"
  by (simp add: named_release_def csr_name_def)

lemma set_add_keys: "set (foldl add_key m ks) = set m \<union> set ks"
  by (induction ks arbitrary: m) (auto simp: add_key_def)

lemma in_spec_names:
  "releases_in_spec spec vs m = Inr names \<Longrightarrow>
    set names = set m \<union> {cs_String cs |cs. \<exists>v\<in>set vs. clusterstack_New (css_provider spec)
      (css_name spec) (css_kubernetesVersion spec) v = Inr cs}"
proof (induction vs arbitrary: m)
  case (Cons v vs)
  then obtain cs where cs: "clusterstack_New (css_provider spec) (css_name spec)
      (css_kubernetesVersion spec) v = Inr cs" and r: "releases_in_spec spec vs (add_key m (cs_String cs)) = Inr names"
    by (auto split: sum.splits)
  show ?case using Cons.IH[OF r] cs by (auto simp: add_key_def)
qed simp

lemma matching_stacks_iff:
  "cs \<in> set (matching_stacks releases spec) \<longleftrightarrow> (\<exists>r\<in>set releases. matchesSpec r spec = Some cs)"
  by (induction releases) (auto simp: matching_stacks_def split: option.splits)

lemma matchesSpec_channel: "matchesSpec r spec = Some cs \<Longrightarrow> ver_channel (cs_version cs) = css_channel spec"
  by (auto simp: matchesSpec_def split: sum.splits if_splits)

lemma ready_stacks_set:
  "ready_stacks csrs = Inr found \<Longrightarrow> fst ` set found =
    {cs. \<exists>r\<in>set csrs. csr_ready r \<and> NewFromClusterStackReleaseProperties (csr_name r) = Inr cs}"
proof (induction csrs arbitrary: found)
  case (Cons r rs)
  show ?case
  proof (cases "csr_ready r")
    case True
    then obtain cs rest where "NewFromClusterStackReleaseProperties (csr_name r) = Inr cs"
      "ready_stacks rs = Inr rest" "found = (cs, rs_kubernetesVersion (csr_status r)) # rest"
      using Cons.prems by (auto split: sum.splits)
    with Cons.IH True show ?thesis by auto
  next
    case False
    with Cons show ?thesis by auto
  qed
qed simp

section \<open>Properties\<close>

text \<open>
  A release created with the generated owner reference is recognised as a release of this
  cluster stack, and of another cluster stack of the same type only if it has the same name.
\<close>

theorem generated_owner_matches:
  assumes "ParseGroupVersion (m_apiVersion (csk_meta cs)) \<noteq> None"
    and "m_apiVersion (csk_meta cs') = m_apiVersion (csk_meta cs)"
    and "m_kind (csk_meta cs') = m_kind (csk_meta cs)"
  shows "matchesOwnerRef (generateOwnerReference cs) cs' \<longleftrightarrow>
    m_name (csk_meta cs) = m_name (csk_meta cs')"
  using assms by (auto simp: matchesOwnerRef_def generateOwnerReference_def FromAPIVersionAndKind_def)

definition sample_stack :: ClusterStackObject where
  "sample_stack = \<lparr>csk_meta = empty_meta\<lparr>m_apiVersion := ''clusterstack.x-k8s.io/v1alpha1'',
       m_kind := ''ClusterStack'', m_name := ''ferrol'', m_namespace := ''default''\<rparr>,
     csk_spec = \<lparr>css_provider = ''docker'', css_name = ''ferrol'', css_kubernetesVersion = ''1.27'',
       css_channel = ''alpha'', css_versions = [''v1-alpha.9''], css_autoSubscribe = True,
       css_noProvider = True, css_providerRef = None\<rparr>,
     csk_status = \<lparr>st_latestRelease = [], st_summary = [], st_usableVersions = [],
       st_conditions = []\<rparr>\<rparr>"

lemma sample_group: "ParseGroupVersion (m_apiVersion (csk_meta sample_stack)) \<noteq> None"
  by (simp add: ParseGroupVersion_def sample_stack_def empty_meta_def split_on.simps)

theorem generated_owner_matches_witness:
  "matchesOwnerRef (generateOwnerReference sample_stack) sample_stack"
  using generated_owner_matches[OF sample_group, of sample_stack] by simp

lemma remote_names:
  "csr_name ` set (case latest of None \<Rightarrow> [] | Some l \<Rightarrow> if l \<in> M then [] else [named_release l])
    = set_option latest - M"
  by (cases latest) auto

lemma spec_names: "csr_name ` set (map named_release (filter (\<lambda>cs. cs \<notin> M) names)) = set names - M"
  by (auto simp: image_image)

lemma makeDiff_names:
  "csr_name ` set (fst (makeDiff csrs latest latestReady inSpec inUse)) =
     {csr_name r |r. r \<in> set csrs \<and> keep_release latest latestReady inSpec inUse r}
       \<union> set_option latest \<union> set inSpec \<and>
   set (snd (makeDiff csrs latest latestReady inSpec inUse)) =
     {r \<in> set csrs. csr_name r \<notin> set_option latest \<union> set_option latestReady \<union> set inSpec \<union> set inUse}"
proof
  let ?kept = "filter (keep_release latest latestReady inSpec inUse) csrs"
  have "csr_name ` set (fst (makeDiff csrs latest latestReady inSpec inUse)) =
      csr_name ` set ?kept \<union> (set_option latest - csr_name ` set ?kept)
        \<union> (set inSpec - csr_name ` set ?kept)"
    by (simp only: makeDiff_def Let_def fst_conv set_append image_Un remote_names spec_names
        set_map[of csr_name] Un_assoc)
  then show "csr_name ` set (fst (makeDiff csrs latest latestReady inSpec inUse)) =
     {csr_name r |r. r \<in> set csrs \<and> keep_release latest latestReady inSpec inUse r}
       \<union> set_option latest \<union> set inSpec"
    by auto
  show "set (snd (makeDiff csrs latest latestReady inSpec inUse)) = {r \<in> set csrs.
      csr_name r \<notin> set_option latest \<union> set_option latestReady \<union> set inSpec \<union> set inUse}"
    by (auto simp: makeDiff_def Let_def keep_release_def)
qed

text \<open>
  C7. The two lists of the diff are exact: the first names every existing release that is
  wanted, the latest release of the repository and every release of the spec, and nothing else;
  the second holds exactly the existing releases that are neither the latest, nor the latest
  ready one, nor in the spec, nor in use.
\<close>

theorem makeDiff_exact:
  "csr_name ` set (fst (makeDiff csrs latest latestReady inSpec inUse)) =
     {csr_name r |r. r \<in> set csrs \<and> keep_release latest latestReady inSpec inUse r}
       \<union> set_option latest \<union> set inSpec \<and>
   set (snd (makeDiff csrs latest latestReady inSpec inUse)) =
     {r \<in> set csrs. csr_name r \<notin> set_option latest \<union> set_option latestReady \<union> set inSpec \<union> set inUse}"
  by (rule makeDiff_names)

text \<open>
  With a sort that keeps its contract, the release found in the remote repository matches
  the spec and no matching release of the repository has a newer version.
\<close>

theorem latest_remote_is_newest:
  assumes "go_sort srt"
    and "getLatestReleaseFromRemoteRepository srt (Inr releases) spec = Inr (Some s)"
  shows "\<exists>r\<in>set releases. \<exists>cs. matchesSpec r spec = Some cs \<and> s = cs_String cs \<and>
    (\<forall>r'\<in>set releases. \<forall>cs'. matchesSpec r' spec = Some cs' \<longrightarrow> \<not> cs_less cs cs')"
proof -
  let ?m = "matching_stacks releases spec"
  have ne: "?m \<noteq> []"
    using assms(2) by (auto simp: getLatestReleaseFromRemoteRepository_def)
  have srt_ne: "srt cs_less ?m \<noteq> []"
    using ne go_sort.sort_Nil_iff[OF assms(1)] by blast
  have s: "s = cs_String (last (srt cs_less ?m))"
    using assms(2) ne srt_ne
    by (simp add: getLatestReleaseFromRemoteRepository_def Let_def stacks_Latest_last)
  have in_m: "last (srt cs_less ?m) \<in> set ?m"
    using srt_ne go_sort.sort_set[OF assms(1), of cs_less ?m] last_in_set by metis
  have "transitive_ordering cs_less (set ?m)"
    by (rule cs_less_ordering[where ch = "css_channel spec"])
      (auto simp: matching_stacks_iff dest: matchesSpec_channel)
  then have "\<not> cs_less (last (srt cs_less ?m)) cs'" if "cs' \<in> set ?m" for cs'
    using go_sort.sort_last_max[OF assms(1)] ne that by blast
  with s in_m show ?thesis by (metis matching_stacks_iff)
qed

lemma go_insertion_sort_single [simp]: "go_insertion_sort lt [x] = [x]"
  by (simp add: go_insertion_sort_def)

lemma sample_matches: "matchesSpec (cs_String (ferrol alpha9)) (csk_spec sample_stack) = Some (ferrol alpha9)"
proof -
  have "kv_StringWithDot (cs_kube (ferrol alpha9)) = ''1.27''"
    by code_simp
  then show ?thesis
    using release_of_String[OF ferrol_canonical[OF alpha9_canonical]]
    by (simp add: matchesSpec_def sample_stack_def ferrol_def alpha9_def)
qed

theorem latest_remote_is_newest_witness:
  "\<exists>r\<in>set [cs_String (ferrol alpha9)]. \<exists>cs. matchesSpec r (csk_spec sample_stack) = Some cs \<and>
    cs_String (ferrol alpha9) = cs_String cs"
proof -
  have "getLatestReleaseFromRemoteRepository go_insertion_sort (Inr [cs_String (ferrol alpha9)])
      (csk_spec sample_stack) = Inr (Some (cs_String (ferrol alpha9)))"
    by (simp add: getLatestReleaseFromRemoteRepository_def matching_stacks_def sample_matches
        stacks_Latest_last)
  from latest_remote_is_newest[OF insertion.go_sort_axioms this] show ?thesis by blast
qed

text \<open>
  When the ready releases are of one channel and the sort keeps its contract, the latest
  ready release is one of them, in the dotted notation, and none of them has a newer version.
\<close>

theorem latest_ready_is_newest:
  assumes "go_sort srt"
    and "getLatestReadyClusterStackRelease srt csrs = Inr (Some s, k)"
    and "\<And>r cs. r \<in> set csrs \<Longrightarrow> csr_ready r \<Longrightarrow>
      NewFromClusterStackReleaseProperties (csr_name r) = Inr cs \<Longrightarrow> ver_channel (cs_version cs) = ch"
  shows "\<exists>r\<in>set csrs. \<exists>cs. csr_ready r \<and> NewFromClusterStackReleaseProperties (csr_name r) = Inr cs
    \<and> s = cs_StringWithDot cs \<and>
    (\<forall>r'\<in>set csrs. \<forall>cs'. csr_ready r' \<longrightarrow>
       NewFromClusterStackReleaseProperties (csr_name r') = Inr cs' \<longrightarrow> \<not> cs_less cs cs')"
proof -
  obtain found where f: "ready_stacks csrs = Inr found" "found \<noteq> []"
    and s: "s = cs_StringWithDot (last (srt cs_less (map fst found)))"
    using assms(2)
    by (auto simp: getLatestReadyClusterStackRelease_def Let_def split: sum.splits list.splits)
  let ?m = "map fst found"
  have m: "set ?m = {cs. \<exists>r\<in>set csrs. csr_ready r \<and>
      NewFromClusterStackReleaseProperties (csr_name r) = Inr cs}"
    using ready_stacks_set[OF f(1)] by simp
  have "transitive_ordering cs_less (set ?m)"
    by (rule cs_less_ordering[where ch = ch]) (use m assms(3) in auto)
  then have mx: "\<not> cs_less (last (srt cs_less ?m)) cs'" if "cs' \<in> set ?m" for cs'
    using go_sort.sort_last_max[OF assms(1)] f(2) that by fastforce
  have "last (srt cs_less ?m) \<in> set ?m"
    using f(2) go_sort.sort_set[OF assms(1), of cs_less ?m] go_sort.sort_Nil_iff[OF assms(1), of cs_less ?m]
      last_in_set by (metis map_is_Nil_conv)
  then obtain r where r: "r \<in> set csrs" "csr_ready r"
    "NewFromClusterStackReleaseProperties (csr_name r) = Inr (last (srt cs_less ?m))"
    unfolding m by blast
  have "\<not> cs_less (last (srt cs_less ?m)) cs'"
    if "r' \<in> set csrs" "csr_ready r'" "NewFromClusterStackReleaseProperties (csr_name r') = Inr cs'" for r' cs'
    using mx[of cs'] that m by blast
  with r s show ?thesis by blast
qed

definition ready_release :: ClusterStackRelease where
  "ready_release = (named_release (cs_String (ferrol alpha9)))
     \<lparr>csr_status := \<lparr>rs_resources = [], rs_kubernetesVersion = ''1.27.3'', rs_ready = True,
        rs_conditions = []\<rparr>\<rparr>"

lemma ready_release_parses:
  "csr_ready ready_release \<and>
    NewFromClusterStackReleaseProperties (csr_name ready_release) = Inr (ferrol alpha9)"
  using release_of_String[OF ferrol_canonical[OF alpha9_canonical]]
  by (simp add: ready_release_def csr_ready_def csr_name_def named_release_def)

theorem latest_ready_is_newest_witness:
  "\<exists>r\<in>set [ready_release]. \<exists>cs. csr_ready r \<and>
    NewFromClusterStackReleaseProperties (csr_name r) = Inr cs \<and>
    cs_StringWithDot (ferrol alpha9) = cs_StringWithDot cs"
proof -
  have "getLatestReadyClusterStackRelease go_insertion_sort [ready_release] =
      Inr (Some (cs_StringWithDot (ferrol alpha9)), ''1.27.3'')"
    using ready_release_parses
    by (simp add: getLatestReadyClusterStackRelease_def Let_def)
      (simp add: ready_release_def)
  from latest_ready_is_newest[OF insertion.go_sort_axioms this, of "''alpha''"] ready_release_parses
  show ?thesis by (simp add: ferrol_def alpha9_def)
qed

text \<open>
  A cluster that uses a release, through its class, protects the release from deletion
  exactly in the stable channel: a class is named in the dotted notation and a release is not, so
  a release of any other channel is deleted although it is in use and the latest one ready.
\<close>

theorem in_use_release_kept_iff_stable:
  assumes "canonical_stack cs" and "csr_name r = cs_String cs"
    and "csr_name r \<notin> set_option latest \<union> set inSpec"
  shows "r \<in> set (snd (makeDiff [r] latest (Some (cs_StringWithDot cs)) inSpec [cs_StringWithDot cs]))
    \<longleftrightarrow> ver_channel (cs_version cs) \<noteq> ChannelStable"
  using assms notations_agree[of cs]
  by (auto simp: makeDiff_def Let_def keep_release_def)

theorem in_use_release_kept_iff_stable_witness:
  "named_release (cs_String (ferrol alpha9)) \<in> set (snd (makeDiff [named_release (cs_String (ferrol alpha9))]
     None (Some (cs_StringWithDot (ferrol alpha9))) [] [cs_StringWithDot (ferrol alpha9)]))"
  using in_use_release_kept_iff_stable[OF ferrol_canonical[OF alpha9_canonical],
      of "named_release (cs_String (ferrol alpha9))" None "[]"]
  by (simp add: ferrol_def alpha9_def ChannelStable_def)

end
