(* ===== verification/ProviderObjects.thy ===== *)
theory ProviderObjects
  imports ApiTypes
begin

text \<open>
  The provider-specific release objects of the ClusterStack controller: generating one from its
  template (\<open>generateProviderObject\<close>, \<open>unstructuredSpecEqual\<close>) and getting, updating or creating
  it (\<open>createOrUpdateProviderClusterStackRelease\<close>), with \<open>external.Get\<close> and
  \<open>external.GetObjectReference\<close> of Cluster API.
\<close>

section \<open>Generating the object\<close>

record generateProviderObjectInput =
  in_ExistingObject :: "unstructured option"
  in_Template :: unstructured
  in_Namespace :: string
  in_Name :: string
  in_Labels :: "(string \<times> string) list"
  in_Annotations :: "(string \<times> string) list"

datatype generate_error =
    RetrieveTemplate field_error
  | MissingTemplate
  | CompareSpec field_error
  | SetSpec

definition unstructuredSpecEqual ::
    "unstructured \<Rightarrow> unstructured \<Rightarrow> (field_error, unstructured \<times> bool) result" where
  "unstructuredSpecEqual oldObj newObj =
     (case NestedMap oldObj [''spec''] of
        Inl e \<Rightarrow> Inl e
      | Inr None \<Rightarrow> Inl MissingSpec
      | Inr (Some oldSpec) \<Rightarrow>
          (case NestedMap newObj [''spec''] of
             Inl e \<Rightarrow> Inl e
           | Inr None \<Rightarrow> Inl MissingSpec
           | Inr (Some newSpec) \<Rightarrow>
               Inr (newSpec, json_equal (JObject oldSpec) (JObject newSpec))))"

definition put_all :: "(string \<times> string) list \<Rightarrow> (string \<times> string) list \<Rightarrow> (string \<times> string) list" where
  "put_all kvs m = foldl (\<lambda>m (k, v). AList.update k v m) m kvs"

text \<open>The object to start from, and whether its spec had to change.\<close>

definition base_object ::
    "generateProviderObjectInput \<Rightarrow> unstructured \<Rightarrow> (generate_error, unstructured \<times> bool) result" where
  "base_object inp template =
     (case in_ExistingObject inp of
        Some existing \<Rightarrow>
          (case unstructuredSpecEqual existing template of
             Inl e \<Rightarrow> Inl (CompareSpec e)
           | Inr (newSpec, isEqual) \<Rightarrow>
               if isEqual then Inr (existing, False)
               else (case SetNestedField existing (JObject newSpec) [''spec''] of
                   None \<Rightarrow> Inl SetSpec
                 | Some to \<Rightarrow> Inr (to, True)))
      | None \<Rightarrow>
          Inr (SetNamespace (in_Namespace inp) (SetName (in_Name inp) (SetSelfLink []
            (SetUID [] (RemoveFinalizers (SetResourceVersion [] template))))), False))"

definition dress_object :: "generateProviderObjectInput \<Rightarrow> unstructured \<Rightarrow> unstructured" where
  "dress_object inp to =
     (let to = SetAnnotations (put_all (in_Annotations inp) (GetAnnotations to)) to;
          to = SetLabels (put_all (in_Labels inp) (GetLabels to)) to;
          to = (if GetAPIVersion to = [] then SetAPIVersion (GetAPIVersion (in_Template inp)) to else to)
      in if GetKind to = [] then SetKind (trim_suffix (GetKind (in_Template inp)) ''Template'') to
         else to)"

definition generateProviderObject ::
    "generateProviderObjectInput \<Rightarrow> (generate_error, unstructured \<times> bool) result" where
  "generateProviderObject inp =
     (case NestedMap (in_Template inp) [''spec'', ''template''] of
        Inl e \<Rightarrow> Inl (RetrieveTemplate e)
      | Inr None \<Rightarrow> Inl MissingTemplate
      | Inr (Some template) \<Rightarrow>
          (case base_object inp template of
             Inl e \<Rightarrow> Inl e
           | Inr (to, updated) \<Rightarrow> Inr (dress_object inp to, updated)))"

section \<open>Getting, updating or creating it\<close>

datatype provider_error =
    NilProviderRef
  | TemplateNotRetrieved api_error
  | ExistingNotRetrieved api_error
  | NotGenerated generate_error
  | NotUpdated api_error
  | NotCreated api_error

text \<open>\<open>apierrors.IsNotFound\<close> of the wrapped error.\<close>

fun provider_IsNotFound :: "provider_error \<Rightarrow> bool" where
  "provider_IsNotFound (TemplateNotRetrieved e) = IsNotFound e"
| "provider_IsNotFound (ExistingNotRetrieved e) = IsNotFound e"
| "provider_IsNotFound (NotUpdated e) = IsNotFound e"
| "provider_IsNotFound (NotCreated e) = IsNotFound e"
| "provider_IsNotFound _ = False"

definition GetObjectReference :: "unstructured \<Rightarrow> ObjectReference" where
  "GetObjectReference obj = \<lparr>ref_apiVersion = GetAPIVersion obj, ref_kind = GetKind obj,
     ref_name = GetName obj, ref_namespace = GetNamespace obj, ref_uid = GetUID obj\<rparr>"

datatype provider_write = UpdateProvider unstructured | CreateProvider unstructured

text \<open>
  \<open>external.Get\<close> reads an object by the type and name of the reference in a namespace; an answer
  to a write is a parameter too.
\<close>

record provider_api =
  pa_get :: "ObjectReference \<Rightarrow> string \<Rightarrow> (api_error, unstructured) result"
  pa_write :: "provider_write \<Rightarrow> api_error option"

text \<open>
  With no provider reference \<open>external.Get\<close> returns an error, and the code dereferences the nil
  reference to describe it.
\<close>

definition createOrUpdateProviderClusterStackRelease ::
    "provider_api \<Rightarrow> string \<Rightarrow> ClusterStackObject
      \<Rightarrow> (provider_error, ObjectReference) result \<times> provider_write list" where
  "createOrUpdateProviderClusterStackRelease api name clusterStack =
     (case css_providerRef (csk_spec clusterStack) of
        None \<Rightarrow> (Inl NilProviderRef, [])
      | Some templateRef \<Rightarrow>
        let ns = m_namespace (csk_meta clusterStack) in
        (case pa_get api templateRef ns of
           Inl e \<Rightarrow> (Inl (TemplateNotRetrieved e), [])
         | Inr from_obj \<Rightarrow>
             let ref = \<lparr>ref_apiVersion = GetAPIVersion from_obj,
                   ref_kind = trim_suffix (GetKind from_obj) ''Template'', ref_name = name,
                   ref_namespace = [], ref_uid = []\<rparr>;
                 found = pa_get api ref ns;
                 inp = (\<lambda>existing. \<lparr>in_ExistingObject = existing, in_Template = from_obj,
                   in_Namespace = ns, in_Name = name, in_Labels = m_labels (csk_meta clusterStack),
                   in_Annotations = m_annotations (csk_meta clusterStack)\<rparr>)
             in (case found of
                   Inl e \<Rightarrow>
                     if \<not> IsNotFound e then (Inl (ExistingNotRetrieved e), [])
                     else (case generateProviderObject (inp None) of
                         Inl g \<Rightarrow> (Inl (NotGenerated g), [])
                       | Inr (to, _) \<Rightarrow>
                           (case pa_write api (CreateProvider to) of
                              Some w \<Rightarrow> (Inl (NotCreated w), [CreateProvider to])
                            | None \<Rightarrow> (Inr (GetObjectReference to), [CreateProvider to])))
                 | Inr existing \<Rightarrow>
                     (case generateProviderObject (inp (Some existing)) of
                        Inl g \<Rightarrow> (Inl (NotGenerated g), [])
                      | Inr (to, shouldUpdate) \<Rightarrow>
                          if shouldUpdate
                          then (case pa_write api (UpdateProvider to) of
                                  Some w \<Rightarrow> (Inl (NotUpdated w), [UpdateProvider to])
                                | None \<Rightarrow> (Inr (GetObjectReference to), [UpdateProvider to]))
                          else (Inr (GetObjectReference to), [])))))"

section \<open>Facts\<close>

lemma map_of_put_all: "distinct (map fst kvs) \<Longrightarrow> map_of (put_all kvs m) = map_of m ++ map_of kvs"
proof (induction kvs arbitrary: m)
  case (Cons kv kvs)
  obtain k v where kv: "kv = (k, v)" by (cases kv)
  have "map_of (put_all (kv # kvs) m) = map_of (AList.update k v m) ++ map_of kvs"
    using Cons kv by (simp add: put_all_def)
  moreover have "k \<notin> dom (map_of kvs)" using Cons.prems kv by (auto simp: dom_map_of_conv_image_fst)
  ultimately show ?case by (auto simp: kv update_conv' map_add_def fun_eq_iff split: option.splits)
qed (simp add: put_all_def)

lemma nested_spec_dress:
  "NestedMap (dress_object inp u) [''spec''] = NestedMap u [''spec'']"
  by (simp add: dress_object_def Let_def setter_defs readers_diverge)

lemma spec_of_base:
  "base_object inp template = Inr (to, upd) \<Longrightarrow> in_ExistingObject inp = None \<Longrightarrow>
    NestedMap to [''spec''] = NestedMap template [''spec'']"
  by (auto simp: base_object_def setter_defs readers_diverge simp del: RemoveNestedField.simps)

section \<open>Properties\<close>

lemma dress_reads:
  assumes "has_metadata u"
  shows "GetName (dress_object inp u) = GetName u \<and> GetNamespace (dress_object inp u) = GetNamespace u \<and>
    GetLabels (dress_object inp u) = put_all (in_Labels inp) (GetLabels u) \<and>
    GetAnnotations (dress_object inp u) = put_all (in_Annotations inp) (GetAnnotations u)"
  using assms by (simp add: dress_object_def Let_def field_simps)

text \<open>
  A new provider object has the requested name and namespace, the spec of the template, and
  every label and annotation of the cluster stack, which win over those of the template.
\<close>

theorem new_provider_object:
  assumes "generateProviderObject inp = Inr (to, updated)" and "in_ExistingObject inp = None"
    and "NestedMap (in_Template inp) [''spec'', ''template''] = Inr (Some template)"
    and "has_metadata template"
    and "distinct (map fst (in_Labels inp))" and "distinct (map fst (in_Annotations inp))"
  shows "\<not> updated \<and> GetName to = in_Name inp \<and> GetNamespace to = in_Namespace inp \<and>
    NestedMap to [''spec''] = NestedMap template [''spec''] \<and>
    map_of (GetLabels to) = map_of (GetLabels template) ++ map_of (in_Labels inp) \<and>
    map_of (GetAnnotations to) = map_of (GetAnnotations template) ++ map_of (in_Annotations inp)"
proof -
  define b where "b = SetNamespace (in_Namespace inp) (SetName (in_Name inp) (SetSelfLink []
    (SetUID [] (RemoveFinalizers (SetResourceVersion [] template)))))"
  have base: "base_object inp template = Inr (b, False)"
    using assms(2) by (simp add: base_object_def b_def)
  then have to: "to = dress_object inp b" "\<not> updated"
    using assms(1,3) by (simp_all add: generateProviderObject_def)
  have md: "has_metadata b"
    using assms(4) by (simp add: b_def has_metadata_setters)
  have "GetName b = in_Name inp" "GetNamespace b = in_Namespace inp"
    using assms(4) by (simp_all add: b_def field_simps)
  moreover have "GetLabels b = GetLabels template" "GetAnnotations b = GetAnnotations template"
    by (simp_all add: b_def getter_defs setter_defs readers_diverge del: RemoveNestedField.simps)
  moreover have "NestedMap to [''spec''] = NestedMap template [''spec'']"
    using spec_of_base[OF base assms(2)] nested_spec_dress to(1) by simp
  ultimately show ?thesis
    using dress_reads[OF md, of inp] to assms(5,6) by (simp add: map_of_put_all)
qed

definition sample_template :: unstructured where
  "sample_template = [(''apiVersion'', JString ''infra/v1''), (''kind'', JString ''DockerReleaseTemplate''),
     (''spec'', JObject [(''template'', JObject [(''spec'', JObject [(''images'', JInt 3)])])])]"

definition sample_input :: "unstructured option \<Rightarrow> generateProviderObjectInput" where
  "sample_input existing = \<lparr>in_ExistingObject = existing, in_Template = sample_template,
     in_Namespace = ''ns'', in_Name = ''docker-ferrol-1-27-v1'', in_Labels = [(''team'', ''a'')],
     in_Annotations = []\<rparr>"

theorem new_provider_object_witness:
  "\<exists>to. generateProviderObject (sample_input None) = Inr (to, False) \<and> GetName to = ''docker-ferrol-1-27-v1''"
proof -
  obtain to upd where g: "generateProviderObject (sample_input None) = Inr (to, upd)"
    by (cases "generateProviderObject (sample_input None)")
      (auto simp: generateProviderObject_def sample_input_def sample_template_def NestedMap_def
        base_object_def)
  have "NestedMap sample_template [''spec'', ''template''] = Inr (Some [(''spec'', JObject [(''images'', JInt 3)])])"
    by (simp add: sample_template_def NestedMap_def)
  then show ?thesis
    using new_provider_object[OF g, of "[(''spec'', JObject [(''images'', JInt 3)])]"] g
    by (simp add: sample_input_def has_metadata_def)
qed

text \<open>Decoded JSON: no map lists a key twice.\<close>

fun json_wf :: "json \<Rightarrow> bool" where
  "json_wf (JObject m) = (distinct (map fst m) \<and> (\<forall>kv\<in>set m. json_wf (snd kv)))"
| "json_wf (JArray xs) = (\<forall>x\<in>set xs. json_wf x)"
| "json_wf _ = True"

lemma json_equal_refl: "json_wf v \<Longrightarrow> json_equal v v"
proof (induction v rule: json_wf.induct)
  case (1 m)
  have "map_of m (fst kv) = Some (snd kv)" if "kv \<in> set m" for kv
    using "1.prems" that by (cases kv) simp
  with 1 show ?case by (subst json_equal.simps) auto
next
  case (2 xs)
  then show ?case by (subst json_equal.simps) (auto simp: zip_same in_set_zip)
qed (simp_all add: json_equal.simps)

lemma updated_spec:
  assumes "generateProviderObject inp = Inr (to, updated)" and "in_ExistingObject inp = Some existing"
    and "NestedMap (in_Template inp) [''spec'', ''template''] = Inr (Some template)"
    and "NestedMap template [''spec''] = Inr (Some spec)" and "json_wf (JObject spec)"
  shows "\<exists>sp. NestedMap to [''spec''] = Inr (Some sp) \<and> json_equal (JObject sp) (JObject spec)"
proof -
  obtain old where old: "NestedMap existing [''spec''] = Inr (Some old)"
    using assms by (auto simp: generateProviderObject_def base_object_def unstructuredSpecEqual_def
        split: sum.splits option.splits)
  let ?eq = "json_equal (JObject old) (JObject spec)"
  have ue: "unstructuredSpecEqual existing template = Inr (spec, ?eq)"
    using old assms(4) by (simp add: unstructuredSpecEqual_def)
  define b where "b = (if ?eq then existing else AList.update ''spec'' (JObject spec) existing)"
  have "base_object inp template = Inr (b, \<not> ?eq)"
    using assms(2) ue by (simp add: base_object_def b_def)
  then have "to = dress_object inp b"
    using assms(1,3) by (simp add: generateProviderObject_def)
  then have "NestedMap to [''spec''] = NestedMap b [''spec'']" by (simp add: nested_spec_dress)
  also have "\<dots> = Inr (Some (if ?eq then old else spec))"
    using old by (simp add: b_def NestedMap_def update_conv')
  finally show ?thesis using json_equal_refl[OF assms(5)] by (cases ?eq) auto
qed

text \<open>
  C36. Updating an existing provider object settles: the object it yields has the spec of the
  template, so generating from it again asks for no further update.
\<close>

theorem provider_update_settles:
  assumes "generateProviderObject inp = Inr (to, updated)" and "in_ExistingObject inp = Some existing"
    and "NestedMap (in_Template inp) [''spec'', ''template''] = Inr (Some template)"
    and "NestedMap template [''spec''] = Inr (Some spec)" and "json_wf (JObject spec)"
  shows "\<exists>to'. generateProviderObject (inp\<lparr>in_ExistingObject := Some to\<rparr>) = Inr (to', False)"
  using updated_spec[OF assms] assms(3,4)
  by (auto simp: generateProviderObject_def base_object_def unstructuredSpecEqual_def)

definition stale_object :: unstructured where
  "stale_object = [(''apiVersion'', JString ''infra/v1''), (''spec'', JObject [(''images'', JInt 2)])]"

theorem provider_update_settles_witness:
  "\<exists>to to'. generateProviderObject (sample_input (Some stale_object)) = Inr (to, True) \<and>
    generateProviderObject (sample_input (Some to)) = Inr (to', False)"
proof -
  have s: "NestedMap sample_template [''spec'', ''template''] = Inr (Some [(''spec'', JObject [(''images'', JInt 3)])])"
    "NestedMap [(''spec'', JObject [(''images'', JInt 3)])] [''spec''] = Inr (Some [(''images'', JInt 3)])"
    by (simp_all add: sample_template_def NestedMap_def)
  have "base_object (sample_input (Some stale_object)) [(''spec'', JObject [(''images'', JInt 3)])] =
      Inr (AList.update ''spec'' (JObject [(''images'', JInt 3)]) stale_object, True)"
    by (simp add: base_object_def sample_input_def unstructuredSpecEqual_def stale_object_def
        NestedMap_def json_equal.simps)
  then obtain to where g: "generateProviderObject (sample_input (Some stale_object)) = Inr (to, True)"
    using s(1) by (simp add: generateProviderObject_def sample_input_def)
  from provider_update_settles[OF g, of stale_object] s g show ?thesis
    by (auto simp: sample_input_def)
qed

end
