(* ===== verification/StackController.thy ===== *)
theory StackController
  imports StackDiff ProviderObjects
begin

text \<open>
  The reconciliation of a ClusterStack (\<open>Reconcile\<close> and \<open>getOrCreateClusterStackRelease\<close> of
  \<open>internal/controller/clusterstack_controller.go\<close>). The API server, the assets client, the
  sort and the iteration order of a Go map are fields of an environment; an answer to a write
  may depend on all writes sent before, which the state records. Events and log lines are left
  out.
\<close>

section \<open>Environment and state\<close>

datatype stack_write =
    DeleteRelease ClusterStackRelease
  | CreateRelease ClusterStackRelease
  | ProviderWrite provider_write
  | PatchStack ClusterStackObject

record stack_env =
  se_get :: "(api_error, ClusterStackObject) result"
  se_newHelper :: "string option"
  se_releases :: "(api_error, ClusterStackRelease list) result"
  se_newAssetsClient :: "string option"
  se_remote :: "(string, string list) result"
  se_clusters :: "(api_error, Cluster list) result"
  se_delete :: "stack_write list \<Rightarrow> ClusterStackRelease \<Rightarrow> api_error option"
  se_getRelease :: "stack_write list \<Rightarrow> NamespacedName \<Rightarrow> api_error option"
  se_createRelease :: "stack_write list \<Rightarrow> ClusterStackRelease \<Rightarrow> api_error option"
  se_provider :: "stack_write list \<Rightarrow> provider_api"
  se_patch :: "stack_write list \<Rightarrow> ClusterStackObject \<Rightarrow> api_error option"
  se_sort :: "(ClusterStack \<Rightarrow> ClusterStack \<Rightarrow> bool) \<Rightarrow> ClusterStack list \<Rightarrow> ClusterStack list"
  se_order :: "string list \<Rightarrow> string list"

datatype stack_error =
    GetStackFailed api_error
  | NewHelperFailed string
  | ListReleasesFailed api_error
  | LatestReadyFailed cs_error
  | InUseFailed api_error
  | InSpecFailed cs_error
  | DeleteReleaseFailed api_error
  | SummaryFailed cs_error
  | ProviderFailed provider_error
  | GetReleaseFailed api_error
  | CreateReleaseFailed api_error
  | UsableVersionsFailed version_error
  | PatchFailed api_error

text \<open>How the body of a reconciliation ends.\<close>

datatype stack_exit =
    Return
  | RequeueAfter nat
  | Fail stack_error
  | Panic

record stack_state =
  sk_object :: ClusterStackObject
  sk_writes :: "stack_write list"
  sk_summary :: "ClusterStackReleaseSummary list"

definition mark_stack :: "(Conditions \<Rightarrow> Conditions) \<Rightarrow> stack_state \<Rightarrow> stack_state" where
  "mark_stack f s = s\<lparr>sk_object := csk_conditions f (sk_object s)\<rparr>"

definition stack_send :: "stack_write \<Rightarrow> stack_state \<Rightarrow> stack_state" where
  "stack_send w s = s\<lparr>sk_writes := sk_writes s @ [w]\<rparr>"

definition set_status :: "(ClusterStackStatus \<Rightarrow> ClusterStackStatus) \<Rightarrow> stack_state \<Rightarrow> stack_state" where
  "set_status f s = s\<lparr>sk_object := (sk_object s)\<lparr>csk_status := f (csk_status (sk_object s))\<rparr>\<rparr>"

section \<open>Releases\<close>

definition new_release ::
    "string \<Rightarrow> string \<Rightarrow> OwnerReference \<Rightarrow> ObjectReference option \<Rightarrow> ClusterStackRelease" where
  "new_release name namespace ownerRef providerRef =
     empty_release\<lparr>csr_meta := empty_meta\<lparr>m_name := name, m_namespace := namespace,
         m_kind := ''ClusterStackRelease'', m_apiVersion := ''clusterstack.x-k8s.io/v1alpha1'',
         m_ownerReferences := [ownerRef]\<rparr>,
       csr_providerRef := providerRef\<rparr>"

definition getOrCreateClusterStackRelease ::
    "stack_env \<Rightarrow> string \<Rightarrow> string \<Rightarrow> OwnerReference \<Rightarrow> ObjectReference option \<Rightarrow> stack_state
      \<Rightarrow> stack_error option \<times> stack_state" where
  "getOrCreateClusterStackRelease env name namespace ownerRef providerRef s =
     (case se_getRelease env (sk_writes s) \<lparr>nn_name = name, nn_namespace = namespace\<rparr> of
        None \<Rightarrow> (None, s)
      | Some e \<Rightarrow>
          if \<not> IsNotFound e then (Some (GetReleaseFailed e), s)
          else
            let csr = new_release name namespace ownerRef providerRef
            in (map_option CreateReleaseFailed (se_createRelease env (sk_writes s) csr),
                stack_send (CreateRelease csr) s))"

definition delete_release_step ::
    "stack_env \<Rightarrow> ClusterStackRelease \<Rightarrow> stack_state \<Rightarrow> stack_exit option \<times> stack_state" where
  "delete_release_step env csr s =
     (case se_delete env (sk_writes s) csr of
        Some e \<Rightarrow> (if IsNotFound e then None else Some (Fail (DeleteReleaseFailed e)),
                   stack_send (DeleteRelease csr) s)
      | None \<Rightarrow> (None, stack_send (DeleteRelease csr) s))"

text \<open>The provider-specific object of one release; nothing to do without a provider.\<close>

definition provider_step ::
    "stack_env \<Rightarrow> string \<Rightarrow> stack_state \<Rightarrow> (stack_exit, ObjectReference option) result \<times> stack_state" where
  "provider_step env name s =
     (if css_noProvider (csk_spec (sk_object s)) then (Inr None, s)
      else (case createOrUpdateProviderClusterStackRelease (se_provider env (sk_writes s)) name
                   (sk_object s) of
          (Inr ref, ws) \<Rightarrow> (Inr (Some ref), s\<lparr>sk_writes := sk_writes s @ map ProviderWrite ws\<rparr>)
        | (Inl NilProviderRef, ws) \<Rightarrow> (Inl Panic, s)
        | (Inl e, ws) \<Rightarrow>
            (Inl (Fail (ProviderFailed e)),
             mark_stack
               (if provider_IsNotFound e
                then cond_MarkFalse ProviderClusterStackReleasesSyncedCondition
                       ProviderTemplateNotFoundReason ConditionSeverityError
                else cond_MarkFalse ProviderClusterStackReleasesSyncedCondition
                       FailedToCreateOrUpdateReason ConditionSeverityWarning)
               (s\<lparr>sk_writes := sk_writes s @ map ProviderWrite ws\<rparr>))))"

definition create_release_step ::
    "stack_env \<Rightarrow> string \<Rightarrow> OwnerReference \<Rightarrow> ClusterStackRelease \<Rightarrow> stack_state
      \<Rightarrow> stack_exit option \<times> stack_state" where
  "create_release_step env namespace ownerRef csr s =
     (case release_Summary csr of
        Inl e \<Rightarrow> (Some (Fail (SummaryFailed e)), s)
      | Inr sm \<Rightarrow>
          let s = s\<lparr>sk_summary := sk_summary s @ [sm]\<rparr>
          in (case provider_step env (csr_name csr) s of
                (Inl exit, s) \<Rightarrow> (Some exit, s)
              | (Inr providerRef, s) \<Rightarrow>
                  (case getOrCreateClusterStackRelease env (csr_name csr) namespace ownerRef
                          providerRef s of
                     (Some e, s) \<Rightarrow> (Some (Fail e), mark_stack
                         (cond_MarkFalse ClusterStackReleasesSyncedCondition
                            FailedToCreateOrUpdateReason ConditionSeverityWarning) s)
                   | (None, s) \<Rightarrow> (None, s))))"

section \<open>Subscribing to the remote repository\<close>

definition subscribe ::
    "stack_env \<Rightarrow> stack_state \<Rightarrow> (stack_exit, string option) result \<times> stack_state" where
  "subscribe env s =
     (if css_autoSubscribe (csk_spec (sk_object s))
      then (case se_newAssetsClient env of
          Some _ \<Rightarrow>
            let isSet = cond_IsFalse (st_conditions (csk_status (sk_object s)))
                          AssetsClientAPIAvailableCondition
            in (Inl (if isSet then RequeueAfter 5 else Return),
                mark_stack (cond_MarkFalse AssetsClientAPIAvailableCondition
                  FailedCreateAssetsClientReason ConditionSeverityError) s)
        | None \<Rightarrow>
            let s = mark_stack (cond_MarkTrue AssetsClientAPIAvailableCondition) s
            in (case getLatestReleaseFromRemoteRepository (se_sort env) (se_remote env)
                       (csk_spec (sk_object s)) of
                  Inl _ \<Rightarrow>
                    (Inr None, mark_stack (cond_MarkTrue ReleasesSyncedCondition)
                      (mark_stack (cond_MarkFalse ReleasesSyncedCondition FailedToSyncReason
                         ConditionSeverityWarning) s))
                | Inr latest \<Rightarrow>
                    (Inr latest, mark_stack (cond_MarkTrue ReleasesSyncedCondition) s)))
      else (Inr None, s))"

section \<open>Reporting\<close>

definition report_stack ::
    "stack_env \<Rightarrow> ClusterStackRelease list \<Rightarrow> string option \<times> string \<Rightarrow> stack_state
      \<Rightarrow> stack_exit \<times> stack_state" where
  "report_stack env existing latestReady s =
     (let s = mark_stack (cond_MarkTrue ClusterStackReleasesSyncedCondition) s;
          s = (if css_noProvider (csk_spec (sk_object s)) then s
               else mark_stack (cond_MarkTrue ProviderClusterStackReleasesSyncedCondition) s);
          s = set_status (\<lambda>st. st\<lparr>st_summary := sk_summary s\<rparr>) s;
          s = (case fst latestReady of
                 None \<Rightarrow> s
               | Some l \<Rightarrow> mark_stack (cond_MarkTrue ClusterStackReleaseAvailableCondition)
                   (set_status (\<lambda>st. st\<lparr>st_latestRelease := l @ '' | '' @ snd latestReady\<rparr>) s))
      in (case getUsableClusterStackReleaseVersions existing of
            Inl e \<Rightarrow> (Fail (UsableVersionsFailed e), s)
          | Inr vs \<Rightarrow>
              (Return, set_status (\<lambda>st. st\<lparr>st_usableVersions := join_with '', '' vs\<rparr>) s)))"

section \<open>Reconcile\<close>

text \<open>From the releases at hand to the writes, once the latest releases are known.\<close>

definition sync_releases ::
    "stack_env \<Rightarrow> string \<Rightarrow> ClusterStackRelease list \<Rightarrow> string option \<times> string \<Rightarrow> string option
      \<Rightarrow> stack_state \<Rightarrow> stack_exit \<times> stack_state" where
  "sync_releases env namespace existing latestReady latest s =
     (case getClusterStackReleasesInUse (se_clusters env) of
        Inl e \<Rightarrow> (Fail (InUseFailed e), s)
      | Inr inUse \<Rightarrow>
          (case getClusterStackReleasesInSpec (csk_spec (sk_object s)) of
             Inl e \<Rightarrow> (Fail (InSpecFailed e), s)
           | Inr inSpec \<Rightarrow>
               let (toCreate, toDelete) =
                     makeDiff existing latest (fst latestReady) (se_order env inSpec) inUse
               in (case for_each (delete_release_step env) toDelete s of
                     (Some exit, s) \<Rightarrow> (exit, s)
                   | (None, s) \<Rightarrow>
                       (case for_each (create_release_step env namespace
                               (generateOwnerReference (sk_object s))) toCreate s of
                          (Some exit, s) \<Rightarrow> (exit, s)
                        | (None, s) \<Rightarrow> report_stack env existing latestReady s))))"

definition reconcile_stack :: "stack_env \<Rightarrow> string \<Rightarrow> stack_state \<Rightarrow> stack_exit \<times> stack_state" where
  "reconcile_stack env namespace s =
     (if m_deleting (csk_meta (sk_object s)) then (Return, s)
      else (case getExistingClusterStackReleases (se_releases env) (sk_object s) of
          Inl e \<Rightarrow> (Fail (ListReleasesFailed e), s)
        | Inr existing \<Rightarrow>
            (case getLatestReadyClusterStackRelease (se_sort env) existing of
               Inl e \<Rightarrow> (Fail (LatestReadyFailed e), s)
             | Inr latestReady \<Rightarrow>
                 (case subscribe env s of
                    (Inl exit, s) \<Rightarrow> (exit, s)
                  | (Inr latest, s) \<Rightarrow> sync_releases env namespace existing latestReady latest s))))"

record stack_result =
  sr_exit :: stack_exit
  sr_object :: "ClusterStackObject option"
  sr_writes :: "stack_write list"

text \<open>
  The deferred function sets the summary and patches the object, whatever the exit; its own error
  replaces the result, but does not stop a panic.
\<close>

definition stack_Reconcile :: "stack_env \<Rightarrow> NamespacedName \<Rightarrow> stack_result" where
  "stack_Reconcile env req =
     (case se_get env of
        Inl e \<Rightarrow> \<lparr>sr_exit = (if IsNotFound e then Return else Fail (GetStackFailed e)),
                 sr_object = None, sr_writes = []\<rparr>
      | Inr clusterStack \<Rightarrow>
          (case se_newHelper env of
             Some e \<Rightarrow> \<lparr>sr_exit = Fail (NewHelperFailed e), sr_object = None, sr_writes = []\<rparr>
           | None \<Rightarrow>
               let (exit, s) = reconcile_stack env (nn_namespace req)
                     \<lparr>sk_object = clusterStack, sk_writes = [], sk_summary = []\<rparr>;
                   obj = csk_conditions cond_SetSummary (sk_object s);
                   patched = se_patch env (sk_writes s) obj
               in \<lparr>sr_exit = (case patched of
                       Some e \<Rightarrow> (if exit = Panic then Panic else Fail (PatchFailed e))
                     | None \<Rightarrow> exit),
                   sr_object = Some obj,
                   sr_writes = sk_writes s @ [PatchStack obj]\<rparr>))"

section \<open>How the state evolves\<close>

text \<open>
  A reconciliation changes its state in few ways: it sends writes of a kind \<open>J\<close>, marks
  conditions of the types \<open>T\<close>, collects summaries and fills in the rest of the status.
\<close>

inductive evolves ::
    "(stack_write \<Rightarrow> bool) \<Rightarrow> ConditionType set \<Rightarrow> stack_state \<Rightarrow> stack_state \<Rightarrow> bool"
  for J T s where
  stay: "evolves J T s s"
| sends: "evolves J T s t \<Longrightarrow> J w \<Longrightarrow> evolves J T s (stack_send w t)"
| mark_true: "evolves J T s t \<Longrightarrow> c \<in> T \<Longrightarrow> evolves J T s (mark_stack (cond_MarkTrue c) t)"
| mark_false: "evolves J T s t \<Longrightarrow> c \<in> T \<Longrightarrow>
    evolves J T s (mark_stack (cond_MarkFalse c r sev) t)"
| summarise: "evolves J T s t \<Longrightarrow> evolves J T s (t\<lparr>sk_summary := x\<rparr>)"
| status: "evolves J T s t \<Longrightarrow> csk_meta ob = csk_meta (sk_object t) \<Longrightarrow>
    csk_spec ob = csk_spec (sk_object t) \<Longrightarrow>
    st_conditions (csk_status ob) = st_conditions (csk_status (sk_object t)) \<Longrightarrow>
    evolves J T s (t\<lparr>sk_object := ob\<rparr>)"

lemma evolves_set_status:
  "evolves J T s t \<Longrightarrow> (\<And>st. st_conditions (f st) = st_conditions st) \<Longrightarrow> evolves J T s (set_status f t)"
  unfolding set_status_def by (rule evolves.status) simp_all

lemma evolves_trans: "evolves J T t u \<Longrightarrow> evolves J T s t \<Longrightarrow> evolves J T s u"
  by (induction rule: evolves.induct) (auto intro: evolves.intros)

lemma evolves_mono:
  "evolves J T s t \<Longrightarrow> (\<And>w. J w \<Longrightarrow> J' w) \<Longrightarrow> T \<subseteq> T' \<Longrightarrow> evolves J' T' s t"
  by (induction rule: evolves.induct) (auto intro: evolves.intros)

lemma evolves_writes_list:
  "\<forall>w\<in>set ws. J w \<Longrightarrow> evolves J T s (s\<lparr>sk_writes := sk_writes s @ ws\<rparr>)"
proof (induction ws rule: rev_induct)
  case (snoc w ws)
  have "evolves J T s (stack_send w (s\<lparr>sk_writes := sk_writes s @ ws\<rparr>))"
    using snoc by (auto intro: evolves.sends)
  then show ?case by (simp add: stack_send_def)
qed (simp add: evolves.stay)

lemma evolves_frame:
  "evolves J T s t \<Longrightarrow> csk_meta (sk_object t) = csk_meta (sk_object s) \<and>
    csk_spec (sk_object t) = csk_spec (sk_object s)"
  by (induction rule: evolves.induct) (auto simp: mark_stack_def stack_send_def)

abbreviation stack_conds :: "stack_state \<Rightarrow> Conditions" where
  "stack_conds s \<equiv> st_conditions (csk_status (sk_object s))"

lemma evolves_conds_ok: "evolves J T s t \<Longrightarrow> conds_ok (stack_conds s) \<Longrightarrow> conds_ok (stack_conds t)"
  by (induction rule: evolves.induct) (auto simp: mark_stack_def stack_send_def cond_simps)

lemma evolves_condition:
  assumes "evolves J T s t" and "conds_ok (stack_conds s)" and "c \<notin> T"
  shows "cond_Get (stack_conds t) c = cond_Get (stack_conds s) c"
  using assms
proof (induction rule: evolves.induct)
  case (mark_true t c')
  then show ?case using evolves_conds_ok[OF mark_true.hyps(1)]
    by (auto simp: mark_stack_def get_mark)
next
  case (mark_false t c' r sev)
  then show ?case using evolves_conds_ok[OF mark_false.hyps(1)]
    by (auto simp: mark_stack_def get_mark)
qed (simp_all add: stack_send_def)

lemma evolves_writes:
  "evolves J T s t \<Longrightarrow> \<exists>ws. sk_writes t = sk_writes s @ ws \<and> (\<forall>w\<in>set ws. J w)"
  by (induction rule: evolves.induct) (auto simp: mark_stack_def stack_send_def)

lemma for_each_evolves:
  assumes "\<And>x s e t. x \<in> set xs \<Longrightarrow> f x s = (e, t) \<Longrightarrow> evolves J T s t"
    and "for_each f xs s = (e, t)"
  shows "evolves J T s t"
  using for_each_inv[of "evolves J T s" s xs f] assms evolves_trans evolves.stay by (metis snd_conv)

section \<open>The steps\<close>

definition is_create :: "stack_write \<Rightarrow> bool" where
  "is_create w = (case w of CreateRelease _ \<Rightarrow> True | ProviderWrite _ \<Rightarrow> True | _ \<Rightarrow> False)"

definition sync_conditions :: "ConditionType set" where
  "sync_conditions = {ProviderClusterStackReleasesSyncedCondition, ClusterStackReleasesSyncedCondition,
     ClusterStackReleaseAvailableCondition}"

definition subscribe_conditions :: "ConditionType set" where
  "subscribe_conditions = {AssetsClientAPIAvailableCondition, ReleasesSyncedCondition}"

lemma delete_release_evolves:
  "delete_release_step env csr s = (e, t) \<Longrightarrow> evolves (\<lambda>w. w = DeleteRelease csr) {} s t"
  by (auto simp: delete_release_step_def intro: evolves.intros split: option.splits)

lemma getOrCreate_evolves:
  "getOrCreateClusterStackRelease env n ns o1 p s = (e, t) \<Longrightarrow> evolves is_create T s t"
  by (auto simp: getOrCreateClusterStackRelease_def Let_def is_create_def
      intro: evolves.intros split: option.splits if_splits)

lemma provider_step_evolves:
  assumes "provider_step env n s = (r, t)"
  shows "evolves is_create sync_conditions s t"
proof (cases "css_noProvider (csk_spec (sk_object s))")
  case True
  then show ?thesis using assms by (auto simp: provider_step_def intro: evolves.intros)
next
  case False
  obtain res ws where p: "createOrUpdateProviderClusterStackRelease (se_provider env (sk_writes s)) n
      (sk_object s) = (res, ws)" by fastforce
  have w: "evolves is_create sync_conditions s (s\<lparr>sk_writes := sk_writes s @ map ProviderWrite ws\<rparr>)"
    by (rule evolves_writes_list) (auto simp: is_create_def)
  show ?thesis
  proof (cases res)
    case (Inr ref)
    then show ?thesis using assms False p w by (simp add: provider_step_def)
  next
    case (Inl e)
    have "evolves is_create sync_conditions s (mark_stack (if provider_IsNotFound e
        then cond_MarkFalse ProviderClusterStackReleasesSyncedCondition
               ProviderTemplateNotFoundReason ConditionSeverityError
        else cond_MarkFalse ProviderClusterStackReleasesSyncedCondition
               FailedToCreateOrUpdateReason ConditionSeverityWarning)
        (s\<lparr>sk_writes := sk_writes s @ map ProviderWrite ws\<rparr>))"
      using evolves.mark_false[OF w, of ProviderClusterStackReleasesSyncedCondition]
      by (auto simp: sync_conditions_def)
    then show ?thesis
      using assms False p Inl by (cases e) (auto simp: provider_step_def intro: evolves.stay)
  qed
qed

lemma create_release_evolves:
  assumes "create_release_step env ns o1 csr s = (e, t)"
  shows "evolves is_create sync_conditions s t"
proof (cases "release_Summary csr")
  case (Inl err)
  then show ?thesis using assms by (auto simp: create_release_step_def intro: evolves.stay)
next
  case (Inr sm)
  let ?s = "s\<lparr>sk_summary := sk_summary s @ [sm]\<rparr>"
  have s: "evolves is_create sync_conditions s ?s" by (auto intro: evolves.intros)
  obtain r u where p: "provider_step env (csr_name csr) ?s = (r, u)" by fastforce
  have u: "evolves is_create sync_conditions s u"
    using provider_step_evolves[OF p] s by (rule evolves_trans)
  show ?thesis
  proof (cases r)
    case (Inl x)
    then show ?thesis using assms Inr p u by (simp add: create_release_step_def)
  next
    case (Inr ref)
    obtain g v where g: "getOrCreateClusterStackRelease env (csr_name csr) ns o1 ref u = (g, v)"
      by fastforce
    have v: "evolves is_create sync_conditions s v"
      using getOrCreate_evolves[OF g] u by (rule evolves_trans)
    show ?thesis
      using assms Inr \<open>release_Summary csr = Inr sm\<close> p g v
      by (cases g) (auto simp: create_release_step_def sync_conditions_def intro: evolves.intros)
  qed
qed

lemma subscribe_evolves:
  "subscribe env s = (r, t) \<Longrightarrow> evolves is_create subscribe_conditions s t"
  by (auto simp: subscribe_def Let_def subscribe_conditions_def intro!: evolves.intros
      split: if_splits option.splits sum.splits)

lemma report_evolves:
  "report_stack env existing lr s = (e, t) \<Longrightarrow> evolves is_create sync_conditions s t"
  by (auto simp: report_stack_def Let_def sync_conditions_def
      intro!: evolves_set_status evolves.mark_true evolves.stay
      split: sum.splits option.splits if_splits)

section \<open>The whole reconciliation\<close>

definition deletable ::
    "stack_env \<Rightarrow> ClusterStackSpec \<Rightarrow> string option \<Rightarrow> ClusterStackRelease \<Rightarrow> bool" where
  "deletable env spec latest r \<longleftrightarrow> (\<exists>inUse inSpec.
     getClusterStackReleasesInUse (se_clusters env) = Inr inUse \<and>
     getClusterStackReleasesInSpec spec = Inr inSpec \<and>
     csr_name r \<notin> set inUse \<union> set (se_order env inSpec) \<union> set_option latest)"

definition allowed_write ::
    "stack_env \<Rightarrow> ClusterStackSpec \<Rightarrow> ClusterStackRelease list \<Rightarrow> string option \<Rightarrow> stack_write \<Rightarrow> bool" where
  "allowed_write env spec existing latest w \<longleftrightarrow>
     is_create w \<or> (\<exists>r\<in>set existing. w = DeleteRelease r \<and> deletable env spec latest r)"

lemma sync_releases_evolves:
  assumes "sync_releases env ns existing lr latest s = (x, t)"
  shows "evolves (allowed_write env (csk_spec (sk_object s)) existing latest) sync_conditions s t"
    (is "evolves ?J _ _ _")
proof (cases "getClusterStackReleasesInUse (se_clusters env)")
  case (Inl e)
  then show ?thesis using assms by (auto simp: sync_releases_def intro: evolves.stay)
next
  case (Inr inUse)
  note use = this
  show ?thesis
  proof (cases "getClusterStackReleasesInSpec (csk_spec (sk_object s))")
    case (Inl e)
    then show ?thesis using assms use by (auto simp: sync_releases_def intro: evolves.stay)
  next
    case (Inr inSpec)
    obtain tc td where d: "makeDiff existing latest (fst lr) (se_order env inSpec) inUse = (tc, td)"
      by fastforce
    have td: "r \<in> set existing \<and> deletable env (csk_spec (sk_object s)) latest r" if "r \<in> set td" for r
      using that d use Inr
      by (auto simp: makeDiff_def Let_def keep_release_def deletable_def)
    obtain e1 s1 where l1: "for_each (delete_release_step env) td s = (e1, s1)" by fastforce
    have 1: "evolves ?J sync_conditions s s1"
      using l1
    proof (rule for_each_evolves[rotated])
      show "evolves ?J sync_conditions a b"
        if "r \<in> set td" "delete_release_step env r a = (e, b)" for r a e b
        by (rule evolves_mono[OF delete_release_evolves[OF that(2)]])
          (use td[OF that(1)] in \<open>auto simp: allowed_write_def\<close>)
    qed
    have mono: "evolves is_create sync_conditions a b \<Longrightarrow> evolves ?J sync_conditions a b" for a b
      by (erule evolves_mono) (auto simp: allowed_write_def)
    obtain e2 s2 where l2: "for_each (create_release_step env ns (generateOwnerReference (sk_object s1)))
        tc s1 = (e2, s2)" by fastforce
    have 2: "evolves ?J sync_conditions s s2"
      using mono[OF for_each_evolves[OF create_release_evolves l2]] 1 by (rule evolves_trans)
    have run: "(x, t) = (case e1 of Some exit \<Rightarrow> (exit, s1) | None \<Rightarrow>
        (case e2 of Some exit \<Rightarrow> (exit, s2) | None \<Rightarrow> report_stack env existing lr s2))"
      using assms by (auto simp: sync_releases_def use Inr d l1 l2 split: option.splits)
    obtain e3 s3 where l3: "report_stack env existing lr s2 = (e3, s3)" by fastforce
    have "evolves ?J sync_conditions s s3"
      using mono[OF report_evolves[OF l3]] 2 by (rule evolves_trans)
    with 1 2 run l3 show ?thesis by (auto split: option.splits)
  qed
qed

lemma reconcile_stack_evolves:
  assumes "reconcile_stack env ns s = (x, t)"
  shows "evolves (\<lambda>w. is_create w \<or> (\<not> m_deleting (csk_meta (sk_object s)) \<and>
      (\<exists>existing latest. getExistingClusterStackReleases (se_releases env) (sk_object s) = Inr existing \<and>
        allowed_write env (csk_spec (sk_object s)) existing latest w)))
    (sync_conditions \<union> subscribe_conditions) s t" (is "evolves ?J ?T s t")
proof -
  consider "t = s"
    | existing lr latest u where "\<not> m_deleting (csk_meta (sk_object s))"
        "getExistingClusterStackReleases (se_releases env) (sk_object s) = Inr existing"
        "subscribe env s = (Inr latest, u)" "sync_releases env ns existing lr latest u = (x, t)"
    | exit where "subscribe env s = (Inl exit, t)"
    using assms by (auto simp: reconcile_stack_def split: if_splits sum.splits prod.splits)
  then show ?thesis
  proof cases
    case 1
    then show ?thesis by (simp add: evolves.stay)
  next
    case 2
    have u: "evolves ?J ?T s u"
      by (rule evolves_mono[OF subscribe_evolves[OF 2(3)]]) auto
    have "csk_spec (sk_object u) = csk_spec (sk_object s)" using evolves_frame[OF u] by simp
    then have "evolves ?J ?T u t"
      using sync_releases_evolves[OF 2(4)] 2(1,2) by (auto elim!: evolves_mono)
    then show ?thesis using u by (rule evolves_trans)
  next
    case 3
    show ?thesis by (rule evolves_mono[OF subscribe_evolves[OF 3]]) auto
  qed
qed

lemma stack_Reconcile_run:
  assumes "se_get env = Inr cs" and "se_newHelper env = None"
  obtains x s where "reconcile_stack env (nn_namespace req)
      \<lparr>sk_object = cs, sk_writes = [], sk_summary = []\<rparr> = (x, s)"
    "sr_object (stack_Reconcile env req) = Some (csk_conditions cond_SetSummary (sk_object s))"
    "sr_writes (stack_Reconcile env req) =
       sk_writes s @ [PatchStack (csk_conditions cond_SetSummary (sk_object s))]"
    "sr_exit (stack_Reconcile env req) = x \<or>
       (\<exists>e. sr_exit (stack_Reconcile env req) = Fail (PatchFailed e))"
proof -
  obtain x s where r: "reconcile_stack env (nn_namespace req)
      \<lparr>sk_object = cs, sk_writes = [], sk_summary = []\<rparr> = (x, s)" by fastforce
  show thesis
    by (rule that[OF r]) (auto simp: stack_Reconcile_def assms r Let_def split: option.splits)
qed

section \<open>Properties of Reconcile\<close>

text \<open>
  C1. Reconcile deletes only a release it owns, never one that the spec asks for, and never one
  whose name is the class of a cluster; a cluster stack that is being deleted deletes none.
\<close>

theorem stack_deletes_only_unwanted:
  assumes "se_get env = Inr cs" and "\<And>names. set (se_order env names) = set names"
    and "DeleteRelease r \<in> set (sr_writes (stack_Reconcile env req))"
  shows "\<exists>items inUse inSpec. se_releases env = Inr items \<and> r \<in> set items \<and> owned_by cs r \<and>
    getClusterStackReleasesInUse (se_clusters env) = Inr inUse \<and> csr_name r \<notin> set inUse \<and>
    getClusterStackReleasesInSpec (csk_spec cs) = Inr inSpec \<and> csr_name r \<notin> set inSpec \<and>
    \<not> m_deleting (csk_meta cs)"
proof -
  have h: "se_newHelper env = None"
    using assms(1,3) by (cases "se_newHelper env") (auto simp: stack_Reconcile_def)
  obtain x s where run: "reconcile_stack env (nn_namespace req)
      \<lparr>sk_object = cs, sk_writes = [], sk_summary = []\<rparr> = (x, s)"
    and w: "sr_writes (stack_Reconcile env req) =
      sk_writes s @ [PatchStack (csk_conditions cond_SetSummary (sk_object s))]"
    using stack_Reconcile_run[OF assms(1) h] .
  have "DeleteRelease r \<in> set (sk_writes s)" using assms(3) w by simp
  then obtain existing latest where e: "\<not> m_deleting (csk_meta cs)"
    "getExistingClusterStackReleases (se_releases env) cs = Inr existing"
    "allowed_write env (csk_spec cs) existing latest (DeleteRelease r)"
    using evolves_writes[OF reconcile_stack_evolves[OF run]] by (auto simp: is_create_def)
  then have "r \<in> set existing" "deletable env (csk_spec cs) latest r"
    by (auto simp: allowed_write_def is_create_def)
  with e(1,2) show ?thesis
    using assms(2)
    by (auto simp: getExistingClusterStackReleases_def deletable_def split: sum.splits)
qed

text \<open>
  The object Reconcile patches differs from the one it read in its status only, and its
  conditions still list each type once.
\<close>

theorem stack_patch_touches_status_only:
  assumes "se_get env = Inr cs" and "sr_object (stack_Reconcile env req) = Some ob"
    and "conds_ok (st_conditions (csk_status cs))"
  shows "csk_meta ob = csk_meta cs \<and> csk_spec ob = csk_spec cs \<and>
    conds_ok (st_conditions (csk_status ob))"
proof -
  have h: "se_newHelper env = None"
    using assms(1,2) by (cases "se_newHelper env") (auto simp: stack_Reconcile_def)
  obtain x s where run: "reconcile_stack env (nn_namespace req)
      \<lparr>sk_object = cs, sk_writes = [], sk_summary = []\<rparr> = (x, s)"
    and ob: "sr_object (stack_Reconcile env req) = Some (csk_conditions cond_SetSummary (sk_object s))"
    using stack_Reconcile_run[OF assms(1) h] .
  note ev = reconcile_stack_evolves[OF run]
  from evolves_frame[OF ev] evolves_conds_ok[OF ev] ob assms(2,3) show ?thesis
    by (auto simp: conds_ok_SetSummary)
qed

text \<open>
  A failure to list the remote releases leaves no trace in the conditions: once the assets
  client works and the existing releases can be read, Reconcile patches the object with
  ReleasesSynced true although the listing failed.
\<close>

theorem remote_failure_marked_synced:
  assumes "se_get env = Inr cs" and "se_newHelper env = None" and "\<not> m_deleting (csk_meta cs)"
    and "conds_ok (st_conditions (csk_status cs))"
    and "getExistingClusterStackReleases (se_releases env) cs = Inr existing"
    and "getLatestReadyClusterStackRelease (se_sort env) existing = Inr lr"
    and "css_autoSubscribe (csk_spec cs)" and "se_newAssetsClient env = None"
    and "se_remote env = Inl failure"
  shows "\<exists>ob. sr_object (stack_Reconcile env req) = Some ob \<and>
    cond_IsTrue (st_conditions (csk_status ob)) ReleasesSyncedCondition"
proof -
  obtain x s where run: "reconcile_stack env (nn_namespace req)
      \<lparr>sk_object = cs, sk_writes = [], sk_summary = []\<rparr> = (x, s)"
    and ob: "sr_object (stack_Reconcile env req) = Some (csk_conditions cond_SetSummary (sk_object s))"
    using stack_Reconcile_run[OF assms(1,2)] .
  let ?s0 = "\<lparr>sk_object = cs, sk_writes = [], sk_summary = []\<rparr>"
  obtain u where u: "subscribe env ?s0 = (Inr None, u)"
    and t: "cond_IsTrue (stack_conds u) ReleasesSyncedCondition"
    using assms(4,7,8,9)
    by (auto simp: subscribe_def getLatestReleaseFromRemoteRepository_def mark_stack_def cond_simps)
  have "conds_ok (stack_conds ?s0)" using assms(4) by simp
  then have ok: "conds_ok (stack_conds u)"
    by (rule evolves_conds_ok[OF subscribe_evolves[OF u]])
  have sync: "sync_releases env (nn_namespace req) existing lr None u = (x, s)"
    using run assms(3,5,6) u by (simp add: reconcile_stack_def)
  note ev = sync_releases_evolves[OF sync]
  have "cond_Get (stack_conds s) ReleasesSyncedCondition = cond_Get (stack_conds u) ReleasesSyncedCondition"
    by (rule evolves_condition[OF ev ok]) (simp add: sync_conditions_def)
  then have "cond_IsTrue (stack_conds s) ReleasesSyncedCondition"
    using t by (simp add: cond_IsTrue_def)
  with ob show ?thesis
    using evolves_conds_ok[OF ev ok] by (simp add: reads_SetSummary)
qed

section \<open>Releases asked for come into being\<close>

text \<open>The release was found when it was looked up, or its creation was requested.\<close>

definition release_ensured ::
    "stack_env \<Rightarrow> string \<Rightarrow> OwnerReference \<Rightarrow> string \<Rightarrow> stack_state \<Rightarrow> bool" where
  "release_ensured env ns owner n t \<longleftrightarrow>
     (\<exists>w v. sk_writes t = w @ v \<and> se_getRelease env w \<lparr>nn_name = n, nn_namespace = ns\<rparr> = None) \<or>
     (\<exists>ref. CreateRelease (new_release n ns owner ref) \<in> set (sk_writes t))"

lemma release_ensured_mono:
  assumes "release_ensured env ns owner n s" and "evolves J T s t"
  shows "release_ensured env ns owner n t"
proof -
  obtain ws where "sk_writes t = sk_writes s @ ws" using evolves_writes[OF assms(2)] by blast
  with assms(1) show ?thesis
    unfolding release_ensured_def by (metis Un_iff append_assoc set_append)
qed

lemma getOrCreate_ensures:
  assumes "getOrCreateClusterStackRelease env n ns owner ref s = (None, t)"
  shows "release_ensured env ns owner n t"
proof (cases "se_getRelease env (sk_writes s) \<lparr>nn_name = n, nn_namespace = ns\<rparr>")
  case None
  then show ?thesis using assms
    by (auto simp: getOrCreateClusterStackRelease_def release_ensured_def)
next
  case (Some e)
  then have "CreateRelease (new_release n ns owner ref) \<in> set (sk_writes t)"
    using assms by (auto simp: getOrCreateClusterStackRelease_def Let_def stack_send_def split: if_splits)
  then show ?thesis by (auto simp: release_ensured_def)
qed

lemma create_release_ensures:
  "create_release_step env ns owner csr s = (None, t) \<Longrightarrow> release_ensured env ns owner (csr_name csr) t"
  by (auto simp: create_release_step_def Let_def getOrCreate_ensures
      split: sum.splits prod.splits option.splits)

lemma create_release_keeps:
  "release_ensured env ns owner n s \<Longrightarrow> create_release_step env ns' owner' csr s = (e, t) \<Longrightarrow>
    release_ensured env ns owner n t"
  by (rule release_ensured_mono[OF _ create_release_evolves])

lemma create_release_exit: "create_release_step env ns owner csr s = (Some x, t) \<Longrightarrow> x \<noteq> Return"
  by (auto simp: create_release_step_def provider_step_def Let_def
      split: sum.splits prod.splits option.splits if_splits provider_error.splits)

lemma delete_release_exit: "delete_release_step env csr s = (Some x, t) \<Longrightarrow> x \<noteq> Return"
  by (auto simp: delete_release_step_def split: option.splits if_splits)

text \<open>The parts of a synchronisation that runs to its end.\<close>

lemma sync_releases_return:
  assumes "sync_releases env ns existing lr latest s = (Return, t)"
  obtains inUse inSpec tc td s1 s2
  where "getClusterStackReleasesInUse (se_clusters env) = Inr inUse"
    and "getClusterStackReleasesInSpec (csk_spec (sk_object s)) = Inr inSpec"
    and "makeDiff existing latest (fst lr) (se_order env inSpec) inUse = (tc, td)"
    and "for_each (delete_release_step env) td s = (None, s1)"
    and "for_each (create_release_step env ns (generateOwnerReference (sk_object s))) tc s1 = (None, s2)"
    and "report_stack env existing lr s2 = (Return, t)"
proof -
  obtain inUse where use: "getClusterStackReleasesInUse (se_clusters env) = Inr inUse"
    using assms by (auto simp: sync_releases_def split: sum.splits)
  obtain inSpec where spec: "getClusterStackReleasesInSpec (csk_spec (sk_object s)) = Inr inSpec"
    using assms use by (auto simp: sync_releases_def split: sum.splits)
  obtain tc td where d: "makeDiff existing latest (fst lr) (se_order env inSpec) inUse = (tc, td)"
    by fastforce
  obtain e1 s1 where l1: "for_each (delete_release_step env) td s = (e1, s1)" by fastforce
  have e1: "e1 = None"
  proof (cases e1)
    case (Some x)
    then have "x \<noteq> Return" using for_each_error l1 delete_release_exit by metis
    then show ?thesis using assms use spec d l1 Some by (simp add: sync_releases_def)
  qed simp
  have "evolves (\<lambda>w. True) {} a b" if "delete_release_step env r a = (e, b)" for r a e b
    by (rule evolves_mono[OF delete_release_evolves[OF that]]) auto
  then have "csk_meta (sk_object s1) = csk_meta (sk_object s)"
    using for_each_evolves[OF _ l1] evolves_frame by blast
  then have owner: "generateOwnerReference (sk_object s1) = generateOwnerReference (sk_object s)"
    by (simp add: generateOwnerReference_def)
  obtain e2 s2 where l2: "for_each (create_release_step env ns (generateOwnerReference (sk_object s)))
      tc s1 = (e2, s2)" by fastforce
  have e2: "e2 = None"
  proof (cases e2)
    case (Some x)
    then have "x \<noteq> Return" using for_each_error l2 create_release_exit by metis
    then show ?thesis using assms use spec d l1 l2 e1 owner Some by (simp add: sync_releases_def)
  qed simp
  show thesis
    using that[OF use spec d] l1 l2 e1 e2 owner assms use spec d by (simp add: sync_releases_def)
qed

text \<open>
  C2. When the releases are synchronised without an error, every release of the spec and the
  latest release of the repository exist: each was found or is created, with the cluster stack as
  its owner.
\<close>

theorem sync_ensures_releases:
  assumes "sync_releases env ns existing lr latest s = (Return, t)"
    and "\<And>names. set (se_order env names) = set names"
    and "getClusterStackReleasesInSpec (csk_spec (sk_object s)) = Inr inSpec"
    and "n \<in> set inSpec \<union> set_option latest"
  shows "release_ensured env ns (generateOwnerReference (sk_object s)) n t"
proof -
  let ?f = "create_release_step env ns (generateOwnerReference (sk_object s))"
  obtain inUse tc td s1 s2 where d: "makeDiff existing latest (fst lr) (se_order env inSpec) inUse = (tc, td)"
    and l: "for_each ?f tc s1 = (None, s2)" and r: "report_stack env existing lr s2 = (Return, t)"
    using assms(1,3) by (auto elim!: sync_releases_return)
  have "n \<in> csr_name ` set tc"
    using makeDiff_names[of existing latest "fst lr" "se_order env inSpec" inUse] d assms(2,4) by auto
  then obtain csr where csr: "csr \<in> set tc" "csr_name csr = n" by auto
  have "release_ensured env ns (generateOwnerReference (sk_object s)) n s2"
    using l csr create_release_ensures create_release_keeps
    by (intro for_each_each[of ?f tc s1 s2 csr
          "release_ensured env ns (generateOwnerReference (sk_object s)) n"]) blast+
  then show ?thesis using r release_ensured_mono report_evolves by blast
qed

section \<open>A sample environment\<close>

definition sample_env :: "ClusterStackRelease list \<Rightarrow> stack_env" where
  "sample_env releases = \<lparr>se_get = Inr sample_stack, se_newHelper = None, se_releases = Inr releases,
     se_newAssetsClient = None, se_remote = Inl ''rate limit'', se_clusters = Inr [],
     se_delete = (\<lambda>_ _. None), se_getRelease = (\<lambda>_ _. Some (NotFound [])),
     se_createRelease = (\<lambda>_ _. None),
     se_provider = (\<lambda>_. \<lparr>pa_get = (\<lambda>_ _. Inl (NotFound [])), pa_write = (\<lambda>_. None)\<rparr>),
     se_patch = (\<lambda>_ _. None), se_sort = go_insertion_sort, se_order = (\<lambda>names. names)\<rparr>"

definition sample_request :: NamespacedName where
  "sample_request = \<lparr>nn_name = ''ferrol'', nn_namespace = ''default''\<rparr>"

definition stale_release :: ClusterStackRelease where
  "stale_release = new_release ''docker-ferrol-1-27-v0-alpha-1'' ''default''
     (generateOwnerReference sample_stack) None"

lemma stale_release_deleted:
  "DeleteRelease stale_release \<in> set (sr_writes (stack_Reconcile (sample_env [stale_release]) sample_request))"
  by code_simp

theorem stack_deletes_only_unwanted_witness:
  "\<exists>items. se_releases (sample_env [stale_release]) = Inr items \<and> stale_release \<in> set items \<and>
    owned_by sample_stack stale_release"
  using stack_deletes_only_unwanted[of "sample_env [stale_release]" sample_stack, OF _ _ stale_release_deleted]
  by (auto simp: sample_env_def)

theorem stack_patch_touches_status_only_witness:
  "\<exists>ob. sr_object (stack_Reconcile (sample_env []) sample_request) = Some ob \<and>
    csk_spec ob = csk_spec sample_stack \<and> conds_ok (st_conditions (csk_status ob))"
proof -
  obtain ob where "sr_object (stack_Reconcile (sample_env []) sample_request) = Some ob"
    by (rule stack_Reconcile_run[of "sample_env []" sample_stack sample_request])
      (simp_all add: sample_env_def)
  moreover have "se_get (sample_env []) = Inr sample_stack" by (simp add: sample_env_def)
  moreover have "conds_ok (st_conditions (csk_status sample_stack))" by (simp add: sample_stack_def)
  ultimately show ?thesis using stack_patch_touches_status_only by blast
qed

theorem remote_failure_marked_synced_witness:
  "\<exists>ob. sr_object (stack_Reconcile (sample_env []) sample_request) = Some ob \<and>
    cond_IsTrue (st_conditions (csk_status ob)) ReleasesSyncedCondition"
  by (rule remote_failure_marked_synced[of "sample_env []" sample_stack "[]" "(None, [])" "''rate limit''"])
    (simp_all add: sample_env_def sample_stack_def empty_meta_def getExistingClusterStackReleases_def
      getLatestReadyClusterStackRelease_def)

definition synced_state :: "stack_exit \<times> stack_state" where
  "synced_state = sync_releases (sample_env []) ''default'' [] (None, []) None
     \<lparr>sk_object = sample_stack, sk_writes = [], sk_summary = []\<rparr>"

lemma synced_state_returns: "fst synced_state = Return"
  by code_simp

lemma sample_in_spec:
  "getClusterStackReleasesInSpec (csk_spec sample_stack) = Inr [''docker-ferrol-1-27-v1-alpha-9'']"
  by code_simp

theorem sync_ensures_releases_witness:
  "release_ensured (sample_env []) ''default'' (generateOwnerReference sample_stack)
    ''docker-ferrol-1-27-v1-alpha-9'' (snd synced_state)"
proof -
  let ?s = "\<lparr>sk_object = sample_stack, sk_writes = [], sk_summary = []\<rparr>"
  have "sync_releases (sample_env []) ''default'' [] (None, []) None ?s = (Return, snd synced_state)"
    using synced_state_returns by (metis prod.collapse synced_state_def)
  from sync_ensures_releases[OF this, of "[''docker-ferrol-1-27-v1-alpha-9'']"
      "''docker-ferrol-1-27-v1-alpha-9''"] sample_in_spec
  show ?thesis by (simp add: sample_env_def)
qed

end
