(* ===== verification/StackLoop.thy ===== *)
theory StackLoop
  imports StackController
begin

text \<open>
  The ClusterStack controller against a store of releases: the API server answers from the releases
  it holds and the writes it has received. Between two reconciliations the deletions are complete,
  so a release that was deleted is gone from the store (its own controller has removed the
  finalizer). This closes the loop: what one reconciliation writes is what the next one reads.
\<close>

section \<open>The store\<close>

definition csr_key :: "ClusterStackRelease \<Rightarrow> NamespacedName" where
  "csr_key r = \<lparr>nn_name = csr_name r, nn_namespace = m_namespace (csr_meta r)\<rparr>"

fun store_write :: "stack_write \<Rightarrow> ClusterStackRelease list \<Rightarrow> ClusterStackRelease list" where
  "store_write (DeleteRelease r) store = filter (\<lambda>x. csr_key x \<noteq> csr_key r) store"
| "store_write (CreateRelease r) store = store @ [r]"
| "store_write (ProviderWrite _) store = store"
| "store_write (PatchStack _) store = store"

definition store_after :: "stack_write list \<Rightarrow> ClusterStackRelease list \<Rightarrow> ClusterStackRelease list" where
  "store_after ws store = fold store_write ws store"

definition stored :: "ClusterStackRelease list \<Rightarrow> NamespacedName \<Rightarrow> bool" where
  "stored store key \<longleftrightarrow> key \<in> csr_key ` set store"

definition stored_env :: "stack_env \<Rightarrow> ClusterStackRelease list \<Rightarrow> stack_env" where
  "stored_env env store = env\<lparr>se_releases := Inr store,
     se_getRelease := \<lambda>ws key. if stored (store_after ws store) key then None else Some (NotFound []),
     se_delete := \<lambda>ws r. if stored (store_after ws store) (csr_key r) then None else Some (NotFound []),
     se_createRelease := \<lambda>ws r. if stored (store_after ws store) (csr_key r)
       then Some (OtherError ''already exists'') else None\<rparr>"

lemma stored_env_simps [simp]:
  "se_clusters (stored_env env store) = se_clusters env"
  "se_order (stored_env env store) = se_order env"
  "se_getRelease (stored_env env store) ws key =
     (if stored (store_after ws store) key then None else Some (NotFound []))"
  by (simp_all add: stored_env_def)

lemma store_after_append [simp]:
  "store_after (ws @ vs) store = store_after vs (store_after ws store)"
  by (simp add: store_after_def)

lemma store_after_Nil [simp]: "store_after [] store = store"
  by (simp add: store_after_def)

lemma store_after_deletes:
  "store_after (map DeleteRelease rs) store = filter (\<lambda>x. csr_key x \<notin> csr_key ` set rs) store"
  unfolding store_after_def by (induction rs arbitrary: store) (auto intro: filter_cong)

lemma store_after_creates:
  "\<forall>w\<in>set ws. is_create w \<Longrightarrow> \<exists>rs. store_after ws store = store @ rs \<and> CreateRelease ` set rs \<subseteq> set ws"
proof (induction ws rule: rev_induct)
  case (snoc w ws)
  then obtain rs where rs: "store_after ws store = store @ rs" "CreateRelease ` set rs \<subseteq> set ws" by auto
  show ?case
  proof (cases w)
    case (CreateRelease r)
    then show ?thesis using rs by (intro exI[of _ "rs @ [r]"]) (auto simp: store_after_def)
  qed (use snoc rs in \<open>auto simp: store_after_def is_create_def\<close>)
qed simp

section \<open>The parts of a synchronisation\<close>

lemma delete_loop_writes:
  "for_each (delete_release_step env) rs s = (None, t) \<Longrightarrow>
     sk_writes t = sk_writes s @ map DeleteRelease rs \<and> sk_object t = sk_object s"
proof (induction rs arbitrary: s)
  case (Cons r rs)
  obtain e u where u: "delete_release_step env r s = (e, u)" by fastforce
  then have "sk_writes u = sk_writes s @ [DeleteRelease r] \<and> sk_object u = sk_object s"
    by (auto simp: delete_release_step_def stack_send_def split: option.splits)
  then show ?case using Cons.IH[of u] Cons.prems u by (cases e) auto
qed simp

text \<open>What a creation step sends: requests for the provider, and the release if it is missing.\<close>

definition creates_only :: "string \<Rightarrow> string set \<Rightarrow> stack_write \<Rightarrow> bool" where
  "creates_only ns names w \<longleftrightarrow> (case w of
       CreateRelease r \<Rightarrow> csr_name r \<in> names \<and> m_namespace (csr_meta r) = ns
     | ProviderWrite _ \<Rightarrow> True
     | _ \<Rightarrow> False)"

lemma creates_only_is_create: "creates_only ns names w \<Longrightarrow> is_create w"
  by (cases w) (simp_all add: creates_only_def is_create_def)

lemma new_release_key [simp]:
  "csr_key (new_release n ns owner ref) = \<lparr>nn_name = n, nn_namespace = ns\<rparr>"
  "csr_name (new_release n ns owner ref) = n"
  "m_namespace (csr_meta (new_release n ns owner ref)) = ns"
  by (simp_all add: new_release_def csr_key_def csr_name_def)

lemma provider_step_writes:
  assumes "provider_step env n s = (r, t)"
  shows "\<exists>ps. sk_writes t = sk_writes s @ map ProviderWrite ps"
proof -
  obtain res ps where p: "createOrUpdateProviderClusterStackRelease (se_provider env (sk_writes s)) n
      (sk_object s) = (res, ps)" by fastforce
  have "sk_writes t = sk_writes s @ map ProviderWrite ps \<or> sk_writes t = sk_writes s"
    using assms p
    by (auto simp: provider_step_def mark_stack_def split: if_splits sum.splits provider_error.splits)
  then show ?thesis by (metis append_Nil2 list.map(1))
qed

lemma create_step_writes:
  assumes "create_release_step env ns owner csr s = (e, t)"
  obtains ps where "sk_writes t = sk_writes s @ map ProviderWrite ps"
      and "e = None \<Longrightarrow> se_getRelease env (sk_writes t) \<lparr>nn_name = csr_name csr, nn_namespace = ns\<rparr> = None"
  | ps ref where "sk_writes t = sk_writes s @ map ProviderWrite ps @ [CreateRelease (new_release (csr_name csr) ns owner ref)]"
      and "se_getRelease env (sk_writes s @ map ProviderWrite ps) \<lparr>nn_name = csr_name csr, nn_namespace = ns\<rparr> \<noteq> None"
proof (cases "release_Summary csr")
  case (Inl err)
  then show thesis using assms that(1)[of "[]"] by (auto simp: create_release_step_def)
next
  case (Inr sm)
  obtain r u where u: "provider_step env (csr_name csr) (s\<lparr>sk_summary := sk_summary s @ [sm]\<rparr>) = (r, u)"
    by fastforce
  then obtain ps where ps: "sk_writes u = sk_writes s @ map ProviderWrite ps"
    using provider_step_writes by fastforce
  show thesis
  proof (cases r)
    case (Inl x)
    then show thesis using assms \<open>release_Summary csr = Inr sm\<close> u ps that(1)[of ps]
      by (auto simp: create_release_step_def)
  next
    case (Inr ref)
    obtain g v where g: "getOrCreateClusterStackRelease env (csr_name csr) ns owner ref u = (g, v)" by fastforce
    have t: "sk_writes t = sk_writes v"
      using assms \<open>release_Summary csr = Inr sm\<close> u Inr g
      by (auto simp: create_release_step_def mark_stack_def split: option.splits)
    have eg: "e = None \<Longrightarrow> g = None"
      using assms \<open>release_Summary csr = Inr sm\<close> u Inr g
      by (cases g) (auto simp: create_release_step_def)
    show thesis
    proof (cases "sk_writes v = sk_writes u")
      case True
      have "g = None \<Longrightarrow> se_getRelease env (sk_writes u) \<lparr>nn_name = csr_name csr, nn_namespace = ns\<rparr> = None"
        using g True by (auto simp: getOrCreateClusterStackRelease_def Let_def stack_send_def
            split: option.splits if_splits)
      then show thesis using that(1)[of ps] ps t True eg by simp
    next
      case False
      then show thesis using that(2)[of ps ref] g ps t
        by (auto simp: getOrCreateClusterStackRelease_def Let_def stack_send_def
            split: option.splits if_splits)
    qed
  qed
qed

lemma create_step_store:
  assumes "create_release_step env ns owner csr s = (e, t)"
  shows "\<exists>ws. sk_writes t = sk_writes s @ ws \<and> (\<forall>w\<in>set ws. creates_only ns {csr_name csr} w)"
  using assms by (cases rule: create_step_writes) (auto simp: creates_only_def)

lemma stored_mono:
  assumes "stored (store_after ws store) key" "\<forall>w\<in>set vs. creates_only ns names w"
  shows "stored (store_after (ws @ vs) store) key"
  using assms store_after_creates[of vs "store_after ws store"] creates_only_is_create
  by (fastforce simp: stored_def)

lemma create_step_stores:
  assumes "create_release_step (stored_env env store) ns owner csr s = (None, t)"
  shows "stored (store_after (sk_writes t) store) \<lparr>nn_name = csr_name csr, nn_namespace = ns\<rparr>"
  using assms
proof (cases rule: create_step_writes)
  case (1 ps)
  then show ?thesis by (auto split: if_splits)
next
  case (2 ps ref)
  then show ?thesis by (simp add: store_after_def stored_def)
qed

lemma create_step_keeps_stored:
  assumes "stored (store_after (sk_writes s) store) key"
    and "create_release_step env ns owner csr s = (e, t)"
  shows "stored (store_after (sk_writes t) store) key"
  using create_step_store[OF assms(2)] stored_mono[OF assms(1)] by fastforce

lemma report_keeps_writes: "report_stack env existing lr s = (e, t) \<Longrightarrow> sk_writes t = sk_writes s"
  by (auto simp: report_stack_def Let_def mark_stack_def set_status_def split: sum.splits option.splits if_splits)

section \<open>The store after a synchronisation\<close>

lemma stored_sync:
  assumes "sync_releases (stored_env env store) ns existing lr latest s = (Return, t)" "sk_writes s = []"
  obtains inUse inSpec tc td
  where "getClusterStackReleasesInUse (se_clusters env) = Inr inUse"
    and "getClusterStackReleasesInSpec (csk_spec (sk_object s)) = Inr inSpec"
    and "makeDiff existing latest (fst lr) (se_order env inSpec) inUse = (tc, td)"
    and "\<forall>n\<in>csr_name ` set tc. stored (store_after (sk_writes t) store) \<lparr>nn_name = n, nn_namespace = ns\<rparr>"
    and "\<forall>r\<in>set (store_after (sk_writes t) store). r \<in> set store \<and> csr_key r \<notin> csr_key ` set td \<or>
      csr_name r \<in> csr_name ` set tc \<and> m_namespace (csr_meta r) = ns"
proof -
  let ?env = "stored_env env store"
  let ?f = "create_release_step ?env ns (generateOwnerReference (sk_object s))"
  obtain inUse inSpec tc td s1 s2
    where u: "getClusterStackReleasesInUse (se_clusters env) = Inr inUse"
    and p: "getClusterStackReleasesInSpec (csk_spec (sk_object s)) = Inr inSpec"
    and d: "makeDiff existing latest (fst lr) (se_order env inSpec) inUse = (tc, td)"
    and l1: "for_each (delete_release_step ?env) td s = (None, s1)"
    and l2: "for_each ?f tc s1 = (None, s2)"
    and r: "report_stack ?env existing lr s2 = (Return, t)"
    by (rule sync_releases_return[OF assms(1), unfolded stored_env_simps(1,2)]) (rule that; assumption)
  have w1: "sk_writes s1 = map DeleteRelease td" using delete_loop_writes[OF l1] assms(2) by simp
  have t: "sk_writes t = sk_writes s2" using report_keeps_writes[OF r] .
  have "stored (store_after (sk_writes s2) store) \<lparr>nn_name = csr_name csr, nn_namespace = ns\<rparr>" if "csr \<in> set tc" for csr
    using l2 that create_step_stores create_step_keeps_stored
    by (intro for_each_each[of ?f tc s1 s2 csr
          "\<lambda>s. stored (store_after (sk_writes s) store) \<lparr>nn_name = csr_name csr, nn_namespace = ns\<rparr>"]) blast+
  then have ensured: "\<forall>n\<in>csr_name ` set tc. stored (store_after (sk_writes t) store) \<lparr>nn_name = n, nn_namespace = ns\<rparr>"
    using t by simp
  let ?I = "\<lambda>a. \<exists>ws. sk_writes a = sk_writes s1 @ ws \<and> (\<forall>w\<in>set ws. creates_only ns (csr_name ` set tc) w)"
  have "?I (snd (for_each ?f tc s1))"
  proof (rule for_each_inv)
    fix csr a e b assume "csr \<in> set tc" and "?I a" and "?f csr a = (e, b)"
    then obtain ws vs where "sk_writes a = sk_writes s1 @ ws" "\<forall>w\<in>set ws. creates_only ns (csr_name ` set tc) w"
      "sk_writes b = sk_writes a @ vs" "\<forall>w\<in>set vs. creates_only ns {csr_name csr} w"
      using create_step_store[of ?env ns "generateOwnerReference (sk_object s)" csr a e b] by blast
    then show "?I b" using \<open>csr \<in> set tc\<close>
      by (intro exI[of _ "ws @ vs"]) (auto simp: creates_only_def split: stack_write.splits)
  qed simp
  then obtain ws where ws: "sk_writes t = map DeleteRelease td @ ws" "\<forall>w\<in>set ws. creates_only ns (csr_name ` set tc) w"
    using l2 w1 t by auto
  let ?rest = "filter (\<lambda>x. csr_key x \<notin> csr_key ` set td) store"
  have "\<forall>w\<in>set ws. is_create w" using ws(2) creates_only_is_create by blast
  from store_after_creates[OF this, of ?rest] obtain rs
    where rs: "store_after ws ?rest = ?rest @ rs" "CreateRelease ` set rs \<subseteq> set ws" by blast
  have all: "store_after (sk_writes t) store = ?rest @ rs"
    by (simp add: ws(1) store_after_deletes rs(1))
  have "csr_name r \<in> csr_name ` set tc \<and> m_namespace (csr_meta r) = ns" if "r \<in> set rs" for r
  proof -
    have "CreateRelease r \<in> set ws" using that rs(2) by blast
    with ws(2) have "creates_only ns (csr_name ` set tc) (CreateRelease r)" by blast
    then show ?thesis by (simp add: creates_only_def)
  qed
  then have "\<forall>r\<in>set (store_after (sk_writes t) store). r \<in> set store \<and> csr_key r \<notin> csr_key ` set td \<or>
      csr_name r \<in> csr_name ` set tc \<and> m_namespace (csr_meta r) = ns"
    unfolding all by auto
  then show thesis by (rule that[OF u p d ensured])
qed

text \<open>When nothing is to be deleted and all that is wanted is stored, only the provider is asked.\<close>

lemma store_after_provider: "store_after (map ProviderWrite ps) store = store"
  by (induction ps) (simp_all add: store_after_def)

lemma stored_step_provider_only:
  assumes "create_release_step (stored_env env store) ns owner csr s = (e, t)"
    and "sk_writes s = map ProviderWrite ps" and "stored store \<lparr>nn_name = csr_name csr, nn_namespace = ns\<rparr>"
  shows "\<exists>ps. sk_writes t = map ProviderWrite ps"
  using assms(1)
proof (cases rule: create_step_writes)
  case (1 qs)
  then have "sk_writes t = map ProviderWrite (ps @ qs)" using assms(2) by simp
  then show ?thesis by blast
next
  case (2 qs ref)
  then show ?thesis using assms(2,3) by (simp add: store_after_provider)
qed

lemma stored_sync_quiet:
  assumes "sync_releases (stored_env env store) ns existing lr latest s = (x, t)" "sk_writes s = []"
    and "getClusterStackReleasesInUse (se_clusters env) = Inr inUse"
    and "getClusterStackReleasesInSpec (csk_spec (sk_object s)) = Inr inSpec"
    and "makeDiff existing latest (fst lr) (se_order env inSpec) inUse = (tc, [])"
    and "\<forall>n\<in>csr_name ` set tc. stored store \<lparr>nn_name = n, nn_namespace = ns\<rparr>"
  shows "\<exists>ps. sk_writes t = map ProviderWrite ps"
proof -
  let ?f = "create_release_step (stored_env env store) ns (generateOwnerReference (sk_object s))"
  let ?I = "\<lambda>a. \<exists>ps. sk_writes a = map ProviderWrite ps"
  obtain e u where l: "for_each ?f tc s = (e, u)" by fastforce
  have "?I (snd (for_each ?f tc s))"
    by (rule for_each_inv) (use assms(2,6) stored_step_provider_only in \<open>simp, blast\<close>)
  then have u: "?I u" using l by simp
  show ?thesis
  proof (cases e)
    case None
    then have "report_stack (stored_env env store) existing lr u = (x, t)"
      using assms(1,3,4,5) l by (simp add: sync_releases_def)
    then show ?thesis using u report_keeps_writes by simp
  next
    case (Some exit)
    then show ?thesis using assms(1,3,4,5) l u by (simp add: sync_releases_def)
  qed
qed

section \<open>One synchronisation settles the store\<close>

lemma unwanted_is_deleted:
  assumes "makeDiff existing latest ready inSpec inUse = (tc, td)" "r \<in> set existing" "r \<notin> set td"
  shows "csr_name r \<in> set_option latest \<union> set_option ready \<union> set inSpec \<union> set inUse"
  using makeDiff_names[of existing latest ready inSpec inUse] assms by auto

lemma names_to_create:
  assumes "makeDiff existing latest ready inSpec inUse = (tc, td)" "n \<in> csr_name ` set tc"
  shows "n \<in> set_option latest \<union> set_option ready \<union> set inSpec \<union> set inUse"
    and "n \<in> csr_name ` set existing \<union> set_option latest \<union> set inSpec"
  using makeDiff_names[of existing latest ready inSpec inUse] assms by (auto simp: keep_release_def)

text \<open>
  C6. Synchronising settles: after a synchronisation that ran to its end and with the same spec,
  clusters and latest releases, the next one deletes no release and creates none, whatever else
  changed.
\<close>

theorem sync_settles:
  assumes "sync_releases (stored_env env store) ns (filter (owned_by cs) store) lr latest s = (Return, t)"
    and "sk_writes s = []" and "\<forall>r\<in>set store. m_namespace (csr_meta r) = ns"
    and "\<And>e names. e \<in> {env, env'} \<Longrightarrow> set (se_order e names) = set names"
    and "se_clusters env' = se_clusters env"
    and "csk_spec (sk_object s') = csk_spec (sk_object s)" and "sk_writes s' = []" and "fst lr' = fst lr"
    and "sync_releases (stored_env env' (store_after (sk_writes t) store)) ns
      (filter (owned_by cs) (store_after (sk_writes t) store)) lr' latest s' = (x, t')"
  shows "\<exists>ps. sk_writes t' = map ProviderWrite ps"
proof -
  let ?store = "store_after (sk_writes t) store"
  let ?existing = "filter (owned_by cs) ?store"
  obtain inUse inSpec tc td where use: "getClusterStackReleasesInUse (se_clusters env) = Inr inUse"
    and spec: "getClusterStackReleasesInSpec (csk_spec (sk_object s)) = Inr inSpec"
    and d: "makeDiff (filter (owned_by cs) store) latest (fst lr) (se_order env inSpec) inUse = (tc, td)"
    and ensured: "\<forall>n\<in>csr_name ` set tc. stored ?store \<lparr>nn_name = n, nn_namespace = ns\<rparr>"
    and left: "\<forall>r\<in>set ?store. r \<in> set store \<and> csr_key r \<notin> csr_key ` set td \<or>
      csr_name r \<in> csr_name ` set tc \<and> m_namespace (csr_meta r) = ns"
    using stored_sync[OF assms(1,2)] .
  obtain tc' td' where d': "makeDiff ?existing latest (fst lr') (se_order env' inSpec) inUse = (tc', td')"
    by fastforce
  note order = assms(4)[of env inSpec] assms(4)[of env' inSpec]
  have "csr_name r \<in> set_option latest \<union> set_option (fst lr) \<union> set inSpec \<union> set inUse" if "r \<in> set ?existing" for r
  proof (cases "r \<in> set store \<and> csr_key r \<notin> csr_key ` set td")
    case True
    then show ?thesis using unwanted_is_deleted[OF d, of r] that order(1) by auto
  next
    case False
    then have "csr_name r \<in> csr_name ` set tc" using left that by auto
    then show ?thesis using names_to_create(1)[OF d] order(1) by simp
  qed
  then have "td' = []"
    using makeDiff_names[of ?existing latest "fst lr'" "se_order env' inSpec" inUse] d' order(2) assms(8)
    by (auto simp flip: set_empty)
  moreover have "\<forall>n\<in>csr_name ` set tc'. stored ?store \<lparr>nn_name = n, nn_namespace = ns\<rparr>"
  proof
    fix n assume "n \<in> csr_name ` set tc'"
    then have "n \<in> csr_name ` set ?existing \<or> n \<in> set_option latest \<union> set inSpec"
      using names_to_create(2)[OF d'] order(2) by auto
    then show "stored ?store \<lparr>nn_name = n, nn_namespace = ns\<rparr>"
    proof
      assume "n \<in> csr_name ` set ?existing"
      then obtain r where "r \<in> set ?store" "csr_name r = n" by auto
      moreover have "m_namespace (csr_meta r) = ns" using left assms(3) calculation(1) by blast
      ultimately show ?thesis by (force simp: stored_def csr_key_def)
    next
      assume "n \<in> set_option latest \<union> set inSpec"
      then have "n \<in> csr_name ` set tc"
        using makeDiff_names[of "filter (owned_by cs) store" latest "fst lr" "se_order env inSpec" inUse] d order(1)
        by auto
      then show ?thesis using ensured by blast
    qed
  qed
  ultimately show ?thesis
    using stored_sync_quiet[OF assms(9,7), of inUse inSpec tc'] use spec d' assms(5,6) by simp
qed

definition loop_start :: stack_state where
  "loop_start = \<lparr>sk_object = sample_stack, sk_writes = [], sk_summary = []\<rparr>"

definition first_sync :: "stack_exit \<times> stack_state" where
  "first_sync = sync_releases (stored_env (sample_env []) [stale_release]) ''default''
     (filter (owned_by sample_stack) [stale_release]) (None, []) None loop_start"

definition second_sync :: "stack_exit \<times> stack_state" where
  "second_sync = (let store = store_after (sk_writes (snd first_sync)) [stale_release]
     in sync_releases (stored_env (sample_env []) store) ''default''
       (filter (owned_by sample_stack) store) (None, []) None loop_start)"

lemma first_sync_facts:
  "fst first_sync = Return" "list_ex is_create (sk_writes (snd first_sync))"
  "store_after (sk_writes (snd first_sync)) [stale_release] \<noteq> []"
  by code_simp+

theorem sync_settles_witness:
  "\<exists>ps. sk_writes (snd second_sync) = map ProviderWrite ps"
proof (rule sync_settles)
  show "sync_releases (stored_env (sample_env []) [stale_release]) ''default''
      (filter (owned_by sample_stack) [stale_release]) (None, []) None loop_start = (Return, snd first_sync)"
    using first_sync_facts(1) by (metis first_sync_def prod.collapse)
  show "sync_releases (stored_env (sample_env []) (store_after (sk_writes (snd first_sync)) [stale_release]))
      ''default'' (filter (owned_by sample_stack) (store_after (sk_writes (snd first_sync)) [stale_release]))
      (None, []) None loop_start = (fst second_sync, snd second_sync)"
    by (simp only: second_sync_def Let_def prod.collapse)
  show "\<forall>r\<in>set [stale_release]. m_namespace (csr_meta r) = ''default''"
    by (simp add: stale_release_def)
qed (auto simp: loop_start_def sample_env_def)

end
