(* ===== verification/Release.thy ===== *)
theory Release
  imports ApiTypes
begin

text \<open>
  Releases of a cluster stack on disk (\<open>pkg/release/release.go\<close>, \<open>pkg/release/metadata.go\<close>),
  with the functions of \<open>path/filepath\<close> they use. The file system and the YAML decoder are
  parameters.
\<close>

section \<open>Paths\<close>

fun clean_elements :: "bool \<Rightarrow> string list \<Rightarrow> string list \<Rightarrow> string list" where
  "clean_elements rooted st [] = rev st"
| "clean_elements rooted st (e # es) =
     (if e = [] \<or> e = ''.'' then clean_elements rooted st es
      else if e = ''..'' then
        (case st of
           [] \<Rightarrow> clean_elements rooted (if rooted then [] else [''..'']) es
         | t # ts \<Rightarrow> clean_elements rooted (if t = ''..'' then ''..'' # st else ts) es)
      else clean_elements rooted (e # st) es)"

definition filepath_Clean :: "string \<Rightarrow> string" where
  "filepath_Clean path =
     (if path = [] then ''.''
      else
        let rooted = has_prefix path ''/'';
            els = clean_elements rooted [] (split_on CHR ''/'' path)
        in if rooted then CHR ''/'' # join_with ''/'' els
           else if els = [] then ''.'' else join_with ''/'' els)"

definition filepath_Join :: "string list \<Rightarrow> string" where
  "filepath_Join elems =
     (case dropWhile (\<lambda>e. e = []) elems of
        [] \<Rightarrow> []
      | es \<Rightarrow> filepath_Clean (join_with ''/'' es))"

text \<open>The last element of a path, and all but the last.\<close>

definition filepath_Base :: "string \<Rightarrow> string" where
  "filepath_Base path =
     (if path = [] then ''.''
      else
        let p = rev (dropWhile (\<lambda>c. c = CHR ''/'') (rev path));
            tail = rev (takeWhile (\<lambda>c. c \<noteq> CHR ''/'') (rev p))
        in if tail = [] then ''/'' else tail)"

definition filepath_Dir :: "string \<Rightarrow> string" where
  "filepath_Dir path = filepath_Clean (rev (dropWhile (\<lambda>c. c \<noteq> CHR ''/'') (rev path)))"

text \<open>The suffix that begins at the last dot of the last path element.\<close>

definition filepath_Ext :: "string \<Rightarrow> string" where
  "filepath_Ext path =
     (let tail = takeWhile (\<lambda>c. c \<noteq> CHR ''.'' \<and> c \<noteq> CHR ''/'') (rev path);
          rest = drop (length tail) (rev path)
      in case rest of c # _ \<Rightarrow> if c = CHR ''.'' then CHR ''.'' # rev tail else [] | [] \<Rightarrow> [])"

datatype stat_result = StatOk | StatNotExist | StatFailed

record file_system =
  fs_stat :: "string \<Rightarrow> stat_result"
  fs_readFile :: "string \<Rightarrow> string option"
  fs_readDir :: "string \<Rightarrow> (string \<times> bool) list option"

section \<open>Metadata\<close>

record Metadata =
  md_clusterStack :: string
  md_kubernetes :: string
  md_clusterAddon :: string
  md_nodeImage :: string

datatype metadata_error = EmptyClusterStackVersion | EmptyKubernetesVersion | EmptyClusterAddonVersion

definition metadata_Validate :: "Metadata \<Rightarrow> metadata_error option" where
  "metadata_Validate m =
     (if md_clusterStack m = [] then Some EmptyClusterStackVersion
      else if md_kubernetes m = [] then Some EmptyKubernetesVersion
      else if md_clusterAddon m = [] then Some EmptyClusterAddonVersion
      else None)"

section \<open>Releases\<close>

definition ClusterStackSuffix :: string where "ClusterStackSuffix = ''cluster-stacks''"
definition ClusterAddonYamlName :: string where "ClusterAddonYamlName = ''clusteraddon.yaml''"
definition metadataFileName :: string where "metadataFileName = ''metadata.yaml''"
definition ClusterAddonValuesName :: string where
  "ClusterAddonValuesName = ''cluster-addon-values.yaml''"
definition OverwriteYaml :: string where "OverwriteYaml = ''overwrite.yaml''"

record Release =
  rel_tag :: string
  rel_meta :: Metadata
  rel_stack :: ClusterStack
  rel_path :: string

definition empty_metadata :: Metadata where
  "empty_metadata = \<lparr>md_clusterStack = [], md_kubernetes = [], md_clusterAddon = [], md_nodeImage = []\<rparr>"

datatype release_error =
    ParseRelease cs_error
  | VerifyPath
  | ReadMetadata
  | UnmarshalMetadata
  | ParseMetadataVersion version_error
  | EmptyReleaseName
  | EmptyReleaseDownloadPath
  | EmptyReleaseCSR
  | InvalidStackVersion version_error
  | InvalidMetadata metadata_error
  | ReadDirectory
  | ChartNotFound
  | ChartNotVerified

definition release_Validate :: "Release \<Rightarrow> release_error option" where
  "release_Validate r =
     (if rel_tag r = [] then Some EmptyReleaseName
      else if rel_path r = [] then Some EmptyReleaseDownloadPath
      else if rel_stack r = \<lparr>cs_provider = [], cs_name = [],
          cs_kube = \<lparr>kv_major = 0, kv_minor = 0\<rparr>, cs_version = zero_version\<rparr>
      then Some EmptyReleaseCSR
      else (case version_Validate (cs_version (rel_stack r)) of
              Some e \<Rightarrow> Some (InvalidStackVersion e)
            | None \<Rightarrow> map_option InvalidMetadata (metadata_Validate (rel_meta r))))"

definition ensureMetadata ::
    "file_system \<Rightarrow> (string \<Rightarrow> Metadata option) \<Rightarrow> string \<Rightarrow> string \<Rightarrow> (release_error, Metadata) result" where
  "ensureMetadata fs unmarshal downloadPath fileName =
     (case fs_readFile fs (filepath_Clean (filepath_Join [downloadPath, fileName])) of
        None \<Rightarrow> Inl ReadMetadata
      | Some f \<Rightarrow>
          (case unmarshal f of
             None \<Rightarrow> Inl UnmarshalMetadata
           | Some m \<Rightarrow>
               (case version_New (md_clusterStack m) of
                  Inl e \<Rightarrow> Inl (ParseMetadataVersion e)
                | Inr stackVersion \<Rightarrow>
                    (case version_New (md_clusterAddon m) of
                       Inl e \<Rightarrow> Inl (ParseMetadataVersion e)
                     | Inr addonVersion \<Rightarrow>
                         (case version_New (md_nodeImage m) of
                            Inl e \<Rightarrow> Inl (ParseMetadataVersion e)
                          | Inr imageVersion \<Rightarrow>
                              Inr (m\<lparr>md_clusterStack := version_String stackVersion,
                                     md_clusterAddon := version_String addonVersion,
                                     md_nodeImage := version_String imageVersion\<rparr>))))))"

text \<open>The Boolean of the result says that the release has to be downloaded.\<close>

definition release_New ::
    "file_system \<Rightarrow> (string \<Rightarrow> Metadata option) \<Rightarrow> string \<Rightarrow> string \<Rightarrow> (release_error, Release \<times> bool) result" where
  "release_New fs unmarshal tag downloadPath =
     (let path = filepath_Join [downloadPath, ClusterStackSuffix, tag] in
      case NewFromClusterStackReleaseProperties tag of
        Inl e \<Rightarrow> Inl (ParseRelease e)
      | Inr cs \<Rightarrow>
          let rel = \<lparr>rel_tag = tag, rel_meta = empty_metadata, rel_stack = cs, rel_path = path\<rparr>
          in (case fs_stat fs path of
                StatNotExist \<Rightarrow> Inr (rel, True)
              | StatFailed \<Rightarrow> Inl VerifyPath
              | StatOk \<Rightarrow>
                  (case ensureMetadata fs unmarshal path metadataFileName of
                     Inl e \<Rightarrow> Inl e
                   | Inr metadata \<Rightarrow>
                       let rel = rel\<lparr>rel_meta := metadata\<rparr>
                       in (case release_Validate rel of
                             Some e \<Rightarrow> Inl e
                           | None \<Rightarrow> Inr (rel, False)))))"

definition ConvertFromClusterClassToClusterStackFormat :: "string \<Rightarrow> string" where
  "ConvertFromClusterClassToClusterStackFormat input =
     (case split_on CHR ''.'' input of
        [a, b] \<Rightarrow> a @ ''-'' @ b
      | _ \<Rightarrow> input)"

definition clusterAddonChartName :: "Release \<Rightarrow> string" where
  "clusterAddonChartName r =
     (let v = (case ParseVersionString (md_clusterAddon (rel_meta r)) of
                 Inl _ \<Rightarrow> zero_version | Inr v \<Rightarrow> v)
      in cs_provider (rel_stack r) @ ''-'' @ cs_name (rel_stack r) @ ''-'' @ kv_String (cs_kube (rel_stack r))
         @ ''-cluster-addon-'' @ version_StringWithDot v)"

definition clusterClassChartName :: "Release \<Rightarrow> string" where
  "clusterClassChartName r =
     cs_provider (rel_stack r) @ ''-'' @ cs_name (rel_stack r) @ ''-'' @ kv_String (cs_kube (rel_stack r))
     @ ''-cluster-class-'' @ version_StringWithDot (cs_version (rel_stack r))"

fun find_chart :: "string \<Rightarrow> string \<Rightarrow> (string \<times> bool) list \<Rightarrow> string option" where
  "find_chart path nameFilter [] = None"
| "find_chart path nameFilter ((file, isDir) # files) =
     (if \<not> isDir \<and> nameFilter \<noteq> [] \<and> contains_str file nameFilter \<and> filepath_Ext file = ''.tgz''
      then Some (filepath_Join [path, file])
      else find_chart path nameFilter files)"

definition helmChartNamePath :: "file_system \<Rightarrow> Release \<Rightarrow> string \<Rightarrow> (release_error, string) result" where
  "helmChartNamePath fs r nameFilter =
     (case fs_readDir fs (rel_path r) of
        None \<Rightarrow> Inl ReadDirectory
      | Some files \<Rightarrow>
          (case find_chart (rel_path r) nameFilter files of
             None \<Rightarrow> Inl ChartNotFound
           | Some path \<Rightarrow> Inr path))"

definition ClusterClassChartPath :: "file_system \<Rightarrow> Release \<Rightarrow> (release_error, string) result" where
  "ClusterClassChartPath fs r = helmChartNamePath fs r (clusterClassChartName r)"

definition ClusterAddonChartPath :: "file_system \<Rightarrow> Release \<Rightarrow> string" where
  "ClusterAddonChartPath fs r =
     (case helmChartNamePath fs r (clusterAddonChartName r) of Inl _ \<Rightarrow> [] | Inr path \<Rightarrow> path)"

definition ClusterAddonValuesPath :: "Release \<Rightarrow> string" where
  "ClusterAddonValuesPath r = filepath_Join [rel_path r, ClusterAddonValuesName]"

definition CheckHelmCharts :: "file_system \<Rightarrow> Release \<Rightarrow> release_error option" where
  "CheckHelmCharts fs r =
     (case helmChartNamePath fs r (clusterClassChartName r) of
        Inl e \<Rightarrow> Some e
      | Inr classPath \<Rightarrow>
          if fs_stat fs classPath \<noteq> StatOk then Some ChartNotVerified
          else if fs_stat fs (filepath_Join [rel_path r, ClusterAddonYamlName]) = StatFailed
          then Some ChartNotVerified
          else (case helmChartNamePath fs r (clusterAddonChartName r) of
                  Inl e \<Rightarrow> Some e
                | Inr addonPath \<Rightarrow>
                    if fs_stat fs addonPath \<noteq> StatOk then Some ChartNotVerified else None))"

section \<open>Facts\<close>

lemma find_chart_Some:
  "find_chart path nameFilter files = Some p \<Longrightarrow> \<exists>file. (file, False) \<in> set files \<and>
    p = filepath_Join [path, file] \<and> contains_str file nameFilter \<and> filepath_Ext file = ''.tgz''"
  by (induction path nameFilter files rule: find_chart.induct) (auto split: if_splits)

lemma ParseVersionString_print:
  assumes "valid_version v"
  shows "\<exists>w. ParseVersionString (version_String v) = Inr w \<and> version_StringWithDot w = version_StringWithDot v"
proof (cases "canonical_version v")
  case True
  then have "ParseVersionString (version_String v) = Inr v"
    using canonical_long_form parse_long_form assms by metis
  then show ?thesis by blast
next
  case False
  let ?w = "v\<lparr>ver_patch := []\<rparr>"
  have st: "ver_channel v = ChannelStable" using False assms by (auto simp: canonical_version_def)
  have "canonical_version ?w" "version_String v = version_String ?w"
    using assms st by (auto simp: canonical_version_def valid_version_def version_String_def)
  then have "ParseVersionString (version_String v) = Inr ?w"
    using canonical_long_form parse_long_form by (metis canonical_version_def)
  then show ?thesis using st by (auto simp: version_StringWithDot_def)
qed

lemma release_New_cases:
  assumes "release_New fs unmarshal tag dir = Inr (rel, download)"
  obtains cs where "NewFromClusterStackReleaseProperties tag = Inr cs"
    "rel_tag rel = tag" "rel_stack rel = cs"
    "rel_path rel = filepath_Join [dir, ClusterStackSuffix, tag]"
    "download \<longleftrightarrow> fs_stat fs (rel_path rel) = StatNotExist"
    "\<not> download \<longrightarrow> ensureMetadata fs unmarshal (rel_path rel) metadataFileName = Inr (rel_meta rel)
      \<and> release_Validate rel = None"
  using assms
  by (auto simp: release_New_def Let_def split: sum.splits stat_result.splits option.splits)

lemma convert_dotted:
  assumes "canonical_stack cs" and "CHR ''.'' \<notin> set (cs_provider cs)" and "CHR ''.'' \<notin> set (cs_name cs)"
  shows "ConvertFromClusterClassToClusterStackFormat (cs_StringWithDot cs) = cs_String cs"
proof -
  let ?v = "cs_version cs"
  define pre where "pre = cs_provider cs @ ''-'' @ cs_name cs @ ''-'' @ kv_String (cs_kube cs)
    @ ''-v'' @ show_int (ver_major ?v)"
  have pre: "CHR ''.'' \<notin> set pre"
    using assms(2,3) by (simp add: pre_def kv_String_def show_int_nonneg_no_sep)
  show ?thesis
  proof (cases "ver_channel ?v = ChannelStable")
    case True
    have "cs_StringWithDot cs = pre" "cs_String cs = pre"
      using True by (simp_all add: pre_def cs_StringWithDot_def cs_String_def Separator_def
          version_StringWithDot_def version_String_def)
    then show ?thesis
      using pre by (simp add: ConvertFromClusterClassToClusterStackFormat_def split_on_no_sep)
  next
    case False
    then have w: "word_string (ver_channel ?v)" "word_string (ver_patch ?v)"
      using assms(1) by (auto simp: canonical_stack_def canonical_version_def valid_version_def)
    define a where "a = pre @ ''-'' @ ver_channel ?v"
    have "CHR ''.'' \<notin> set a" using pre w by (simp add: a_def)
    moreover have "cs_StringWithDot cs = a @ CHR ''.'' # ver_patch ?v" "cs_String cs = a @ CHR ''-'' # ver_patch ?v"
      using False by (simp_all add: a_def pre_def cs_StringWithDot_def cs_String_def Separator_def
          version_StringWithDot_def version_String_def)
    ultimately show ?thesis
      using w by (simp add: ConvertFromClusterClassToClusterStackFormat_def split_on_append_sep split_on_no_sep)
  qed
qed

section \<open>Properties\<close>

text \<open>
  The conversion from the name of a cluster class to the name of a release takes the dotted
  notation of a stack to its release name, provided the provider and the name have no dot.
\<close>

theorem class_name_converts_to_release_name:
  assumes "canonical_stack cs" and "CHR ''.'' \<notin> set (cs_provider cs)" and "CHR ''.'' \<notin> set (cs_name cs)"
  shows "ConvertFromClusterClassToClusterStackFormat (cs_StringWithDot cs) = cs_String cs"
  using assms by (rule convert_dotted)

theorem class_name_converts_to_release_name_witness:
  "ConvertFromClusterClassToClusterStackFormat (cs_StringWithDot (ferrol alpha9)) = cs_String (ferrol alpha9)"
  by (rule class_name_converts_to_release_name[OF ferrol_canonical[OF alpha9_canonical]])
    (simp_all add: ferrol_def)

text \<open>
  A release read from disk is named by its tag, its stack is the parsed tag, and its
  metadata is complete and normalised: each of its versions parses, so the parse error the name
  of the addon chart ignores cannot occur. Otherwise the release is to be downloaded exactly when
  its directory does not exist.
\<close>

theorem release_New_normalised:
  assumes "release_New fs unmarshal tag dir = Inr (rel, download)"
  shows "rel_tag rel = tag \<and> NewFromClusterStackReleaseProperties tag = Inr (rel_stack rel) \<and>
    (download \<longleftrightarrow> fs_stat fs (rel_path rel) = StatNotExist) \<and>
    (\<not> download \<longrightarrow> metadata_Validate (rel_meta rel) = None \<and>
       is_ok (ParseVersionString (md_clusterStack (rel_meta rel))) \<and>
       is_ok (ParseVersionString (md_clusterAddon (rel_meta rel))) \<and>
       is_ok (ParseVersionString (md_nodeImage (rel_meta rel))))"
proof -
  obtain cs where c: "NewFromClusterStackReleaseProperties tag = Inr cs"
    "rel_tag rel = tag" "rel_stack rel = cs" "download \<longleftrightarrow> fs_stat fs (rel_path rel) = StatNotExist"
    "\<not> download \<longrightarrow> ensureMetadata fs unmarshal (rel_path rel) metadataFileName = Inr (rel_meta rel)
      \<and> release_Validate rel = None"
    using release_New_cases[OF assms] by metis
  have "is_ok (ParseVersionString (md_clusterStack (rel_meta rel))) \<and>
      is_ok (ParseVersionString (md_clusterAddon (rel_meta rel))) \<and>
      is_ok (ParseVersionString (md_nodeImage (rel_meta rel)))" if nd: "\<not> download"
  proof -
    obtain m a b d where v: "version_New (md_clusterStack m) = Inr a" "version_New (md_clusterAddon m) = Inr b"
      "version_New (md_nodeImage m) = Inr d"
      "rel_meta rel = m\<lparr>md_clusterStack := version_String a, md_clusterAddon := version_String b,
         md_nodeImage := version_String d\<rparr>"
      using c(5) nd by (auto simp: ensureMetadata_def split: option.splits sum.splits)
    have "is_ok (ParseVersionString (version_String x))" if "version_New y = Inr x" for x y
      using ParseVersionString_print[OF new_valid[OF that]] by auto
    with v show ?thesis by simp
  qed
  moreover have "metadata_Validate (rel_meta rel) = None" if "\<not> download"
    using c(5) that by (auto simp: release_Validate_def split: if_splits option.splits)
  ultimately show ?thesis using c by auto
qed

definition sample_fs :: "stat_result \<Rightarrow> file_system" where
  "sample_fs st = \<lparr>fs_stat = (\<lambda>_. st), fs_readFile = (\<lambda>_. Some []), fs_readDir = (\<lambda>_. Some [])\<rparr>"

definition sample_metadata :: Metadata where
  "sample_metadata = \<lparr>md_clusterStack = ''v1-alpha.9'', md_kubernetes = ''1.27.3'',
     md_clusterAddon = ''v2'', md_nodeImage = ''v3''\<rparr>"

lemma sample_release:
  "case release_New (sample_fs StatOk) (\<lambda>_. Some sample_metadata) ''docker-ferrol-1-27-v1-alpha-9'' ''/tmp'' of
     Inl _ \<Rightarrow> False | Inr (rel, download) \<Rightarrow> \<not> download"
  by code_simp

theorem release_New_normalised_witness:
  "\<exists>rel. release_New (sample_fs StatOk) (\<lambda>_. Some sample_metadata) ''docker-ferrol-1-27-v1-alpha-9'' ''/tmp''
      = Inr (rel, False) \<and> is_ok (ParseVersionString (md_clusterAddon (rel_meta rel)))"
proof -
  obtain rel where r: "release_New (sample_fs StatOk) (\<lambda>_. Some sample_metadata)
      ''docker-ferrol-1-27-v1-alpha-9'' ''/tmp'' = Inr (rel, False)"
    using sample_release by (auto split: sum.splits)
  from release_New_normalised[OF r] r show ?thesis by auto
qed

end
