(* ===== verification/Kube.thy ===== *)
theory Kube
  imports ApiTypes
begin

text \<open>
  Applying and deleting the objects of a Helm template (\<open>pkg/kube/kube.go\<close>,
  \<open>pkg/kube/helpers.go\<close>). The YAML library, the REST mapper and the API server are parameters:
  an answer of the server, and the kinds the mapper knows, may depend on every write sent before,
  which the state records as a trace. Log lines are left out, and of the text of an error only the part that comes from the
  server and one prefix per operation are kept.
\<close>

section \<open>Parameters\<close>

text \<open>The YAML reader splits a template, \<open>ToJSON\<close> and the JSON decoder may fail.\<close>

record yaml_library =
  yl_documents :: "string \<Rightarrow> string list"
  yl_toJSON :: "string \<Rightarrow> string option"
  yl_decode :: "string \<Rightarrow> unstructured option"
  yl_toUnstructured :: "unstructured \<Rightarrow> unstructured option"

record DynamicResource =
  dr_resource :: string
  dr_namespace :: "string option"

datatype kube_write =
    WriteApply DynamicResource string unstructured
  | WriteDelete DynamicResource string
  | WriteHelperDelete string string

record kube_api =
  ka_newDynamic :: "string option"
  ka_newDiscovery :: "string option"
  ka_restMapping :: "kube_write list \<Rightarrow> GroupVersionKind \<Rightarrow> (string, string \<times> bool) result"
  ka_newClientset :: "string option"
  ka_groupResources :: "string option"
  ka_helperMapping :: "GroupVersionKind \<Rightarrow> string option"
  ka_newRestClient :: "GroupVersionKind \<Rightarrow> string option"
  ka_apply :: "kube_write list \<Rightarrow> DynamicResource \<Rightarrow> string \<Rightarrow> unstructured \<Rightarrow> api_error option"
  ka_delete :: "kube_write list \<Rightarrow> DynamicResource \<Rightarrow> string \<Rightarrow> api_error option"
  ka_helperDelete :: "kube_write list \<Rightarrow> string \<Rightarrow> string \<Rightarrow> api_error option"

datatype kube_error =
    ParseTemplate
  | SettingLabel
  | DynamicInterface string
  | NewClientset string
  | DeleteFailed string

section \<open>Templates\<close>

fun parse_documents :: "yaml_library \<Rightarrow> string list \<Rightarrow> unstructured list \<Rightarrow> unstructured list option" where
  "parse_documents lib [] objs = Some objs"
| "parse_documents lib (buf # bufs) objs =
     (case yl_toJSON lib buf of
        None \<Rightarrow> None
      | Some jsonbuf \<Rightarrow>
          if jsonbuf = ''null'' then parse_documents lib bufs objs
          else (case yl_decode lib jsonbuf of
              None \<Rightarrow> None
            | Some obj \<Rightarrow>
                (case yl_toUnstructured lib obj of
                   None \<Rightarrow> None
                 | Some uobj \<Rightarrow> parse_documents lib bufs (objs @ [uobj]))))"

definition parseK8sYaml :: "yaml_library \<Rightarrow> string \<Rightarrow> unstructured list option" where
  "parseK8sYaml lib template = parse_documents lib (yl_documents lib template) []"

definition new_resource :: "unstructured \<Rightarrow> Resource" where
  "new_resource u = the (NewResourceFromUnstructured (Some u))"

definition GetResourcesFromHelmTemplate :: "yaml_library \<Rightarrow> string \<Rightarrow> Resource list option" where
  "GetResourcesFromHelmTemplate lib template =
     map_option (map new_resource) (parseK8sYaml lib template)"

section \<open>The ownership label\<close>

definition ObjectLabelKeyOwned :: string where
  "ObjectLabelKeyOwned = ''clusterstack.x-k8s.io/instance''"

definition ObjectLabelValueOwned :: string where
  "ObjectLabelValueOwned = ''owned''"

definition template_labels_path :: "string list" where
  "template_labels_path = [''spec'', ''template'', ''metadata'', ''labels'']"

definition set_template_label ::
    "string \<Rightarrow> string \<Rightarrow> unstructured \<Rightarrow> (unstructured \<times> (string \<times> json) list) option" where
  "set_template_label key val target =
     (case NestedMap target template_labels_path of
        Inl _ \<Rightarrow> None
      | Inr found \<Rightarrow>
          let labels = AList.update key (JString val) (case found of None \<Rightarrow> [] | Some m \<Rightarrow> m)
          in map_option (\<lambda>t. (t, labels)) (SetNestedField target (JObject labels) template_labels_path))"

definition set_selector_label ::
    "string \<Rightarrow> (string \<times> json) list \<Rightarrow> unstructured \<Rightarrow> unstructured option" where
  "set_selector_label key templateLabels target =
     (if GetAPIVersion target = ''apps/v1beta1'' \<or> GetAPIVersion target = ''extensions/v1beta1''
      then (case NestedMap target [''spec'', ''selector''] of
              Inl _ \<Rightarrow> None
            | Inr selector \<Rightarrow>
                if selector = None \<or> selector = Some []
                then SetNestedField target (JObject (AList.delete key templateLabels))
                       [''spec'', ''selector'', ''matchLabels'']
                else Some target)
      else Some target)"

definition label_by_kind :: "string \<Rightarrow> string \<Rightarrow> unstructured \<Rightarrow> unstructured option" where
  "label_by_kind key val target =
     (let gvk = FromAPIVersionAndKind (GetAPIVersion target) (GetKind target)
      in if gv_group gvk = ''apps'' \<or> gv_group gvk = ''extensions''
         then
           if gvk_kind gvk \<in> {''Deployment'', ''ReplicaSet'', ''StatefulSet'', ''DaemonSet''}
           then
             (case set_template_label key val target of
                None \<Rightarrow> None
              | Some (t, templateLabels) \<Rightarrow> set_selector_label key templateLabels t)
           else Some target
         else if gv_group gvk = ''batch'' \<and> gvk_kind gvk = ''Job''
         then map_option fst (set_template_label key val target)
         else Some target)"

definition setLabel :: "unstructured \<Rightarrow> string \<Rightarrow> string \<Rightarrow> unstructured option" where
  "setLabel target key val =
     (case NestedStringMap target [''metadata'', ''labels''] of
        Inl _ \<Rightarrow> None
      | Inr found \<Rightarrow>
          let labels = AList.update key val (case found of None \<Rightarrow> [] | Some m \<Rightarrow> m)
          in label_by_kind key val (SetLabels labels target))"

section \<open>Comparing objects and recorded resources\<close>

definition getResourceMap :: "Resource list \<Rightarrow> (NamespacedName \<rightharpoonup> Resource)" where
  "getResourceMap resources = foldl (\<lambda>m r. m(resource_key r \<mapsto> r)) Map.empty resources"

definition resourcesToBeDeleted :: "Resource list \<Rightarrow> unstructured list \<Rightarrow> Resource list" where
  "resourcesToBeDeleted oldResources currentObjs =
     filter (\<lambda>r. r_status r = ResourceStatusSynced \<and>
                 resource_key r \<notin> set (map object_key currentObjs)) oldResources"

definition resourcesToBeDeletedFromUnstructuredObjects ::
    "unstructured list \<Rightarrow> unstructured list \<Rightarrow> unstructured list" where
  "resourcesToBeDeletedFromUnstructuredObjects oldObjects newObjects =
     filter (\<lambda>u. object_key u \<notin> set (map object_key newObjects)) oldObjects"

section \<open>Requests\<close>

definition GetDynamicResourceInterface ::
    "kube_api \<Rightarrow> kube_write list \<Rightarrow> string \<Rightarrow> GroupVersionKind \<Rightarrow> (string, DynamicResource) result" where
  "GetDynamicResourceInterface api tr namespace gvk =
     (case ka_newDynamic api of
        Some e \<Rightarrow> Inl e
      | None \<Rightarrow>
          (case ka_newDiscovery api of
             Some e \<Rightarrow> Inl e
           | None \<Rightarrow>
               (case ka_restMapping api tr gvk of
                  Inl e \<Rightarrow> Inl e
                | Inr (resource, namespaced) \<Rightarrow>
                    Inr \<lparr>dr_resource = resource,
                         dr_namespace = (if namespaced then Some namespace else None)\<rparr>)))"

text \<open>The results of a run and the writes it sent, in order.\<close>

record kube_state =
  ks_resources :: "Resource list"
  ks_requeue :: bool
  ks_trace :: "kube_write list"

definition start_state :: "kube_write list \<Rightarrow> kube_state" where
  "start_state tr = \<lparr>ks_resources = [], ks_requeue = False, ks_trace = tr\<rparr>"

definition add_resource :: "Resource \<Rightarrow> kube_state \<Rightarrow> kube_state" where
  "add_resource r s = s\<lparr>ks_resources := ks_resources s @ [r]\<rparr>"

definition ask_requeue :: "kube_state \<Rightarrow> kube_state" where
  "ask_requeue s = s\<lparr>ks_requeue := True\<rparr>"

definition send :: "kube_write \<Rightarrow> kube_state \<Rightarrow> kube_state" where
  "send w s = s\<lparr>ks_trace := ks_trace s @ [w]\<rparr>"

definition not_synced :: "string \<Rightarrow> Resource \<Rightarrow> Resource" where
  "not_synced err r = r\<lparr>r_status := ResourceStatusNotSynced, r_error := err\<rparr>"

definition synced :: "Resource \<Rightarrow> Resource" where
  "synced r = r\<lparr>r_status := ResourceStatusSynced\<rparr>"

definition real_failure :: "api_error option \<Rightarrow> string option" where
  "real_failure e = (case e of
       None \<Rightarrow> None
     | Some e \<Rightarrow> if IsNotFound e then None else Some (''failed to delete object: '' @ error_text e))"

text \<open>A run ends with an error or with its state; the writes are kept in both cases.\<close>

record kube_result =
  kr_resources :: "Resource list"
  kr_requeue :: bool
  kr_error :: "kube_error option"
  kr_trace :: "kube_write list"

definition failed_run :: "bool \<Rightarrow> kube_error \<Rightarrow> kube_write list \<Rightarrow> kube_result" where
  "failed_run rq e tr =
     \<lparr>kr_resources = [], kr_requeue = rq, kr_error = Some e, kr_trace = tr\<rparr>"

definition finished_run :: "kube_state \<Rightarrow> kube_result" where
  "finished_run s = \<lparr>kr_resources = ks_resources s, kr_requeue = ks_requeue s,
     kr_error = None, kr_trace = ks_trace s\<rparr>"

section \<open>Apply\<close>

definition apply_object ::
    "kube_api \<Rightarrow> string \<Rightarrow> (NamespacedName \<rightharpoonup> Resource) \<Rightarrow> unstructured \<Rightarrow> kube_state
      \<Rightarrow> kube_error option \<times> kube_state" where
  "apply_object api ns resourceMap obj s =
     (let old = resourceMap (object_key obj)
      in if map_option r_status old = Some ResourceStatusSynced
         then (None, add_resource (the old) s)
         else (case setLabel obj ObjectLabelKeyOwned ObjectLabelValueOwned of
             None \<Rightarrow> (Some SettingLabel, s)
           | Some obj' \<Rightarrow>
               let resource = new_resource obj'
               in (case GetDynamicResourceInterface api (ks_trace s) ns (u_GroupVersionKind obj') of
                     Inl e \<Rightarrow> (None, ask_requeue s)
                   | Inr dr \<Rightarrow>
                       let s' = send (WriteApply dr (GetName obj') obj') s
                       in (case ka_apply api (ks_trace s) dr (GetName obj') obj' of
                             Some e \<Rightarrow> (None, ask_requeue (add_resource
                                 (not_synced (''failed to apply object: '' @ error_text e) resource) s'))
                           | None \<Rightarrow> (None, add_resource (synced resource) s')))))"

definition delete_resource ::
    "kube_api \<Rightarrow> string \<Rightarrow> Resource \<Rightarrow> kube_state \<Rightarrow> kube_error option \<times> kube_state" where
  "delete_resource api ns resource s =
     (case GetDynamicResourceInterface api (ks_trace s) ns (resource_GroupVersionKind resource) of
        Inl e \<Rightarrow> (Some (DynamicInterface e), s)
      | Inr dr \<Rightarrow>
          let s' = send (WriteDelete dr (r_name resource)) s
          in (case real_failure (ka_delete api (ks_trace s) dr (r_name resource)) of
                Some err \<Rightarrow> (None, ask_requeue (add_resource (not_synced err resource) s'))
              | None \<Rightarrow> (None, s')))"

definition Apply ::
    "yaml_library \<Rightarrow> kube_api \<Rightarrow> string \<Rightarrow> string \<Rightarrow> Resource list \<Rightarrow> kube_write list \<Rightarrow> kube_result" where
  "Apply lib api ns template oldResources tr =
     (case parseK8sYaml lib template of
        None \<Rightarrow> failed_run False ParseTemplate tr
      | Some objs \<Rightarrow>
          (case for_each (apply_object api ns (getResourceMap oldResources)) objs (start_state tr) of
             (Some e, s) \<Rightarrow> failed_run False e (ks_trace s)
           | (None, s) \<Rightarrow>
               (case for_each (delete_resource api ns) (resourcesToBeDeleted oldResources objs) s of
                  (Some e, s') \<Rightarrow> failed_run False e (ks_trace s')
                | (None, s') \<Rightarrow> finished_run s')))"

section \<open>Delete\<close>

definition deleteObject ::
    "kube_api \<Rightarrow> string \<Rightarrow> unstructured \<Rightarrow> kube_state \<Rightarrow> string option \<times> kube_state" where
  "deleteObject api ns obj s =
     (let gvk = u_GroupVersionKind obj in
      case ka_groupResources api of
        Some e \<Rightarrow> (Some e, s)
      | None \<Rightarrow>
          (case ka_helperMapping api gvk of
             Some e \<Rightarrow> (Some e, s)
           | None \<Rightarrow>
               (case ka_newRestClient api gvk of
                  Some e \<Rightarrow> (Some e, s)
                | None \<Rightarrow>
                    (real_failure (ka_helperDelete api (ks_trace s) ns (GetName obj)),
                     send (WriteHelperDelete ns (GetName obj)) s))))"

definition delete_object_step ::
    "kube_api \<Rightarrow> string \<Rightarrow> (NamespacedName \<rightharpoonup> Resource) \<Rightarrow> unstructured \<Rightarrow> kube_state
      \<Rightarrow> kube_error option \<times> kube_state" where
  "delete_object_step api ns resourceMap obj s =
     (let old = resourceMap (object_key obj)
      in if map_option r_status old = Some ResourceStatusSynced
         then (None, add_resource (the old) s)
         else (case setLabel obj ObjectLabelKeyOwned ObjectLabelValueOwned of
             None \<Rightarrow> (Some SettingLabel, s)
           | Some obj' \<Rightarrow>
               (case deleteObject api ns obj' s of
                  (Some e, s') \<Rightarrow> (Some (DeleteFailed e), s')
                | (None, s') \<Rightarrow> (None, s'))))"

definition kube_Delete ::
    "yaml_library \<Rightarrow> kube_api \<Rightarrow> string \<Rightarrow> string \<Rightarrow> Resource list \<Rightarrow> kube_write list \<Rightarrow> kube_result" where
  "kube_Delete lib api ns template oldResources tr =
     (case ka_newClientset api of
        Some e \<Rightarrow> failed_run False (NewClientset e) tr
      | None \<Rightarrow>
          (case parseK8sYaml lib template of
             None \<Rightarrow> failed_run False ParseTemplate tr
           | Some objs \<Rightarrow>
               (case for_each (delete_object_step api ns (getResourceMap oldResources)) objs
                       (start_state tr) of
                  (Some (DeleteFailed e), s) \<Rightarrow> failed_run True (DeleteFailed e) (ks_trace s)
                | (Some e, s) \<Rightarrow> failed_run False e (ks_trace s)
                | (None, s) \<Rightarrow> finished_run s)))"

section \<open>A new cluster stack\<close>

definition apply_new_object ::
    "kube_api \<Rightarrow> string \<Rightarrow> unstructured \<Rightarrow> kube_state \<Rightarrow> kube_error option \<times> kube_state" where
  "apply_new_object api ns newObject s =
     (case setLabel newObject ObjectLabelKeyOwned ObjectLabelValueOwned of
        None \<Rightarrow> (Some SettingLabel, s)
      | Some obj \<Rightarrow>
          let resource = new_resource obj
          in (case GetDynamicResourceInterface api (ks_trace s) ns (u_GroupVersionKind obj) of
                Inl e \<Rightarrow> (None, ask_requeue s)
              | Inr dr \<Rightarrow>
                  let s' = send (WriteApply dr (GetName obj) obj) s
                  in (case ka_apply api (ks_trace s) dr (GetName obj) obj of
                        Some e \<Rightarrow> (None, ask_requeue (add_resource (synced
                            (not_synced (''failed to apply object: '' @ error_text e) resource)) s'))
                      | None \<Rightarrow> (None, add_resource (synced resource) s'))))"

definition delete_old_object ::
    "kube_api \<Rightarrow> string \<Rightarrow> unstructured \<Rightarrow> kube_state \<Rightarrow> kube_error option \<times> kube_state" where
  "delete_old_object api ns obj s =
     (case GetDynamicResourceInterface api (ks_trace s) ns (u_GroupVersionKind obj) of
        Inl e \<Rightarrow> (Some (DynamicInterface e), s)
      | Inr dr \<Rightarrow>
          let s' = send (WriteDelete dr (GetName obj)) s
          in (case real_failure (ka_delete api (ks_trace s) dr (GetName obj)) of
                Some err \<Rightarrow> (None, ask_requeue (add_resource (not_synced err (new_resource obj)) s'))
              | None \<Rightarrow> (None, s')))"

definition ApplyNewClusterStack ::
    "yaml_library \<Rightarrow> kube_api \<Rightarrow> string \<Rightarrow> string \<Rightarrow> string \<Rightarrow> kube_write list \<Rightarrow> kube_result" where
  "ApplyNewClusterStack lib api ns oldTemplate newTemplate tr =
     (case parseK8sYaml lib oldTemplate of
        None \<Rightarrow> failed_run False ParseTemplate tr
      | Some oldObjects \<Rightarrow>
          (case parseK8sYaml lib newTemplate of
             None \<Rightarrow> failed_run False ParseTemplate tr
           | Some newObjects \<Rightarrow>
               (case for_each (apply_new_object api ns) newObjects (start_state tr) of
                  (Some e, s) \<Rightarrow> failed_run False e (ks_trace s)
                | (None, s) \<Rightarrow>
                    (case for_each (delete_old_object api ns)
                        (resourcesToBeDeletedFromUnstructuredObjects oldObjects newObjects) s of
                       (Some e, s') \<Rightarrow> failed_run False e (ks_trace s')
                     | (None, s') \<Rightarrow> finished_run s'))))"

definition delete_new_object ::
    "kube_api \<Rightarrow> string \<Rightarrow> unstructured \<Rightarrow> kube_state \<Rightarrow> kube_error option \<times> kube_state" where
  "delete_new_object api ns object s =
     (let resource = new_resource object in
      case setLabel object ObjectLabelKeyOwned ObjectLabelValueOwned of
        None \<Rightarrow> (Some SettingLabel, s)
      | Some obj \<Rightarrow>
          (case GetDynamicResourceInterface api (ks_trace s) ns (u_GroupVersionKind obj) of
             Inl e \<Rightarrow> (Some (DynamicInterface e), s)
           | Inr dr \<Rightarrow>
               let s' = send (WriteDelete dr (GetName obj)) s
               in (case real_failure (ka_delete api (ks_trace s) dr (GetName obj)) of
                     Some err \<Rightarrow> (None, ask_requeue (add_resource
                         (synced (not_synced err resource)) s'))
                   | None \<Rightarrow> (None, add_resource (synced resource) s'))))"

definition DeleteNewClusterStack ::
    "yaml_library \<Rightarrow> kube_api \<Rightarrow> string \<Rightarrow> string \<Rightarrow> kube_write list \<Rightarrow> kube_result" where
  "DeleteNewClusterStack lib api ns template tr =
     (case parseK8sYaml lib template of
        None \<Rightarrow> failed_run False ParseTemplate tr
      | Some objects \<Rightarrow>
          (case for_each (delete_new_object api ns) objects (start_state tr) of
             (Some e, s) \<Rightarrow> failed_run False e (ks_trace s)
           | (None, s) \<Rightarrow> finished_run s))"

section \<open>Labels\<close>

lemma SetNestedField_Some: "SetNestedField m v fs = Some m' \<Longrightarrow> m' = setNestedField m v fs"
  by (simp add: setNestedField_def)

lemma set_template_label_Some:
  assumes "set_template_label key val t = Some (t', ls)"
  obtains v where "t' = setNestedField t v template_labels_path"
  using assms SetNestedField_Some by (fastforce simp: set_template_label_def Let_def split: sum.splits)

lemma set_selector_label_Some:
  assumes "set_selector_label key ls t = Some t'"
  obtains "t' = t" | v where "t' = setNestedField t v [''spec'', ''selector'', ''matchLabels'']"
  using assms SetNestedField_Some
  by (fastforce simp: set_selector_label_def split: sum.splits if_splits simp del: SetNestedField.simps)

definition label_paths :: "string list list" where
  "label_paths = [[''metadata'', ''labels''], template_labels_path,
     [''spec'', ''selector'', ''matchLabels'']]"

lemma label_by_kind_reads:
  assumes "label_by_kind key val t = Some t'"
    and "diverge template_labels_path gs" "diverge [''spec'', ''selector'', ''matchLabels''] gs"
  shows "getNestedString t' gs = getNestedString t gs \<and> string_map_at gs t' = string_map_at gs t"
proof -
  have tl: "getNestedString t2 gs = getNestedString t gs \<and> string_map_at gs t2 = string_map_at gs t"
    if "set_template_label key val t = Some (t2, ls)" for t2 ls
    using that by (rule set_template_label_Some) (simp add: readers_diverge assms(2))
  have sl: "getNestedString t' gs = getNestedString t2 gs \<and> string_map_at gs t' = string_map_at gs t2"
    if "set_selector_label key ls t2 = Some t'" for t2 ls
    using that by (rule set_selector_label_Some) (simp_all add: readers_diverge assms(3))
  show ?thesis
    using assms(1) unfolding label_by_kind_def Let_def
    by (auto split: if_splits option.splits dest!: tl sl)
qed

text \<open>What \<open>setLabel\<close> leaves as it is: everything outside the label maps.\<close>

lemma setLabel_reads:
  assumes "setLabel u key val = Some u'" and "\<forall>fs\<in>set label_paths. diverge fs gs"
  shows "getNestedString u' gs = getNestedString u gs \<and> string_map_at gs u' = string_map_at gs u"
proof -
  obtain m where m: "label_by_kind key val (SetLabels m u) = Some u'"
    using assms(1) by (auto simp: setLabel_def Let_def split: sum.splits)
  have "getNestedString (SetLabels m u) gs = getNestedString u gs \<and>
      string_map_at gs (SetLabels m u) = string_map_at gs u"
    using assms(2) by (simp add: SetLabels_def readers_diverge label_paths_def)
  with label_by_kind_reads[OF m, of gs] assms(2) show ?thesis by (simp add: label_paths_def)
qed

lemma setLabel_key: "setLabel u key val = Some u' \<Longrightarrow> object_key u' = object_key u"
  using setLabel_reads[of u key val u' "[''metadata'', ''name'']"]
    setLabel_reads[of u key val u' "[''metadata'', ''namespace'']"]
  by (simp add: object_key_def GetName_def GetNamespace_def label_paths_def template_labels_path_def)

text \<open>
  An object that \<open>setLabel\<close> accepts and whose metadata is not null carries the label
  afterwards, keeps its other labels, and keeps its identity: name, namespace, version and kind.
\<close>

theorem setLabel_marks:
  assumes "setLabel u key val = Some u'" and "map_of u ''metadata'' \<noteq> Some JNull"
  shows "map_of (GetLabels u') key = Some val \<and>
    (\<forall>k. k \<noteq> key \<longrightarrow> map_of (GetLabels u') k = map_of (GetLabels u) k) \<and>
    object_key u' = object_key u \<and> u_GroupVersionKind u' = u_GroupVersionKind u"
proof -
  obtain found where f: "NestedStringMap u [''metadata'', ''labels''] = Inr found"
    and m: "label_by_kind key val
      (SetLabels (AList.update key val (case found of None \<Rightarrow> [] | Some m \<Rightarrow> m)) u) = Some u'"
    using assms(1) by (auto simp: setLabel_def Let_def split: sum.splits)
  have meta: "has_metadata u"
    using f assms(2)
    by (auto simp: has_metadata_def NestedStringMap_def NestedMap_def split: option.splits json.splits)
  have old: "GetLabels u = (case found of None \<Rightarrow> [] | Some m \<Rightarrow> m)"
    using f by (simp add: GetLabels_def string_map_at_def split: option.splits)
  have "GetLabels u' = AList.update key val (GetLabels u)"
    using label_by_kind_reads[OF m, of "[''metadata'', ''labels'']"]
      get_set_metadata(3)[OF meta, of "AList.update key val (GetLabels u)"]
    unfolding old[symmetric] by (simp add: GetLabels_def template_labels_path_def)
  moreover have "GetKind u' = GetKind u" "GetAPIVersion u' = GetAPIVersion u"
    using setLabel_reads[OF assms(1), of "[''kind'']"] setLabel_reads[OF assms(1), of "[''apiVersion'']"]
    by (simp_all add: GetKind_def GetAPIVersion_def label_paths_def template_labels_path_def)
  ultimately show ?thesis
    using setLabel_key[OF assms(1)] by (simp add: update_conv' u_GroupVersionKind_def)
qed

definition sample_deployment :: unstructured where
  "sample_deployment = [(''apiVersion'', JString ''apps/v1''), (''kind'', JString ''Deployment''),
     (''metadata'', JObject [(''name'', JString ''web''), (''namespace'', JString ''demo''),
        (''labels'', JObject [(''app'', JString ''web'')])])]"

definition labelled_deployment :: unstructured where
  "labelled_deployment = the (setLabel sample_deployment ''owner'' ''owned'')"

lemma labelled_deployment: "setLabel sample_deployment ''owner'' ''owned'' = Some labelled_deployment"
  unfolding labelled_deployment_def by code_simp

theorem setLabel_marks_witness:
  "map_of (GetLabels labelled_deployment) ''owner'' = Some ''owned''"
  using setLabel_marks[OF labelled_deployment] by (simp add: sample_deployment_def)

section \<open>Recorded resources\<close>

lemma getResourceMap_snoc:
  "getResourceMap (rs @ [r]) = (getResourceMap rs)(resource_key r \<mapsto> r)"
  by (simp add: getResourceMap_def)

lemma getResourceMap_Some:
  "getResourceMap rs k = Some r \<Longrightarrow> r \<in> set rs \<and> resource_key r = k"
  by (induction rs rule: rev_induct)
    (auto simp: getResourceMap_snoc getResourceMap_def split: if_splits)

lemma getResourceMap_member:
  "r \<in> set rs \<Longrightarrow> \<exists>r'. getResourceMap rs (resource_key r) = Some r'"
  by (induction rs rule: rev_induct) (auto simp: getResourceMap_snoc)

lemma new_resource_key: "resource_key (new_resource u) = object_key u"
  by (simp add: new_resource_def NewResourceFromUnstructured_def resource_key_def object_key_def)

lemma resource_key_marks [simp]:
  "resource_key (synced r) = resource_key r" "r_status (synced r) = ResourceStatusSynced"
  "resource_key (not_synced e r) = resource_key r"
  "r_status (not_synced e r) = ResourceStatusNotSynced"
  by (simp_all add: synced_def not_synced_def resource_key_def)

lemma kube_state_simps [simp]:
  "ks_resources (add_resource r s) = ks_resources s @ [r]"
  "ks_requeue (add_resource r s) = ks_requeue s" "ks_trace (add_resource r s) = ks_trace s"
  "ks_resources (ask_requeue s) = ks_resources s" "ks_requeue (ask_requeue s)"
  "ks_trace (ask_requeue s) = ks_trace s"
  "ks_resources (send w s) = ks_resources s" "ks_requeue (send w s) = ks_requeue s"
  "ks_trace (send w s) = ks_trace s @ [w]"
  "ks_resources (start_state tr) = []" "\<not> ks_requeue (start_state tr)"
  "ks_trace (start_state tr) = tr"
  by (simp_all add: add_resource_def ask_requeue_def send_def start_state_def)

lemma run_simps [simp]:
  "kr_error (failed_run rq e tr) = Some e" "kr_trace (failed_run rq e tr) = tr"
  "kr_requeue (failed_run rq e tr) = rq" "kr_resources (failed_run rq e tr) = []"
  "kr_error (finished_run s) = None" "kr_trace (finished_run s) = ks_trace s"
  "kr_requeue (finished_run s) = ks_requeue s" "kr_resources (finished_run s) = ks_resources s"
  by (simp_all add: failed_run_def finished_run_def)

text \<open>Each object of the template is recorded as synced, and nothing else is recorded.\<close>

definition settled :: "unstructured list \<Rightarrow> Resource list \<Rightarrow> bool" where
  "settled objs rs \<longleftrightarrow>
     (\<forall>u\<in>set objs. \<exists>r\<in>set rs. resource_key r = object_key u) \<and>
     (\<forall>r\<in>set rs. r_status r = ResourceStatusSynced \<and> resource_key r \<in> object_key ` set objs)"

definition settled_for :: "yaml_library \<Rightarrow> string \<Rightarrow> Resource list \<Rightarrow> bool" where
  "settled_for lib template rs =
     (case parseK8sYaml lib template of None \<Rightarrow> False | Some objs \<Rightarrow> settled objs rs)"

lemma settled_found:
  assumes "settled objs rs" "u \<in> set objs"
  obtains r where "getResourceMap rs (object_key u) = Some r" "r \<in> set rs"
    "r_status r = ResourceStatusSynced" "resource_key r = object_key u"
  using assms getResourceMap_member getResourceMap_Some unfolding settled_def by metis

lemma settled_none_to_delete: "settled objs rs \<Longrightarrow> resourcesToBeDeleted rs objs = []"
  by (auto simp: settled_def resourcesToBeDeleted_def filter_empty_conv)

section \<open>The steps of Apply\<close>

text \<open>A step never takes back a request to run again and never drops a result.\<close>

definition grows :: "kube_state \<Rightarrow> kube_state \<Rightarrow> bool" where
  "grows s t \<longleftrightarrow> (ks_requeue s \<longrightarrow> ks_requeue t) \<and> set (ks_resources s) \<subseteq> set (ks_resources t)"

lemma apply_object_cases:
  assumes "apply_object api ns (getResourceMap rs) u s = (e, t)"
  obtains
    (kept) r where "getResourceMap rs (object_key u) = Some r" "r \<in> set rs"
      "resource_key r = object_key u" "r_status r = ResourceStatusSynced"
      "e = None" "t = add_resource r s"
  | (no_label) "e = Some SettingLabel" "t = s"
  | (no_interface) "e = None" "t = ask_requeue s"
  | (refused) r dr v where "resource_key r = object_key u" "r_status r = ResourceStatusNotSynced"
      "setLabel u ObjectLabelKeyOwned ObjectLabelValueOwned = Some v"
      "map_option r_status (getResourceMap rs (object_key u)) \<noteq> Some ResourceStatusSynced"
      "e = None" "t = ask_requeue (add_resource r (send (WriteApply dr (GetName v) v) s))"
  | (applied) r dr v where "resource_key r = object_key u" "r_status r = ResourceStatusSynced"
      "setLabel u ObjectLabelKeyOwned ObjectLabelValueOwned = Some v"
      "map_option r_status (getResourceMap rs (object_key u)) \<noteq> Some ResourceStatusSynced"
      "e = None" "t = add_resource r (send (WriteApply dr (GetName v) v) s)"
proof (cases "map_option r_status (getResourceMap rs (object_key u)) = Some ResourceStatusSynced")
  case True
  then obtain r where "getResourceMap rs (object_key u) = Some r" "r_status r = ResourceStatusSynced"
    by auto
  then show ?thesis using kept[of r] assms getResourceMap_Some[of rs "object_key u" r]
    by (simp add: apply_object_def)
next
  case False
  note step = assms[unfolded apply_object_def Let_def if_not_P[OF False]]
  show ?thesis
  proof (cases "setLabel u ObjectLabelKeyOwned ObjectLabelValueOwned")
    case None
    then show ?thesis using no_label step by simp
  next
    case (Some v)
    note v = this
    have key: "resource_key (new_resource v) = object_key u"
      using setLabel_key[OF v] by (simp add: new_resource_key)
    show ?thesis
    proof (cases "GetDynamicResourceInterface api (ks_trace s) ns (u_GroupVersionKind v)")
      case (Inl e)
      then show ?thesis using no_interface step v by simp
    next
      case (Inr dr)
      let ?w = "WriteApply dr (GetName v) v"
      show ?thesis
      proof (cases "ka_apply api (ks_trace s) dr (GetName v) v")
        case None
        then have "e = None" "t = add_resource (synced (new_resource v)) (send ?w s)"
          using step v Inr by simp_all
        then show ?thesis
          using applied[of "synced (new_resource v)" v dr, OF _ _ v False] key by simp
      next
        case (Some err)
        then have "e = None" "t = ask_requeue (add_resource (not_synced
            (''failed to apply object: '' @ error_text err) (new_resource v)) (send ?w s))"
          using step v Inr by simp_all
        then show ?thesis
          using refused[of "not_synced _ (new_resource v)" v dr, OF _ _ v False] key by simp
      qed
    qed
  qed
qed

lemma delete_resource_cases:
  assumes "delete_resource api ns r s = (e, t)"
  obtains (no_interface) err where "e = Some (DynamicInterface err)" "t = s"
  | (deleted) dr where "e = None" "t = send (WriteDelete dr (r_name r)) s"
  | (refused) dr err where "e = None"
      "t = ask_requeue (add_resource (not_synced err r) (send (WriteDelete dr (r_name r)) s))"
  using assms by (auto simp: delete_resource_def Let_def split: sum.splits option.splits)

lemma apply_object_grows: "apply_object api ns (getResourceMap rs) u s = (e, t) \<Longrightarrow> grows s t"
  by (erule apply_object_cases) (auto simp: grows_def)

lemma delete_resource_grows: "delete_resource api ns r s = (e, t) \<Longrightarrow> grows s t"
  by (erule delete_resource_cases) (auto simp: grows_def)

lemma apply_object_result:
  "apply_object api ns (getResourceMap rs) u s = (None, t) \<Longrightarrow>
    ks_requeue t \<or> (\<exists>r\<in>set (ks_resources t). resource_key r = object_key u)"
  by (erule apply_object_cases) auto

definition good_results :: "unstructured list \<Rightarrow> kube_state \<Rightarrow> bool" where
  "good_results objs s \<longleftrightarrow> ks_requeue s \<or> (\<forall>r\<in>set (ks_resources s).
     r_status r = ResourceStatusSynced \<and> resource_key r \<in> object_key ` set objs)"

lemma apply_object_good:
  "apply_object api ns (getResourceMap rs) u s = (e, t) \<Longrightarrow> u \<in> set objs \<Longrightarrow>
    good_results objs s \<Longrightarrow> good_results objs t"
  by (erule apply_object_cases) (auto simp: good_results_def)

lemma delete_resource_good:
  "delete_resource api ns r s = (e, t) \<Longrightarrow> good_results objs s \<Longrightarrow> good_results objs t"
  by (erule delete_resource_cases) (auto simp: good_results_def)

lemma apply_object_settled:
  assumes "settled objs rs" "u \<in> set objs"
  shows "apply_object api ns (getResourceMap rs) u s =
    (None, add_resource (the (getResourceMap rs (object_key u))) s)"
proof -
  obtain r where "getResourceMap rs (object_key u) = Some r" "r_status r = ResourceStatusSynced"
    using settled_found[OF assms] .
  then show ?thesis by (simp add: apply_object_def)
qed

lemma apply_loop_settled:
  assumes "settled objs rs" "set us \<subseteq> set objs"
  shows "for_each (apply_object api ns (getResourceMap rs)) us s =
    (None, s\<lparr>ks_resources := ks_resources s @ map (\<lambda>u. the (getResourceMap rs (object_key u))) us\<rparr>)"
  using assms(2)
  by (induction us arbitrary: s) (simp_all add: apply_object_settled[OF assms(1)] add_resource_def)

lemma Apply_None:
  assumes "kr_error (Apply lib api ns template rs tr) = None"
  obtains objs s s' where "parseK8sYaml lib template = Some objs"
    "for_each (apply_object api ns (getResourceMap rs)) objs (start_state tr) = (None, s)"
    "for_each (delete_resource api ns) (resourcesToBeDeleted rs objs) s = (None, s')"
    "Apply lib api ns template rs tr = finished_run s'"
  using assms by (auto simp: Apply_def split: option.splits prod.splits)

lemma grows_trans: "grows s t \<Longrightarrow> grows t v \<Longrightarrow> grows s v"
  by (auto simp: grows_def)

lemma delete_loop_grows: "grows s (snd (for_each (delete_resource api ns) rs s))"
  by (rule for_each_inv[where I = "grows s"])
    (simp add: grows_def, metis delete_resource_grows grows_trans)

lemma Apply_quiet_settles:
  assumes "kr_error (Apply lib api ns template rs tr) = None"
    and "\<not> kr_requeue (Apply lib api ns template rs tr)"
  shows "settled_for lib template (kr_resources (Apply lib api ns template rs tr))"
proof -
  obtain objs s s' where o: "parseK8sYaml lib template = Some objs"
    and l1: "for_each (apply_object api ns (getResourceMap rs)) objs (start_state tr) = (None, s)"
    and l2: "for_each (delete_resource api ns) (resourcesToBeDeleted rs objs) s = (None, s')"
    and r: "Apply lib api ns template rs tr = finished_run s'"
    using Apply_None[OF assms(1)] .
  have rq: "\<not> ks_requeue s'" using assms(2) r by simp
  have gr: "grows s s'" using delete_loop_grows[of s api ns "resourcesToBeDeleted rs objs"] l2 by simp
  have "good_results objs (start_state tr)" by (simp add: good_results_def)
  then have "good_results objs s"
    using for_each_inv[of "good_results objs" "start_state tr" objs] apply_object_good l1
    by (metis snd_conv)
  then have "good_results objs s'"
    using for_each_inv[of "good_results objs" s] delete_resource_good l2 by (metis snd_conv)
  moreover have "\<exists>r\<in>set (ks_resources s'). resource_key r = object_key u" if u: "u \<in> set objs" for u
  proof -
    let ?P = "\<lambda>s. ks_requeue s \<or> (\<exists>r\<in>set (ks_resources s). resource_key r = object_key u)"
    have "?P s"
    proof (rule for_each_each[OF l1 u])
      show "?P t" if "apply_object api ns (getResourceMap rs) u a = (None, t)" for a t
        using apply_object_result[OF that] .
      show "?P t" if "?P a" "apply_object api ns (getResourceMap rs) y a = (e, t)" for y a e t
        using that apply_object_grows[OF that(2)] by (auto simp: grows_def)
    qed
    then show ?thesis using gr rq by (auto simp: grows_def)
  qed
  ultimately show ?thesis
    using rq by (simp add: settled_for_def o r settled_def good_results_def)
qed

lemma settled_again:
  assumes "settled objs rs"
  shows "settled objs (map (\<lambda>u. the (getResourceMap rs (object_key u))) objs)"
proof -
  have "r_status (the (getResourceMap rs (object_key u))) = ResourceStatusSynced \<and>
      resource_key (the (getResourceMap rs (object_key u))) = object_key u" if "u \<in> set objs" for u
    using settled_found[OF assms that] by (metis option.sel)
  then show ?thesis by (auto simp: settled_def)
qed

lemma Apply_settled:
  assumes "settled_for lib template rs"
  shows "kr_error (Apply lib api ns template rs tr) = None \<and>
    \<not> kr_requeue (Apply lib api ns template rs tr) \<and>
    kr_trace (Apply lib api ns template rs tr) = tr \<and>
    settled_for lib template (kr_resources (Apply lib api ns template rs tr))"
proof -
  obtain objs where o: "parseK8sYaml lib template = Some objs" "settled objs rs"
    using assms by (auto simp: settled_for_def split: option.splits)
  show ?thesis
    using settled_again[OF o(2)]
    by (simp add: Apply_def o settled_for_def apply_loop_settled[OF o(2)] settled_none_to_delete[OF o(2)])
qed

section \<open>Running until everything is synced\<close>

text \<open>
  What a controller that applies the same template on every reconciliation relies on.
\<close>

primrec iterate_runs ::
    "(Resource list \<Rightarrow> kube_write list \<Rightarrow> kube_result) \<Rightarrow> nat
      \<Rightarrow> Resource list \<times> kube_write list \<Rightarrow> Resource list \<times> kube_write list" where
  "iterate_runs run 0 st = st"
| "iterate_runs run (Suc n) st = iterate_runs run n
     (kr_resources (run (fst st) (snd st)), kr_trace (run (fst st) (snd st)))"

locale resource_runner =
  fixes run :: "Resource list \<Rightarrow> kube_write list \<Rightarrow> kube_result"
    and settled_state :: "Resource list \<Rightarrow> bool"
  assumes quiet_settles:
      "kr_error (run rs tr) = None \<Longrightarrow> \<not> kr_requeue (run rs tr) \<Longrightarrow>
        settled_state (kr_resources (run rs tr))"
    and settled_error: "settled_state rs \<Longrightarrow> kr_error (run rs tr) = None"
    and settled_requeue: "settled_state rs \<Longrightarrow> \<not> kr_requeue (run rs tr)"
    and settled_trace: "settled_state rs \<Longrightarrow> kr_trace (run rs tr) = tr"
begin

lemma stays_settled: "settled_state rs \<Longrightarrow> settled_state (kr_resources (run rs tr))"
  by (simp add: quiet_settles settled_error settled_requeue)

lemma silent_forever:
  "settled_state rs \<Longrightarrow> snd (iterate_runs run n (rs, tr)) = tr \<and>
    settled_state (fst (iterate_runs run n (rs, tr)))"
  by (induction n arbitrary: rs tr) (simp_all add: settled_trace stays_settled)

lemma quiet_forever:
  "kr_error (run rs tr) = None \<Longrightarrow> \<not> kr_requeue (run rs tr) \<Longrightarrow>
    snd (iterate_runs run (Suc n) (rs, tr)) = kr_trace (run rs tr)"
  by (simp add: silent_forever quiet_settles)

end

interpretation applying: resource_runner "Apply lib api ns template" "settled_for lib template"
  for lib api ns template
  by unfold_locales (simp_all add: Apply_quiet_settles Apply_settled)

section \<open>Properties of the client\<close>

text \<open>The writes a run may add to the trace.\<close>

definition write_justified :: "unstructured list \<Rightarrow> Resource list \<Rightarrow> kube_write \<Rightarrow> bool" where
  "write_justified objs rs w = (case w of
       WriteApply dr n v \<Rightarrow> \<exists>u\<in>set objs.
         setLabel u ObjectLabelKeyOwned ObjectLabelValueOwned = Some v \<and> n = GetName v \<and>
         map_option r_status (getResourceMap rs (object_key u)) \<noteq> Some ResourceStatusSynced
     | WriteDelete dr n \<Rightarrow> \<exists>r\<in>set rs. n = r_name r \<and> r_status r = ResourceStatusSynced \<and>
         resource_key r \<notin> object_key ` set objs
     | WriteHelperDelete ns n \<Rightarrow> False)"

definition adds_only :: "(kube_write \<Rightarrow> bool) \<Rightarrow> kube_write list \<Rightarrow> kube_state \<Rightarrow> bool" where
  "adds_only J tr s \<longleftrightarrow> (\<exists>ws. ks_trace s = tr @ ws \<and> (\<forall>w\<in>set ws. J w))"

lemma adds_only_start: "adds_only J tr (start_state tr)"
  by (simp add: adds_only_def)

lemma adds_only_same: "ks_trace t = ks_trace s \<Longrightarrow> adds_only J tr s \<Longrightarrow> adds_only J tr t"
  by (simp add: adds_only_def)

lemma adds_only_send:
  "ks_trace t = ks_trace s @ [w] \<Longrightarrow> J w \<Longrightarrow> adds_only J tr s \<Longrightarrow> adds_only J tr t"
  by (auto simp: adds_only_def)

lemma apply_object_writes:
  assumes "apply_object api ns (getResourceMap rs) u s = (e, t)" "u \<in> set objs"
    and "adds_only (write_justified objs rs) tr s"
  shows "adds_only (write_justified objs rs) tr t"
  using assms(1)
proof (cases rule: apply_object_cases)
  case (refused r dr v)
  then have "write_justified objs rs (WriteApply dr (GetName v) v)"
    using assms(2) by (auto simp: write_justified_def)
  then show ?thesis using refused assms(3) by (intro adds_only_send[of t s]) simp_all
next
  case (applied r dr v)
  then have "write_justified objs rs (WriteApply dr (GetName v) v)"
    using assms(2) by (auto simp: write_justified_def)
  then show ?thesis using applied assms(3) by (intro adds_only_send[of t s]) simp_all
qed (use assms(3) in \<open>simp_all add: adds_only_same\<close>)

lemma delete_resource_writes:
  assumes "delete_resource api ns r s = (e, t)" "r \<in> set (resourcesToBeDeleted rs objs)"
    and "adds_only (write_justified objs rs) tr s"
  shows "adds_only (write_justified objs rs) tr t"
proof -
  have j: "write_justified objs rs (WriteDelete dr (r_name r))" for dr
    using assms(2) by (auto simp: write_justified_def resourcesToBeDeleted_def)
  show ?thesis
    using assms(1)
  proof (cases rule: delete_resource_cases)
    case (deleted dr)
    then show ?thesis using j assms(3) by (intro adds_only_send[of t s]) simp_all
  next
    case (refused dr err)
    then show ?thesis using j assms(3) by (intro adds_only_send[of t s]) simp_all
  qed (use assms(3) in simp)
qed

lemma Apply_adds_only:
  assumes "parseK8sYaml lib template = Some objs"
  shows "\<exists>ws. kr_trace (Apply lib api ns template rs tr) = tr @ ws \<and>
    (\<forall>w\<in>set ws. write_justified objs rs w)"
proof -
  let ?J = "adds_only (write_justified objs rs) tr"
  obtain e s where l1: "for_each (apply_object api ns (getResourceMap rs)) objs (start_state tr) = (e, s)"
    by fastforce
  have s: "?J s"
    using for_each_inv[of ?J "start_state tr" objs] apply_object_writes adds_only_start l1
    by (metis snd_conv)
  obtain e' s' where
    l2: "for_each (delete_resource api ns) (resourcesToBeDeleted rs objs) s = (e', s')"
    by fastforce
  have "?J s'"
    using for_each_inv[of ?J s "resourcesToBeDeleted rs objs"] delete_resource_writes s l2
    by (metis snd_conv)
  with s show ?thesis
    by (cases e; cases e') (simp_all add: Apply_def assms l1 l2 adds_only_def)
qed

definition sample_library :: yaml_library where
  "sample_library = \<lparr>yl_documents = (\<lambda>t. [t]), yl_toJSON = Some,
     yl_decode = (\<lambda>_. Some sample_deployment), yl_toUnstructured = Some\<rparr>"

definition sample_api :: "api_error option \<Rightarrow> kube_api" where
  "sample_api answer = \<lparr>ka_newDynamic = None, ka_newDiscovery = None,
     ka_restMapping = (\<lambda>_ _. Inr (''deployments'', True)), ka_newClientset = None,
     ka_groupResources = None, ka_helperMapping = (\<lambda>_. None), ka_newRestClient = (\<lambda>_. None),
     ka_apply = (\<lambda>_ _ _ _. answer), ka_delete = (\<lambda>_ _ _. answer),
     ka_helperDelete = (\<lambda>_ _ _. answer)\<rparr>"

lemma sample_parse: "parseK8sYaml sample_library ''x'' = Some [sample_deployment]"
  by (simp add: parseK8sYaml_def sample_library_def)

text \<open>
  C4. Apply sends only what it has to: it applies objects of the template, labelled as owned,
  that are not recorded as synced, and deletes recorded and synced resources whose name and
  namespace are gone from the template, whatever the server answers.
\<close>

theorem Apply_writes_justified:
  assumes "parseK8sYaml lib template = Some objs"
  shows "\<exists>ws. kr_trace (Apply lib api ns template rs tr) = tr @ ws \<and>
    (\<forall>w\<in>set ws. write_justified objs rs w)"
  using assms by (rule Apply_adds_only)

theorem Apply_writes_justified_witness:
  "\<exists>ws. kr_trace (Apply sample_library (sample_api None) ''ns'' ''x'' [] []) = [] @ ws \<and>
    (\<forall>w\<in>set ws. write_justified [sample_deployment] [] w)"
  by (rule Apply_writes_justified[OF sample_parse])

definition applied_once :: kube_result where
  "applied_once = Apply sample_library (sample_api None) ''ns'' ''x'' [] []"

lemma applied_once_quiet: "kr_error applied_once = None \<and> \<not> kr_requeue applied_once"
  by code_simp

text \<open>
  C5. Once a run of Apply returns with no error and no request to run again, every object of the
  template is recorded as synced and no further run with the recorded resources writes anything,
  whatever the server would answer then.
\<close>

theorem Apply_settles:
  assumes "kr_error (Apply lib api ns template rs tr) = None"
    and "\<not> kr_requeue (Apply lib api ns template rs tr)"
  shows "settled_for lib template (kr_resources (Apply lib api ns template rs tr)) \<and>
    snd (iterate_runs (Apply lib api' ns' template) n
      (kr_resources (Apply lib api ns template rs tr), tr')) = tr'"
  using applying.quiet_settles[OF assms] applying.silent_forever by blast

theorem Apply_settles_witness:
  "settled_for sample_library ''x'' (kr_resources applied_once) \<and>
    snd (iterate_runs (Apply sample_library (sample_api (Some (OtherError ''down''))) ''ns'' ''x'') 5
      (kr_resources applied_once, [])) = []"
  unfolding applied_once_def
  by (rule Apply_settles) (use applied_once_quiet in \<open>simp_all add: applied_once_def\<close>)

section \<open>Two objects of one name\<close>

lemma apply_object_refused:
  assumes "getResourceMap rs (object_key u) = None"
    and "setLabel u ObjectLabelKeyOwned ObjectLabelValueOwned = Some v"
    and "GetDynamicResourceInterface api (ks_trace s) ns (u_GroupVersionKind v) = Inr dr"
    and "ka_apply api (ks_trace s) dr (GetName v) v = Some e"
  shows "apply_object api ns (getResourceMap rs) u s = (None, ask_requeue (add_resource
    (not_synced (''failed to apply object: '' @ error_text e) (new_resource v)) (send (WriteApply dr (GetName v) v) s)))"
  using assms by (simp add: apply_object_def)

lemma apply_object_accepted:
  assumes "getResourceMap rs (object_key u) = None"
    and "setLabel u ObjectLabelKeyOwned ObjectLabelValueOwned = Some v"
    and "GetDynamicResourceInterface api (ks_trace s) ns (u_GroupVersionKind v) = Inr dr"
    and "ka_apply api (ks_trace s) dr (GetName v) v = None"
  shows "apply_object api ns (getResourceMap rs) u s =
    (None, add_resource (synced (new_resource v)) (send (WriteApply dr (GetName v) v) s))"
  using assms by (simp add: apply_object_def)

text \<open>
  C33. Resources are looked up by name and namespace, not by kind. When a template has two objects of
  one name in one namespace, and the server refuses the first and takes the second, the run asks to
  be repeated; the repetition finds the second one recorded, skips both, reports both as synced and
  ends quietly, so the first object is never applied.
\<close>

theorem refused_namesake_forgotten:
  assumes "parseK8sYaml lib template = Some [a, b]" and "object_key a = object_key b"
    and "setLabel a ObjectLabelKeyOwned ObjectLabelValueOwned = Some v"
    and "setLabel b ObjectLabelKeyOwned ObjectLabelValueOwned = Some w"
    and "GetDynamicResourceInterface api tr ns (u_GroupVersionKind v) = Inr d1"
    and "GetDynamicResourceInterface api (tr @ [WriteApply d1 (GetName v) v]) ns (u_GroupVersionKind w) = Inr d2"
    and "ka_apply api tr d1 (GetName v) v = Some e"
    and "ka_apply api (tr @ [WriteApply d1 (GetName v) v]) d2 (GetName w) w = None"
    and "first = Apply lib api ns template [] tr"
    and "again = Apply lib api' ns' template (kr_resources first) (kr_trace first)"
  shows "kr_requeue first \<and> map r_status (kr_resources first) = [ResourceStatusNotSynced, ResourceStatusSynced] \<and>
    kr_error again = None \<and> \<not> kr_requeue again \<and> kr_trace again = kr_trace first \<and>
    map r_status (kr_resources again) = [ResourceStatusSynced, ResourceStatusSynced]"
proof -
  define ra where "ra = not_synced (''failed to apply object: '' @ error_text e) (new_resource v)"
  define rb where "rb = synced (new_resource w)"
  have key: "resource_key ra = object_key a" "resource_key rb = object_key a"
    using setLabel_key assms(2-4) by (auto simp: ra_def rb_def new_resource_key)
  have st: "r_status ra = ResourceStatusNotSynced" "r_status rb = ResourceStatusSynced"
    by (simp_all add: ra_def rb_def)
  have none: "getResourceMap [] k = None" for k by (simp add: getResourceMap_def)
  have first: "first = finished_run (add_resource rb (send (WriteApply d2 (GetName w) w)
      (ask_requeue (add_resource ra (send (WriteApply d1 (GetName v) v) (start_state tr))))))"
    using assms(1,9) apply_object_refused[of "[]" a v api "start_state tr" ns d1 e, OF none assms(3)]
      apply_object_accepted[of "[]" b w api "ask_requeue (add_resource ra (send (WriteApply d1 (GetName v) v)
        (start_state tr)))" ns d2, OF none assms(4)] assms(5-8)
    by (simp add: Apply_def ra_def rb_def resourcesToBeDeleted_def)
  have map: "getResourceMap [ra, rb] (object_key a) = Some rb"
    by (simp add: getResourceMap_def key)
  have skip: "apply_object api' ns' (getResourceMap [ra, rb]) u s = (None, add_resource rb s)"
    if "object_key u = object_key a" for u s
    using that map st by (simp add: apply_object_def)
  have "again = finished_run (add_resource rb (add_resource rb (start_state (kr_trace first))))"
    using assms(1,2,10) first skip[of a] skip[of b] key
    by (simp add: Apply_def resourcesToBeDeleted_def)
  with first st show ?thesis by simp
qed

definition sample_service :: unstructured where
  "sample_service = [(''apiVersion'', JString ''v1''), (''kind'', JString ''Service''),
     (''metadata'', JObject [(''name'', JString ''web''), (''namespace'', JString ''demo'')])]"

definition namesakes_library :: yaml_library where
  "namesakes_library = sample_library\<lparr>yl_documents := \<lambda>_. [''d'', ''s''],
     yl_decode := \<lambda>t. Some (if t = ''d'' then sample_deployment else sample_service)\<rparr>"

definition quota_api :: kube_api where
  "quota_api = (sample_api None)\<lparr>ka_apply := \<lambda>_ _ _ u.
     if GetKind u = ''Deployment'' then Some (OtherError ''quota exceeded'') else None\<rparr>"

definition labelled_service :: unstructured where
  "labelled_service = the (setLabel sample_service ObjectLabelKeyOwned ObjectLabelValueOwned)"

definition owned_deployment :: unstructured where
  "owned_deployment = the (setLabel sample_deployment ObjectLabelKeyOwned ObjectLabelValueOwned)"

definition quota_run :: kube_result where
  "quota_run = Apply namesakes_library quota_api ''ns'' ''x'' [] []"

definition quota_rerun :: kube_result where
  "quota_rerun = Apply namesakes_library (sample_api None) ''ns'' ''x'' (kr_resources quota_run) (kr_trace quota_run)"

theorem refused_namesake_forgotten_witness:
  "kr_requeue quota_run \<and> map r_status (kr_resources quota_run) = [ResourceStatusNotSynced, ResourceStatusSynced] \<and>
    kr_error quota_rerun = None \<and> \<not> kr_requeue quota_rerun \<and> kr_trace quota_rerun = kr_trace quota_run \<and>
    map r_status (kr_resources quota_rerun) = [ResourceStatusSynced, ResourceStatusSynced]"
proof (rule refused_namesake_forgotten[OF _ _ _ _ _ _ _ _ quota_run_def quota_rerun_def])
  show "parseK8sYaml namesakes_library ''x'' = Some [sample_deployment, sample_service]"
    by (simp add: parseK8sYaml_def namesakes_library_def sample_library_def)
  show "object_key sample_deployment = object_key sample_service" by code_simp
  show "setLabel sample_deployment ObjectLabelKeyOwned ObjectLabelValueOwned = Some owned_deployment"
    unfolding owned_deployment_def by code_simp
  show "setLabel sample_service ObjectLabelKeyOwned ObjectLabelValueOwned = Some labelled_service"
    unfolding labelled_service_def by code_simp
  show "GetDynamicResourceInterface quota_api tr ''ns'' (u_GroupVersionKind u) =
      Inr \<lparr>dr_resource = ''deployments'', dr_namespace = Some ''ns''\<rparr>" for u tr
    by (simp add: GetDynamicResourceInterface_def quota_api_def sample_api_def)
  then show "GetDynamicResourceInterface quota_api tr ''ns'' (u_GroupVersionKind u) =
      Inr \<lparr>dr_resource = ''deployments'', dr_namespace = Some ''ns''\<rparr>" for u tr .
  have kinds: "GetKind owned_deployment = ''Deployment''" "GetKind labelled_service = ''Service''"
    by code_simp+
  then show "ka_apply quota_api [] \<lparr>dr_resource = ''deployments'', dr_namespace = Some ''ns''\<rparr>
      (GetName owned_deployment) owned_deployment = Some (OtherError ''quota exceeded'')"
    "ka_apply quota_api ([] @ [WriteApply \<lparr>dr_resource = ''deployments'', dr_namespace = Some ''ns''\<rparr>
        (GetName owned_deployment) owned_deployment]) \<lparr>dr_resource = ''deployments'', dr_namespace = Some ''ns''\<rparr>
      (GetName labelled_service) labelled_service = None"
    by (simp_all add: quota_api_def)
qed

section \<open>Delete after Apply\<close>

lemma delete_loop_settled:
  assumes "settled objs rs" "set us \<subseteq> set objs"
  shows "ks_trace (snd (for_each (delete_object_step api ns (getResourceMap rs)) us s)) = ks_trace s \<and>
    fst (for_each (delete_object_step api ns (getResourceMap rs)) us s) = None"
  using assms(2)
proof (induction us arbitrary: s)
  case (Cons u us)
  then obtain r where "getResourceMap rs (object_key u) = Some r" "r_status r = ResourceStatusSynced"
    using settled_found[OF assms(1), of u] by (metis list.set_intros(1) subsetD)
  then show ?case using Cons by (simp add: delete_object_step_def)
qed simp

lemma delete_settled:
  assumes "settled_for lib template rs" and "ka_newClientset api = None"
  shows "kr_trace (kube_Delete lib api ns template rs tr) = tr \<and>
    kr_error (kube_Delete lib api ns template rs tr) = None \<and>
    \<not> kr_requeue (kube_Delete lib api ns template rs tr)"
proof -
  obtain objs where o: "parseK8sYaml lib template = Some objs" "settled objs rs"
    using assms(1) by (auto simp: settled_for_def split: option.splits)
  let ?l = "for_each (delete_object_step api ns (getResourceMap rs)) objs (start_state tr)"
  obtain s where l: "?l = (None, s)" "ks_trace s = tr"
    using delete_loop_settled[OF o(2) subset_refl, of api ns "start_state tr"] by (cases ?l) auto
  have "\<not> ks_requeue (snd ?l)"
    by (rule for_each_inv[where I = "\<lambda>s. \<not> ks_requeue s"])
      (auto simp: delete_object_step_def deleteObject_def Let_def
        split: if_splits option.splits prod.splits)
  then show ?thesis by (simp add: kube_Delete_def assms(2) o l)
qed

text \<open>
  Deleting a template whose objects are recorded as synced, which is what a finished Apply
  records, deletes nothing: the run sends no request and reports no error.
\<close>

theorem Delete_after_Apply_deletes_nothing:
  assumes "settled_for lib template rs" and "ka_newClientset api = None"
  shows "kr_trace (kube_Delete lib api ns template rs tr) = tr \<and>
    kr_error (kube_Delete lib api ns template rs tr) = None \<and>
    \<not> kr_requeue (kube_Delete lib api ns template rs tr)"
  using assms by (rule delete_settled)

theorem Delete_after_Apply_deletes_nothing_witness:
  "kr_trace (kube_Delete sample_library (sample_api None) ''ns'' ''x'' (kr_resources applied_once) []) = []"
  using Delete_after_Apply_deletes_nothing[of sample_library "''x''" "kr_resources applied_once"
      "sample_api None" "''ns''" "[]"]
    Apply_quiet_settles[of sample_library "sample_api None" "''ns''" "''x''" "[]" "[]"]
    applied_once_quiet
  by (simp add: applied_once_def sample_api_def)

section \<open>Reports on a new cluster stack\<close>

lemma apply_new_object_reports:
  assumes "apply_new_object api ns u s = (e, t)" and "u \<in> set objs"
    and "\<forall>r\<in>set (ks_resources s). r_status r = ResourceStatusSynced"
  shows "\<forall>r\<in>set (ks_resources t). r_status r = ResourceStatusSynced"
  using assms
  by (auto simp: apply_new_object_def Let_def split: option.splits sum.splits)

lemma delete_old_object_reports:
  assumes "delete_old_object api ns u s = (e, t)" and "object_key u \<notin> K"
    and "\<forall>r\<in>set (ks_resources s). r_status r = ResourceStatusSynced \<or> resource_key r \<notin> K"
  shows "\<forall>r\<in>set (ks_resources t). r_status r = ResourceStatusSynced \<or> resource_key r \<notin> K"
  using assms
  by (auto simp: delete_old_object_def Let_def new_resource_key split: option.splits sum.splits)

text \<open>
  ApplyNewClusterStack records every object of the new template it sent as synced, also one
  the server refused: only an object of the old template that could not be deleted is ever
  recorded as not synced.
\<close>

theorem ApplyNewClusterStack_reports_synced:
  assumes "parseK8sYaml lib newTemplate = Some objs"
    and "r \<in> set (kr_resources (ApplyNewClusterStack lib api ns oldTemplate newTemplate tr))"
    and "resource_key r \<in> object_key ` set objs"
  shows "r_status r = ResourceStatusSynced"
proof (cases "parseK8sYaml lib oldTemplate")
  case None
  then show ?thesis using assms(2) by (simp add: ApplyNewClusterStack_def)
next
  case (Some olds)
  let ?K = "object_key ` set objs"
  let ?gone = "resourcesToBeDeletedFromUnstructuredObjects olds objs"
  obtain e s where l1: "for_each (apply_new_object api ns) objs (start_state tr) = (e, s)"
    by fastforce
  obtain e' s' where l2: "for_each (delete_old_object api ns) ?gone s = (e', s')" by fastforce
  let ?I = "\<lambda>s. \<forall>r\<in>set (ks_resources s). r_status r = ResourceStatusSynced"
  let ?J = "\<lambda>s. \<forall>r\<in>set (ks_resources s). r_status r = ResourceStatusSynced \<or> resource_key r \<notin> ?K"
  have "?I (start_state tr)" by simp
  then have "?I s"
    using for_each_inv[of ?I "start_state tr" objs "apply_new_object api ns"]
      apply_new_object_reports l1 by (metis (no_types, lifting) snd_conv)
  then have "?J s" by blast
  moreover have "object_key u \<notin> ?K" if "u \<in> set ?gone" for u
    using that by (simp add: resourcesToBeDeletedFromUnstructuredObjects_def)
  ultimately have "?J s'"
    using for_each_inv[of ?J s ?gone "delete_old_object api ns"] delete_old_object_reports l2
    by (metis (no_types, lifting) snd_conv)
  with assms(2,3) show ?thesis
    by (cases e; cases e') (auto simp: ApplyNewClusterStack_def Some assms(1) l1 l2)
qed

definition refused_resource :: Resource where
  "refused_resource = synced (not_synced ''failed to apply object: no''
     (new_resource (the (setLabel sample_deployment ObjectLabelKeyOwned ObjectLabelValueOwned))))"

lemma refused_resource_reported:
  "kr_resources (ApplyNewClusterStack sample_library (sample_api (Some (OtherError ''no'')))
     ''ns'' ''x'' ''x'' []) = [refused_resource]"
  by code_simp

theorem ApplyNewClusterStack_reports_synced_witness:
  "r_status refused_resource = ResourceStatusSynced"
proof (rule ApplyNewClusterStack_reports_synced[OF sample_parse])
  show "refused_resource \<in> set (kr_resources (ApplyNewClusterStack sample_library
      (sample_api (Some (OtherError ''no''))) ''ns'' ''x'' ''x'' []))"
    by (simp add: refused_resource_reported)
  show "resource_key refused_resource \<in> object_key ` set [sample_deployment]"
    by code_simp
qed

end
