(* ===== verification/ReleaseController.thy ===== *)
theory ReleaseController
  imports Release Kube StackDiff
begin

text \<open>
  The reconciliation of a ClusterStackRelease
  (\<open>internal/controller/clusterstackrelease_controller.go\<close>). The API server, the assets client,
  the file system, the YAML library and the helm binary are fields of an environment. The mutex
  around the download is released when the function returns and has no effect on one
  reconciliation; events and log lines are left out.
\<close>

section \<open>Environment and state\<close>

record release_env =
  re_get :: "(api_error, ClusterStackRelease) result"
  re_newHelper :: "string option"
  re_fs :: file_system
  re_unmarshal :: "string \<Rightarrow> Metadata option"
  re_directory :: string
  re_newAssetsClient :: "string option"
  re_download :: "string \<Rightarrow> string \<Rightarrow> string option"
  re_removeAll :: "string \<Rightarrow> string option"
  re_clusters :: "(api_error, Cluster list) result"
  re_exec :: "string \<Rightarrow> string list \<Rightarrow> string option"
  re_yaml :: yaml_library
  re_kube :: kube_api
  re_getProvider :: "ObjectReference \<Rightarrow> string \<Rightarrow> (api_error, unstructured) result"
  re_newProviderHelper :: "string option"
  re_setController :: "ClusterStackRelease \<Rightarrow> unstructured \<Rightarrow> unstructured option"
  re_patchProvider :: "unstructured \<Rightarrow> api_error option"
  re_watch :: "unstructured \<Rightarrow> string option"
  re_patch :: "ClusterStackRelease \<Rightarrow> api_error option"

datatype release_write =
    Download string string
  | RemoveDirectory string
  | KubeWrite kube_write
  | PatchProvider unstructured
  | PatchRelease ClusterStackRelease

datatype reconcile_release_error =
    GetReleaseError api_error
  | ReleaseHelperError string
  | ReleaseAssetsError release_error
  | DownloadError string
  | RemoveError string
  | GetProviderError api_error
  | ProviderHelperError string
  | SetControllerError
  | PatchProviderError api_error
  | WatchError string
  | ProviderReadyError field_error
  | ChartPathError release_error
  | HelmError
  | ApplyError kube_error
  | DeleteError kube_error
  | UsedClassesError api_error
  | PatchReleaseError api_error

datatype release_exit =
    ReleaseDone
  | ReleaseRequeue
  | ReleaseRequeueAfter nat
  | ReleaseFail reconcile_release_error
  | ReleasePanic

record release_state =
  rl_object :: ClusterStackRelease
  rl_writes :: "release_write list"

definition mark_release :: "(Conditions \<Rightarrow> Conditions) \<Rightarrow> release_state \<Rightarrow> release_state" where
  "mark_release f s = s\<lparr>rl_object := csr_conditions f (rl_object s)\<rparr>"

definition release_send :: "release_write list \<Rightarrow> release_state \<Rightarrow> release_state" where
  "release_send ws s = s\<lparr>rl_writes := rl_writes s @ ws\<rparr>"

definition map_meta :: "(ObjectMeta \<Rightarrow> ObjectMeta) \<Rightarrow> ClusterStackRelease \<Rightarrow> ClusterStackRelease" where
  "map_meta f r = r\<lparr>csr_meta := f (csr_meta r)\<rparr>"

section \<open>Helm\<close>

text \<open>\<open>None\<close> is a failed run; otherwise the standard output.\<close>

definition helmTemplate ::
    "(string \<Rightarrow> string list \<Rightarrow> string option) \<Rightarrow> string \<Rightarrow> string \<Rightarrow> string \<Rightarrow> string option" where
  "helmTemplate exec chartPath releaseName namespace =
     exec (filepath_Dir chartPath)
       [''template'', releaseName, filepath_Base chartPath, ''--namespace'', namespace]"

text \<open>Slicing four pieces from fewer is a panic, the outcome \<open>None\<close>.\<close>

definition templateClusterClassHelmChart ::
    "release_env \<Rightarrow> Release \<Rightarrow> string \<Rightarrow> string \<Rightarrow> (reconcile_release_error, string) result option" where
  "templateClusterClassHelmChart env rel name namespace =
     (case ClusterClassChartPath (re_fs env) rel of
        Inl e \<Rightarrow> Some (Inl (ChartPathError e))
      | Inr chart \<Rightarrow>
          let splittedName = split_on Separator name
          in if length splittedName < 4 then None
             else
               let releaseName = join_with [Separator] (take 4 splittedName)
               in (case helmTemplate (re_exec env) chart releaseName namespace of
                     None \<Rightarrow> Some (Inl HelmError)
                   | Some template \<Rightarrow> Some (Inr template)))"

section \<open>The steps\<close>

definition downloadReleaseAssets ::
    "(string \<Rightarrow> string \<Rightarrow> string option) \<Rightarrow> (string \<Rightarrow> string option) \<Rightarrow> string \<Rightarrow> string
      \<Rightarrow> reconcile_release_error option \<times> release_write list" where
  "downloadReleaseAssets download remove_all releaseTag downloadPath =
     (case download releaseTag downloadPath of
        None \<Rightarrow> (None, [Download releaseTag downloadPath])
      | Some err \<Rightarrow>
          (case remove_all downloadPath of
             Some rerr \<Rightarrow> (Some (RemoveError rerr), [Download releaseTag downloadPath, RemoveDirectory downloadPath])
           | None \<Rightarrow> (Some (DownloadError err), [Download releaseTag downloadPath, RemoveDirectory downloadPath])))"

definition updateProviderClusterStackRelease ::
    "release_env \<Rightarrow> ObjectReference \<Rightarrow> release_state
      \<Rightarrow> (reconcile_release_error, bool) result \<times> release_state" where
  "updateProviderClusterStackRelease env providerRef s =
     (case re_getProvider env providerRef (m_namespace (csr_meta (rl_object s))) of
        Inl e \<Rightarrow> (Inl (GetProviderError e), s)
      | Inr provider0 \<Rightarrow>
          (case re_newProviderHelper env of
             Some e \<Rightarrow> (Inl (ProviderHelperError e), s)
           | None \<Rightarrow>
               (case re_setController env (rl_object s) provider0 of
                  None \<Rightarrow> (Inl SetControllerError, s)
                | Some provider \<Rightarrow>
                    let s1 = release_send [PatchProvider provider] s
                    in (case re_patchProvider env provider of
                          Some e \<Rightarrow> (Inl (PatchProviderError e), s1)
                        | None \<Rightarrow>
                            (case re_watch env provider of
                               Some e \<Rightarrow> (Inl (WatchError e), s1)
                             | None \<Rightarrow>
                                 (case NestedBool provider [''status'', ''ready''] of
                                    Inl e \<Rightarrow> (Inl (ProviderReadyError e), s1)
                                  | Inr found \<Rightarrow>
                                      if found = Some True then (Inr True, s1)
                                      else (Inr False, mark_release
                                        (cond_MarkFalse ProviderClusterStackReleaseReadyCondition
                                           ProcessOngoingReason ConditionSeverityInfo) s1)))))))"

text \<open>
  The buffer that holds the output of helm is not nil after a successful run, even if the output is
  empty, so the test \<open>template == nil\<close> never applies and an empty template is applied like any other.
\<close>

definition templateAndApply ::
    "release_env \<Rightarrow> string \<Rightarrow> Release \<Rightarrow> release_state \<Rightarrow> (release_exit, bool) result \<times> release_state" where
  "templateAndApply env kubeNamespace rel s =
     (let obj = rl_object s in
      case templateClusterClassHelmChart env rel (csr_name obj) (m_namespace (csr_meta obj)) of
        None \<Rightarrow> (Inl ReleasePanic, s)
      | Some (Inl e) \<Rightarrow> (Inl (ReleaseFail e), s)
      | Some (Inr template) \<Rightarrow>
          let r = Apply (re_yaml env) (re_kube env) kubeNamespace template
                    (rs_resources (csr_status obj)) [];
              s = release_send (map KubeWrite (kr_trace r)) s
          in (case kr_error r of
                Some e \<Rightarrow> (Inl (ReleaseFail (ApplyError e)), mark_release
                    (cond_MarkFalse HelmChartAppliedCondition FailedToApplyObjectsReason
                       ConditionSeverityError) s)
              | None \<Rightarrow>
                  (Inr (kr_requeue r), s\<lparr>rl_object := (rl_object s)\<lparr>csr_status :=
                     (csr_status (rl_object s))\<lparr>rs_resources := kr_resources r\<rparr>\<rparr>\<rparr>)))"

definition reconcileDelete ::
    "release_env \<Rightarrow> Release \<Rightarrow> string \<Rightarrow> release_state \<Rightarrow> release_exit \<times> release_state" where
  "reconcileDelete env rel namespace s =
     (let obj = rl_object s in
      case getUsedClusterClasses (re_clusters env) of
        Inl e \<Rightarrow> (ReleaseFail (UsedClassesError e), s)
      | Inr used \<Rightarrow>
          if csr_name obj \<in> set used then (ReleaseRequeueAfter 60, s)
          else
            (case templateClusterClassHelmChart env rel (csr_name obj) (m_namespace (csr_meta obj)) of
               None \<Rightarrow> (ReleasePanic, s)
             | Some (Inl e) \<Rightarrow> (ReleaseFail e, s)
             | Some (Inr template) \<Rightarrow>
                 let r = kube_Delete (re_yaml env) (re_kube env) namespace template
                           (rs_resources (csr_status obj)) [];
                     s = release_send (map KubeWrite (kr_trace r)) s
                 in (case kr_error r of
                       Some e \<Rightarrow> (ReleaseFail (DeleteError e), s)
                     | None \<Rightarrow>
                         if kr_requeue r then (ReleaseRequeueAfter 20, s)
                         else (ReleaseDone, s\<lparr>rl_object :=
                           map_meta (RemoveFinalizer ClusterStackReleaseFinalizer) (rl_object s)\<rparr>))))"

section \<open>Reconcile\<close>

definition download_release ::
    "release_env \<Rightarrow> Release \<Rightarrow> release_state \<Rightarrow> release_exit \<times> release_state" where
  "download_release env rel s =
     (let s = mark_release (cond_MarkFalse ClusterStackReleaseAssetsReadyCondition
                ReleaseAssetsNotDownloadedYetReason ConditionSeverityInfo) s in
      case re_newAssetsClient env of
        Some _ \<Rightarrow>
          let isSet = cond_IsFalse (rs_conditions (csr_status (rl_object s))) AssetsClientAPIAvailableCondition
          in (if isSet then ReleaseRequeueAfter 5 else ReleaseDone,
              mark_release (cond_MarkFalse AssetsClientAPIAvailableCondition
                FailedCreateAssetsClientReason ConditionSeverityError) s)
      | None \<Rightarrow>
          let s = mark_release (cond_MarkTrue AssetsClientAPIAvailableCondition) s
          in (case downloadReleaseAssets (re_download env) (re_removeAll env) (csr_name (rl_object s)) (rel_path rel) of
                (Some e, ws) \<Rightarrow> (ReleaseFail e, release_send ws s)
              | (None, ws) \<Rightarrow> (ReleaseRequeue, release_send ws s)))"

definition apply_release ::
    "release_env \<Rightarrow> string \<Rightarrow> Release \<Rightarrow> release_state \<Rightarrow> release_exit \<times> release_state" where
  "apply_release env namespace rel s =
     (let s = mark_release (cond_MarkTrue ProviderClusterStackReleaseReadyCondition) s in
      if cond_IsTrue (rs_conditions (csr_status (rl_object s))) HelmChartAppliedCondition
      then (ReleaseDone, s)
      else (case templateAndApply env namespace rel s of
          (Inl exit, s) \<Rightarrow> (exit, s)
        | (Inr shouldRequeue, s) \<Rightarrow>
            if shouldRequeue
            then (ReleaseRequeueAfter 20, mark_release (cond_MarkFalse HelmChartAppliedCondition
                    ObjectsApplyingOngoingReason ConditionSeverityWarning) s)
            else
              let s = mark_release (cond_MarkTrue HelmChartAppliedCondition) s
              in (ReleaseDone, s\<lparr>rl_object := (rl_object s)\<lparr>csr_status :=
                    (csr_status (rl_object s))\<lparr>rs_ready := True\<rparr>\<rparr>\<rparr>)))"

definition provide_release ::
    "release_env \<Rightarrow> string \<Rightarrow> Release \<Rightarrow> release_state \<Rightarrow> release_exit \<times> release_state" where
  "provide_release env namespace rel s =
     (let s = s\<lparr>rl_object := (rl_object s)\<lparr>csr_status := (csr_status (rl_object s))
                \<lparr>rs_kubernetesVersion := md_kubernetes (rel_meta rel)\<rparr>\<rparr>\<rparr> in
      case csr_providerRef (rl_object s) of
        None \<Rightarrow> apply_release env namespace rel s
      | Some ref \<Rightarrow>
          (case updateProviderClusterStackRelease env ref s of
             (Inl e, s) \<Rightarrow> (ReleaseFail e, s)
           | (Inr ready, s) \<Rightarrow> if ready then apply_release env namespace rel s else (ReleaseDone, s)))"

definition reconcile_release ::
    "release_env \<Rightarrow> string \<Rightarrow> release_state \<Rightarrow> release_exit \<times> release_state" where
  "reconcile_release env namespace s =
     (case release_New (re_fs env) (re_unmarshal env) (csr_name (rl_object s)) (re_directory env) of
        Inl e \<Rightarrow> (ReleaseFail (ReleaseAssetsError e), mark_release
            (cond_MarkFalse ClusterStackReleaseAssetsReadyCondition IssueWithReleaseAssetsReason
               ConditionSeverityError) s)
      | Inr (rel, download) \<Rightarrow>
          if download then download_release env rel s
          else (case CheckHelmCharts (re_fs env) rel of
              Some e \<Rightarrow> (ReleaseDone, mark_release
                (cond_MarkFalse ClusterStackReleaseAssetsReadyCondition IssueWithReleaseAssetsReason
                   ConditionSeverityError) s)
            | None \<Rightarrow>
                let s = mark_release (cond_MarkTrue ClusterStackReleaseAssetsReadyCondition) s
                in if m_deleting (csr_meta (rl_object s))
                   then reconcileDelete env rel namespace s
                   else provide_release env namespace rel s))"

text \<open>The deferred function.\<close>

definition finish_release :: "ClusterStackRelease \<Rightarrow> ClusterStackRelease" where
  "finish_release obj =
     (let obj = csr_conditions cond_SetSummary obj
      in if m_deleting (csr_meta obj)
            \<and> cond_IsFalse (rs_conditions (csr_status obj)) ClusterStackReleaseAssetsReadyCondition
         then map_meta (RemoveFinalizer ClusterStackReleaseFinalizer) obj
         else obj)"

record release_result =
  rr_exit :: release_exit
  rr_object :: "ClusterStackRelease option"
  rr_writes :: "release_write list"

definition release_Reconcile :: "release_env \<Rightarrow> NamespacedName \<Rightarrow> release_result" where
  "release_Reconcile env req =
     (case re_get env of
        Inl e \<Rightarrow> \<lparr>rr_exit = (if IsNotFound e then ReleaseDone else ReleaseFail (GetReleaseError e)),
                 rr_object = None, rr_writes = []\<rparr>
      | Inr obj \<Rightarrow>
          (case re_newHelper env of
             Some e \<Rightarrow> \<lparr>rr_exit = ReleaseFail (ReleaseHelperError e), rr_object = None, rr_writes = []\<rparr>
           | None \<Rightarrow>
               let (exit, s) = reconcile_release env (nn_namespace req)
                     \<lparr>rl_object = map_meta (AddFinalizer ClusterStackReleaseFinalizer) obj,
                      rl_writes = []\<rparr>;
                   final = finish_release (rl_object s)
               in \<lparr>rr_exit = (case re_patch env final of
                       Some e \<Rightarrow> (if exit = ReleasePanic then ReleasePanic
                                 else ReleaseFail (PatchReleaseError e))
                     | None \<Rightarrow> exit),
                   rr_object = Some final,
                   rr_writes = rl_writes s @ [PatchRelease final]\<rparr>))"

section \<open>What the steps leave alone\<close>

text \<open>Metadata and provider reference stay, and so does the ready flag.\<close>

definition same_frame :: "release_state \<Rightarrow> release_state \<Rightarrow> bool" where
  "same_frame s t \<longleftrightarrow> csr_meta (rl_object t) = csr_meta (rl_object s) \<and>
     csr_providerRef (rl_object t) = csr_providerRef (rl_object s) \<and>
     rs_ready (csr_status (rl_object t)) = rs_ready (csr_status (rl_object s))"

lemma same_frame_refl [simp]: "same_frame s s"
  by (simp add: same_frame_def)

lemma same_frame_marks [simp]:
  "same_frame s (mark_release f t) = same_frame s t"
  "same_frame s (release_send ws t) = same_frame s t"
  by (auto simp: same_frame_def mark_release_def release_send_def)

lemma same_frame_trans: "same_frame s t \<Longrightarrow> same_frame t u \<Longrightarrow> same_frame s u"
  by (simp add: same_frame_def)

lemma same_frame_name: "same_frame s t \<Longrightarrow> csr_name (rl_object t) = csr_name (rl_object s)"
  by (simp add: same_frame_def csr_name_def)

lemma mark_release_reads [simp]:
  "csr_meta (rl_object (mark_release f s)) = csr_meta (rl_object s)"
  "csr_providerRef (rl_object (mark_release f s)) = csr_providerRef (rl_object s)"
  "csr_name (rl_object (mark_release f s)) = csr_name (rl_object s)"
  "rs_resources (csr_status (rl_object (mark_release f s))) = rs_resources (csr_status (rl_object s))"
  "rs_ready (csr_status (rl_object (mark_release f s))) = rs_ready (csr_status (rl_object s))"
  "rs_conditions (csr_status (rl_object (mark_release f s))) = f (rs_conditions (csr_status (rl_object s)))"
  "rl_writes (mark_release f s) = rl_writes s"
  "rl_object (release_send ws s) = rl_object s"
  "rl_writes (release_send ws s) = rl_writes s @ ws"
  by (simp_all add: mark_release_def release_send_def csr_name_def)

lemma download_release_frame: "download_release env rel s = (x, t) \<Longrightarrow> same_frame s t \<and> x \<noteq> ReleasePanic"
  by (auto simp: download_release_def downloadReleaseAssets_def Let_def split: option.splits if_splits)

lemma updateProvider_frame:
  "updateProviderClusterStackRelease env ref s = (r, t) \<Longrightarrow> same_frame s t"
  by (auto simp: updateProviderClusterStackRelease_def Let_def split: sum.splits option.splits if_splits)

lemma templateAndApply_frame:
  "templateAndApply env kns rel s = (r, t) \<Longrightarrow> same_frame s t"
  by (auto simp: templateAndApply_def Let_def same_frame_def mark_release_def release_send_def
      split: option.splits sum.splits if_splits)

lemma parsed_name_pieces:
  "NewFromClusterStackReleaseProperties name = Inr cs \<Longrightarrow> 4 \<le> length (split_on Separator name)"
  by (auto simp: NewFromClusterStackReleaseProperties_def parse_pieces_def Let_def split: if_splits)

lemma template_no_panic:
  assumes "NewFromClusterStackReleaseProperties name = Inr cs"
  shows "templateClusterClassHelmChart env rel name ns \<noteq> None"
  using parsed_name_pieces[OF assms]
  by (auto simp: templateClusterClassHelmChart_def Let_def split: sum.splits option.splits)

lemma templateAndApply_no_panic:
  "NewFromClusterStackReleaseProperties (csr_name (rl_object s)) = Inr cs \<Longrightarrow>
    templateAndApply env kns rel s = (r, t) \<Longrightarrow> r \<noteq> Inl ReleasePanic"
  using template_no_panic[of "csr_name (rl_object s)" cs env rel "m_namespace (csr_meta (rl_object s))"]
  by (auto simp: templateAndApply_def Let_def split: option.splits sum.splits if_splits)

lemma templateAndApply_quiet:
  assumes "templateAndApply env kns rel s = (Inr False, t)"
  obtains template where
    "templateClusterClassHelmChart env rel (csr_name (rl_object s)) (m_namespace (csr_meta (rl_object s)))
      = Some (Inr template)"
    "settled_for (re_yaml env) template (rs_resources (csr_status (rl_object t)))"
proof -
  obtain template where tp: "templateClusterClassHelmChart env rel (csr_name (rl_object s))
      (m_namespace (csr_meta (rl_object s))) = Some (Inr template)"
    using assms by (auto simp: templateAndApply_def Let_def split: option.splits sum.splits)
  let ?r = "Apply (re_yaml env) (re_kube env) kns template (rs_resources (csr_status (rl_object s))) []"
  have "kr_error ?r = None" "\<not> kr_requeue ?r"
    "rs_resources (csr_status (rl_object t)) = kr_resources ?r"
    using assms tp by (auto simp: templateAndApply_def Let_def split: option.splits if_splits)
  then show thesis using that[OF tp] applying.quiet_settles by simp
qed

lemma apply_release_effect:
  assumes "apply_release env kns rel s = (x, t)"
  obtains
    (unready) "same_frame s t"
  | (ready) template where "csr_meta (rl_object t) = csr_meta (rl_object s)" "x = ReleaseDone"
      "templateClusterClassHelmChart env rel (csr_name (rl_object s))
        (m_namespace (csr_meta (rl_object s))) = Some (Inr template)"
      "settled_for (re_yaml env) template (rs_resources (csr_status (rl_object t)))"
proof -
  let ?s = "mark_release (cond_MarkTrue ProviderClusterStackReleaseReadyCondition) s"
  obtain r u where tp: "templateAndApply env kns rel ?s = (r, u)" by fastforce
  have fr: "same_frame s u" using templateAndApply_frame[OF tp] by (simp add: same_frame_def)
  consider "same_frame s t" | "r = Inr False" "x = ReleaseDone"
      "rl_object t = (rl_object (mark_release (cond_MarkTrue HelmChartAppliedCondition) u))
        \<lparr>csr_status := (csr_status (rl_object (mark_release (cond_MarkTrue HelmChartAppliedCondition) u)))
           \<lparr>rs_ready := True\<rparr>\<rparr>"
    using assms fr tp
    by (auto simp: apply_release_def Let_def split: if_splits sum.splits)
  then show thesis
  proof cases
    case 1
    then show ?thesis by (rule unready)
  next
    case 2
    obtain template where "templateClusterClassHelmChart env rel (csr_name (rl_object ?s))
        (m_namespace (csr_meta (rl_object ?s))) = Some (Inr template)"
      "settled_for (re_yaml env) template (rs_resources (csr_status (rl_object u)))"
      using tp 2(1) by (auto elim: templateAndApply_quiet)
    then show ?thesis
      using ready[of template] 2 fr by (simp add: same_frame_def)
  qed
qed

lemma apply_release_no_panic:
  assumes "NewFromClusterStackReleaseProperties (csr_name (rl_object s)) = Inr cs"
    and "apply_release env kns rel s = (x, t)"
  shows "x \<noteq> ReleasePanic"
proof -
  let ?s = "mark_release (cond_MarkTrue ProviderClusterStackReleaseReadyCondition) s"
  obtain r u where tp: "templateAndApply env kns rel ?s = (r, u)" by fastforce
  have "r \<noteq> Inl ReleasePanic"
    using templateAndApply_no_panic[OF _ tp] assms(1) by simp
  then show ?thesis
    using assms(2) tp by (auto simp: apply_release_def Let_def split: if_splits sum.splits)
qed

text \<open>What the part after the check of the assets does to a release that is not being deleted.\<close>

lemma provide_release_effect:
  assumes "provide_release env kns rel s = (x, t)"
    and "NewFromClusterStackReleaseProperties (csr_name (rl_object s)) = Inr cs"
  shows "csr_meta (rl_object t) = csr_meta (rl_object s) \<and> x \<noteq> ReleasePanic \<and>
    (rs_ready (csr_status (rl_object t)) = rs_ready (csr_status (rl_object s)) \<or>
     (\<exists>template. templateClusterClassHelmChart env rel (csr_name (rl_object s))
        (m_namespace (csr_meta (rl_object s))) = Some (Inr template) \<and>
      settled_for (re_yaml env) template (rs_resources (csr_status (rl_object t)))))"
proof -
  let ?s = "s\<lparr>rl_object := (rl_object s)\<lparr>csr_status := (csr_status (rl_object s))
    \<lparr>rs_kubernetesVersion := md_kubernetes (rel_meta rel)\<rparr>\<rparr>\<rparr>"
  have fr: "same_frame s ?s" by (simp add: same_frame_def)
  consider "same_frame s t" "x \<noteq> ReleasePanic"
    | u where "same_frame s u" "apply_release env kns rel u = (x, t)"
  proof (cases "csr_providerRef (rl_object s)")
    case None
    then show thesis using that assms(1) fr by (simp add: provide_release_def Let_def)
  next
    case (Some ref)
    obtain r u where up: "updateProviderClusterStackRelease env ref ?s = (r, u)" by fastforce
    have "same_frame s u" using updateProvider_frame[OF up] fr same_frame_trans by blast
    then show thesis
      using that assms(1) Some up
      by (cases r) (auto simp: provide_release_def Let_def split: if_splits)
  qed
  then show ?thesis
  proof cases
    case 1
    then show ?thesis by (simp add: same_frame_def)
  next
    case 2
    have n: "csr_name (rl_object u) = csr_name (rl_object s)"
      "csr_meta (rl_object u) = csr_meta (rl_object s)"
      using same_frame_name[OF 2(1)] 2(1) by (simp_all add: same_frame_def)
    have "x \<noteq> ReleasePanic" using apply_release_no_panic[OF _ 2(2)] assms(2) n by simp
    with 2(2) show ?thesis
    proof (cases rule: apply_release_effect)
      case unready
      then show ?thesis using \<open>x \<noteq> ReleasePanic\<close> 2(1) by (simp add: same_frame_def)
    next
      case (ready template)
      then show ?thesis using \<open>x \<noteq> ReleasePanic\<close> n by auto
    qed
  qed
qed

lemma reconcileDelete_effect:
  assumes "reconcileDelete env rel ns s = (x, t)"
    and "NewFromClusterStackReleaseProperties (csr_name (rl_object s)) = Inr cs"
  shows "x \<noteq> ReleasePanic \<and> csr_status (rl_object t) = csr_status (rl_object s) \<and>
    (csr_meta (rl_object t) = csr_meta (rl_object s) \<or>
     csr_meta (rl_object t) = RemoveFinalizer ClusterStackReleaseFinalizer (csr_meta (rl_object s)) \<and>
     (\<exists>used. getUsedClusterClasses (re_clusters env) = Inr used \<and> csr_name (rl_object s) \<notin> set used))"
  using assms template_no_panic[OF assms(2), of env rel "m_namespace (csr_meta (rl_object s))"]
  by (auto simp: reconcileDelete_def Let_def map_meta_def split: sum.splits if_splits option.splits)

text \<open>A release that is not yet usable: its assets are missing or broken.\<close>

lemma reconcile_release_cases:
  assumes "reconcile_release env ns s = (x, t)"
  obtains
    (no_assets) "same_frame s t" "x \<noteq> ReleasePanic"
  | (assets) rel cs where "release_New (re_fs env) (re_unmarshal env) (csr_name (rl_object s)) (re_directory env)
        = Inr (rel, False)" "CheckHelmCharts (re_fs env) rel = None"
      "NewFromClusterStackReleaseProperties (csr_name (rl_object s)) = Inr cs"
      "(if m_deleting (csr_meta (rl_object s))
        then reconcileDelete env rel ns (mark_release (cond_MarkTrue ClusterStackReleaseAssetsReadyCondition) s)
        else provide_release env ns rel (mark_release (cond_MarkTrue ClusterStackReleaseAssetsReadyCondition) s))
        = (x, t)"
proof (cases "release_New (re_fs env) (re_unmarshal env) (csr_name (rl_object s)) (re_directory env)")
  case (Inl e)
  then show ?thesis using no_assets assms by (auto simp: reconcile_release_def)
next
  case (Inr p)
  obtain rel download where p: "p = (rel, download)" by (cases p)
  obtain cs where cs: "NewFromClusterStackReleaseProperties (csr_name (rl_object s)) = Inr cs"
    using release_New_cases Inr p by metis
  show ?thesis
  proof (cases download)
    case True
    then show ?thesis
      using no_assets assms Inr p download_release_frame by (simp add: reconcile_release_def)
  next
    case False
    then show ?thesis
      using no_assets assets[OF _ _ cs] assms Inr p
      by (cases "CheckHelmCharts (re_fs env) rel") (auto simp: reconcile_release_def Let_def)
  qed
qed

lemma release_Reconcile_run:
  assumes "re_get env = Inr obj" and "re_newHelper env = None"
  obtains x s where "reconcile_release env (nn_namespace req)
      \<lparr>rl_object = map_meta (AddFinalizer ClusterStackReleaseFinalizer) obj, rl_writes = []\<rparr> = (x, s)"
    "rr_object (release_Reconcile env req) = Some (finish_release (rl_object s))"
    "rr_writes (release_Reconcile env req) = rl_writes s @ [PatchRelease (finish_release (rl_object s))]"
    "rr_exit (release_Reconcile env req) = x \<or>
      (\<exists>e. rr_exit (release_Reconcile env req) = ReleaseFail (PatchReleaseError e))"
proof -
  obtain x s where r: "reconcile_release env (nn_namespace req)
      \<lparr>rl_object = map_meta (AddFinalizer ClusterStackReleaseFinalizer) obj, rl_writes = []\<rparr> = (x, s)"
    by fastforce
  show thesis
    by (rule that[OF r]) (auto simp: release_Reconcile_def assms r Let_def split: option.splits)
qed

lemma finish_release_reads [simp]:
  "rs_ready (csr_status (finish_release r)) = rs_ready (csr_status r)"
  "rs_resources (csr_status (finish_release r)) = rs_resources (csr_status r)"
  by (simp_all add: finish_release_def Let_def map_meta_def)

lemma map_meta_reads [simp]:
  "csr_meta (map_meta f r) = f (csr_meta r)" "csr_status (map_meta f r) = csr_status r"
  "csr_providerRef (map_meta f r) = csr_providerRef r"
  by (simp_all add: map_meta_def)

lemma AddFinalizer_reads [simp]:
  "m_name (AddFinalizer f m) = m_name m" "m_namespace (AddFinalizer f m) = m_namespace m"
  "m_deleting (AddFinalizer f m) = m_deleting m"
  "m_deleting (RemoveFinalizer f m) = m_deleting m" "m_name (RemoveFinalizer f m) = m_name m"
  by (simp_all add: AddFinalizer_def RemoveFinalizer_def)

lemma csr_name_map_meta [simp]:
  "csr_name (map_meta (AddFinalizer f) r) = csr_name r"
  by (simp add: csr_name_def)

section \<open>Properties\<close>

text \<open>
  C8. A release becomes ready only when its assets are complete and, for the template of its
  cluster class chart, every object is recorded as synced and nothing else is.
\<close>

theorem ready_release_is_settled:
  assumes "re_get env = Inr obj" and "\<not> rs_ready (csr_status obj)"
    and "rr_object (release_Reconcile env req) = Some final" and "rs_ready (csr_status final)"
  shows "\<exists>rel template. release_New (re_fs env) (re_unmarshal env) (csr_name obj) (re_directory env)
      = Inr (rel, False) \<and> CheckHelmCharts (re_fs env) rel = None \<and>
    templateClusterClassHelmChart env rel (csr_name obj) (m_namespace (csr_meta obj)) = Some (Inr template) \<and>
    settled_for (re_yaml env) template (rs_resources (csr_status final))"
proof -
  have h: "re_newHelper env = None"
    using assms(1,3) by (cases "re_newHelper env") (auto simp: release_Reconcile_def)
  let ?s0 = "\<lparr>rl_object = map_meta (AddFinalizer ClusterStackReleaseFinalizer) obj, rl_writes = []\<rparr>"
  obtain x s where run: "reconcile_release env (nn_namespace req) ?s0 = (x, s)"
    and fin: "rr_object (release_Reconcile env req) = Some (finish_release (rl_object s))"
    using release_Reconcile_run[OF assms(1) h] .
  have rdy: "rs_ready (csr_status (rl_object s))" and f: "final = finish_release (rl_object s)"
    using assms(3,4) fin by auto
  from run show ?thesis
  proof (cases rule: reconcile_release_cases)
    case no_assets
    then show ?thesis using rdy assms(2) by (simp add: same_frame_def)
  next
    case (assets rel cs)
    let ?s1 = "mark_release (cond_MarkTrue ClusterStackReleaseAssetsReadyCondition) ?s0"
    have n: "NewFromClusterStackReleaseProperties (csr_name (rl_object ?s1)) = Inr cs"
      using assets(3) by simp
    show ?thesis
    proof (cases "m_deleting (csr_meta obj)")
      case True
      then have "reconcileDelete env rel (nn_namespace req) ?s1 = (x, s)" using assets(4) by simp
      then show ?thesis using reconcileDelete_effect[OF _ n] rdy assms(2) by (auto simp: mark_release_def)
    next
      case False
      then have "provide_release env (nn_namespace req) rel ?s1 = (x, s)" using assets(4) by simp
      from provide_release_effect[OF this n] rdy assms(2)
      obtain template where "templateClusterClassHelmChart env rel (csr_name obj)
          (m_namespace (csr_meta obj)) = Some (Inr template)"
        "settled_for (re_yaml env) template (rs_resources (csr_status (rl_object s)))"
        by auto
      with assets(1,2) f show ?thesis by auto
    qed
  qed
qed

text \<open>
  C15. The finalizer is never lost early: the object Reconcile patches carries it unless the object
  is being deleted and either its assets are not usable or no cluster has its name as class.
\<close>

theorem release_finalizer_kept:
  assumes "re_get env = Inr obj" and "rr_object (release_Reconcile env req) = Some final"
    and "ClusterStackReleaseFinalizer \<notin> set (m_finalizers (csr_meta final))"
  shows "m_deleting (csr_meta obj) \<and>
    (cond_IsFalse (rs_conditions (csr_status final)) ClusterStackReleaseAssetsReadyCondition \<or>
     (\<exists>used. getUsedClusterClasses (re_clusters env) = Inr used \<and> csr_name obj \<notin> set used))"
proof -
  have h: "re_newHelper env = None"
    using assms(1,2) by (cases "re_newHelper env") (auto simp: release_Reconcile_def)
  let ?s0 = "\<lparr>rl_object = map_meta (AddFinalizer ClusterStackReleaseFinalizer) obj, rl_writes = []\<rparr>"
  obtain x s where run: "reconcile_release env (nn_namespace req) ?s0 = (x, s)"
    and fin: "rr_object (release_Reconcile env req) = Some (finish_release (rl_object s))"
    using release_Reconcile_run[OF assms(1) h] .
  have f: "final = finish_release (rl_object s)" using assms(2) fin by simp
  let ?used = "\<exists>used. getUsedClusterClasses (re_clusters env) = Inr used \<and> csr_name obj \<notin> set used"
  have m: "csr_meta (rl_object s) = csr_meta (rl_object ?s0) \<or>
      csr_meta (rl_object s) = RemoveFinalizer ClusterStackReleaseFinalizer (csr_meta (rl_object ?s0)) \<and>
        m_deleting (csr_meta obj) \<and> ?used"
    using run
  proof (cases rule: reconcile_release_cases)
    case no_assets
    then show ?thesis by (simp add: same_frame_def)
  next
    case (assets rel cs)
    let ?s1 = "mark_release (cond_MarkTrue ClusterStackReleaseAssetsReadyCondition) ?s0"
    have n: "NewFromClusterStackReleaseProperties (csr_name (rl_object ?s1)) = Inr cs"
      using assets(3) by simp
    show ?thesis
    proof (cases "m_deleting (csr_meta obj)")
      case True
      then have "reconcileDelete env rel (nn_namespace req) ?s1 = (x, s)" using assets(4) by simp
      then show ?thesis using reconcileDelete_effect[OF _ n] True by fastforce
    next
      case False
      then have "provide_release env (nn_namespace req) rel ?s1 = (x, s)" using assets(4) by simp
      then show ?thesis using provide_release_effect[OF _ n] by simp
    qed
  qed
  show ?thesis
    using m assms(3) unfolding f
    by (auto simp: finish_release_def Let_def split: if_splits)
qed

text \<open>
  Reconcile of a release never panics: the four pieces of the name it slices are there
  whenever it gets so far.
\<close>

theorem release_Reconcile_no_panic: "rr_exit (release_Reconcile env req) \<noteq> ReleasePanic"
proof (cases "\<exists>obj. re_get env = Inr obj \<and> re_newHelper env = None")
  case False
  then show ?thesis by (auto simp: release_Reconcile_def split: sum.splits option.splits)
next
  case True
  then obtain obj where o: "re_get env = Inr obj" "re_newHelper env = None" by blast
  let ?s0 = "\<lparr>rl_object = map_meta (AddFinalizer ClusterStackReleaseFinalizer) obj, rl_writes = []\<rparr>"
  obtain x s where run: "reconcile_release env (nn_namespace req) ?s0 = (x, s)"
    and ex: "rr_exit (release_Reconcile env req) = x \<or>
      (\<exists>e. rr_exit (release_Reconcile env req) = ReleaseFail (PatchReleaseError e))"
    using release_Reconcile_run[OF o] by metis
  have "x \<noteq> ReleasePanic"
    using run
  proof (cases rule: reconcile_release_cases)
    case (assets rel cs)
    have "NewFromClusterStackReleaseProperties (csr_name (rl_object
        (mark_release (cond_MarkTrue ClusterStackReleaseAssetsReadyCondition) ?s0))) = Inr cs"
      using assets(3) by simp
    then show ?thesis
      using assets(4) reconcileDelete_effect provide_release_effect by (metis (no_types, lifting))
  qed
  then show ?thesis using ex by auto
qed

text \<open>
  Deleting a release leaves the objects of its cluster class behind: when they are recorded
  as synced, as they are for a ready release, Reconcile sends no request to delete any of them
  and takes the finalizer away.
\<close>

theorem deleted_release_leaves_objects:
  assumes "re_get env = Inr obj" and "re_newHelper env = None" and "m_deleting (csr_meta obj)"
    and "release_New (re_fs env) (re_unmarshal env) (csr_name obj) (re_directory env) = Inr (rel, False)"
    and "CheckHelmCharts (re_fs env) rel = None"
    and "getUsedClusterClasses (re_clusters env) = Inr used" and "csr_name obj \<notin> set used"
    and "templateClusterClassHelmChart env rel (csr_name obj) (m_namespace (csr_meta obj)) = Some (Inr template)"
    and "settled_for (re_yaml env) template (rs_resources (csr_status obj))"
    and "ka_newClientset (re_kube env) = None"
  shows "\<exists>final. rr_object (release_Reconcile env req) = Some final \<and>
    ClusterStackReleaseFinalizer \<notin> set (m_finalizers (csr_meta final)) \<and>
    rr_writes (release_Reconcile env req) = [PatchRelease final]"
proof -
  let ?s0 = "\<lparr>rl_object = map_meta (AddFinalizer ClusterStackReleaseFinalizer) obj, rl_writes = []\<rparr>"
  let ?s1 = "mark_release (cond_MarkTrue ClusterStackReleaseAssetsReadyCondition) ?s0"
  obtain x s where run: "reconcile_release env (nn_namespace req) ?s0 = (x, s)"
    and fin: "rr_object (release_Reconcile env req) = Some (finish_release (rl_object s))"
    "rr_writes (release_Reconcile env req) = rl_writes s @ [PatchRelease (finish_release (rl_object s))]"
    using release_Reconcile_run[OF assms(1,2)] by metis
  have del: "reconcileDelete env rel (nn_namespace req) ?s1 = (x, s)"
    using run assms(3,4,5) by (simp add: reconcile_release_def)
  let ?r = "kube_Delete (re_yaml env) (re_kube env) (nn_namespace req) template (rs_resources (csr_status obj)) []"
  have "kr_trace ?r = [] \<and> kr_error ?r = None \<and> \<not> kr_requeue ?r"
    using delete_settled[OF assms(9,10)] by blast
  then have "rl_writes s = []" "csr_meta (rl_object s) = RemoveFinalizer ClusterStackReleaseFinalizer
      (AddFinalizer ClusterStackReleaseFinalizer (csr_meta obj))"
    using del assms(6,7,8) by (auto simp: reconcileDelete_def Let_def)
  then show ?thesis
    using fin by (auto simp: finish_release_def Let_def)
qed

section \<open>A sample environment\<close>

definition sample_release_object :: "bool \<Rightarrow> Resource list \<Rightarrow> ClusterStackRelease" where
  "sample_release_object deleting resources = empty_release\<lparr>csr_meta := empty_meta
     \<lparr>m_name := ''docker-ferrol-1-27-v1'', m_namespace := ''ns'', m_deleting := deleting\<rparr>,
     csr_status := \<lparr>rs_resources = resources, rs_kubernetesVersion = [], rs_ready = False, rs_conditions = []\<rparr>\<rparr>"

definition chart_fs :: file_system where
  "chart_fs = \<lparr>fs_stat = (\<lambda>_. StatOk), fs_readFile = (\<lambda>_. Some []),
     fs_readDir = (\<lambda>_. Some [(''docker-ferrol-1-27-cluster-class-v1.tgz'', False),
       (''docker-ferrol-1-27-cluster-addon-v2.tgz'', False)])\<rparr>"

definition sample_release_env :: "ClusterStackRelease \<Rightarrow> release_env" where
  "sample_release_env obj = \<lparr>re_get = Inr obj, re_newHelper = None, re_fs = chart_fs,
     re_unmarshal = (\<lambda>_. Some sample_metadata), re_directory = ''/tmp'', re_newAssetsClient = None,
     re_download = (\<lambda>_ _. None), re_removeAll = (\<lambda>_. None), re_clusters = Inr [],
     re_exec = (\<lambda>_ _. Some ''x''), re_yaml = sample_library, re_kube = sample_api None,
     re_getProvider = (\<lambda>_ _. Inl (NotFound [])), re_newProviderHelper = None,
     re_setController = (\<lambda>_ u. Some u), re_patchProvider = (\<lambda>_. None), re_watch = (\<lambda>_. None),
     re_patch = (\<lambda>_. None)\<rparr>"

definition release_request :: NamespacedName where
  "release_request = \<lparr>nn_name = ''docker-ferrol-1-27-v1'', nn_namespace = ''ns''\<rparr>"

lemma sample_becomes_ready:
  "case rr_object (release_Reconcile (sample_release_env (sample_release_object False [])) release_request) of
     None \<Rightarrow> False | Some final \<Rightarrow> rs_ready (csr_status final)"
  by code_simp

theorem ready_release_is_settled_witness:
  "\<exists>final rel template. rr_object (release_Reconcile (sample_release_env (sample_release_object False []))
      release_request) = Some final \<and>
    templateClusterClassHelmChart (sample_release_env (sample_release_object False [])) rel
      (csr_name (sample_release_object False [])) ''ns'' = Some (Inr template) \<and>
    settled_for sample_library template (rs_resources (csr_status final))"
proof -
  let ?o = "sample_release_object False []"
  obtain final where f: "rr_object (release_Reconcile (sample_release_env ?o) release_request) = Some final"
    "rs_ready (csr_status final)"
    using sample_becomes_ready by (auto split: option.splits)
  have "re_get (sample_release_env ?o) = Inr ?o" by (simp add: sample_release_env_def)
  moreover have "\<not> rs_ready (csr_status ?o)" by (simp add: sample_release_object_def)
  ultimately show ?thesis
    using ready_release_is_settled[OF _ _ f] f(1)
    by (fastforce simp: sample_release_object_def sample_release_env_def)
qed

lemma sample_finalizer_gone:
  "case rr_object (release_Reconcile (sample_release_env (sample_release_object True [])) release_request) of
     None \<Rightarrow> False | Some final \<Rightarrow> ClusterStackReleaseFinalizer \<notin> set (m_finalizers (csr_meta final))"
  by code_simp

theorem release_finalizer_kept_witness: "m_deleting (csr_meta (sample_release_object True []))"
proof -
  let ?o = "sample_release_object True []"
  obtain final where f: "rr_object (release_Reconcile (sample_release_env ?o) release_request) = Some final"
    "ClusterStackReleaseFinalizer \<notin> set (m_finalizers (csr_meta final))"
    using sample_finalizer_gone by (auto split: option.splits)
  have "re_get (sample_release_env ?o) = Inr ?o" by (simp add: sample_release_env_def)
  from release_finalizer_kept[OF this f] show ?thesis by blast
qed

definition sample_loaded :: Release where
  "sample_loaded = \<lparr>rel_tag = ''docker-ferrol-1-27-v1'',
     rel_meta = \<lparr>md_clusterStack = ''v1-alpha-9'', md_kubernetes = ''1.27.3'', md_clusterAddon = ''v2'', md_nodeImage = ''v3''\<rparr>,
     rel_stack = \<lparr>cs_provider = ''docker'', cs_name = ''ferrol'', cs_kube = \<lparr>kv_major = 1, kv_minor = 27\<rparr>,
       cs_version = \<lparr>ver_major = 1, ver_channel = ''stable'', ver_patch = []\<rparr>\<rparr>,
     rel_path = ''/tmp/cluster-stacks/docker-ferrol-1-27-v1''\<rparr>"

lemma sample_loaded_facts:
  "release_New chart_fs (\<lambda>_. Some sample_metadata) ''docker-ferrol-1-27-v1'' ''/tmp'' = Inr (sample_loaded, False)"
  "CheckHelmCharts chart_fs sample_loaded = None"
  "templateClusterClassHelmChart (sample_release_env obj) sample_loaded ''docker-ferrol-1-27-v1'' ''ns''
     = Some (Inr ''x'')"
  subgoal by code_simp
  subgoal by code_simp
  subgoal by code_simp
  done

theorem deleted_release_leaves_objects_witness:
  "\<exists>final. rr_writes (release_Reconcile (sample_release_env
      (sample_release_object True (kr_resources applied_once))) release_request) = [PatchRelease final]"
proof -
  let ?o = "sample_release_object True (kr_resources applied_once)"
  have "settled_for sample_library ''x'' (kr_resources applied_once)"
    using Apply_quiet_settles applied_once_quiet by (simp add: applied_once_def)
  then show ?thesis
    using deleted_release_leaves_objects[of "sample_release_env ?o" ?o sample_loaded "[]" "''x''" release_request]
      sample_loaded_facts(1,2) sample_loaded_facts(3)[of ?o]
    by (auto simp: sample_release_env_def sample_release_object_def csr_name_def getUsedClusterClasses_def
        sample_api_def)
qed

end
