(* ===== verification/Addons.thy ===== *)
theory Addons
  imports ReleaseController
begin

text \<open>
  The inputs of the cluster addon controller (\<open>pkg/clusteraddon/clusteraddon.go\<close> and the lower
  half of \<open>internal/controller/clusteraddon_controller.go\<close>): the configuration of stages, the
  unpacking of the addon chart, the values of a chart, the helm call and the evaluation of a CEL
  condition. The file system, the tar, YAML, template and CEL libraries, helm and the API server
  are fields of an environment; what is read from the file system may depend on the file
  operations done before, and what is read from the workload cluster on the writes sent to it.
\<close>

section \<open>Configuration of stages\<close>

record StageObject =
  so_key :: string
  so_apiVersion :: string
  so_name :: string
  so_kind :: string
  so_namespace :: string

text \<open>A nil slice and an empty slice differ for \<open>reflect.DeepEqual\<close>: \<open>None\<close> is the nil slice.\<close>

record WaitForCondition =
  wf_objects :: "StageObject list option"
  wf_conditions :: string

definition no_condition :: WaitForCondition where
  "no_condition = \<lparr>wf_objects = None, wf_conditions = []\<rparr>"

record Stage =
  sg_name :: string
  sg_action :: Action
  sg_pre :: WaitForCondition
  sg_post :: WaitForCondition

record Config =
  cfg_apiVersion :: string
  cfg_clusterAddonVersion :: string
  cfg_addonStages :: "(string \<times> Stage list) list"

definition hook_stages :: "Config \<Rightarrow> string \<Rightarrow> Stage list" where
  "hook_stages cfg hook = (case map_of (cfg_addonStages cfg) hook of None \<Rightarrow> [] | Some ss \<Rightarrow> ss)"

datatype config_error = ReadConfig | UnmarshalConfig

definition ParseConfig ::
    "file_system \<Rightarrow> (string \<Rightarrow> Config option) \<Rightarrow> string \<Rightarrow> (config_error, Config) result" where
  "ParseConfig fs unmarshal path =
     (case fs_readFile fs (filepath_Clean path) of
        None \<Rightarrow> Inl ReadConfig
      | Some bytes \<Rightarrow> (case unmarshal bytes of None \<Rightarrow> Inl UnmarshalConfig | Some cfg \<Rightarrow> Inr cfg))"

section \<open>Unpacking a chart\<close>

datatype file_write =
    MkdirAll string
  | CreateFile string

datatype tar_type = TypeDir | TypeReg | TypeOther

text \<open>What \<open>tarReader.Next\<close> returns before the end of the archive.\<close>

datatype tar_item = TarHeader string tar_type | TarBroken

record archive_library =
  al_mkdirAll :: "file_write list \<Rightarrow> string \<Rightarrow> bool"
  al_open :: "file_write list \<Rightarrow> string \<Rightarrow> bool"
  al_gzip :: "file_write list \<Rightarrow> string \<Rightarrow> bool"
  al_entries :: "file_write list \<Rightarrow> string \<Rightarrow> tar_item list"
  al_create :: "file_write list \<Rightarrow> string \<Rightarrow> bool"
  al_copy :: "file_write list \<Rightarrow> string \<Rightarrow> bool"
  al_closeOutput :: "file_write list \<Rightarrow> string \<Rightarrow> bool"
  al_closeArchive :: "file_write list \<Rightarrow> string \<Rightarrow> bool"

datatype untar_error =
    MakeDirectory string
  | OpenArchive
  | GzipReader
  | ReadArchive
  | CreateOutput string
  | CopyOutput
  | CloseOutput
  | UnsupportedType string
  | CloseArchive

definition untar_entry ::
    "archive_library \<Rightarrow> string \<Rightarrow> tar_item \<Rightarrow> file_write list \<Rightarrow> untar_error option \<times> file_write list" where
  "untar_entry lib dst item fw =
     (case item of
        TarBroken \<Rightarrow> (Some ReadArchive, fw)
      | TarHeader name typ \<Rightarrow>
          let targetPath = filepath_Join [dst, name] in
          (case typ of
             TypeDir \<Rightarrow>
               (if al_mkdirAll lib fw targetPath then None else Some (MakeDirectory targetPath),
                fw @ [MkdirAll targetPath])
           | TypeReg \<Rightarrow>
               let dir = filepath_Dir targetPath; fw1 = fw @ [MkdirAll dir] in
               if \<not> al_mkdirAll lib fw dir then (Some (MakeDirectory dir), fw1)
               else
                 let out = filepath_Clean targetPath; fw2 = fw1 @ [CreateFile out] in
                 if \<not> al_create lib fw1 out then (Some (CreateOutput targetPath), fw2)
                 else if \<not> al_copy lib fw2 out then (Some CopyOutput, fw2)
                 else if \<not> al_closeOutput lib fw2 out then (Some CloseOutput, fw2)
                 else (None, fw2)
           | TypeOther \<Rightarrow> (Some (UnsupportedType name), fw)))"

definition unTarContent ::
    "archive_library \<Rightarrow> string \<Rightarrow> string \<Rightarrow> file_write list \<Rightarrow> untar_error option \<times> file_write list" where
  "unTarContent lib src dst fw =
     (let fw1 = fw @ [MkdirAll dst]; path = filepath_Clean src in
      if \<not> al_mkdirAll lib fw dst then (Some (MakeDirectory dst), fw1)
      else if \<not> al_open lib fw1 path then (Some OpenArchive, fw1)
      else if \<not> al_gzip lib fw1 path then (Some GzipReader, fw1)
      else (case for_each (untar_entry lib dst) (al_entries lib fw1 path) fw1 of
          (Some e, fw2) \<Rightarrow> (Some e, fw2)
        | (None, fw2) \<Rightarrow>
            (if al_closeArchive lib fw2 path then None else Some CloseArchive, fw2)))"

section \<open>Environment\<close>

text \<open>A value of a CEL program; only Booleans are told apart.\<close>

datatype cel_value = CelBool bool | CelOther

record cel_library =
  cel_newEnv :: "string option"
  cel_extend :: "string list \<Rightarrow> string \<Rightarrow> string option"
  cel_compile :: "string list \<Rightarrow> string \<Rightarrow> bool"
  cel_program :: "string list \<Rightarrow> string \<Rightarrow> string option"
  cel_eval :: "string list \<Rightarrow> string \<Rightarrow> (string \<times> unstructured) list \<Rightarrow> (string, cel_value) result"

record addon_env =
  ae_get :: "(api_error, ClusterAddon) result"
  ae_newHelper :: "string option"
  ae_getCluster :: "NamespacedName \<Rightarrow> (api_error, Cluster) result"
  ae_restConfig :: "(string, bool) result"
  ae_newInterface :: "string option"
  ae_readyz :: bool
  ae_fs :: "file_write list \<Rightarrow> file_system"
  ae_archive :: archive_library
  ae_unmarshalMetadata :: "string \<Rightarrow> Metadata option"
  ae_unmarshalConfig :: "string \<Rightarrow> Config option"
  ae_unmarshalValues :: "string \<Rightarrow> json option"
  ae_directory :: string
  ae_newAssetsClient :: "string option"
  ae_download :: "string \<Rightarrow> string \<Rightarrow> string option"
  ae_removeAll :: "string \<Rightarrow> string option"
  ae_exec :: "string \<Rightarrow> string list \<Rightarrow> string \<Rightarrow> string option"
  ae_getExternal :: "ObjectReference \<Rightarrow> string \<Rightarrow> (api_error, unstructured) result"
  ae_templateParse :: "string \<Rightarrow> string \<Rightarrow> bool"
  ae_templateExecute :: "string \<Rightarrow> (string \<times> unstructured) list \<Rightarrow> string option"
  ae_cel :: cel_library
  ae_getDynamic :: "kube_write list \<Rightarrow> string \<Rightarrow> string \<Rightarrow> string \<Rightarrow> (api_error, unstructured) result"
  ae_yaml :: yaml_library
  ae_kube :: kube_api
  ae_patch :: "ClusterAddon \<Rightarrow> api_error option"

section \<open>Values of a chart\<close>

datatype values_error =
    ReadValues
  | InitializeBuiltins
  | ParseValues
  | ExecuteValues
  | UnmarshalValues

text \<open>
  The source ranges over a map in an unspecified order; the order shows only in the text of the
  error, which is left out.
\<close>

definition initializeBuiltins ::
    "addon_env \<Rightarrow> (string \<times> ObjectReference) list \<Rightarrow> Cluster
      \<Rightarrow> (values_error, (string \<times> unstructured) list) result" where
  "initializeBuiltins env referenceMap cluster =
     (case for_each (\<lambda>(name, ref) m.
             (case ae_getExternal env ref (m_namespace (cl_meta cluster)) of
                Inl e \<Rightarrow> (Some InitializeBuiltins, m)
              | Inr obj \<Rightarrow> (None, AList.update name obj m))) referenceMap [] of
        (Some e, _) \<Rightarrow> Inl e
      | (None, valueLookUp) \<Rightarrow> Inr valueLookUp)"

definition value_references :: "Cluster \<Rightarrow> (string \<times> ObjectReference) list" where
  "value_references cluster =
     [(''Cluster'', \<lparr>ref_apiVersion = m_apiVersion (cl_meta cluster), ref_kind = m_kind (cl_meta cluster),
        ref_name = m_name (cl_meta cluster), ref_namespace = m_namespace (cl_meta cluster), ref_uid = []\<rparr>)]
     @ (case cl_controlPlaneRef cluster of None \<Rightarrow> [] | Some ref \<Rightarrow> [(''ControlPlane'', ref)])
     @ (case cl_infrastructureRef cluster of None \<Rightarrow> [] | Some ref \<Rightarrow> [(''InfraCluster'', ref)])"

text \<open>
  The expanded template is asserted to be a map without the two-valued form, so that any other
  document is a panic, the outcome \<open>None\<close>.
\<close>

definition template_values :: "string \<Rightarrow> json \<Rightarrow> string option" where
  "template_values buffer unmarshalData =
     (case unmarshalData of
        JObject m \<Rightarrow> (case map_of m ''values'' of Some (JString values) \<Rightarrow> Some values | _ \<Rightarrow> Some buffer)
      | _ \<Rightarrow> None)"

definition buildTemplateFromClusterAddonValues ::
    "addon_env \<Rightarrow> file_system \<Rightarrow> string \<Rightarrow> Cluster \<Rightarrow> (values_error, string) result option" where
  "buildTemplateFromClusterAddonValues env fs addonValuePath cluster =
     (case fs_readFile fs (filepath_Clean addonValuePath) of
        None \<Rightarrow> Some (Inl ReadValues)
      | Some bytes \<Rightarrow>
          (case initializeBuiltins env (value_references cluster) cluster of
             Inl e \<Rightarrow> Some (Inl e)
           | Inr valueLookUp \<Rightarrow>
               if \<not> ae_templateParse env (''cluster-addon-values-'' @ m_name (cl_meta cluster)) bytes
               then Some (Inl ParseValues)
               else (case ae_templateExecute env bytes valueLookUp of
                   None \<Rightarrow> Some (Inl ExecuteValues)
                 | Some buffer \<Rightarrow>
                     (case ae_unmarshalValues env buffer of
                        None \<Rightarrow> Some (Inl UnmarshalValues)
                      | Some unmarshalData \<Rightarrow> map_option Inr (template_values buffer unmarshalData)))))"

section \<open>Helm\<close>

definition clusterAddonNamespace :: string where
  "clusterAddonNamespace = ''kube-system''"

definition helmTemplateClusterAddon ::
    "(string \<Rightarrow> string list \<Rightarrow> string \<Rightarrow> string option) \<Rightarrow> string \<Rightarrow> string \<Rightarrow> string \<Rightarrow> string option" where
  "helmTemplateClusterAddon exec chartPath values kubernetesVersion =
     exec (filepath_Dir chartPath)
       [''template'', ''--include-crds'', ''--dependency-update'', ''--kube-version'', kubernetesVersion,
        ''cluster-addon'', filepath_Base chartPath, ''--namespace'', clusterAddonNamespace, ''-f'', ''-'']
       values"

section \<open>Conditions on objects of the workload cluster\<close>

datatype cel_error =
    CelEnvironment string
  | CelExtend string
  | CelCompile
  | CelProgram string
  | CelMapping string
  | CelGet api_error
  | CelEval string
  | CelNotBoolean
  | CelNotTrue

text \<open>The errors that wrap \<open>clusteraddon.ErrConditionNotMatch\<close>.\<close>

definition ErrConditionNotMatch :: "cel_error \<Rightarrow> bool" where
  "ErrConditionNotMatch e \<longleftrightarrow> e = CelNotBoolean \<or> e = CelNotTrue"

definition extend_environment ::
    "cel_library \<Rightarrow> StageObject \<Rightarrow> string list \<Rightarrow> cel_error option \<times> string list" where
  "extend_environment lib obj vars =
     (case cel_extend lib vars (so_key obj) of
        Some e \<Rightarrow> (Some (CelExtend e), vars)
      | None \<Rightarrow> (None, vars @ [so_key obj]))"

definition object_gvk :: "StageObject \<Rightarrow> GroupVersionKind" where
  "object_gvk obj =
     (case split_on CHR ''/'' (so_apiVersion obj) of
        [grp, vers] \<Rightarrow> \<lparr>gv_group = grp, gv_version = vers, gvk_kind = so_kind obj\<rparr>
      | parts \<Rightarrow> \<lparr>gv_group = [], gv_version = hd parts, gvk_kind = so_kind obj\<rparr>)"

definition fetch_object ::
    "addon_env \<Rightarrow> kube_write list \<Rightarrow> StageObject \<Rightarrow> (string \<times> unstructured) list
      \<Rightarrow> cel_error option \<times> (string \<times> unstructured) list" where
  "fetch_object env tr obj evalMap =
     (case ka_restMapping (ae_kube env) tr (object_gvk obj) of
        Inl e \<Rightarrow> (Some (CelMapping e), evalMap)
      | Inr (resource, _) \<Rightarrow>
          (case ae_getDynamic env tr resource (so_namespace obj) (so_name obj) of
             Inl e \<Rightarrow> (Some (CelGet e), evalMap)
           | Inr u \<Rightarrow> (None, AList.update (so_key obj) u evalMap)))"

definition getDynamicResourceAndEvaluateCEL ::
    "addon_env \<Rightarrow> kube_write list \<Rightarrow> WaitForCondition \<Rightarrow> cel_error option" where
  "getDynamicResourceAndEvaluateCEL env tr waitCondition =
     (let lib = ae_cel env; expr = wf_conditions waitCondition;
          objects = (case wf_objects waitCondition of None \<Rightarrow> [] | Some os \<Rightarrow> os) in
      case cel_newEnv lib of
        Some e \<Rightarrow> Some (CelEnvironment e)
      | None \<Rightarrow>
          (case for_each (extend_environment lib) objects [] of
             (Some e, _) \<Rightarrow> Some e
           | (None, vars) \<Rightarrow>
               if \<not> cel_compile lib vars expr then Some CelCompile
               else (case cel_program lib vars expr of
                   Some e \<Rightarrow> Some (CelProgram e)
                 | None \<Rightarrow>
                     (case for_each (fetch_object env tr) objects [] of
                        (Some e, _) \<Rightarrow> Some e
                      | (None, evalMap) \<Rightarrow>
                          (case cel_eval lib vars expr evalMap of
                             Inl e \<Rightarrow> Some (CelEval e)
                           | Inr CelOther \<Rightarrow> Some CelNotBoolean
                           | Inr (CelBool b) \<Rightarrow> if b then None else Some CelNotTrue)))))"

end
