(* ===== verification/AddonStages.thy ===== *)
theory AddonStages
  imports Addons
begin

text \<open>
  The execution of one stage of a cluster addon (\<open>executeStage\<close> of
  \<open>internal/controller/clusteraddon_controller.go\<close>): a state machine over the phase the status of
  the addon records for the stage. The jump \<open>goto check\<close> is a recursion, which ends because every
  jump moves the phase forward. An execution refines an abstract machine over the phase and the
  writes, \<open>stage_life\<close>.
\<close>

section \<open>State\<close>

datatype addon_error =
    GetAddonError api_error
  | AddonHelperError string
  | FindClusterError api_error
  | InterfaceError string
  | ConfigPathError
  | ConfigError config_error
  | OldReleaseError reconcile_release_error
  | UntarError untar_error
  | BuildValuesError values_error
  | HelmChartError
  | ApplyChartError kube_error
  | DeleteChartError kube_error
  | PreConditionError cel_error
  | PostConditionError cel_error
  | ResourcesError
  | DeleteInterfaceError string
  | PatchAddonError api_error

text \<open>
  How a function ends early: with an error, with a run-time panic, or waiting forever for a mutex
  that nobody releases.
\<close>

datatype addon_stop = AddonFail addon_error | AddonPanic | AddonBlocked

text \<open>
  The addon being reconciled, the writes to the workload cluster, the file operations, the
  downloads and whether the mutex of the download directory is held.
\<close>

record addon_state =
  ad_addon :: ClusterAddon
  ad_kube :: "kube_write list"
  ad_files :: "file_write list"
  ad_assets :: "release_write list"
  ad_locked :: bool

text \<open>\<open>templateAndApplyClusterAddonInput\<close> without the addon, which is part of the state.\<close>

record addon_input =
  in_chartPath :: string
  in_valuesPath :: string
  in_configPath :: string
  in_kubernetesVersion :: string
  in_oldKubernetesVersion :: string
  in_cluster :: Cluster
  in_chartMap :: "string list"
  in_newDir :: string
  in_oldDir :: string

definition map_addon :: "(ClusterAddon \<Rightarrow> ClusterAddon) \<Rightarrow> addon_state \<Rightarrow> addon_state" where
  "map_addon f s = s\<lparr>ad_addon := f (ad_addon s)\<rparr>"

definition mark_addon :: "(Conditions \<Rightarrow> Conditions) \<Rightarrow> addon_state \<Rightarrow> addon_state" where
  "mark_addon f = map_addon (ca_conditions f)"

definition set_phase :: "Stage \<Rightarrow> StagePhase \<Rightarrow> addon_state \<Rightarrow> addon_state" where
  "set_phase stage p = map_addon (SetStagePhase (sg_name stage) (sg_action stage) p)"

definition phase_of :: "Stage \<Rightarrow> addon_state \<Rightarrow> StagePhase" where
  "phase_of stage s = GetStagePhase (sg_name stage) (sg_action stage) (ad_addon s)"

definition set_resources :: "Resource list \<Rightarrow> ClusterAddon \<Rightarrow> ClusterAddon" where
  "set_resources rs a = a\<lparr>ca_status := (ca_status a)\<lparr>as_resources := rs\<rparr>\<rparr>"

section \<open>Templates of a stage\<close>

text \<open>\<open>Inr None\<close> is the result \<open>shouldReturn\<close>; the conditions say why.\<close>

definition template_failed ::
    "ConditionReason \<Rightarrow> addon_state \<Rightarrow> (addon_stop, 'a option) result \<times> addon_state" where
  "template_failed reason s =
     (Inr None, mark_addon (cond_MarkFalse HelmChartTemplatedCondition reason ConditionSeverityError) s)"

definition template_old_chart ::
    "addon_env \<Rightarrow> addon_input \<Rightarrow> string \<Rightarrow> addon_state \<Rightarrow> (addon_stop, string option) result \<times> addon_state" where
  "template_old_chart env inp name s =
     (let fs = ae_fs env (ad_files s); sub = filepath_Join [in_oldDir inp, name];
          overwrite = filepath_Join [sub, OverwriteYaml] in
      if in_oldDir inp = [] \<or> fs_stat fs overwrite \<noteq> StatOk then (Inr (Some []), s)
      else (case buildTemplateFromClusterAddonValues env fs overwrite (in_cluster inp) of
          None \<Rightarrow> (Inl AddonPanic, s)
        | Some (Inl e) \<Rightarrow> template_failed TemplateOldClusterStackOverwriteFailedReason s
        | Some (Inr values) \<Rightarrow>
            (case helmTemplateClusterAddon (ae_exec env) sub values (in_oldKubernetesVersion inp) of
               None \<Rightarrow> template_failed TemplateOldClusterStackFailedReason s
             | Some template \<Rightarrow> (Inr (Some template), s))))"

definition template_new_chart ::
    "addon_env \<Rightarrow> addon_input \<Rightarrow> string \<Rightarrow> addon_state \<Rightarrow> (addon_stop, string option) result \<times> addon_state" where
  "template_new_chart env inp name s =
     (let fs = ae_fs env (ad_files s); sub = filepath_Join [in_newDir inp, name];
          overwrite = filepath_Join [sub, OverwriteYaml];
          built = (if fs_stat fs overwrite = StatOk
                   then buildTemplateFromClusterAddonValues env fs overwrite (in_cluster inp)
                   else Some (Inr [])) in
      case built of
        None \<Rightarrow> (Inl AddonPanic, s)
      | Some (Inl e) \<Rightarrow> template_failed TemplateNewClusterStackOverwriteFailedReason s
      | Some (Inr values) \<Rightarrow>
          (case helmTemplateClusterAddon (ae_exec env) sub values (in_kubernetesVersion inp) of
             None \<Rightarrow> template_failed TemplateNewClusterStackFailedReason s
           | Some template \<Rightarrow> (Inr (Some template), s)))"

definition templateNewClusterStackAddonHelmChart ::
    "addon_env \<Rightarrow> addon_input \<Rightarrow> string \<Rightarrow> addon_state
      \<Rightarrow> (addon_stop, (string \<times> string) option) result \<times> addon_state" where
  "templateNewClusterStackAddonHelmChart env inp name s =
     (case template_old_chart env inp name s of
        (Inl stop, s) \<Rightarrow> (Inl stop, s)
      | (Inr None, s) \<Rightarrow> (Inr None, s)
      | (Inr (Some oldTemplate), s) \<Rightarrow>
          (case template_new_chart env inp name s of
             (Inl stop, s) \<Rightarrow> (Inl stop, s)
           | (Inr None, s) \<Rightarrow> (Inr None, s)
           | (Inr (Some newTemplate), s) \<Rightarrow>
               (Inr (Some (oldTemplate, newTemplate)),
                mark_addon (cond_Delete HelmChartTemplatedCondition) s)))"

definition helmTemplateNewClusterStack :: "addon_env \<Rightarrow> addon_input \<Rightarrow> string \<Rightarrow> string option" where
  "helmTemplateNewClusterStack env inp name =
     helmTemplateClusterAddon (ae_exec env) (filepath_Join [in_newDir inp, name]) []
       (in_kubernetesVersion inp)"

section \<open>Steps\<close>

datatype stage_step =
    GotoCheck addon_state
  | StageReturn "(addon_stop, bool) result" addon_state

definition check_pre :: "addon_env \<Rightarrow> Stage \<Rightarrow> addon_state \<Rightarrow> stage_step" where
  "check_pre env stage s =
     (if sg_pre stage = no_condition then GotoCheck (set_phase stage StagePhaseApplyingOrDeleting s)
      else (case getDynamicResourceAndEvaluateCEL env (ad_kube s) (sg_pre stage) of
          Some e \<Rightarrow>
            if ErrConditionNotMatch e
            then StageReturn (Inr True) (set_phase stage StagePhaseWaitingForPreCondition
                   (mark_addon (cond_MarkFalse EvaluatedCELCondition FailedToEvaluatePreConditionReason
                      ConditionSeverityInfo) s))
            else StageReturn (Inl (AddonFail (PreConditionError e))) s
        | None \<Rightarrow> GotoCheck (set_phase stage StagePhaseApplyingOrDeleting
                   (mark_addon (cond_Delete EvaluatedCELCondition) s))))"

definition apply_stage :: "addon_env \<Rightarrow> addon_input \<Rightarrow> Stage \<Rightarrow> addon_state \<Rightarrow> stage_step" where
  "apply_stage env inp stage s =
     (case templateNewClusterStackAddonHelmChart env inp (sg_name stage) s of
        (Inl stop, s) \<Rightarrow> StageReturn (Inl stop) s
      | (Inr None, s) \<Rightarrow> StageReturn (Inr False) s
      | (Inr (Some (oldTemplate, newTemplate)), s) \<Rightarrow>
          let r = ApplyNewClusterStack (ae_yaml env) (ae_kube env) clusterAddonNamespace
                    oldTemplate newTemplate (ad_kube s);
              s = s\<lparr>ad_kube := kr_trace r\<rparr>;
              failed = mark_addon (cond_MarkFalse HelmChartAppliedCondition FailedToApplyObjectsReason
                         ConditionSeverityInfo) s
          in (case kr_error r of
                Some e \<Rightarrow> StageReturn (Inl (AddonFail (ApplyChartError e))) failed
              | None \<Rightarrow>
                  if kr_requeue r then StageReturn (Inr True) failed
                  else GotoCheck (set_phase stage StagePhaseWaitingForPostCondition
                         (map_addon (set_resources []) (mark_addon (cond_Delete HelmChartAppliedCondition)
                           (map_addon (set_resources (kr_resources r)) s))))))"

definition delete_stage :: "addon_env \<Rightarrow> addon_input \<Rightarrow> Stage \<Rightarrow> addon_state \<Rightarrow> stage_step" where
  "delete_stage env inp stage s =
     (case helmTemplateNewClusterStack env inp (sg_name stage) of
        None \<Rightarrow> StageReturn (Inr False) (mark_addon (cond_MarkFalse HelmChartTemplatedCondition
            TemplateNewClusterStackFailedReason ConditionSeverityError) s)
      | Some template \<Rightarrow>
          let r = DeleteNewClusterStack (ae_yaml env) (ae_kube env) clusterAddonNamespace
                    template (ad_kube s);
              s = s\<lparr>ad_kube := kr_trace r\<rparr>
          in (case kr_error r of
                Some e \<Rightarrow> StageReturn (Inl (AddonFail (DeleteChartError e)))
                    (mark_addon (cond_MarkFalse HelmChartDeletedCondition FailedToDeleteObjectsReason
                       ConditionSeverityInfo) s)
              | None \<Rightarrow>
                  if kr_requeue r then StageReturn (Inr True) s
                  else GotoCheck (set_phase stage StagePhaseWaitingForPostCondition
                         (mark_addon (cond_Delete HelmChartDeletedCondition) (map_addon (set_resources [])
                           (map_addon (set_resources (kr_resources r)) s))))))"

definition check_post :: "addon_env \<Rightarrow> Stage \<Rightarrow> addon_state \<Rightarrow> stage_step" where
  "check_post env stage s =
     (if sg_post stage = no_condition then StageReturn (Inr False) (set_phase stage StagePhaseDone s)
      else (case getDynamicResourceAndEvaluateCEL env (ad_kube s) (sg_post stage) of
          Some e \<Rightarrow>
            if ErrConditionNotMatch e
            then StageReturn (Inr True) (mark_addon (cond_MarkFalse EvaluatedCELCondition
                   FailedToEvaluatePostConditionReason ConditionSeverityInfo) s)
            else StageReturn (Inl (AddonFail (PostConditionError e))) s
        | None \<Rightarrow> StageReturn (Inr False) (set_phase stage StagePhaseDone
                   (mark_addon (cond_Delete EvaluatedCELCondition) s))))"

definition check_stage :: "addon_env \<Rightarrow> addon_input \<Rightarrow> Stage \<Rightarrow> addon_state \<Rightarrow> stage_step" where
  "check_stage env inp stage s =
     (case phase_of stage s of
        StagePhasePending \<Rightarrow> check_pre env stage s
      | StagePhaseWaitingForPreCondition \<Rightarrow> check_pre env stage s
      | StagePhaseApplyingOrDeleting \<Rightarrow>
          if sg_action stage = ActionApply then apply_stage env inp stage s
          else delete_stage env inp stage s
      | StagePhaseWaitingForPostCondition \<Rightarrow> check_post env stage s
      | _ \<Rightarrow> StageReturn (Inr False) s)"

section \<open>Every jump moves the phase forward\<close>

fun phase_rank :: "StagePhase \<Rightarrow> nat" where
  "phase_rank StagePhasePending = 3"
| "phase_rank StagePhaseWaitingForPreCondition = 3"
| "phase_rank StagePhaseApplyingOrDeleting = 2"
| "phase_rank StagePhaseWaitingForPostCondition = 1"
| "phase_rank _ = 0"

named_theorems stage_simps \<open>what the small updates of an addon state leave alone\<close>

lemma addon_updates [stage_simps]:
  "ad_addon (map_addon f s) = f (ad_addon s)"
  "ad_kube (map_addon f s) = ad_kube s"
  "ad_files (map_addon f s) = ad_files s"
  "ad_assets (map_addon f s) = ad_assets s"
  "ad_locked (map_addon f s) = ad_locked s"
  "ad_addon (mark_addon g s) = ca_conditions g (ad_addon s)"
  "ad_assets (mark_addon g s) = ad_assets s"
  "ad_locked (mark_addon g s) = ad_locked s"
  "ad_assets (set_phase stage p s) = ad_assets s"
  "ad_locked (set_phase stage p s) = ad_locked s"
  "ad_kube (mark_addon g s) = ad_kube s"
  "ad_files (mark_addon g s) = ad_files s"
  "ad_addon (set_phase stage p s) = SetStagePhase (sg_name stage) (sg_action stage) p (ad_addon s)"
  "ad_kube (set_phase stage p s) = ad_kube s"
  "ad_files (set_phase stage p s) = ad_files s"
  by (simp_all add: map_addon_def mark_addon_def set_phase_def)

lemma addon_fields [stage_simps]:
  "ca_meta (set_resources rs a) = ca_meta a"
  "ca_spec (set_resources rs a) = ca_spec a"
  "as_ready (ca_status (set_resources rs a)) = as_ready (ca_status a)"
  "as_stages (ca_status (set_resources rs a)) = as_stages (ca_status a)"
  "as_conditions (ca_status (set_resources rs a)) = as_conditions (ca_status a)"
  "ca_meta (SetStagePhase n act p a) = ca_meta a"
  "ca_spec (SetStagePhase n act p a) = ca_spec a"
  "as_ready (ca_status (SetStagePhase n act p a)) = as_ready (ca_status a)"
  "as_conditions (ca_status (SetStagePhase n act p a)) = as_conditions (ca_status a)"
  by (simp_all add: set_resources_def SetStagePhase_def)

lemma phase_reads [stage_simps]:
  "GetStagePhase n act (ca_conditions g a) = GetStagePhase n act a"
  "GetStagePhase n act (set_resources rs a) = GetStagePhase n act a"
  "stage_listed n act (ca_conditions g a) = stage_listed n act a"
  "stage_listed n act (set_resources rs a) = stage_listed n act a"
  by (simp_all add: GetStagePhase_def stage_listed_def set_resources_def)

lemma phase_of_updates [stage_simps]:
  "phase_of st (mark_addon g s) = phase_of st s"
  "phase_of st (map_addon (set_resources rs) s) = phase_of st s"
  "phase_of st (s\<lparr>ad_kube := tr\<rparr>) = phase_of st s"
  by (simp_all add: phase_of_def stage_simps)

definition listed :: "Stage \<Rightarrow> addon_state \<Rightarrow> bool" where
  "listed stage s = stage_listed (sg_name stage) (sg_action stage) (ad_addon s)"

lemma listed_updates [stage_simps]:
  "listed st (mark_addon g s) = listed st s"
  "listed st (map_addon (set_resources rs) s) = listed st s"
  "listed st (s\<lparr>ad_kube := tr\<rparr>) = listed st s"
  "listed st (set_phase st' p s) = listed st s"
  by (simp_all add: listed_def stage_simps phases.listed_put)

lemma phase_of_set_phase [stage_simps]:
  "phase_of st (set_phase st' p s) =
     (if sg_name st = sg_name st' \<and> sg_action st = sg_action st' \<and> listed st s then p else phase_of st s)"
  by (auto simp: phase_of_def listed_def stage_simps phases.get_put)

lemma phase_known: "phase_of st s \<noteq> StagePhaseNone \<Longrightarrow> listed st s"
  using phases.unlisted[of "sg_name st" "sg_action st" "ad_addon s"] by (auto simp: phase_of_def listed_def)

text \<open>Templating changes nothing but conditions.\<close>

lemma template_failed_eq:
  "template_failed reason s = (r, t) \<Longrightarrow>
    r = Inr None \<and> t = mark_addon (cond_MarkFalse HelmChartTemplatedCondition reason ConditionSeverityError) s"
  by (simp add: template_failed_def)

text \<open>Updates that keep a list of conditions well formed.\<close>

definition ok_mark :: "(Conditions \<Rightarrow> Conditions) \<Rightarrow> bool" where
  "ok_mark g \<longleftrightarrow> (\<forall>cs. conds_ok cs \<longrightarrow> conds_ok (g cs))"

lemma ok_marks [simp]:
  "ok_mark (cond_MarkTrue t)"
  "ok_mark (cond_MarkFalse t r sev)"
  "ok_mark (cond_Delete t)"
  "ok_mark id"
  "ok_mark g \<Longrightarrow> ok_mark h \<Longrightarrow> ok_mark (g \<circ> h)"
  by (simp_all add: ok_mark_def cond_simps)

lemma mark_addon_comp: "mark_addon g (mark_addon h s) = mark_addon (g \<circ> h) s"
  by (simp add: mark_addon_def map_addon_def ca_conditions_def)

lemma mark_addon_id: "mark_addon id s = s"
  by (simp add: mark_addon_def map_addon_def ca_conditions_def)

text \<open>Templating a chart changes nothing, or marks why it asks the caller to return.\<close>

definition template_outcome :: "(addon_stop, 'a option) result \<Rightarrow> addon_state \<Rightarrow> addon_state \<Rightarrow> bool" where
  "template_outcome r s t \<longleftrightarrow>
     (if r = Inr None
      then \<exists>reason. t = mark_addon (cond_MarkFalse HelmChartTemplatedCondition reason ConditionSeverityError) s
      else t = s)"

lemma template_old_chart_outcome:
  "template_old_chart env inp name s = (r, t) \<Longrightarrow> template_outcome r s t"
  by (auto simp: template_old_chart_def template_failed_def template_outcome_def Let_def
      split: if_splits option.splits sum.splits)

lemma template_new_chart_outcome:
  "template_new_chart env inp name s = (r, t) \<Longrightarrow> template_outcome r s t"
  by (auto simp: template_new_chart_def template_failed_def template_outcome_def Let_def
      split: option.splits sum.splits)

lemma template_cases:
  assumes "templateNewClusterStackAddonHelmChart env inp name s = (r, t)"
  obtains (failed) reason where "r = Inr None"
      "t = mark_addon (cond_MarkFalse HelmChartTemplatedCondition reason ConditionSeverityError) s"
    | (templated) old new where "r = Inr (Some (old, new))"
      "t = mark_addon (cond_Delete HelmChartTemplatedCondition) s"
    | (stopped) stop where "r = Inl stop" "t = s"
proof -
  obtain r1 s1 where 1: "template_old_chart env inp name s = (r1, s1)" by fastforce
  note o1 = template_old_chart_outcome[OF 1]
  obtain r2 s2 where 2: "template_new_chart env inp name s1 = (r2, s2)" by fastforce
  note o2 = template_new_chart_outcome[OF 2]
  show thesis
    using assms 1 2 o1 o2 failed templated stopped
    by (auto simp: templateNewClusterStackAddonHelmChart_def template_outcome_def
        split: sum.splits option.splits)
qed

lemma template_marks:
  assumes "templateNewClusterStackAddonHelmChart env inp name s = (r, t)"
  obtains g where "t = mark_addon g s" "ok_mark g"
  using assms by (cases rule: template_cases) (metis ok_marks mark_addon_id)+

lemma check_pre_goto:
  assumes "check_pre env stage s = GotoCheck t"
  obtains g where "t = set_phase stage StagePhaseApplyingOrDeleting (mark_addon g s)" "ok_mark g"
  using assms that[of id] that[of "cond_Delete EvaluatedCELCondition"]
  by (auto simp: check_pre_def mark_addon_id split: if_splits option.splits)

lemma apply_stage_goto:
  assumes "apply_stage env inp stage s = GotoCheck t"
  shows "listed stage t = listed stage s \<and>
    (listed stage s \<longrightarrow> phase_of stage t = StagePhaseWaitingForPostCondition)"
proof -
  obtain r u where t: "templateNewClusterStackAddonHelmChart env inp (sg_name stage) s = (r, u)" by fastforce
  then obtain g where "u = mark_addon g s" by (rule template_marks)
  then show ?thesis
    using assms t by (auto simp: apply_stage_def Let_def stage_simps split: sum.splits option.splits if_splits)
qed

lemma delete_stage_goto:
  assumes "delete_stage env inp stage s = GotoCheck t"
  shows "listed stage t = listed stage s \<and>
    (listed stage s \<longrightarrow> phase_of stage t = StagePhaseWaitingForPostCondition)"
  using assms by (auto simp: delete_stage_def Let_def stage_simps split: option.splits if_splits)

lemma check_post_returns: "check_post env stage s \<noteq> GotoCheck t"
  by (simp add: check_post_def split: option.splits)

lemma check_stage_forward:
  assumes "check_stage env inp stage s = GotoCheck t"
  shows "phase_rank (phase_of stage t) < phase_rank (phase_of stage s)"
proof -
  consider (pre) "phase_rank (phase_of stage s) = 3" "check_pre env stage s = GotoCheck t"
    | (run) "phase_of stage s = StagePhaseApplyingOrDeleting"
        "apply_stage env inp stage s = GotoCheck t \<or> delete_stage env inp stage s = GotoCheck t"
    using assms by (auto simp: check_stage_def check_post_returns split: StagePhase.splits if_splits)
  then show ?thesis
  proof cases
    case pre
    then have "phase_of stage s \<noteq> StagePhaseNone" by auto
    then have "listed stage s" by (rule phase_known)
    with pre(2) have "phase_of stage t = StagePhaseApplyingOrDeleting"
      by (auto elim!: check_pre_goto simp: stage_simps)
    then show ?thesis using pre(1) by simp
  next
    case run
    then have "listed stage s" using phase_known[of stage s] by simp
    then show ?thesis using run apply_stage_goto delete_stage_goto by fastforce
  qed
qed

section \<open>The loop\<close>

function stage_loop ::
    "addon_env \<Rightarrow> addon_input \<Rightarrow> Stage \<Rightarrow> addon_state \<Rightarrow> (addon_stop, bool) result \<times> addon_state" where
  "stage_loop env inp stage s =
     (case check_stage env inp stage s of
        GotoCheck t \<Rightarrow> stage_loop env inp stage t
      | StageReturn r t \<Rightarrow> (r, t))"
  by auto

termination
  by (relation "measure (\<lambda>(env, inp, stage, s). phase_rank (phase_of stage s))")
    (auto dest: check_stage_forward)

declare stage_loop.simps [simp del]

definition executeStage ::
    "addon_env \<Rightarrow> addon_input \<Rightarrow> Stage \<Rightarrow> addon_state \<Rightarrow> (addon_stop, bool) result \<times> addon_state" where
  "executeStage env inp stage s =
     (if sg_name stage \<in> set (in_chartMap inp) then stage_loop env inp stage s
      else (Inr False, mark_addon (cond_MarkFalse HelmChartFoundCondition HelmChartMissingReason
              ConditionSeverityInfo) s))"

section \<open>Runs of a stage\<close>

text \<open>The states a run passes, as a step relation: one step per jump.\<close>

inductive passes :: "addon_env \<Rightarrow> addon_input \<Rightarrow> Stage \<Rightarrow> addon_state \<Rightarrow> addon_state \<Rightarrow> bool"
  for env inp stage s where
  at_start: "passes env inp stage s s"
| by_jump: "passes env inp stage s t \<Longrightarrow> check_stage env inp stage t = GotoCheck u \<Longrightarrow>
    passes env inp stage s u"

lemma passes_later:
  "check_stage env inp stage s = GotoCheck t \<Longrightarrow> passes env inp stage t u \<Longrightarrow> passes env inp stage s u"
  by (rotate_tac, induction rule: passes.induct) (auto intro: passes.intros)

text \<open>A run ends in the step that returns from some state it passed.\<close>

lemma stage_loop_passes:
  "stage_loop env inp stage s = (r, t) \<Longrightarrow>
    \<exists>u. passes env inp stage s u \<and> check_stage env inp stage u = StageReturn r t"
proof (induction env inp stage s rule: stage_loop.induct)
  case (1 env inp stage s)
  show ?case
  proof (cases "check_stage env inp stage s")
    case (GotoCheck u)
    then have "stage_loop env inp stage u = (r, t)" using "1.prems" by (simp add: stage_loop.simps[of env inp stage s])
    then show ?thesis using "1.IH"[OF GotoCheck] passes_later[OF GotoCheck] by blast
  next
    case (StageReturn r' t')
    then show ?thesis using "1.prems" by (auto simp: stage_loop.simps[of env inp stage s] intro: passes.intros)
  qed
qed

text \<open>
  What a run leaves alone: everything of the addon but the conditions, the resources and the phase
  of this stage, the files and the mutex.
\<close>

definition stage_frame :: "Stage \<Rightarrow> addon_state \<Rightarrow> addon_state \<Rightarrow> bool" where
  "stage_frame stage s t \<longleftrightarrow>
     ca_meta (ad_addon t) = ca_meta (ad_addon s) \<and> ca_spec (ad_addon t) = ca_spec (ad_addon s) \<and>
     as_ready (ca_status (ad_addon t)) = as_ready (ca_status (ad_addon s)) \<and>
     (conds_ok (as_conditions (ca_status (ad_addon s))) \<longrightarrow>
        conds_ok (as_conditions (ca_status (ad_addon t)))) \<and>
     ad_files t = ad_files s \<and> ad_assets t = ad_assets s \<and> ad_locked t = ad_locked s \<and>
     (\<forall>n act. stage_listed n act (ad_addon t) = stage_listed n act (ad_addon s)) \<and>
     (\<forall>n act. (n, act) \<noteq> (sg_name stage, sg_action stage) \<longrightarrow>
        GetStagePhase n act (ad_addon t) = GetStagePhase n act (ad_addon s))"

lemma stage_frame_refl [simp]: "stage_frame stage s s"
  by (simp add: stage_frame_def)

lemma stage_frame_trans: "stage_frame stage s t \<Longrightarrow> stage_frame stage t u \<Longrightarrow> stage_frame stage s u"
  by (simp add: stage_frame_def)

lemma stage_frame_updates [simp]:
  "ok_mark g \<Longrightarrow> stage_frame stage s t \<Longrightarrow> stage_frame stage s (mark_addon g t)"
  "stage_frame stage s (map_addon (set_resources rs) t) = stage_frame stage s t"
  "stage_frame stage s (t\<lparr>ad_kube := tr\<rparr>) = stage_frame stage s t"
  "stage_frame stage s t \<Longrightarrow> stage_frame stage s (set_phase stage p t)"
  by (simp_all add: stage_frame_def stage_simps phases.listed_put phases.get_put ok_mark_def)

lemma template_frame:
  "templateNewClusterStackAddonHelmChart env inp name s = (r, t) \<Longrightarrow>
    stage_frame stage s t \<and> ad_kube t = ad_kube s \<and> phase_of stage t = phase_of stage s"
  by (erule template_marks) (simp add: stage_simps)

fun step_state :: "stage_step \<Rightarrow> addon_state" where
  "step_state (GotoCheck t) = t"
| "step_state (StageReturn r t) = t"

lemma check_pre_frame: "stage_frame stage s (step_state (check_pre env stage s))"
  by (simp add: check_pre_def split: option.split)

lemma check_post_frame: "stage_frame stage s (step_state (check_post env stage s))"
  by (simp add: check_post_def split: option.split)

lemma delete_stage_frame: "stage_frame stage s (step_state (delete_stage env inp stage s))"
  by (simp add: delete_stage_def Let_def split: option.split)

lemma apply_stage_frame: "stage_frame stage s (step_state (apply_stage env inp stage s))"
proof -
  obtain r u where t: "templateNewClusterStackAddonHelmChart env inp (sg_name stage) s = (r, u)" by fastforce
  then have "stage_frame stage s u" using template_frame by blast
  then show ?thesis by (simp add: apply_stage_def t Let_def split: sum.split option.split)
qed

lemma check_stage_frame: "stage_frame stage s (step_state (check_stage env inp stage s))"
  by (simp add: check_stage_def check_pre_frame check_post_frame delete_stage_frame apply_stage_frame
      split: StagePhase.split)

lemma passes_frame: "passes env inp stage s t \<Longrightarrow> stage_frame stage s t"
proof (induction rule: passes.induct)
  case (by_jump t u)
  then show ?case using check_stage_frame[of stage t env inp] stage_frame_trans by fastforce
qed simp

lemma executeStage_frame:
  assumes "executeStage env inp stage s = (r, t)"
  shows "stage_frame stage s t"
proof (cases "sg_name stage \<in> set (in_chartMap inp)")
  case True
  then obtain u where "passes env inp stage s u" "check_stage env inp stage u = StageReturn r t"
    using assms stage_loop_passes by (fastforce simp: executeStage_def)
  then show ?thesis
    using passes_frame check_stage_frame[of stage u env inp] stage_frame_trans by fastforce
qed (use assms in \<open>auto simp: executeStage_def\<close>)

text \<open>A stage whose phase is known never loses it.\<close>

lemma passes_phase_known:
  "passes env inp stage s t \<Longrightarrow> phase_of stage s \<noteq> StagePhaseNone \<Longrightarrow> phase_of stage t \<noteq> StagePhaseNone"
proof (induction rule: passes.induct)
  case (by_jump t u)
  then have l: "listed stage t" using phase_known by blast
  consider "check_pre env stage t = GotoCheck u" | "apply_stage env inp stage t = GotoCheck u"
    | "delete_stage env inp stage t = GotoCheck u"
    using by_jump.hyps by (auto simp: check_stage_def check_post_returns split: StagePhase.splits if_splits)
  then show ?case
  proof cases
    case 1
    then show ?thesis using l by (auto elim!: check_pre_goto simp: stage_simps)
  qed (use l apply_stage_goto delete_stage_goto in fastforce)+
qed

text \<open>The steps that send nothing to the workload cluster.\<close>

lemma check_silent:
  "ad_kube (step_state (check_pre env stage s)) = ad_kube s"
  "ad_kube (step_state (check_post env stage s)) = ad_kube s"
  by (simp_all add: check_pre_def check_post_def stage_simps split: option.split)

definition pre_holds :: "addon_env \<Rightarrow> Stage \<Rightarrow> addon_state \<Rightarrow> bool" where
  "pre_holds env stage s \<longleftrightarrow> sg_pre stage = no_condition \<or>
     getDynamicResourceAndEvaluateCEL env (ad_kube s) (sg_pre stage) = None"

lemma check_pre_goto_holds: "check_pre env stage s = GotoCheck t \<Longrightarrow> pre_holds env stage s"
  by (auto simp: check_pre_def pre_holds_def split: if_splits option.splits)

text \<open>Where a run that neither fails nor asks to be repeated may end.\<close>

lemma returns_False:
  assumes "check_stage env inp stage u = StageReturn (Inr False) t"
    and "phase_of stage u \<noteq> StagePhaseNone"
    and "conds_ok (as_conditions (ca_status (ad_addon u)))"
  shows "phase_of stage t = StagePhaseDone \<or>
    cond_IsFalse (as_conditions (ca_status (ad_addon t))) HelmChartTemplatedCondition"
proof -
  have l: "listed stage u" using assms(2) by (rule phase_known)
  have pre: "check_pre env stage u \<noteq> StageReturn (Inr False) t"
    by (simp add: check_pre_def split: option.split)
  have post: "phase_of stage t = StagePhaseDone" if "check_post env stage u = StageReturn (Inr False) t"
    using that l by (auto simp: check_post_def stage_simps split: if_splits option.splits)
  have del: "cond_IsFalse (as_conditions (ca_status (ad_addon t))) HelmChartTemplatedCondition"
    if "delete_stage env inp stage u = StageReturn (Inr False) t"
    using that assms(3) by (auto simp: delete_stage_def Let_def stage_simps cond_simps split: if_splits option.splits)
  have app: "cond_IsFalse (as_conditions (ca_status (ad_addon t))) HelmChartTemplatedCondition"
    if a: "apply_stage env inp stage u = StageReturn (Inr False) t"
  proof -
    obtain r v where v: "templateNewClusterStackAddonHelmChart env inp (sg_name stage) u = (r, v)" by fastforce
    then show ?thesis
      using a assms(3)
      by (cases rule: template_cases)
        (auto simp: apply_stage_def v Let_def stage_simps cond_simps split: if_splits option.splits)
  qed
  show ?thesis
    using assms(1,2) pre post del app
    by (auto simp: check_stage_def split: StagePhase.splits if_splits)
qed

section \<open>The lifecycle of a stage\<close>

text \<open>
  What the status of an addon promises of a stage, as an abstract machine over the recorded phase and
  the writes sent to the workload cluster: the stage waits until its pre condition holds, its chart is
  brought to the cluster, as often as it takes for one run without complaint, it waits until its post
  condition holds, and is done. No phase can be passed without what it stands for.
\<close>

definition condition_holds :: "addon_env \<Rightarrow> WaitForCondition \<Rightarrow> kube_write list \<Rightarrow> bool" where
  "condition_holds env cond tr \<longleftrightarrow>
     cond = no_condition \<or> getDynamicResourceAndEvaluateCEL env tr cond = None"

text \<open>The run that applies or deletes the chart of the stage, if the chart can be templated.\<close>

definition chart_run ::
    "addon_env \<Rightarrow> addon_input \<Rightarrow> Stage \<Rightarrow> addon_state \<Rightarrow> kube_write list \<Rightarrow> kube_result option" where
  "chart_run env inp stage s0 tr =
     (if sg_action stage = ActionApply then
        (case fst (templateNewClusterStackAddonHelmChart env inp (sg_name stage) s0) of
           Inr (Some (oldTemplate, newTemplate)) \<Rightarrow> Some (ApplyNewClusterStack (ae_yaml env) (ae_kube env)
             clusterAddonNamespace oldTemplate newTemplate tr)
         | _ \<Rightarrow> None)
      else map_option (\<lambda>template. DeleteNewClusterStack (ae_yaml env) (ae_kube env)
             clusterAddonNamespace template tr) (helmTemplateNewClusterStack env inp (sg_name stage)))"

definition quiet_run :: "kube_result \<Rightarrow> bool" where
  "quiet_run r \<longleftrightarrow> kr_error r = None \<and> \<not> kr_requeue r"

inductive stage_life ::
    "addon_env \<Rightarrow> addon_input \<Rightarrow> Stage \<Rightarrow> addon_state \<Rightarrow> StagePhase \<times> kube_write list
      \<Rightarrow> StagePhase \<times> kube_write list \<Rightarrow> bool"
  for env inp stage s0 where
  waits: "p \<in> {StagePhasePending, StagePhaseWaitingForPreCondition} \<Longrightarrow>
    \<not> condition_holds env (sg_pre stage) tr \<Longrightarrow>
    stage_life env inp stage s0 (p, tr) (StagePhaseWaitingForPreCondition, tr)"
| starts: "p \<in> {StagePhasePending, StagePhaseWaitingForPreCondition} \<Longrightarrow>
    condition_holds env (sg_pre stage) tr \<Longrightarrow>
    stage_life env inp stage s0 (p, tr) (StagePhaseApplyingOrDeleting, tr)"
| falls_short: "chart_run env inp stage s0 tr = Some r \<Longrightarrow> \<not> quiet_run r \<Longrightarrow>
    stage_life env inp stage s0 (StagePhaseApplyingOrDeleting, tr) (StagePhaseApplyingOrDeleting, kr_trace r)"
| carried_out: "chart_run env inp stage s0 tr = Some r \<Longrightarrow> quiet_run r \<Longrightarrow>
    stage_life env inp stage s0 (StagePhaseApplyingOrDeleting, tr) (StagePhaseWaitingForPostCondition, kr_trace r)"
| finished: "condition_holds env (sg_post stage) tr \<Longrightarrow>
    stage_life env inp stage s0 (StagePhaseWaitingForPostCondition, tr) (StagePhaseDone, tr)"

definition life_of :: "Stage \<Rightarrow> addon_state \<Rightarrow> StagePhase \<times> kube_write list" where
  "life_of stage s = (phase_of stage s, ad_kube s)"

text \<open>Templating depends on the files alone.\<close>

lemma template_by_files:
  assumes "ad_files s = ad_files t"
  shows "fst (templateNewClusterStackAddonHelmChart env inp n s) = fst (templateNewClusterStackAddonHelmChart env inp n t)"
proof -
  have old: "fst (template_old_chart env inp n s) = fst (template_old_chart env inp n t)"
    using assms by (simp add: template_old_chart_def template_failed_def Let_def split: option.split sum.split)
  have new: "fst (template_new_chart env inp n u) = fst (template_new_chart env inp n v)"
    if "ad_files u = ad_files v" for u v
    using that by (simp add: template_new_chart_def template_failed_def Let_def split: option.split sum.split)
  obtain r1 s1 where s1: "template_old_chart env inp n s = (r1, s1)" by fastforce
  obtain t1 where t1: "template_old_chart env inp n t = (r1, t1)" using old s1 by (metis fst_conv prod.collapse)
  have "ad_files s1 = ad_files t1"
    using assms template_old_chart_outcome[OF s1] template_old_chart_outcome[OF t1]
    by (auto simp: template_outcome_def stage_simps split: if_splits)
  from new[OF this] have "fst (template_new_chart env inp n s1) = fst (template_new_chart env inp n t1)" .
  then show ?thesis
    using s1 t1 by (auto simp: templateNewClusterStackAddonHelmChart_def split: sum.split option.split prod.split)
qed

lemma check_pre_life:
  assumes "phase_of stage s \<in> {StagePhasePending, StagePhaseWaitingForPreCondition}"
  shows "(stage_life env inp stage s0)\<^sup>=\<^sup>= (life_of stage s) (life_of stage (step_state (check_pre env stage s)))"
proof -
  have l: "listed stage s" using assms phase_known[of stage s] by auto
  show ?thesis
  proof (cases "condition_holds env (sg_pre stage) (ad_kube s)")
    case True
    then have "life_of stage (step_state (check_pre env stage s)) = (StagePhaseApplyingOrDeleting, ad_kube s)"
      using l by (auto simp: check_pre_def condition_holds_def life_of_def stage_simps)
    then show ?thesis using starts[OF assms True] by (simp add: life_of_def)
  next
    case False
    then have "life_of stage (step_state (check_pre env stage s)) \<in>
        {(StagePhaseWaitingForPreCondition, ad_kube s), life_of stage s}"
      using l by (auto simp: check_pre_def condition_holds_def life_of_def stage_simps split: option.split)
    then show ?thesis using waits[OF assms False] by (auto simp: life_of_def)
  qed
qed

lemma check_post_life:
  assumes "phase_of stage s = StagePhaseWaitingForPostCondition"
  shows "(stage_life env inp stage s0)\<^sup>=\<^sup>= (life_of stage s) (life_of stage (step_state (check_post env stage s)))"
proof -
  have l: "listed stage s" using assms phase_known[of stage s] by auto
  show ?thesis
  proof (cases "condition_holds env (sg_post stage) (ad_kube s)")
    case True
    then have "life_of stage (step_state (check_post env stage s)) = (StagePhaseDone, ad_kube s)"
      using l by (auto simp: check_post_def condition_holds_def life_of_def stage_simps)
    then show ?thesis using finished[OF True] assms by (simp add: life_of_def)
  next
    case False
    then have "life_of stage (step_state (check_post env stage s)) = life_of stage s"
      by (auto simp: check_post_def condition_holds_def life_of_def stage_simps split: option.split)
    then show ?thesis by simp
  qed
qed

lemma run_stage_life:
  assumes "phase_of stage s = StagePhaseApplyingOrDeleting" and "ad_files s = ad_files s0"
  shows "sg_action stage = ActionApply \<Longrightarrow>
      (stage_life env inp stage s0)\<^sup>=\<^sup>= (life_of stage s) (life_of stage (step_state (apply_stage env inp stage s)))"
    and "sg_action stage \<noteq> ActionApply \<Longrightarrow>
      (stage_life env inp stage s0)\<^sup>=\<^sup>= (life_of stage s) (life_of stage (step_state (delete_stage env inp stage s)))"
proof -
  have l: "listed stage s" using assms(1) phase_known[of stage s] by auto
  note life = falls_short[of env inp stage s0 "ad_kube s"] carried_out[of env inp stage s0 "ad_kube s"]
  obtain r u where t: "templateNewClusterStackAddonHelmChart env inp (sg_name stage) s = (r, u)" by fastforce
  then obtain g where u: "u = mark_addon g s" by (rule template_marks)
  have r: "fst (templateNewClusterStackAddonHelmChart env inp (sg_name stage) s0) = r"
    using t template_by_files[OF assms(2)] by (metis fst_conv)
  show "(stage_life env inp stage s0)\<^sup>=\<^sup>= (life_of stage s) (life_of stage (step_state (apply_stage env inp stage s)))"
    if "sg_action stage = ActionApply"
    using assms(1) l life that r
    by (auto simp: apply_stage_def t u Let_def stage_simps life_of_def chart_run_def quiet_run_def
        split: sum.split option.split)
  show "(stage_life env inp stage s0)\<^sup>=\<^sup>= (life_of stage s) (life_of stage (step_state (delete_stage env inp stage s)))"
    if "sg_action stage \<noteq> ActionApply"
    using assms(1) l life that
    by (auto simp: delete_stage_def Let_def stage_simps life_of_def chart_run_def quiet_run_def split: option.split)
qed

text \<open>One step of the code is at most one step of the machine.\<close>

lemma check_stage_simulates:
  assumes "ad_files s = ad_files s0"
  shows "(stage_life env inp stage s0)\<^sup>=\<^sup>= (life_of stage s) (life_of stage (step_state (check_stage env inp stage s)))"
  using check_pre_life[of stage s env inp s0] check_post_life[of stage s env inp s0]
    run_stage_life[OF _ assms, of stage env inp]
  by (cases "phase_of stage s") (simp_all add: check_stage_def)

lemma passes_life:
  "passes env inp stage s t \<Longrightarrow> (stage_life env inp stage s)\<^sup>*\<^sup>* (life_of stage s) (life_of stage t)"
proof (induction rule: passes.induct)
  case (by_jump t u)
  have "ad_files t = ad_files s" using passes_frame[OF by_jump.hyps(1)] by (simp add: stage_frame_def)
  then show ?case
    using by_jump check_stage_simulates[of t s env inp stage] by (auto intro: rtranclp.rtrancl_into_rtrancl)
qed simp

section \<open>Properties\<close>


definition jumps :: "addon_env \<Rightarrow> addon_input \<Rightarrow> Stage \<Rightarrow> addon_state \<Rightarrow> addon_state \<Rightarrow> bool" where
  "jumps env inp stage s t \<longleftrightarrow> check_stage env inp stage s = GotoCheck t"

lemma jumps_rank:
  "(jumps env inp stage ^^ n) s t \<Longrightarrow> phase_rank (phase_of stage t) + n \<le> phase_rank (phase_of stage s)"
proof (induction n arbitrary: t)
  case (Suc n)
  then obtain u where u: "(jumps env inp stage ^^ n) s u" "jumps env inp stage u t" by auto
  have "phase_rank (phase_of stage t) < phase_rank (phase_of stage u)"
    using check_stage_forward u(2) by (simp add: jumps_def)
  then show ?case using Suc.IH[OF u(1)] by simp
qed simp

lemma jump_target:
  assumes "jumps env inp stage s t"
  shows "0 < phase_rank (phase_of stage t)"
proof -
  have l: "listed stage s"
    using assms phase_known[of stage s] by (auto simp: jumps_def check_stage_def split: StagePhase.splits)
  consider "check_pre env stage s = GotoCheck t" | "apply_stage env inp stage s = GotoCheck t"
    | "delete_stage env inp stage s = GotoCheck t"
    using assms by (auto simp: jumps_def check_stage_def check_post_returns split: StagePhase.splits if_splits)
  then show ?thesis
  proof cases
    case 1
    then show ?thesis using l by (auto elim!: check_pre_goto simp: stage_simps)
  qed (use l apply_stage_goto delete_stage_goto in fastforce)+
qed

text \<open>
  C11. The jump \<open>goto check\<close> is taken at most twice in one execution of a stage.
\<close>

theorem stage_jumps_at_most_twice:
  assumes "(jumps env inp stage ^^ n) s t"
  shows "n \<le> 2"
proof (cases n)
  case (Suc m)
  then obtain u where "jumps env inp stage u t" using assms by auto
  then have "0 < phase_rank (phase_of stage t)" by (rule jump_target)
  moreover have "phase_rank (phase_of stage s) \<le> 3" by (cases "phase_of stage s") simp_all
  ultimately show ?thesis using jumps_rank[OF assms] by simp
qed simp

text \<open>
  C9. A stage writes to the workload cluster only while its chart is being applied or deleted: it
  sends nothing before its pre condition holds, nothing while it waits for its post condition, and
  nothing once it is done.
\<close>

theorem stage_writes_after_precondition:
  assumes "executeStage env inp stage s = (r, t)" and "ad_kube t \<noteq> ad_kube s"
  shows "phase_of stage s = StagePhaseApplyingOrDeleting \<or>
    phase_of stage s \<in> {StagePhasePending, StagePhaseWaitingForPreCondition} \<and> pre_holds env stage s"
proof -
  have loop: "stage_loop env inp stage s = (r, t)"
    using assms by (auto simp: executeStage_def stage_simps split: if_splits)
  show ?thesis
  proof (cases "check_stage env inp stage s")
    case (GotoCheck u)
    then show ?thesis
      using check_pre_goto_holds
      by (auto simp: check_stage_def check_post_returns split: StagePhase.splits if_splits)
  next
    case (StageReturn r' t')
    then have "ad_kube (step_state (check_stage env inp stage s)) \<noteq> ad_kube s"
      using assms(2) loop by (simp add: stage_loop.simps[of env inp stage s])
    then show ?thesis
      using check_silent[of env stage s] by (auto simp: check_stage_def split: StagePhase.splits)
  qed
qed

text \<open>
  C10. What it means that a stage ends without error and without asking to be repeated. When its chart
  is in the release and the status lists the stage, it is done, or its chart could not be templated,
  which the conditions say. A stage whose chart is missing is only marked so and keeps its phase,
  and one that the status does not list is left alone: both end like a finished one.
\<close>

theorem stage_done_or_reported:
  assumes "executeStage env inp stage s = (Inr False, t)"
    and "conds_ok (as_conditions (ca_status (ad_addon s)))"
  shows "if sg_name stage \<notin> set (in_chartMap inp)
    then cond_IsFalse (as_conditions (ca_status (ad_addon t))) HelmChartFoundCondition \<and>
      phase_of stage t = phase_of stage s \<and> ad_kube t = ad_kube s
    else if phase_of stage s = StagePhaseNone then t = s
    else phase_of stage t = StagePhaseDone \<or>
      cond_IsFalse (as_conditions (ca_status (ad_addon t))) HelmChartTemplatedCondition"
proof (cases "sg_name stage \<in> set (in_chartMap inp)")
  case True
  obtain u where u: "passes env inp stage s u" "check_stage env inp stage u = StageReturn (Inr False) t"
    using assms(1) True stage_loop_passes by (fastforce simp: executeStage_def)
  have ok: "conds_ok (as_conditions (ca_status (ad_addon u)))"
    using passes_frame[OF u(1)] assms(2) by (simp add: stage_frame_def)
  show ?thesis
  proof (cases "phase_of stage s = StagePhaseNone")
    case none: True
    then have "check_stage env inp stage s = StageReturn (Inr False) s" by (simp add: check_stage_def)
    then have "t = s" using assms(1) True by (simp add: executeStage_def stage_loop.simps[of env inp stage s])
    then show ?thesis using True none by simp
  next
    case False
    then show ?thesis using returns_False[OF u(2) passes_phase_known[OF u(1)] ok] True by simp
  qed
next
  case False
  then show ?thesis using assms by (auto simp: executeStage_def stage_simps cond_simps)
qed

section \<open>A sample environment\<close>

text \<open>
  A release with one chart, called \<open>cni\<close>, whose values are the defaults of the chart; the
  configuration of the stages is a parameter, and \<open>None\<close> stands for a release without one.
\<close>

definition addon_fs :: "Config option \<Rightarrow> file_system" where
  "addon_fs config = \<lparr>
     fs_stat = (\<lambda>path. if has_suffix path OverwriteYaml \<or> path = [] \<or>
         config = None \<and> has_suffix path ClusterAddonYamlName then StatNotExist else StatOk),
     fs_readFile = (\<lambda>_. Some []),
     fs_readDir = (\<lambda>path. if has_suffix path ''cluster-addon-v2'' then Some [(''cni'', True)]
       else Some [(''docker-ferrol-1-27-cluster-class-v1.tgz'', False),
                  (''docker-ferrol-1-27-cluster-addon-v2.tgz'', False)])\<rparr>"

definition addon_archive :: archive_library where
  "addon_archive = \<lparr>al_mkdirAll = (\<lambda>_ _. True), al_open = (\<lambda>_ _. True), al_gzip = (\<lambda>_ _. True),
     al_entries = (\<lambda>_ _. [TarHeader ''cni/Chart.yaml'' TypeReg]), al_create = (\<lambda>_ _. True),
     al_copy = (\<lambda>_ _. True), al_closeOutput = (\<lambda>_ _. True), al_closeArchive = (\<lambda>_ _. True)\<rparr>"

definition addon_cel :: "bool \<Rightarrow> cel_library" where
  "addon_cel b = \<lparr>cel_newEnv = None, cel_extend = (\<lambda>_ _. None), cel_compile = (\<lambda>_ _. True),
     cel_program = (\<lambda>_ _. None), cel_eval = (\<lambda>_ _ _. Inr (CelBool b))\<rparr>"

definition addon_cluster :: Cluster where
  "addon_cluster = \<lparr>cl_meta = empty_meta\<lparr>m_name := ''c'', m_namespace := ''ns''\<rparr>,
     cl_topology = Some \<lparr>top_class = ''docker-ferrol-1-27-v1'', top_version = ''1.27.3''\<rparr>,
     cl_controlPlaneRef = None, cl_infrastructureRef = None\<rparr>"

definition sample_addon_env :: "ClusterAddon \<Rightarrow> Config option \<Rightarrow> bool \<Rightarrow> addon_env" where
  "sample_addon_env a config cel = \<lparr>ae_get = Inr a, ae_newHelper = None,
     ae_getCluster = (\<lambda>_. Inr addon_cluster), ae_restConfig = Inr True, ae_newInterface = None,
     ae_readyz = True, ae_fs = (\<lambda>_. addon_fs config), ae_archive = addon_archive,
     ae_unmarshalMetadata = (\<lambda>_. Some sample_metadata), ae_unmarshalConfig = (\<lambda>_. config),
     ae_unmarshalValues = (\<lambda>_. Some (JObject [])), ae_directory = ''/tmp'', ae_newAssetsClient = None,
     ae_download = (\<lambda>_ _. None), ae_removeAll = (\<lambda>_. None), ae_exec = (\<lambda>_ _ _. Some ''x''),
     ae_getExternal = (\<lambda>_ _. Inr []), ae_templateParse = (\<lambda>_ _. True),
     ae_templateExecute = (\<lambda>_ _. Some []), ae_cel = addon_cel cel,
     ae_getDynamic = (\<lambda>_ _ _ _. Inr []), ae_yaml = sample_library, ae_kube = sample_api None,
     ae_patch = (\<lambda>_. None)\<rparr>"

definition sample_stage :: "WaitForCondition \<Rightarrow> Stage" where
  "sample_stage pre = \<lparr>sg_name = ''cni'', sg_action = ActionApply, sg_pre = pre, sg_post = no_condition\<rparr>"

definition node_ready :: WaitForCondition where
  "node_ready = \<lparr>wf_objects = Some [\<lparr>so_key = ''node'', so_apiVersion = ''v1'', so_name = ''n'',
     so_kind = ''Node'', so_namespace = []\<rparr>], wf_conditions = ''node.status.ready''\<rparr>"

definition sample_input :: addon_input where
  "sample_input = \<lparr>in_chartPath = ''/tmp/a.tgz'', in_valuesPath = ''/tmp/v.yaml'', in_configPath = ''/tmp/c.yaml'',
     in_kubernetesVersion = ''1.27.3'', in_oldKubernetesVersion = [], in_cluster = addon_cluster,
     in_chartMap = [''cni''], in_newDir = ''/tmp/a'', in_oldDir = []\<rparr>"

definition stage_start :: "StagePhase \<Rightarrow> addon_state" where
  "stage_start p = \<lparr>ad_addon = fresh_addon\<lparr>ca_status := (ca_status fresh_addon)\<lparr>as_stages :=
       [\<lparr>ss_name = ''cni'', ss_action = ActionApply, ss_phase = p\<rparr>]\<rparr>\<rparr>,
     ad_kube = [], ad_files = [], ad_assets = [], ad_locked = False\<rparr>"

definition sample_run :: "bool \<Rightarrow> (addon_stop, bool) result \<times> addon_state" where
  "sample_run cel = executeStage (sample_addon_env fresh_addon None cel) sample_input
     (sample_stage node_ready) (stage_start StagePhasePending)"

lemma sample_run_facts:
  "fst (sample_run True) = Inr False" "ad_kube (snd (sample_run True)) \<noteq> []"
  "phase_of (sample_stage node_ready) (snd (sample_run True)) = StagePhaseDone"
  "phase_of (sample_stage node_ready) (snd (sample_run False)) = StagePhaseWaitingForPreCondition"
  subgoal by code_simp
  subgoal by code_simp
  subgoal by code_simp
  subgoal by code_simp
  done

lemma sample_run_eq:
  "executeStage (sample_addon_env fresh_addon None cel) sample_input (sample_stage node_ready)
     (stage_start StagePhasePending) = (fst (sample_run cel), snd (sample_run cel))"
  by (simp add: sample_run_def)


theorem stage_writes_after_precondition_witness:
  "pre_holds (sample_addon_env fresh_addon None True) (sample_stage node_ready) (stage_start StagePhasePending)"
proof -
  have "phase_of (sample_stage node_ready) (stage_start StagePhasePending) = StagePhasePending" by code_simp
  moreover have "ad_kube (snd (sample_run True)) \<noteq> ad_kube (stage_start StagePhasePending)"
    using sample_run_facts(2) by (simp add: stage_start_def)
  ultimately show ?thesis
    using stage_writes_after_precondition[OF sample_run_eq[of True]] by simp
qed

theorem stage_done_or_reported_witness:
  "phase_of (sample_stage node_ready) (snd (sample_run True)) = StagePhaseDone \<or>
   cond_IsFalse (as_conditions (ca_status (ad_addon (snd (sample_run True))))) HelmChartTemplatedCondition"
proof -
  have run: "executeStage (sample_addon_env fresh_addon None True) sample_input (sample_stage node_ready)
     (stage_start StagePhasePending) = (Inr False, snd (sample_run True))"
    using sample_run_eq[of True] sample_run_facts(1) by simp
  have conds: "conds_ok (as_conditions (ca_status (ad_addon (stage_start StagePhasePending))))"
    by (simp add: stage_start_def fresh_addon_def)
  have "sg_name (sample_stage node_ready) \<in> set (in_chartMap sample_input)" by code_simp
  moreover have "phase_of (sample_stage node_ready) (stage_start StagePhasePending) \<noteq> StagePhaseNone" by code_simp
  ultimately show ?thesis using stage_done_or_reported[OF run conds] by simp
qed

theorem stage_jumps_at_most_twice_witness:
  "\<exists>s u t. jumps (sample_addon_env fresh_addon None True) sample_input (sample_stage node_ready) s u \<and>
     jumps (sample_addon_env fresh_addon None True) sample_input (sample_stage node_ready) u t \<and> (2 :: nat) \<le> 2"
proof -
  let ?j = "jumps (sample_addon_env fresh_addon None True) sample_input (sample_stage node_ready)"
  let ?s = "stage_start StagePhasePending"
  let ?c = "\<lambda>s. check_stage (sample_addon_env fresh_addon None True) sample_input (sample_stage node_ready) s"
  have "(case ?c ?s of GotoCheck u \<Rightarrow> (case ?c u of GotoCheck t \<Rightarrow> True | _ \<Rightarrow> False) | _ \<Rightarrow> False)" by code_simp
  then obtain u t where "?j ?s u" "?j u t" by (auto simp: jumps_def split: stage_step.splits)
  moreover from this have "(?j ^^ 2) ?s t" by (auto simp: numeral_2_eq_2)
  note stage_jumps_at_most_twice[OF this]
  ultimately show ?thesis by blast
qed

end
