(* ===== verification/AddonController.thy ===== *)
theory AddonController
  imports AddonStages
begin

text \<open>
  The reconciliation of a ClusterAddon (\<open>internal/controller/clusteraddon_controller.go\<close>): the
  flow with a single chart, the flow with stages, the download of the old release and the clean-up
  after an upgrade. The mutex of the download directory belongs to the reconciler and outlives a
  reconciliation, so whether it is held is part of the state. Events, log lines and the tuning of
  the client (\<open>QPS\<close>, \<open>Burst\<close>) are left out.
\<close>

section \<open>Exits\<close>

datatype addon_exit = AddonDone | AddonRequeueAfter nat | AddonStop addon_stop

definition beforeClusterUpgradeHook :: string where
  "beforeClusterUpgradeHook = ''BeforeClusterUpgrade''"

definition afterControlPlaneInitialized :: string where
  "afterControlPlaneInitialized = ''AfterControlPlaneInitialized''"

definition set_spec :: "(ClusterAddonSpec \<Rightarrow> ClusterAddonSpec) \<Rightarrow> addon_state \<Rightarrow> addon_state" where
  "set_spec f = map_addon (\<lambda>a. a\<lparr>ca_spec := f (ca_spec a)\<rparr>)"

definition set_ready :: "bool \<Rightarrow> addon_state \<Rightarrow> addon_state" where
  "set_ready b = map_addon (\<lambda>a. a\<lparr>ca_status := (ca_status a)\<lparr>as_ready := b\<rparr>\<rparr>)"

definition set_stages :: "StageStatus list \<Rightarrow> addon_state \<Rightarrow> addon_state" where
  "set_stages ss = map_addon (\<lambda>a. a\<lparr>ca_status := (ca_status a)\<lparr>as_stages := ss\<rparr>\<rparr>)"

abbreviation addon_spec :: "addon_state \<Rightarrow> ClusterAddonSpec" where
  "addon_spec s \<equiv> ca_spec (ad_addon s)"

abbreviation addon_status :: "addon_state \<Rightarrow> ClusterAddonStatus" where
  "addon_status s \<equiv> ca_status (ad_addon s)"

section \<open>Objects of a release\<close>

text \<open>
  Resources are pointers in the source, and two lists are compared by the identity of the pointers.
  A pointer is a pair of an address and the resource it points to.
\<close>

definition allocate :: "nat \<Rightarrow> Resource list \<Rightarrow> (nat \<times> Resource) list" where
  "allocate next rs = zip [next..<next + length rs] rs"

definition removeResourcesFromCurrentListOfObjects ::
    "(nat \<times> Resource) list \<Rightarrow> (nat \<times> Resource) list \<Rightarrow> (nat \<times> Resource) list" where
  "removeResourcesFromCurrentListOfObjects baseList itemsToRemove =
     filter (\<lambda>item. fst item \<notin> fst ` set itemsToRemove) baseList"

record release_objects =
  ro_values :: string
  ro_resources :: "(nat \<times> Resource) list"
  ro_next :: nat

definition no_objects :: release_objects where
  "no_objects = \<lparr>ro_values = [], ro_resources = [], ro_next = 0\<rparr>"

text \<open>
  One stage of the loops of \<open>getNewReleaseObjects\<close> and \<open>getOldReleaseObjects\<close>. The values are a
  variable outside the loop: a stage without a file of values gets those of the stage before it.
  A missing Kubernetes version is the one of a nil release, a panic where it is read.
\<close>

definition collect_stage ::
    "addon_env \<Rightarrow> file_system \<Rightarrow> Cluster \<Rightarrow> string \<Rightarrow> string option \<Rightarrow> Stage \<Rightarrow> release_objects
      \<Rightarrow> addon_stop option \<times> release_objects" where
  "collect_stage env fs cluster dir kubernetesVersion stage st =
     (let overwrite = filepath_Join [dir, sg_name stage, OverwriteYaml] in
      case (if fs_stat fs overwrite = StatOk
            then buildTemplateFromClusterAddonValues env fs overwrite cluster
            else Some (Inr (ro_values st))) of
        None \<Rightarrow> (Some AddonPanic, st)
      | Some (Inl e) \<Rightarrow> (Some (AddonFail (BuildValuesError e)), st)
      | Some (Inr values) \<Rightarrow>
          (case kubernetesVersion of
             None \<Rightarrow> (Some AddonPanic, st)
           | Some version \<Rightarrow>
               (case helmTemplateClusterAddon (ae_exec env) (filepath_Join [dir, sg_name stage]) values version of
                  None \<Rightarrow> (Some (AddonFail HelmChartError), st)
                | Some template \<Rightarrow>
                    (case GetResourcesFromHelmTemplate (ae_yaml env) template of
                       None \<Rightarrow> (Some (AddonFail ResourcesError), st)
                     | Some rs \<Rightarrow>
                         let resource = allocate (ro_next st) rs
                         in (None, \<lparr>ro_values = values,
                              ro_resources = (if sg_action stage = ActionApply then ro_resources st @ resource
                                 else removeResourcesFromCurrentListOfObjects (ro_resources st) resource),
                              ro_next = ro_next st + length rs\<rparr>)))))"

definition collect_stages ::
    "addon_env \<Rightarrow> file_system \<Rightarrow> Cluster \<Rightarrow> string \<Rightarrow> string option \<Rightarrow> Stage list
      \<Rightarrow> (addon_stop, Resource list) result" where
  "collect_stages env fs cluster dir kubernetesVersion stages =
     (case for_each (collect_stage env fs cluster dir kubernetesVersion) stages no_objects of
        (Some stop, _) \<Rightarrow> Inl stop
      | (None, st) \<Rightarrow> Inr (map snd (ro_resources st)))"

definition getNewReleaseObjects ::
    "addon_env \<Rightarrow> addon_input \<Rightarrow> Config \<Rightarrow> addon_state \<Rightarrow> (addon_stop, Resource list) result" where
  "getNewReleaseObjects env inp cfg s =
     collect_stages env (ae_fs env (ad_files s)) (in_cluster inp) (in_newDir inp)
       (Some (in_kubernetesVersion inp)) (hook_stages cfg (cas_hook (addon_spec s)))"

text \<open>The empty path does not exist.\<close>

definition os_Stat :: "file_system \<Rightarrow> string \<Rightarrow> stat_result" where
  "os_Stat fs path = (if path = [] then StatNotExist else fs_stat fs path)"

definition getClusterAddonConfigPath :: "addon_env \<Rightarrow> file_system \<Rightarrow> string \<Rightarrow> (addon_stop, string) result" where
  "getClusterAddonConfigPath env fs clusterClassName =
     (let path = filepath_Join [ae_directory env, ClusterStackSuffix,
            ConvertFromClusterClassToClusterStackFormat clusterClassName, ClusterAddonYamlName] in
      case os_Stat fs path of
        StatOk \<Rightarrow> Inr path
      | StatNotExist \<Rightarrow> Inr []
      | StatFailed \<Rightarrow> Inl (AddonFail ConfigPathError))"

definition old_chart_objects ::
    "addon_env \<Rightarrow> file_system \<Rightarrow> Cluster \<Rightarrow> Release option \<Rightarrow> (addon_stop, Resource list) result" where
  "old_chart_objects env fs cluster oldRelease =
     (case oldRelease of
        None \<Rightarrow> Inl AddonPanic
      | Some rel \<Rightarrow>
          (case buildTemplateFromClusterAddonValues env fs (ClusterAddonValuesPath rel) cluster of
             None \<Rightarrow> Inl AddonPanic
           | Some (Inl e) \<Rightarrow> Inl (AddonFail (BuildValuesError e))
           | Some (Inr values) \<Rightarrow>
               (case helmTemplateClusterAddon (ae_exec env) (ClusterAddonChartPath fs rel) values
                       (md_kubernetes (rel_meta rel)) of
                  None \<Rightarrow> Inl (AddonFail HelmChartError)
                | Some template \<Rightarrow>
                    (case GetResourcesFromHelmTemplate (ae_yaml env) template of
                       None \<Rightarrow> Inl (AddonFail ResourcesError)
                     | Some rs \<Rightarrow> Inr rs))))"

definition getOldReleaseObjects ::
    "addon_env \<Rightarrow> addon_input \<Rightarrow> Config \<Rightarrow> Release option \<Rightarrow> addon_state \<Rightarrow> (addon_stop, Resource list) result" where
  "getOldReleaseObjects env inp cfg oldRelease s =
     (let fs = ae_fs env (ad_files s) in
      case getClusterAddonConfigPath env fs (cas_clusterStack (addon_spec s)) of
        Inl stop \<Rightarrow> Inl stop
      | Inr path \<Rightarrow>
          (case os_Stat fs path of
             StatFailed \<Rightarrow> Inl (AddonFail ConfigPathError)
           | StatNotExist \<Rightarrow> old_chart_objects env fs (in_cluster inp) oldRelease
           | StatOk \<Rightarrow>
               let hook = (if HasStageAnnotation StageAnnotationValueCreated (ad_addon s)
                           then afterControlPlaneInitialized else beforeClusterUpgradeHook)
               in collect_stages env fs (in_cluster inp) (in_oldDir inp)
                    (map_option (md_kubernetes \<circ> rel_meta) oldRelease) (hook_stages cfg hook)))"

section \<open>Cleaning up\<close>

definition delete_extra ::
    "kube_api \<Rightarrow> Resource \<Rightarrow> bool \<times> kube_write list \<Rightarrow> addon_stop option \<times> (bool \<times> kube_write list)" where
  "delete_extra api resource st =
     (let ns = (if r_namespace resource = [] then clusterAddonNamespace else r_namespace resource) in
      case GetDynamicResourceInterface api (snd st) ns (resource_GroupVersionKind resource) of
        Inl e \<Rightarrow> (Some (AddonFail (DeleteInterfaceError e)), st)
      | Inr dr \<Rightarrow>
          (None, (fst st \<or> real_failure (ka_delete api (snd st) dr (r_name resource)) \<noteq> None,
                  snd st @ [WriteDelete dr (r_name resource)])))"

definition extra_resources :: "Resource list \<Rightarrow> Resource list \<Rightarrow> Resource list" where
  "extra_resources oldList newList = filter (\<lambda>item. item \<notin> set newList) oldList"

definition cleanUpResources ::
    "addon_env \<Rightarrow> Resource list \<Rightarrow> Resource list \<Rightarrow> addon_state \<Rightarrow> (addon_stop, bool) result \<times> addon_state" where
  "cleanUpResources env oldList newList s =
     (case for_each (delete_extra (ae_kube env)) (extra_resources oldList newList) (False, ad_kube s) of
        (Some stop, (_, tr)) \<Rightarrow> (Inl stop, s\<lparr>ad_kube := tr\<rparr>)
      | (None, (shouldRequeue, tr)) \<Rightarrow> (Inr shouldRequeue, s\<lparr>ad_kube := tr\<rparr>))"

definition replace_objects ::
    "addon_env \<Rightarrow> addon_input \<Rightarrow> Config \<Rightarrow> Release option \<Rightarrow> addon_state \<Rightarrow> addon_exit option \<times> addon_state" where
  "replace_objects env inp cfg oldRelease s =
     (case getOldReleaseObjects env inp cfg oldRelease s of
        Inl stop \<Rightarrow> (Some (AddonStop stop), s)
      | Inr oldObjects \<Rightarrow>
          (case getNewReleaseObjects env inp cfg s of
             Inl stop \<Rightarrow> (Some (AddonStop stop), s)
           | Inr newObjects \<Rightarrow>
               (case cleanUpResources env oldObjects newObjects s of
                  (Inl stop, s) \<Rightarrow> (Some (AddonStop stop), s)
                | (Inr shouldRequeue, s) \<Rightarrow>
                    (if shouldRequeue then Some (AddonRequeueAfter 20) else None, s))))"

section \<open>A single chart\<close>

definition templateAndApplyClusterAddonHelmChart ::
    "addon_env \<Rightarrow> addon_input \<Rightarrow> addon_state \<Rightarrow> (addon_stop, bool) result \<times> addon_state" where
  "templateAndApplyClusterAddonHelmChart env inp s =
     (case buildTemplateFromClusterAddonValues env (ae_fs env (ad_files s)) (in_valuesPath inp) (in_cluster inp) of
        None \<Rightarrow> (Inl AddonPanic, s)
      | Some (Inl e) \<Rightarrow> (Inl (AddonFail (BuildValuesError e)), s)
      | Some (Inr values) \<Rightarrow>
          (case helmTemplateClusterAddon (ae_exec env) (in_chartPath inp) values (in_kubernetesVersion inp) of
             None \<Rightarrow> (Inl (AddonFail HelmChartError), s)
           | Some template \<Rightarrow>
               let r = Apply (ae_yaml env) (ae_kube env) clusterAddonNamespace template
                         (as_resources (addon_status s)) (ad_kube s);
                   s = s\<lparr>ad_kube := kr_trace r\<rparr>
               in (case kr_error r of
                     Some e \<Rightarrow> (Inl (AddonFail (ApplyChartError e)), s)
                   | None \<Rightarrow> (Inr (kr_requeue r), map_addon (set_resources (kr_resources r)) s))))"

text \<open>What the caller does with a chart that could not be applied at all.\<close>

definition not_applied :: "addon_stop \<Rightarrow> addon_state \<Rightarrow> addon_exit \<times> addon_state" where
  "not_applied stop s = (AddonStop stop,
     (case stop of
        AddonFail e \<Rightarrow> mark_addon (cond_MarkFalse HelmChartAppliedCondition FailedToApplyObjectsReason
          ConditionSeverityError) s
      | _ \<Rightarrow> s))"

definition partly_applied :: "addon_state \<Rightarrow> addon_exit \<times> addon_state" where
  "partly_applied s = (AddonRequeueAfter 20, mark_addon (cond_MarkFalse HelmChartAppliedCondition
     FailedToApplyObjectsReason ConditionSeverityInfo) s)"

definition finish_new_stack :: "string \<Rightarrow> addon_state \<Rightarrow> addon_exit \<times> addon_state" where
  "finish_new_stack class_name s = (AddonDone, set_ready True
     (set_spec (\<lambda>sp. sp\<lparr>cas_hook := [], cas_clusterStack := class_name\<rparr>)
       (map_addon (SetStageAnnotations StageAnnotationValueCreated) s)))"

definition finish_same_stack :: "addon_state \<Rightarrow> addon_exit \<times> addon_state" where
  "finish_same_stack s = (AddonDone, set_ready True
     (map_addon (SetStageAnnotations StageAnnotationValueCreated) (set_spec (\<lambda>sp. sp\<lparr>cas_hook := []\<rparr>) s)))"

definition single_chart ::
    "addon_env \<Rightarrow> addon_input \<Rightarrow> Release \<Rightarrow> string \<Rightarrow> addon_state \<Rightarrow> addon_exit \<times> addon_state" where
  "single_chart env inp rel class_name s =
     (let version = md_clusterAddon (rel_meta rel) in
      if cas_clusterStack (addon_spec s) \<noteq> class_name then
        if cas_version (addon_spec s) \<noteq> version then
          (case templateAndApplyClusterAddonHelmChart env inp (set_ready False s) of
             (Inl stop, s) \<Rightarrow> not_applied stop s
           | (Inr True, s) \<Rightarrow> partly_applied
               (set_spec (\<lambda>sp. sp\<lparr>cas_version := version, cas_clusterStack := class_name\<rparr>) s)
           | (Inr False, s) \<Rightarrow> finish_new_stack class_name (mark_addon (cond_MarkTrue HelmChartAppliedCondition)
               (set_spec (\<lambda>sp. sp\<lparr>cas_version := version\<rparr>) s)))
        else finish_new_stack class_name s
      else if cond_IsFalse (as_conditions (addon_status s)) HelmChartAppliedCondition then
        (case templateAndApplyClusterAddonHelmChart env inp s of
           (Inl stop, s) \<Rightarrow> not_applied stop s
         | (Inr True, s) \<Rightarrow> partly_applied s
         | (Inr False, s) \<Rightarrow> finish_same_stack (mark_addon (cond_MarkTrue HelmChartAppliedCondition) s))
      else finish_same_stack s)"

section \<open>Stages\<close>

definition getAddonStagesInput ::
    "addon_env \<Rightarrow> string \<Rightarrow> addon_state \<Rightarrow> (string list \<times> string) option \<times> addon_state" where
  "getAddonStagesInput env clusterAddonChart s =
     (if ka_newDynamic (ae_kube env) \<noteq> None \<or> ka_newDiscovery (ae_kube env) \<noteq> None then (None, s)
      else
        let dir = trim_suffix clusterAddonChart ''.tgz'' in
        (case unTarContent (ae_archive env) clusterAddonChart dir (ad_files s) of
           (Some e, fw) \<Rightarrow> (None, s\<lparr>ad_files := fw\<rparr>)
         | (None, fw) \<Rightarrow>
             (case fs_readDir (ae_fs env fw) dir of
                None \<Rightarrow> (None, s\<lparr>ad_files := fw\<rparr>)
              | Some subDirs \<Rightarrow> (Some (map fst subDirs, dir), s\<lparr>ad_files := fw\<rparr>))))"

text \<open>
  The result is the old release, if it can be read, and the request to run again. \<open>Lock\<close> waits
  forever when the mutex is held; a failed download returns without releasing it.
\<close>

definition downloadOldClusterStackRelease ::
    "addon_env \<Rightarrow> addon_state \<Rightarrow> (addon_stop, Release option \<times> bool) result \<times> addon_state" where
  "downloadOldClusterStackRelease env s =
     (let fs = ae_fs env (ad_files s);
          tag = ConvertFromClusterClassToClusterStackFormat (cas_clusterStack (addon_spec s)) in
      case ae_newAssetsClient env of
        Some _ \<Rightarrow>
          (Inr (None, cond_IsFalse (as_conditions (addon_status s)) AssetsClientAPIAvailableCondition),
           mark_addon (cond_MarkFalse AssetsClientAPIAvailableCondition FailedCreateAssetsClientReason
             ConditionSeverityError) s)
      | None \<Rightarrow>
          let s = mark_addon (cond_MarkTrue AssetsClientAPIAvailableCondition) s;
              issue = mark_addon (cond_MarkFalse ClusterStackReleaseAssetsReadyCondition
                IssueWithReleaseAssetsReason ConditionSeverityError) s
          in (case release_New fs (ae_unmarshalMetadata env) tag (ae_directory env) of
                Inl e \<Rightarrow> (Inr (None, True), issue)
              | Inr (rel, download) \<Rightarrow>
                  if download then
                    let s = mark_addon (cond_MarkFalse ClusterStackReleaseAssetsReadyCondition
                          ReleaseAssetsNotDownloadedYetReason ConditionSeverityInfo) s
                    in if ad_locked s then (Inl AddonBlocked, s)
                       else (case downloadReleaseAssets (ae_download env) (ae_removeAll env) tag (rel_path rel) of
                           (Some e, ws) \<Rightarrow> (Inl (AddonFail (OldReleaseError e)),
                              s\<lparr>ad_locked := True, ad_assets := ad_assets s @ ws\<rparr>)
                         | (None, ws) \<Rightarrow> (Inr (None, True), s\<lparr>ad_assets := ad_assets s @ ws\<rparr>))
                  else (case CheckHelmCharts fs rel of
                      Some e \<Rightarrow> (Inr (None, False), issue)
                    | None \<Rightarrow> (Inr (Some rel, False),
                        mark_addon (cond_MarkTrue ClusterStackReleaseAssetsReadyCondition) s))))"

definition pending_stages :: "Config \<Rightarrow> string \<Rightarrow> StageStatus list" where
  "pending_stages cfg hook = map (\<lambda>stage. \<lparr>ss_name = sg_name stage, ss_action = sg_action stage,
     ss_phase = StagePhasePending\<rparr>) (hook_stages cfg hook)"

definition reset_stages :: "Config \<Rightarrow> string \<Rightarrow> addon_state \<Rightarrow> addon_state" where
  "reset_stages cfg hook s =
     (if as_ready (addon_status s) \<or> as_stages (addon_status s) = []
      then set_stages (pending_stages cfg hook) s else s)"

definition execute_stages ::
    "addon_env \<Rightarrow> addon_input \<Rightarrow> Stage list \<Rightarrow> addon_state \<Rightarrow> addon_exit option \<times> addon_state" where
  "execute_stages env inp stages s =
     for_each (\<lambda>stage s. case executeStage env inp stage s of
         (Inl stop, s) \<Rightarrow> (Some (AddonStop stop), s)
       | (Inr True, s) \<Rightarrow> (Some (AddonRequeueAfter 20), s)
       | (Inr False, s) \<Rightarrow> (None, s)) stages s"

definition same_kubernetes :: "Release option \<Rightarrow> Release \<Rightarrow> bool" where
  "same_kubernetes oldRelease rel =
     (case oldRelease of None \<Rightarrow> False
      | Some old \<Rightarrow> md_kubernetes (rel_meta old) = md_kubernetes (rel_meta rel))"

definition prepare_stages ::
    "Config \<Rightarrow> Release option \<Rightarrow> Release \<Rightarrow> string \<Rightarrow> addon_state \<Rightarrow> addon_state" where
  "prepare_stages cfg oldRelease rel class_name s =
     (let hook = cas_hook (addon_spec s); version = md_clusterAddon (rel_meta rel);
          s = (if hook \<noteq> [] then set_ready False (reset_stages cfg hook s) else s);
          s = (if cas_clusterStack (addon_spec s) \<noteq> class_name \<and> same_kubernetes oldRelease rel
               then if cas_version (addon_spec s) \<noteq> version
                    then mark_addon (cond_Delete HelmChartAppliedCondition)
                           (set_ready False (reset_stages cfg beforeClusterUpgradeHook s))
                    else set_ready True (set_spec (\<lambda>sp. sp\<lparr>cas_clusterStack := class_name\<rparr>) s)
               else s)
      in set_spec (\<lambda>sp. sp\<lparr>cas_version := version\<rparr>) s)"

text \<open>The last steps of a hook that ran to its end.\<close>

definition close_hook :: "addon_state \<Rightarrow> addon_exit \<times> addon_state" where
  "close_hook s = (AddonDone, set_spec (\<lambda>sp. sp\<lparr>cas_hook := []\<rparr>)
     (map_addon (set_resources []) (set_stages [] (mark_addon (cond_MarkTrue HelmChartAppliedCondition) s))))"

definition adopt_stack :: "string \<Rightarrow> addon_state \<Rightarrow> addon_state" where
  "adopt_stack class_name s = set_ready True (set_spec (\<lambda>sp. sp\<lparr>cas_clusterStack := class_name\<rparr>) s)"

definition upgrade_in_place ::
    "addon_env \<Rightarrow> addon_input \<Rightarrow> Config \<Rightarrow> Release option \<Rightarrow> string \<Rightarrow> addon_state \<Rightarrow> addon_exit \<times> addon_state" where
  "upgrade_in_place env inp cfg oldRelease class_name s =
     (let s = set_spec (\<lambda>sp. sp\<lparr>cas_hook := beforeClusterUpgradeHook\<rparr>) s in
      case execute_stages env inp (hook_stages cfg beforeClusterUpgradeHook) s of
        (Some exit, s) \<Rightarrow> (exit, s)
      | (None, s) \<Rightarrow>
          (case replace_objects env inp cfg oldRelease s of
             (Some exit, s) \<Rightarrow> (exit, s)
           | (None, s) \<Rightarrow> close_hook (adopt_stack class_name
               (map_addon (SetStageAnnotations StageAnnotationValueUpgraded) s))))"

definition run_hook ::
    "addon_env \<Rightarrow> addon_input \<Rightarrow> Config \<Rightarrow> Release option \<Rightarrow> string \<Rightarrow> addon_state \<Rightarrow> addon_exit \<times> addon_state" where
  "run_hook env inp cfg oldRelease class_name s =
     (let hook = cas_hook (addon_spec s) in
      if hook = [] then (AddonDone, mark_addon (cond_MarkFalse HookServerReadyCondition
          HookServerUnresponsiveReason ConditionSeverityInfo) s)
      else
        let s = mark_addon (cond_MarkTrue HookServerReadyCondition) s in
        (case execute_stages env inp (hook_stages cfg hook) s of
           (Some exit, s) \<Rightarrow> (exit, s)
         | (None, s) \<Rightarrow>
             if hook = beforeClusterUpgradeHook then
               (case replace_objects env inp cfg oldRelease s of
                  (Some exit, s) \<Rightarrow> (exit, s)
                | (None, s) \<Rightarrow> close_hook (adopt_stack class_name
                    (map_addon (SetStageAnnotations StageAnnotationValueCreated)
                      (map_addon (SetStageAnnotations StageAnnotationValueUpgraded) s))))
             else if hook = afterControlPlaneInitialized then
               close_hook (adopt_stack class_name (map_addon (SetStageAnnotations StageAnnotationValueCreated) s))
             else close_hook s))"

definition run_stages ::
    "addon_env \<Rightarrow> addon_input \<Rightarrow> Config \<Rightarrow> Release option \<Rightarrow> Release \<Rightarrow> string \<Rightarrow> addon_state
      \<Rightarrow> addon_exit \<times> addon_state" where
  "run_stages env inp cfg oldRelease rel class_name s =
     (let s = prepare_stages cfg oldRelease rel class_name s in
      if as_ready (addon_status s) then (AddonDone, s)
      else if same_kubernetes oldRelease rel then upgrade_in_place env inp cfg oldRelease class_name s
      else run_hook env inp cfg oldRelease class_name s)"

text \<open>Without an old release the input is left as it is; a nil release is dereferenced.\<close>

definition load_old_release ::
    "addon_env \<Rightarrow> addon_input \<Rightarrow> addon_state
      \<Rightarrow> (addon_exit, addon_input \<times> Release option) result \<times> addon_state" where
  "load_old_release env inp s =
     (if cas_clusterStack (addon_spec s) = [] then (Inr (inp, None), s)
      else (case downloadOldClusterStackRelease env s of
          (Inl stop, s) \<Rightarrow> (Inl (AddonStop stop), s)
        | (Inr (old, requeue), s) \<Rightarrow>
            if requeue then (Inl (AddonRequeueAfter 10), s)
            else (case old of
                None \<Rightarrow> (Inl (AddonStop AddonPanic), s)
              | Some rel \<Rightarrow>
                  let chart = ClusterAddonChartPath (ae_fs env (ad_files s)) rel;
                      dir = trim_suffix chart ''.tgz'' in
                  (case unTarContent (ae_archive env) chart dir (ad_files s) of
                     (Some e, fw) \<Rightarrow> (Inl (AddonStop (AddonFail (UntarError e))), s\<lparr>ad_files := fw\<rparr>)
                   | (None, fw) \<Rightarrow>
                       (Inr (inp\<lparr>in_oldDir := dir, in_oldKubernetesVersion := md_kubernetes (rel_meta rel)\<rparr>,
                             Some rel), s\<lparr>ad_files := fw\<rparr>)))))"

definition staged_charts ::
    "addon_env \<Rightarrow> addon_input \<Rightarrow> Release \<Rightarrow> string \<Rightarrow> addon_state \<Rightarrow> addon_exit \<times> addon_state" where
  "staged_charts env inp rel class_name s =
     (case getAddonStagesInput env (in_chartPath inp) s of
        (None, s) \<Rightarrow> (AddonDone, mark_addon (cond_MarkFalse ClusterAddonConfigValidatedCondition
            ParsingClusterAddonConfigFailedReason ConditionSeverityError) s)
      | (Some (charts, dir), s) \<Rightarrow>
          let s = mark_addon (cond_MarkTrue ClusterAddonConfigValidatedCondition) s in
          (case ParseConfig (ae_fs env (ad_files s)) (ae_unmarshalConfig env) (in_configPath inp) of
             Inl e \<Rightarrow> (AddonStop (AddonFail (ConfigError e)), s)
           | Inr cfg \<Rightarrow>
               (case load_old_release env (inp\<lparr>in_chartMap := charts, in_newDir := dir\<rparr>) s of
                  (Inl exit, s) \<Rightarrow> (exit, s)
                | (Inr (inp, oldRelease), s) \<Rightarrow> run_stages env inp cfg oldRelease rel class_name s)))"

section \<open>Reconcile\<close>

definition new_input :: "file_system \<Rightarrow> Release \<Rightarrow> Cluster \<Rightarrow> string \<Rightarrow> addon_input" where
  "new_input fs rel cluster configPath =
     \<lparr>in_chartPath = ClusterAddonChartPath fs rel, in_valuesPath = ClusterAddonValuesPath rel,
      in_configPath = configPath, in_kubernetesVersion = md_kubernetes (rel_meta rel),
      in_oldKubernetesVersion = [], in_cluster = cluster, in_chartMap = [], in_newDir = [], in_oldDir = []\<rparr>"

definition reconcile_release_assets ::
    "addon_env \<Rightarrow> Cluster \<Rightarrow> addon_state \<Rightarrow> addon_exit \<times> addon_state" where
  "reconcile_release_assets env cluster s =
     (let s = mark_addon (cond_MarkTrue ClusterReadyCondition) s; fs = ae_fs env (ad_files s) in
      case cl_topology cluster of
        None \<Rightarrow> (AddonStop AddonPanic, s)
      | Some topology \<Rightarrow>
          (case release_New fs (ae_unmarshalMetadata env)
                  (ConvertFromClusterClassToClusterStackFormat (top_class topology)) (ae_directory env) of
             Inl e \<Rightarrow> (AddonRequeueAfter 10, mark_addon (cond_MarkFalse ClusterStackReleaseAssetsReadyCondition
                 IssueWithReleaseAssetsReason ConditionSeverityError) s)
           | Inr (rel, download) \<Rightarrow>
               if download then (AddonRequeueAfter 10, mark_addon (cond_MarkFalse
                 ClusterStackReleaseAssetsReadyCondition ReleaseAssetsNotDownloadedYetReason ConditionSeverityInfo) s)
               else (case CheckHelmCharts fs rel of
                   Some e \<Rightarrow> (AddonDone, mark_addon (cond_MarkFalse ClusterStackReleaseAssetsReadyCondition
                     IssueWithReleaseAssetsReason ConditionSeverityError) s)
                 | None \<Rightarrow>
                     let s = mark_addon (cond_MarkTrue ClusterStackReleaseAssetsReadyCondition) s in
                     (case getClusterAddonConfigPath env fs (top_class topology) of
                        Inl stop \<Rightarrow> (AddonStop stop, s)
                      | Inr configPath \<Rightarrow>
                          if configPath = []
                          then single_chart env (new_input fs rel cluster configPath) rel (top_class topology) s
                          else staged_charts env (new_input fs rel cluster configPath) rel (top_class topology) s))))"

definition reconcile_addon :: "addon_env \<Rightarrow> addon_state \<Rightarrow> addon_exit \<times> addon_state" where
  "reconcile_addon env s =
     (case cas_clusterRef (addon_spec s) of
        None \<Rightarrow> (AddonStop AddonPanic, s)
      | Some ref \<Rightarrow>
          (case ae_getCluster env \<lparr>nn_name = ref_name ref, nn_namespace = ref_namespace ref\<rparr> of
             Inl e \<Rightarrow>
               if IsNotFound e \<and> m_deleting (ca_meta (ad_addon s))
               then (AddonDone, map_addon (\<lambda>a. a\<lparr>ca_meta := RemoveFinalizer ClusterAddonFinalizer (ca_meta a)\<rparr>) s)
               else (AddonStop (AddonFail (FindClusterError e)), s)
           | Inr cluster \<Rightarrow>
               (case ae_restConfig env of
                  Inl e \<Rightarrow> (AddonRequeueAfter 10, mark_addon (cond_MarkFalse ClusterReadyCondition
                      ControlPlaneNotReadyReason ConditionSeverityWarning) s)
                | Inr restConfig \<Rightarrow>
                    if restConfig \<and> ae_newInterface env \<noteq> None
                    then (AddonStop (AddonFail (InterfaceError (the (ae_newInterface env)))), s)
                    else if restConfig \<and> \<not> ae_readyz env
                    then (AddonRequeueAfter 10, mark_addon (cond_MarkFalse ClusterReadyCondition
                      ControlPlaneNotReadyReason ConditionSeverityInfo) s)
                    else reconcile_release_assets env cluster s)))"

record addon_result =
  ar_exit :: addon_exit
  ar_addon :: "ClusterAddon option"
  ar_state :: "addon_state option"
  ar_locked :: bool

text \<open>
  The deferred function summarises the conditions and patches the addon, after a panic as well; a
  reconciliation that waits forever does neither.
\<close>

definition addon_Reconcile :: "addon_env \<Rightarrow> bool \<Rightarrow> addon_result" where
  "addon_Reconcile env locked =
     (case ae_get env of
        Inl e \<Rightarrow> \<lparr>ar_exit = (if IsNotFound e then AddonDone else AddonStop (AddonFail (GetAddonError e))),
                 ar_addon = None, ar_state = None, ar_locked = locked\<rparr>
      | Inr addon \<Rightarrow>
          (case ae_newHelper env of
             Some e \<Rightarrow> \<lparr>ar_exit = AddonStop (AddonFail (AddonHelperError e)), ar_addon = None,
                ar_state = None, ar_locked = locked\<rparr>
           | None \<Rightarrow>
               let (exit, s) = reconcile_addon env
                     \<lparr>ad_addon = addon\<lparr>ca_meta := AddFinalizer ClusterAddonFinalizer (ca_meta addon)\<rparr>,
                      ad_kube = [], ad_files = [], ad_assets = [], ad_locked = locked\<rparr>;
                   final = ca_conditions cond_SetSummary (ad_addon s)
               in if exit = AddonStop AddonBlocked
                  then \<lparr>ar_exit = exit, ar_addon = None, ar_state = Some s, ar_locked = ad_locked s\<rparr>
                  else \<lparr>ar_exit = (case ae_patch env final of
                          Some e \<Rightarrow> (if exit = AddonStop AddonPanic then exit
                                    else AddonStop (AddonFail (PatchAddonError e)))
                        | None \<Rightarrow> exit),
                      ar_addon = Some final, ar_state = Some s, ar_locked = ad_locked s\<rparr>))"

section \<open>Events\<close>

definition cluster_event_filter :: "Cluster \<Rightarrow> Cluster \<Rightarrow> bool" where
  "cluster_event_filter oldCluster newCluster =
     (case (cl_topology oldCluster, cl_topology newCluster) of
        (Some old, Some new) \<Rightarrow> top_class old \<noteq> top_class new
      | _ \<Rightarrow> False)"

definition clusterToClusterAddon :: "Cluster \<Rightarrow> NamespacedName list" where
  "clusterToClusterAddon c = [\<lparr>nn_name = ''cluster-addon-'' @ m_name (cl_meta c),
     nn_namespace = m_namespace (cl_meta c)\<rparr>]"

section \<open>What the steps leave alone\<close>

lemma set_updates [stage_simps]:
  "ad_addon (set_spec f s) = (ad_addon s)\<lparr>ca_spec := f (ca_spec (ad_addon s))\<rparr>"
  "ad_addon (set_ready b s) = (ad_addon s)\<lparr>ca_status := (ca_status (ad_addon s))\<lparr>as_ready := b\<rparr>\<rparr>"
  "ad_addon (set_stages ss s) = (ad_addon s)\<lparr>ca_status := (ca_status (ad_addon s))\<lparr>as_stages := ss\<rparr>\<rparr>"
  "ad_kube (set_spec f s) = ad_kube s" "ad_kube (set_ready b s) = ad_kube s"
  "ad_kube (set_stages ss s) = ad_kube s"
  "ad_files (set_spec f s) = ad_files s" "ad_files (set_ready b s) = ad_files s"
  "ad_files (set_stages ss s) = ad_files s"
  "ad_assets (set_spec f s) = ad_assets s" "ad_assets (set_ready b s) = ad_assets s"
  "ad_assets (set_stages ss s) = ad_assets s"
  "ad_locked (set_spec f s) = ad_locked s" "ad_locked (set_ready b s) = ad_locked s"
  "ad_locked (set_stages ss s) = ad_locked s"
  by (simp_all add: set_spec_def set_ready_def set_stages_def stage_simps)

lemma annotation_fields [stage_simps]:
  "m_finalizers (ca_meta (SetStageAnnotations v a)) = m_finalizers (ca_meta a)"
  "m_deleting (ca_meta (SetStageAnnotations v a)) = m_deleting (ca_meta a)"
  "ca_spec (SetStageAnnotations v a) = ca_spec a"
  "ca_status (SetStageAnnotations v a) = ca_status a"
  by (simp_all add: SetStageAnnotations_def split: option.split)

text \<open>
  No step but the one for a cluster that is gone touches the finalizers; all keep the reference to
  the cluster and the form of the conditions.
\<close>

definition keeps :: "addon_state \<Rightarrow> addon_state \<Rightarrow> bool" where
  "keeps s t \<longleftrightarrow>
     m_finalizers (ca_meta (ad_addon t)) = m_finalizers (ca_meta (ad_addon s)) \<and>
     m_deleting (ca_meta (ad_addon t)) = m_deleting (ca_meta (ad_addon s)) \<and>
     cas_clusterRef (addon_spec t) = cas_clusterRef (addon_spec s) \<and>
     (conds_ok (as_conditions (addon_status s)) \<longrightarrow> conds_ok (as_conditions (addon_status t)))"

lemma keeps_refl [simp]: "keeps s s"
  by (simp add: keeps_def)

lemma keeps_trans: "keeps s t \<Longrightarrow> keeps t u \<Longrightarrow> keeps s u"
  by (simp add: keeps_def)

lemma keeps_updates [simp]:
  "ok_mark g \<Longrightarrow> keeps s t \<Longrightarrow> keeps s (mark_addon g t)"
  "(\<And>sp. cas_clusterRef (f sp) = cas_clusterRef sp) \<Longrightarrow> keeps s t \<Longrightarrow> keeps s (set_spec f t)"
  "keeps s (set_ready b t) = keeps s t"
  "keeps s (set_stages ss t) = keeps s t"
  "keeps s (map_addon (set_resources rs) t) = keeps s t"
  "keeps s (map_addon (SetStageAnnotations v) t) = keeps s t"
  "keeps s (t\<lparr>ad_kube := tr\<rparr>) = keeps s t"
  "keeps s (t\<lparr>ad_files := fw\<rparr>) = keeps s t"
  "keeps s (t\<lparr>ad_assets := ws\<rparr>) = keeps s t"
  "keeps s (t\<lparr>ad_locked := b\<rparr>) = keeps s t"
  by (simp_all add: keeps_def stage_simps ok_mark_def)

lemma stage_frame_keeps: "stage_frame stage s t \<Longrightarrow> keeps s t"
  by (simp add: stage_frame_def keeps_def)

text \<open>Running stages and cleaning up leave the specification and the ready flag alone.\<close>

definition same_addon :: "addon_state \<Rightarrow> addon_state \<Rightarrow> bool" where
  "same_addon s t \<longleftrightarrow> keeps s t \<and> addon_spec t = addon_spec s \<and>
     as_ready (addon_status t) = as_ready (addon_status s) \<and> ad_locked t = ad_locked s"

lemma same_addon_refl [simp]: "same_addon s s"
  by (simp add: same_addon_def)

lemma same_addon_trans: "same_addon s t \<Longrightarrow> same_addon t u \<Longrightarrow> same_addon s u"
  by (auto simp: same_addon_def intro: keeps_trans)

lemma stage_frame_same: "stage_frame stage s t \<Longrightarrow> same_addon s t"
  by (simp add: same_addon_def stage_frame_keeps) (simp add: stage_frame_def)

lemma execute_stages_same:
  assumes "execute_stages env inp stages s = (x, t)"
  shows "same_addon s t"
proof -
  have "same_addon s (snd (execute_stages env inp stages s))"
    unfolding execute_stages_def
  proof (rule for_each_inv[where I = "same_addon s"])
    fix stage u e v
    assume "same_addon s u" and run: "(case executeStage env inp stage u of
         (Inl stop, s) \<Rightarrow> (Some (AddonStop stop), s)
       | (Inr True, s) \<Rightarrow> (Some (AddonRequeueAfter 20), s)
       | (Inr False, s) \<Rightarrow> (None, s)) = (e, v)"
    obtain r where "executeStage env inp stage u = (r, v)"
      using run by (auto split: prod.splits sum.splits bool.splits)
    then show "same_addon s v"
      using \<open>same_addon s u\<close> executeStage_frame stage_frame_same same_addon_trans by blast
  qed simp
  then show ?thesis using assms by simp
qed

lemma replace_objects_same: "replace_objects env inp cfg old s = (x, t) \<Longrightarrow> same_addon s t"
  by (auto simp: replace_objects_def cleanUpResources_def same_addon_def
      split: sum.splits prod.splits option.splits if_splits)

lemma apply_chart_keeps:
  "templateAndApplyClusterAddonHelmChart env inp s = (r, t) \<Longrightarrow> same_addon s t"
  by (auto simp: templateAndApplyClusterAddonHelmChart_def Let_def same_addon_def stage_simps
      split: option.splits sum.splits)

section \<open>Becoming ready\<close>

text \<open>An addon that becomes ready has adopted the class of the cluster.\<close>

definition advances :: "string \<Rightarrow> addon_state \<Rightarrow> addon_state \<Rightarrow> bool" where
  "advances class_name s t \<longleftrightarrow> keeps s t \<and>
     (as_ready (addon_status t) \<longrightarrow> as_ready (addon_status s) \<or> cas_clusterStack (addon_spec t) = class_name)"

lemma advances_same: "same_addon s t \<Longrightarrow> advances class_name s t"
  by (simp add: advances_def same_addon_def)

lemma advances_trans:
  "advances class_name s t \<Longrightarrow> advances class_name t u \<Longrightarrow>
    \<not> as_ready (addon_status t) \<or> as_ready (addon_status s) \<Longrightarrow> advances class_name s u"
  by (auto simp: advances_def intro: keeps_trans)

lemma advances_marks [simp]:
  "ok_mark g \<Longrightarrow> advances class_name s t \<Longrightarrow> advances class_name s (mark_addon g t)"
  "advances class_name s (t\<lparr>ad_kube := tr\<rparr>) = advances class_name s t"
  "advances class_name s (t\<lparr>ad_files := fw\<rparr>) = advances class_name s t"
  by (simp_all add: advances_def stage_simps)

lemma advances_refl [simp]: "advances class_name s s"
  by (simp add: advances_def)

lemma single_chart_advances:
  assumes "single_chart env inp rel class_name s = (x, t)"
  shows "advances class_name s t"
proof -
  obtain r1 s1 where 1: "templateAndApplyClusterAddonHelmChart env inp (set_ready False s) = (r1, s1)" by fastforce
  obtain r2 s2 where 2: "templateAndApplyClusterAddonHelmChart env inp s = (r2, s2)" by fastforce
  note k = apply_chart_keeps[OF 1] apply_chart_keeps[OF 2]
  have "keeps s s1" using k(1) by (auto simp: same_addon_def keeps_def stage_simps)
  then show ?thesis
    using assms k
    by (auto simp: single_chart_def 1 2 Let_def advances_def same_addon_def not_applied_def partly_applied_def
        finish_new_stack_def finish_same_stack_def stage_simps
        split: if_splits sum.splits bool.splits addon_stop.splits)
qed

lemma close_hook_eq:
  "close_hook s = (x, t) \<Longrightarrow> x = AddonDone \<and> keeps s t \<and> ad_kube t = ad_kube s \<and>
    as_ready (addon_status t) = as_ready (addon_status s) \<and>
    cas_clusterStack (addon_spec t) = cas_clusterStack (addon_spec s) \<and> cas_hook (addon_spec t) = []"
  by (auto simp: close_hook_def stage_simps)

lemma adopted_hook_advances:
  assumes "close_hook (adopt_stack class_name u) = (x, t)" and "keeps s u"
  shows "advances class_name s t"
proof -
  have "keeps s (adopt_stack class_name u)"
    and "cas_clusterStack (addon_spec (adopt_stack class_name u)) = class_name"
    using assms(2) by (simp_all add: adopt_stack_def stage_simps)
  then show ?thesis
    using close_hook_eq[OF assms(1)] by (auto simp: advances_def intro: keeps_trans)
qed

lemma same_keeps:
  assumes "same_addon t u" "keeps s t" "\<not> as_ready (addon_status t)"
  shows "keeps s u" "\<not> as_ready (addon_status u)"
  using assms keeps_trans by (auto simp: same_addon_def)

lemma upgrade_in_place_advances:
  assumes "upgrade_in_place env inp cfg old class_name s = (x, t)" and "\<not> as_ready (addon_status s)"
  shows "advances class_name s t"
proof -
  define s0 where "s0 = set_spec (\<lambda>sp. sp\<lparr>cas_hook := beforeClusterUpgradeHook\<rparr>) s"
  obtain x1 s1 where 1: "execute_stages env inp (hook_stages cfg beforeClusterUpgradeHook) s0 = (x1, s1)" by fastforce
  obtain x2 s2 where 2: "replace_objects env inp cfg old s1 = (x2, s2)" by fastforce
  have k: "keeps s s0" "\<not> as_ready (addon_status s0)"
    using assms(2) by (simp_all add: s0_def stage_simps)
  note k1 = same_keeps[OF execute_stages_same[OF 1] k]
  note k2 = same_keeps[OF replace_objects_same[OF 2] k1]
  show ?thesis
    using assms(1) k1 k2 adopted_hook_advances
    by (auto simp: upgrade_in_place_def s0_def[symmetric] 1 2 Let_def advances_def split: option.splits)
qed

lemma run_hook_advances:
  assumes "run_hook env inp cfg old class_name s = (x, t)" and "\<not> as_ready (addon_status s)"
  shows "advances class_name s t"
proof -
  define s0 where "s0 = mark_addon (cond_MarkTrue HookServerReadyCondition) s"
  obtain x1 s1 where 1: "execute_stages env inp (hook_stages cfg (cas_hook (addon_spec s))) s0 = (x1, s1)" by fastforce
  obtain x2 s2 where 2: "replace_objects env inp cfg old s1 = (x2, s2)" by fastforce
  have k: "keeps s s0" "\<not> as_ready (addon_status s0)"
    using assms(2) by (simp_all add: s0_def stage_simps)
  note k1 = same_keeps[OF execute_stages_same[OF 1] k]
  note k2 = same_keeps[OF replace_objects_same[OF 2] k1]
  have other: "advances class_name s t" if "close_hook s1 = (x, t)"
    using close_hook_eq[OF that] k1 by (auto simp: advances_def intro: keeps_trans)
  have stop: "advances class_name s s1" "advances class_name s s2"
    using k1 k2 by (simp_all add: advances_def)
  have adopt: "advances class_name s t" if "close_hook (adopt_stack class_name u) = (x, t)" "keeps s u" for u
    using adopted_hook_advances that by blast
  have adopt1: "close_hook (adopt_stack class_name (map_addon (SetStageAnnotations v) s1)) = (x, t) \<Longrightarrow>
      advances class_name s t" for v
    using adopt[of "map_addon (SetStageAnnotations v) s1"] k1 by simp
  have adopt2: "close_hook (adopt_stack class_name
        (map_addon (SetStageAnnotations v) (map_addon (SetStageAnnotations w) s2))) = (x, t) \<Longrightarrow>
      advances class_name s t" for v w
    using adopt[of "map_addon (SetStageAnnotations v) (map_addon (SetStageAnnotations w) s2)"] k2 by simp
  have empty: "advances class_name s (mark_addon (cond_MarkFalse HookServerReadyCondition
      HookServerUnresponsiveReason ConditionSeverityInfo) s)" by simp
  show ?thesis
    using assms(1) other stop adopt1 adopt2 empty
    by (auto simp: run_hook_def s0_def[symmetric] 1 2 Let_def split: option.splits if_splits)
qed

lemma reset_stages_reads [stage_simps]:
  "ca_spec (ad_addon (reset_stages cfg hook s)) = ca_spec (ad_addon s)"
  "as_ready (ca_status (ad_addon (reset_stages cfg hook s))) = as_ready (ca_status (ad_addon s))"
  "as_conditions (ca_status (ad_addon (reset_stages cfg hook s))) = as_conditions (ca_status (ad_addon s))"
  "ad_kube (reset_stages cfg hook s) = ad_kube s"
  "ad_locked (reset_stages cfg hook s) = ad_locked s"
  "keeps t (reset_stages cfg hook s) = keeps t s"
  by (simp_all add: reset_stages_def stage_simps)

lemma prepare_stages_advances: "advances class_name s (prepare_stages cfg old rel class_name s)"
  by (simp add: prepare_stages_def Let_def advances_def stage_simps)

lemma run_stages_advances:
  assumes "run_stages env inp cfg old rel class_name s = (x, t)"
  shows "advances class_name s t"
proof -
  define u where "u = prepare_stages cfg old rel class_name s"
  have u: "advances class_name s u" by (simp add: u_def prepare_stages_advances)
  consider "t = u" | "\<not> as_ready (addon_status u)" "upgrade_in_place env inp cfg old class_name u = (x, t)"
    | "\<not> as_ready (addon_status u)" "run_hook env inp cfg old class_name u = (x, t)"
    using assms by (auto simp: run_stages_def u_def Let_def split: if_splits)
  then show ?thesis
    using u advances_trans upgrade_in_place_advances run_hook_advances by cases blast+
qed

lemma download_old_same: "downloadOldClusterStackRelease env s = (r, t) \<Longrightarrow>
    keeps s t \<and> addon_spec t = addon_spec s \<and> as_ready (addon_status t) = as_ready (addon_status s)"
  by (auto simp: downloadOldClusterStackRelease_def Let_def stage_simps
      split: option.splits sum.splits prod.splits if_splits)

lemma load_old_same: "load_old_release env inp s = (r, t) \<Longrightarrow>
    keeps s t \<and> addon_spec t = addon_spec s \<and> as_ready (addon_status t) = as_ready (addon_status s)"
  using download_old_same[of env s]
  by (auto simp: load_old_release_def Let_def split: option.splits sum.splits prod.splits if_splits)

lemma stages_input_same: "getAddonStagesInput env chart s = (r, t) \<Longrightarrow> same_addon s t"
  by (auto simp: getAddonStagesInput_def Let_def same_addon_def split: option.splits prod.splits if_splits)

lemma staged_charts_advances:
  assumes "staged_charts env inp rel class_name s = (x, t)"
  shows "advances class_name s t"
proof -
  obtain r1 s1 where 1: "getAddonStagesInput env (in_chartPath inp) s = (r1, s1)" by fastforce
  note a1 = advances_same[OF stages_input_same[OF 1], of class_name]
  define s2 where "s2 = mark_addon (cond_MarkTrue ClusterAddonConfigValidatedCondition) s1"
  have a2: "advances class_name s s2" "as_ready (addon_status s2) = as_ready (addon_status s)"
    using a1 stages_input_same[OF 1] by (simp_all add: s2_def stage_simps same_addon_def)
  have old: "advances class_name s u" "as_ready (addon_status u) = as_ready (addon_status s)"
    if "load_old_release env inp' s2 = (r, u)" for inp' r u
    using load_old_same[OF that] a2 by (auto simp: advances_def intro: keeps_trans)
  have run: "advances class_name s t"
    if "load_old_release env inp' s2 = (r, u)" "run_stages env inp'' cfg old rel class_name u = (x, t)"
    for inp' r u inp'' cfg old
    using old[OF that(1)] run_stages_advances[OF that(2)] advances_trans by blast
  show ?thesis
    using assms a1 a2(1) old(1) run
    by (auto simp: staged_charts_def 1 Let_def s2_def[symmetric] split: option.splits prod.splits sum.splits)
qed

lemma release_assets_advances:
  assumes "reconcile_release_assets env cluster s = (x, t)" and "cl_topology cluster = Some tp"
  shows "advances (top_class tp) s t"
proof -
  define s1 where "s1 = mark_addon (cond_MarkTrue ClusterStackReleaseAssetsReadyCondition)
    (mark_addon (cond_MarkTrue ClusterReadyCondition) s)"
  have a: "advances (top_class tp) s s1" "as_ready (addon_status s1) = as_ready (addon_status s)"
    by (simp_all add: s1_def stage_simps)
  have single: "advances (top_class tp) s t" if "single_chart env inp rel (top_class tp) s1 = (x, t)" for inp rel
    using single_chart_advances[OF that] a advances_trans by blast
  have staged: "advances (top_class tp) s t" if "staged_charts env inp rel (top_class tp) s1 = (x, t)" for inp rel
    using staged_charts_advances[OF that] a advances_trans by blast
  show ?thesis
    using assms a(1) single staged
    by (auto simp: reconcile_release_assets_def Let_def s1_def[symmetric] split: sum.splits option.splits if_splits)
qed

lemma release_assets_keeps:
  assumes "reconcile_release_assets env cluster s = (x, t)"
  shows "keeps s t"
proof (cases "cl_topology cluster")
  case None
  then show ?thesis using assms by (auto simp: reconcile_release_assets_def Let_def)
next
  case (Some tp)
  then show ?thesis using release_assets_advances[OF assms] by (simp add: advances_def)
qed

text \<open>The ways a reconciliation may go, up to the conditions it marks.\<close>

lemma reconcile_addon_cases:
  assumes "reconcile_addon env s = (x, t)"
  obtains (same) "same_addon s t"
    | (gone) ref e where "cas_clusterRef (addon_spec s) = Some ref"
        "ae_getCluster env \<lparr>nn_name = ref_name ref, nn_namespace = ref_namespace ref\<rparr> = Inl e"
        "IsNotFound e" "m_deleting (ca_meta (ad_addon s))" "ca_status (ad_addon t) = ca_status (ad_addon s)"
    | (ready) ref cluster where "cas_clusterRef (addon_spec s) = Some ref"
        "ae_getCluster env \<lparr>nn_name = ref_name ref, nn_namespace = ref_namespace ref\<rparr> = Inr cluster"
        "reconcile_release_assets env cluster s = (x, t)"
  using assms
  by (auto simp: reconcile_addon_def same_addon_def stage_simps split: option.splits sum.splits if_splits)

definition addon_start :: "ClusterAddon \<Rightarrow> bool \<Rightarrow> addon_state" where
  "addon_start addon locked =
     \<lparr>ad_addon = addon\<lparr>ca_meta := AddFinalizer ClusterAddonFinalizer (ca_meta addon)\<rparr>,
      ad_kube = [], ad_files = [], ad_assets = [], ad_locked = locked\<rparr>"

lemma addon_Reconcile_final:
  assumes "ae_get env = Inr addon" and "ar_addon (addon_Reconcile env locked) = Some final"
  obtains x t where "reconcile_addon env (addon_start addon locked) = (x, t)"
    "final = ca_conditions cond_SetSummary (ad_addon t)"
proof -
  obtain x t where "reconcile_addon env (addon_start addon locked) = (x, t)" by fastforce
  then show thesis
    using assms that
    by (auto simp: addon_Reconcile_def addon_start_def[symmetric] Let_def split: option.splits if_splits)
qed

section \<open>Properties\<close>

text \<open>
  C14. The finalizer of a cluster addon is removed in one case only: the addon is being deleted and
  its cluster is gone.
\<close>

theorem addon_finalizer_kept:
  assumes "ae_get env = Inr addon" and "ar_addon (addon_Reconcile env locked) = Some final"
    and "ClusterAddonFinalizer \<notin> set (m_finalizers (ca_meta final))"
  shows "m_deleting (ca_meta addon) \<and>
    (\<exists>ref e. cas_clusterRef (ca_spec addon) = Some ref \<and> IsNotFound e \<and>
      ae_getCluster env \<lparr>nn_name = ref_name ref, nn_namespace = ref_namespace ref\<rparr> = Inl e)"
proof -
  obtain x t where t: "reconcile_addon env (addon_start addon locked) = (x, t)"
    "final = ca_conditions cond_SetSummary (ad_addon t)"
    using assms by (blast elim: addon_Reconcile_final)
  have "\<not> keeps (addon_start addon locked) t"
    using assms(3) t(2) by (auto simp: keeps_def addon_start_def)
  with t(1) show ?thesis
  proof (cases rule: reconcile_addon_cases)
    case (gone ref e)
    then show ?thesis by (auto simp: addon_start_def AddFinalizer_def split: if_splits)
  qed (auto simp: same_addon_def dest: release_assets_keeps)
qed

text \<open>
  C13. An addon that becomes ready records the class its cluster has at that moment.
\<close>

theorem ready_addon_has_class:
  assumes "ae_get env = Inr addon" and "\<not> as_ready (ca_status addon)"
    and "ar_addon (addon_Reconcile env locked) = Some final" and "as_ready (ca_status final)"
  shows "\<exists>ref cluster. cas_clusterRef (ca_spec addon) = Some ref \<and>
      ae_getCluster env \<lparr>nn_name = ref_name ref, nn_namespace = ref_namespace ref\<rparr> = Inr cluster \<and>
      map_option top_class (cl_topology cluster) = Some (cas_clusterStack (ca_spec final))"
proof -
  obtain x t where t: "reconcile_addon env (addon_start addon locked) = (x, t)"
    "final = ca_conditions cond_SetSummary (ad_addon t)"
    using assms by (blast elim: addon_Reconcile_final)
  have r: "as_ready (addon_status t)" "\<not> as_ready (addon_status (addon_start addon locked))"
    using t(2) assms(2,4) by (simp_all add: addon_start_def)
  from t(1) show ?thesis
  proof (cases rule: reconcile_addon_cases)
    case (ready ref cluster)
    obtain tp where tp: "cl_topology cluster = Some tp"
      using ready(3) r by (cases "cl_topology cluster") (auto simp: reconcile_release_assets_def Let_def stage_simps)
    then have "cas_clusterStack (addon_spec t) = top_class tp"
      using release_assets_advances[OF ready(3) tp] r by (simp add: advances_def)
    then show ?thesis using ready t(2) tp by (auto simp: addon_start_def)
  qed (use r in \<open>auto simp: same_addon_def\<close>)
qed

subsection \<open>Upgrades\<close>

lemma close_hook_done: "fst (close_hook s) = AddonDone"
  by (simp add: close_hook_def)

lemma upgrade_in_place_interrupted:
  assumes "upgrade_in_place env inp cfg old class_name s = (x, t)" and "x \<noteq> AddonDone"
  shows "addon_spec t = (addon_spec s)\<lparr>cas_hook := beforeClusterUpgradeHook\<rparr>"
proof -
  define s0 where "s0 = set_spec (\<lambda>sp. sp\<lparr>cas_hook := beforeClusterUpgradeHook\<rparr>) s"
  obtain x1 s1 where 1: "execute_stages env inp (hook_stages cfg beforeClusterUpgradeHook) s0 = (x1, s1)" by fastforce
  obtain x2 s2 where 2: "replace_objects env inp cfg old s1 = (x2, s2)" by fastforce
  have "t = s1 \<or> t = s2"
    using assms close_hook_done
    by (auto simp: upgrade_in_place_def s0_def[symmetric] 1 2 Let_def split: option.splits) (metis fst_conv)
  moreover have "addon_spec s1 = addon_spec s0" "addon_spec s2 = addon_spec s1"
    using execute_stages_same[OF 1] replace_objects_same[OF 2] by (simp_all add: same_addon_def)
  ultimately show ?thesis by (auto simp: s0_def stage_simps)
qed

text \<open>Once the version of the new release is recorded, an upgrade in place counts as finished.\<close>

lemma recorded_version_is_ready:
  assumes "same_kubernetes old rel" and "cas_clusterStack (addon_spec s) \<noteq> class_name"
    and "cas_version (addon_spec s) = md_clusterAddon (rel_meta rel)"
  shows "\<exists>u. run_stages env inp cfg old rel class_name s = (AddonDone, u) \<and>
    as_ready (addon_status u) \<and> cas_clusterStack (addon_spec u) = class_name \<and> ad_kube u = ad_kube s"
  using assms by (simp add: run_stages_def prepare_stages_def Let_def stage_simps)

text \<open>
  C12. An upgrade that keeps the Kubernetes version is not resumed: when it fails or has to be
  repeated, the next reconciliation of the addon, whatever the environment then answers, declares
  the addon ready for the new class without sending anything to the workload cluster.
\<close>

theorem interrupted_upgrade_reported_ready:
  assumes "same_kubernetes old rel" and "cas_clusterStack (addon_spec s) \<noteq> class_name"
    and "cas_version (addon_spec s) \<noteq> md_clusterAddon (rel_meta rel)"
    and "run_stages env inp cfg old rel class_name s = (x, t)" and "x \<noteq> AddonDone"
    and "addon_spec s' = addon_spec t"
  shows "\<exists>u. run_stages env' inp' cfg' old rel class_name s' = (AddonDone, u) \<and>
    as_ready (addon_status u) \<and> cas_clusterStack (addon_spec u) = class_name \<and> ad_kube u = ad_kube s'"
proof -
  define p where "p = prepare_stages cfg old rel class_name s"
  have p: "\<not> as_ready (addon_status p)" "cas_clusterStack (addon_spec p) \<noteq> class_name"
    "cas_version (addon_spec p) = md_clusterAddon (rel_meta rel)"
    using assms(1-3) by (simp_all add: p_def prepare_stages_def Let_def stage_simps)
  have "upgrade_in_place env inp cfg old class_name p = (x, t)"
    using assms(1,4) p(1) by (simp add: run_stages_def p_def Let_def)
  then have "addon_spec t = (addon_spec p)\<lparr>cas_hook := beforeClusterUpgradeHook\<rparr>"
    using upgrade_in_place_interrupted assms(5) by blast
  then show ?thesis using recorded_version_is_ready[of old rel s' class_name] assms(1,6) p by simp
qed

subsection \<open>Charts that are missing or not applied\<close>

lemma execute_stages_without_charts:
  assumes "\<forall>stage\<in>set stages. sg_name stage \<notin> set (in_chartMap inp)"
  obtains t where "execute_stages env inp stages s = (None, t)" "ad_kube t = ad_kube s" "same_addon s t"
proof -
  obtain x t where t: "execute_stages env inp stages s = (x, t)" by fastforce
  have "fst (execute_stages env inp stages s) = None"
    unfolding execute_stages_def using assms by (intro for_each_no_error) (simp add: executeStage_def)
  moreover have "ad_kube (snd (execute_stages env inp stages s)) = ad_kube s"
    unfolding execute_stages_def
    by (rule for_each_inv[where I = "\<lambda>u. ad_kube u = ad_kube s"])
      (use assms in \<open>auto simp: executeStage_def stage_simps\<close>)
  ultimately show thesis using that[of t] t execute_stages_same[OF t] by simp
qed

text \<open>
  A hook whose stages have no chart in the release does nothing and reports everything: the
  addon becomes ready and its charts count as applied.
\<close>

theorem stages_without_charts_reported_applied:
  assumes "cas_hook (addon_spec s) = afterControlPlaneInitialized"
    and "\<forall>stage\<in>set (hook_stages cfg afterControlPlaneInitialized). sg_name stage \<notin> set (in_chartMap inp)"
    and "conds_ok (as_conditions (addon_status s))"
  shows "\<exists>t. run_hook env inp cfg old class_name s = (AddonDone, t) \<and> ad_kube t = ad_kube s \<and>
    as_ready (addon_status t) \<and> cond_IsTrue (as_conditions (addon_status t)) HelmChartAppliedCondition"
proof -
  define s0 where "s0 = mark_addon (cond_MarkTrue HookServerReadyCondition) s"
  obtain t where t: "execute_stages env inp (hook_stages cfg afterControlPlaneInitialized) s0 = (None, t)"
    "ad_kube t = ad_kube s0" "same_addon s0 t"
    using assms(2) by (blast elim: execute_stages_without_charts)
  have "keeps s s0" using assms(3) by (simp add: s0_def)
  then have "conds_ok (as_conditions (addon_status t))"
    using t(3) assms(3) by (simp add: same_addon_def keeps_def)
  moreover have "ad_kube t = ad_kube s" using t(2) by (simp add: s0_def stage_simps)
  moreover have "run_hook env inp cfg old class_name s =
      close_hook (adopt_stack class_name (map_addon (SetStageAnnotations StageAnnotationValueCreated) t))"
    using assms(1) t(1) by (simp add: run_hook_def s0_def[symmetric] Let_def
        afterControlPlaneInitialized_def beforeClusterUpgradeHook_def)
  ultimately show ?thesis
    by (simp add: close_hook_def adopt_stack_def stage_simps cond_simps)
qed

text \<open>
  A chart that was applied only in part is forgotten when the cluster moves to a class with the
  same addon version: the addon becomes ready, nothing is sent, and the condition of the chart
  stays false.
\<close>

theorem partly_applied_chart_forgotten:
  assumes "cas_clusterStack (addon_spec s) \<noteq> class_name"
    and "cas_version (addon_spec s) = md_clusterAddon (rel_meta rel)"
    and "cond_IsFalse (as_conditions (addon_status s)) HelmChartAppliedCondition"
  shows "\<exists>t. single_chart env inp rel class_name s = (AddonDone, t) \<and> ad_kube t = ad_kube s \<and>
    as_ready (addon_status t) \<and> cond_IsFalse (as_conditions (addon_status t)) HelmChartAppliedCondition"
  using assms by (simp add: single_chart_def finish_new_stack_def stage_simps)

subsection \<open>Objects of a release\<close>

text \<open>Every address in use is smaller than the next one to be handed out.\<close>

definition fresh_addresses :: "release_objects \<Rightarrow> bool" where
  "fresh_addresses st \<longleftrightarrow> (\<forall>p\<in>set (ro_resources st). fst p < ro_next st)"

lemma allocate_addresses: "fst ` set (allocate n rs) = {n..<n + length rs}"
  by (simp add: allocate_def flip: set_map)

lemma remove_fresh:
  "\<forall>p\<in>set xs. fst p < n \<Longrightarrow> removeResourcesFromCurrentListOfObjects xs (allocate n rs) = xs"
  by (auto simp: removeResourcesFromCurrentListOfObjects_def allocate_addresses intro!: filter_eq_all)

lemma allocate_bound: "p \<in> set (allocate n rs) \<Longrightarrow> fst p < n + length rs"
  using allocate_addresses[of n rs] by (metis atLeastLessThan_iff imageI)

lemma collect_stage_fresh:
  assumes "fresh_addresses st" and "collect_stage env fs cl dir kv stage st = (x, st')"
  shows "fresh_addresses st' \<and> (sg_action stage \<noteq> ActionApply \<longrightarrow> ro_resources st' = ro_resources st)"
  using assms allocate_bound
  by (fastforce simp: collect_stage_def Let_def fresh_addresses_def remove_fresh
      split: option.splits sum.splits if_splits)

lemma collect_stages_fresh:
  "fresh_addresses (snd (for_each (collect_stage env fs cl dir kv) stages no_objects))"
  by (rule for_each_inv[where I = fresh_addresses])
    (auto simp: fresh_addresses_def no_objects_def dest: collect_stage_fresh[unfolded fresh_addresses_def])

text \<open>
  A stage that deletes a chart takes nothing out of the objects of a release: the pointers of
  its objects are new, so none of them is found among those collected before.
\<close>

theorem delete_stage_removes_nothing:
  assumes "sg_action stage \<noteq> ActionApply"
    and "collect_stages env fs cl dir kv (stages @ [stage]) = Inr rs"
  shows "collect_stages env fs cl dir kv stages = Inr rs"
proof -
  obtain x st where st: "for_each (collect_stage env fs cl dir kv) stages no_objects = (x, st)" by fastforce
  have f: "fresh_addresses st" using collect_stages_fresh[of env fs cl dir kv stages] st by simp
  obtain y st' where st': "collect_stage env fs cl dir kv stage st = (y, st')" by fastforce
  show ?thesis
    using assms st st' collect_stage_fresh[OF f st']
    by (auto simp: collect_stages_def for_each_append split: option.splits)
qed

definition deletion :: "kube_api \<Rightarrow> kube_write list \<Rightarrow> Resource \<Rightarrow> kube_write \<Rightarrow> bool" where
  "deletion api tr r w \<longleftrightarrow> (\<exists>dr. w = WriteDelete dr (r_name r) \<and> GetDynamicResourceInterface api tr
     (if r_namespace r = [] then clusterAddonNamespace else r_namespace r) (resource_GroupVersionKind r) = Inr dr)"

text \<open>One deletion for each resource, each after the writes before it.\<close>

fun deletions :: "kube_api \<Rightarrow> kube_write list \<Rightarrow> Resource list \<Rightarrow> kube_write list \<Rightarrow> bool" where
  "deletions api tr [] ws \<longleftrightarrow> ws = []"
| "deletions api tr (r # rs) ws \<longleftrightarrow>
     (case ws of [] \<Rightarrow> False | w # ws' \<Rightarrow> deletion api tr r w \<and> deletions api (tr @ [w]) rs ws')"

lemma delete_extras:
  "for_each (delete_extra api) rs (rq, tr) = (None, (rq', tr')) \<Longrightarrow>
    \<exists>ws. tr' = tr @ ws \<and> deletions api tr rs ws"
proof (induction rs arbitrary: rq tr)
  case (Cons r rs)
  then obtain dr rq1 where dr: "delete_extra api r (rq, tr) = (None, (rq1, tr @ [WriteDelete dr (r_name r)]))"
      "deletion api tr r (WriteDelete dr (r_name r))"
    by (auto simp: delete_extra_def deletion_def Let_def split: sum.splits)
  with Cons obtain ws where "tr' = (tr @ [WriteDelete dr (r_name r)]) @ ws"
      "deletions api (tr @ [WriteDelete dr (r_name r)]) rs ws"
    by fastforce
  then show ?case using dr(2) by (intro exI[of _ "WriteDelete dr (r_name r) # ws"]) simp
qed simp

lemma deletions_member:
  "deletions api tr rs ws \<Longrightarrow> r \<in> set rs \<Longrightarrow> \<exists>w\<in>set ws. \<exists>tr'. deletion api tr' r w"
  by (induction api tr rs ws rule: deletions.induct) (auto split: list.splits)

lemma cleanUp_writes:
  assumes "cleanUpResources env oldList newList s = (Inr rq, t)"
  obtains ws where "ad_kube t = ad_kube s @ ws"
    "deletions (ae_kube env) (ad_kube s) (extra_resources oldList newList) ws"
proof -
  obtain rq1 tr where "for_each (delete_extra (ae_kube env)) (extra_resources oldList newList) (False, ad_kube s)
      = (None, (rq1, tr))" "t = s\<lparr>ad_kube := tr\<rparr>"
    using assms by (auto simp: cleanUpResources_def split: option.splits prod.splits)
  then show thesis using delete_extras that by fastforce
qed

text \<open>
  C27. After an upgrade the clean-up sends one deletion, in order, for every object of the old
  release that the new release does not have, and nothing else.
\<close>

theorem cleanUp_deletes_exactly_extra:
  assumes "cleanUpResources env oldList newList s = (Inr rq, t)"
  shows "\<exists>ws. ad_kube t = ad_kube s @ ws \<and>
    deletions (ae_kube env) (ad_kube s) (filter (\<lambda>r. r \<notin> set newList) oldList) ws"
proof -
  obtain ws where "ad_kube t = ad_kube s @ ws"
    "deletions (ae_kube env) (ad_kube s) (extra_resources oldList newList) ws"
    using assms by (rule cleanUp_writes)
  then show ?thesis by (intro exI[of _ ws]) (simp add: extra_resources_def)
qed

text \<open>
  Namespaces are compared before the default is filled in: when the new release spells out the
  default namespace of an object that the old release left without one, the clean-up deletes the
  object although the new release has it.
\<close>

theorem cleanUp_deletes_defaulted_object:
  assumes "cleanUpResources env oldList newList s = (Inr rq, t)"
    and "r \<in> set oldList" and "r_namespace r = []" and "r \<notin> set newList"
    and "r' \<in> set newList" and "r' = r\<lparr>r_namespace := clusterAddonNamespace\<rparr>"
  shows "\<exists>w\<in>set (ad_kube t). \<exists>tr. deletion (ae_kube env) tr r' w"
proof -
  obtain ws where ws: "ad_kube t = ad_kube s @ ws"
    "deletions (ae_kube env) (ad_kube s) (extra_resources oldList newList) ws"
    using assms(1) by (rule cleanUp_writes)
  have "r \<in> set (extra_resources oldList newList)" using assms by (simp add: extra_resources_def)
  then obtain w tr where "w \<in> set ws" "deletion (ae_kube env) tr r w"
    using deletions_member[OF ws(2)] by blast
  moreover have "deletion (ae_kube env) tr r' w = deletion (ae_kube env) tr r w"
    using assms(3,6) by (simp add: deletion_def resource_GroupVersionKind_def clusterAddonNamespace_def)
  ultimately show ?thesis using ws(1) by auto
qed

subsection \<open>The old release\<close>

lemma download_failed:
  assumes "downloadOldClusterStackRelease env s = (Inl (AddonFail e), t)"
  shows "ad_locked t"
  using assms by (auto simp: downloadOldClusterStackRelease_def Let_def
      split: option.splits sum.splits prod.splits if_splits)

text \<open>
  After a failed download of an old release the mutex stays locked: every later reconciliation,
  of any addon, that has to download an old release waits forever.
\<close>

theorem failed_download_blocks:
  assumes "downloadOldClusterStackRelease env s = (Inl (AddonFail e), t)"
    and "ad_locked s' = ad_locked t" and "ae_newAssetsClient env' = None"
    and "release_New (ae_fs env' (ad_files s')) (ae_unmarshalMetadata env')
      (ConvertFromClusterClassToClusterStackFormat (cas_clusterStack (addon_spec s'))) (ae_directory env')
      = Inr (rel, True)"
  shows "fst (downloadOldClusterStackRelease env' s') = Inl AddonBlocked"
  using download_failed[OF assms(1)] assms(2-4)
  by (simp add: downloadOldClusterStackRelease_def Let_def stage_simps)

text \<open>
  When the client of the release assets cannot be created, the first reconciliation of an addon
  that already has a cluster stack panics: the old release is nil and is dereferenced.
\<close>

theorem missing_assets_client_panics:
  assumes "cas_clusterStack (addon_spec s) \<noteq> []" and "ae_newAssetsClient env = Some e"
    and "\<not> cond_IsFalse (as_conditions (addon_status s)) AssetsClientAPIAvailableCondition"
  shows "fst (load_old_release env inp s) = Inl (AddonStop AddonPanic)"
  using assms by (simp add: load_old_release_def downloadOldClusterStackRelease_def Let_def)

section \<open>Sample runs\<close>

definition sample_addon :: "bool \<Rightarrow> ClusterAddon" where
  "sample_addon deleting = fresh_addon\<lparr>ca_meta := empty_meta\<lparr>m_name := ''cluster-addon-c'', m_deleting := deleting\<rparr>,
     ca_spec := (ca_spec fresh_addon)\<lparr>cas_clusterRef := Some \<lparr>ref_apiVersion = [], ref_kind = ''Cluster'',
       ref_name = ''c'', ref_namespace = ''ns'', ref_uid = []\<rparr>\<rparr>\<rparr>"

definition gone_env :: addon_env where
  "gone_env = (sample_addon_env (sample_addon True) None True)\<lparr>ae_getCluster := \<lambda>_. Inl (NotFound [])\<rparr>"

lemma gone_finalizer:
  "case ar_addon (addon_Reconcile gone_env False) of
     None \<Rightarrow> False | Some final \<Rightarrow> ClusterAddonFinalizer \<notin> set (m_finalizers (ca_meta final))"
  by code_simp

theorem addon_finalizer_kept_witness: "m_deleting (ca_meta (sample_addon True))"
proof -
  obtain final where f: "ar_addon (addon_Reconcile gone_env False) = Some final"
    "ClusterAddonFinalizer \<notin> set (m_finalizers (ca_meta final))"
    using gone_finalizer by (auto split: option.splits)
  have "ae_get gone_env = Inr (sample_addon True)" by (simp add: gone_env_def sample_addon_env_def)
  from addon_finalizer_kept[OF this f] show ?thesis by blast
qed

lemma sample_addon_ready:
  "case ar_addon (addon_Reconcile (sample_addon_env (sample_addon False) None True) False) of
     None \<Rightarrow> False | Some final \<Rightarrow> as_ready (ca_status final)"
  by code_simp

theorem ready_addon_has_class_witness:
  "\<exists>final. ar_addon (addon_Reconcile (sample_addon_env (sample_addon False) None True) False) = Some final \<and>
     map_option top_class (cl_topology addon_cluster) = Some (cas_clusterStack (ca_spec final))"
proof -
  let ?env = "sample_addon_env (sample_addon False) None True"
  obtain final where f: "ar_addon (addon_Reconcile ?env False) = Some final" "as_ready (ca_status final)"
    using sample_addon_ready by (auto split: option.splits)
  have "ae_get ?env = Inr (sample_addon False)" "\<not> as_ready (ca_status (sample_addon False))"
    by (simp_all add: sample_addon_env_def sample_addon_def fresh_addon_def)
  from ready_addon_has_class[OF this f] f(1) show ?thesis by (auto simp: sample_addon_env_def)
qed

definition sample_config :: Config where
  "sample_config = \<lparr>cfg_apiVersion = [], cfg_clusterAddonVersion = [], cfg_addonStages =
     [(''AfterControlPlaneInitialized'', [sample_stage no_condition]),
      (''BeforeClusterUpgrade'', [sample_stage no_condition])]\<rparr>"

definition refusing_env :: addon_env where
  "refusing_env = (sample_addon_env fresh_addon None True)\<lparr>ae_kube := sample_api (Some (OtherError []))\<rparr>"

definition upgrade_start :: addon_state where
  "upgrade_start = map_addon (\<lambda>a. a\<lparr>ca_spec := (ca_spec a)
     \<lparr>cas_clusterStack := ''docker-ferrol-1-27-v0'', cas_version := ''v1''\<rparr>\<rparr>) (stage_start StagePhaseDone)"

definition interrupted_run :: "addon_exit \<times> addon_state" where
  "interrupted_run = run_stages refusing_env sample_input sample_config (Some sample_loaded) sample_loaded
     ''docker-ferrol-1-27-v1'' (set_ready True upgrade_start)"

lemma interrupted_run_requeues: "fst interrupted_run = AddonRequeueAfter 20"
  by code_simp

theorem interrupted_upgrade_reported_ready_witness:
  "\<exists>u. run_stages refusing_env sample_input sample_config (Some sample_loaded) sample_loaded
      ''docker-ferrol-1-27-v1'' (snd interrupted_run) = (AddonDone, u) \<and> as_ready (addon_status u) \<and>
    cas_clusterStack (addon_spec u) = ''docker-ferrol-1-27-v1'' \<and> ad_kube u = ad_kube (snd interrupted_run)"
proof (rule interrupted_upgrade_reported_ready)
  show "same_kubernetes (Some sample_loaded) sample_loaded" by (simp add: same_kubernetes_def)
  show "cas_clusterStack (addon_spec (set_ready True upgrade_start)) \<noteq> ''docker-ferrol-1-27-v1''"
    "cas_version (addon_spec (set_ready True upgrade_start)) \<noteq> md_clusterAddon (rel_meta sample_loaded)"
    by (simp_all add: upgrade_start_def stage_simps sample_loaded_def)
  show "run_stages refusing_env sample_input sample_config (Some sample_loaded) sample_loaded
      ''docker-ferrol-1-27-v1'' (set_ready True upgrade_start) = (AddonRequeueAfter 20, snd interrupted_run)"
    using interrupted_run_requeues by (metis interrupted_run_def prod.collapse)
qed simp_all

theorem stages_without_charts_reported_applied_witness:
  "\<exists>t. run_hook refusing_env (sample_input\<lparr>in_chartMap := []\<rparr>) sample_config None ''c''
      (set_spec (\<lambda>sp. sp\<lparr>cas_hook := afterControlPlaneInitialized\<rparr>) (stage_start StagePhasePending)) = (AddonDone, t) \<and>
    ad_kube t = [] \<and> as_ready (addon_status t) \<and>
    cond_IsTrue (as_conditions (addon_status t)) HelmChartAppliedCondition"
  using stages_without_charts_reported_applied[of
      "set_spec (\<lambda>sp. sp\<lparr>cas_hook := afterControlPlaneInitialized\<rparr>) (stage_start StagePhasePending)"
      sample_config "sample_input\<lparr>in_chartMap := []\<rparr>" refusing_env None "''c''"]
  by (simp add: stage_simps stage_start_def fresh_addon_def)

theorem partly_applied_chart_forgotten_witness:
  "\<exists>t. single_chart refusing_env sample_input sample_loaded ''c'' (mark_addon (\<lambda>_. [FalseCondition
        HelmChartAppliedCondition FailedToApplyObjectsReason ConditionSeverityInfo])
      (set_spec (\<lambda>sp. sp\<lparr>cas_version := ''v2''\<rparr>) (stage_start StagePhasePending))) = (AddonDone, t) \<and>
    ad_kube t = [] \<and> as_ready (addon_status t) \<and>
    cond_IsFalse (as_conditions (addon_status t)) HelmChartAppliedCondition"
  using partly_applied_chart_forgotten[of "mark_addon (\<lambda>_. [FalseCondition
        HelmChartAppliedCondition FailedToApplyObjectsReason ConditionSeverityInfo])
      (set_spec (\<lambda>sp. sp\<lparr>cas_version := ''v2''\<rparr>) (stage_start StagePhasePending))" "''c''" sample_loaded
      refusing_env sample_input]
  by (simp add: stage_simps stage_start_def fresh_addon_def sample_loaded_def cond_IsFalse_def FalseCondition_def)

definition plain_env :: addon_env where
  "plain_env = sample_addon_env fresh_addon None True"

definition removing_stage :: Stage where
  "removing_stage = (sample_stage no_condition)\<lparr>sg_action := ActionDelete\<rparr>"

lemma sample_collection:
  "\<not> isl (collect_stages plain_env (addon_fs None) addon_cluster ''/d'' (Some ''1.27.3'')
     ([sample_stage no_condition] @ [removing_stage]))"
  by code_simp

theorem delete_stage_removes_nothing_witness:
  "collect_stages plain_env (addon_fs None) addon_cluster ''/d'' (Some ''1.27.3'') [sample_stage no_condition] =
   Inr (projr (collect_stages plain_env (addon_fs None) addon_cluster ''/d'' (Some ''1.27.3'')
     ([sample_stage no_condition] @ [removing_stage])))"
  by (rule delete_stage_removes_nothing[of removing_stage])
    (use sample_collection in \<open>simp_all add: removing_stage_def ActionApply_def ActionDelete_def sum.collapse(2)\<close>)

definition sample_resource :: "string \<Rightarrow> Resource" where
  "sample_resource ns = \<lparr>r_group = ''apps'', r_version = ''v1'', r_kind = ''Deployment'',
     r_namespace = ns, r_name = ''cni'', r_status = [], r_error = []\<rparr>"

definition sample_cleanup :: "(addon_stop, bool) result \<times> addon_state" where
  "sample_cleanup = cleanUpResources plain_env [sample_resource []] [sample_resource clusterAddonNamespace]
     (stage_start StagePhaseDone)"

lemma sample_cleanup_done: "fst sample_cleanup = Inr False"
  by code_simp

lemma sample_cleanup_eq:
  "cleanUpResources plain_env [sample_resource []] [sample_resource clusterAddonNamespace]
     (stage_start StagePhaseDone) = (Inr False, snd sample_cleanup)"
  using sample_cleanup_done by (metis sample_cleanup_def prod.collapse)

theorem cleanUp_deletes_exactly_extra_witness:
  "\<exists>ws. ad_kube (snd sample_cleanup) = ad_kube (stage_start StagePhaseDone) @ ws \<and>
    deletions (ae_kube plain_env) (ad_kube (stage_start StagePhaseDone))
      (filter (\<lambda>r. r \<notin> set [sample_resource clusterAddonNamespace]) [sample_resource []]) ws"
  by (rule cleanUp_deletes_exactly_extra[OF sample_cleanup_eq])

theorem cleanUp_deletes_defaulted_object_witness:
  "\<exists>w\<in>set (ad_kube (snd sample_cleanup)). \<exists>tr. deletion (ae_kube plain_env) tr (sample_resource clusterAddonNamespace) w"
  by (rule cleanUp_deletes_defaulted_object[OF sample_cleanup_eq, of "sample_resource []"])
    (simp_all add: sample_resource_def clusterAddonNamespace_def)

definition download_env :: "string option \<Rightarrow> addon_env" where
  "download_env answer = plain_env\<lparr>ae_fs := \<lambda>_. sample_fs StatNotExist, ae_download := \<lambda>_ _. answer\<rparr>"

definition failed_download :: "(addon_stop, Release option \<times> bool) result \<times> addon_state" where
  "failed_download = downloadOldClusterStackRelease (download_env (Some ''timeout'')) upgrade_start"

definition missing_release :: "Release \<times> bool" where
  "missing_release = projr (release_New (sample_fs StatNotExist) (\<lambda>_. Some sample_metadata)
     ''docker-ferrol-1-27-v0'' ''/tmp'')"

lemma failed_download_facts:
  "fst failed_download = Inl (AddonFail (OldReleaseError (DownloadError ''timeout'')))"
  "release_New (sample_fs StatNotExist) (\<lambda>_. Some sample_metadata) ''docker-ferrol-1-27-v0'' ''/tmp''
     = Inr missing_release"
  "snd missing_release"
  "ConvertFromClusterClassToClusterStackFormat ''docker-ferrol-1-27-v0'' = ''docker-ferrol-1-27-v0''"
  subgoal by code_simp
  subgoal by code_simp
  subgoal by code_simp
  subgoal by code_simp
  done

theorem failed_download_blocks_witness:
  "fst (downloadOldClusterStackRelease (download_env None)
     (upgrade_start\<lparr>ad_locked := ad_locked (snd failed_download)\<rparr>)) = Inl AddonBlocked"
proof (rule failed_download_blocks)
  show "downloadOldClusterStackRelease (download_env (Some ''timeout'')) upgrade_start =
    (Inl (AddonFail (OldReleaseError (DownloadError ''timeout''))), snd failed_download)"
    using failed_download_facts(1) by (metis failed_download_def prod.collapse)
  show "release_New (ae_fs (download_env None) (ad_files (upgrade_start\<lparr>ad_locked := ad_locked (snd failed_download)\<rparr>)))
      (ae_unmarshalMetadata (download_env None)) (ConvertFromClusterClassToClusterStackFormat
        (cas_clusterStack (addon_spec (upgrade_start\<lparr>ad_locked := ad_locked (snd failed_download)\<rparr>))))
      (ae_directory (download_env None)) = Inr (fst missing_release, True)"
    using failed_download_facts(2-4)
    by (simp add: download_env_def plain_env_def sample_addon_env_def upgrade_start_def stage_simps prod_eq_iff)
qed (simp_all add: download_env_def plain_env_def sample_addon_env_def)

theorem missing_assets_client_panics_witness:
  "fst (load_old_release (plain_env\<lparr>ae_newAssetsClient := Some []\<rparr>) sample_input upgrade_start) =
     Inl (AddonStop AddonPanic)"
  by (rule missing_assets_client_panics)
    (simp_all add: upgrade_start_def stage_simps stage_start_def fresh_addon_def cond_IsFalse_def)

end
