(* ===== verification/Hooks.thy ===== *)
theory Hooks
  imports ApiTypes
begin

text \<open>
  The runtime hooks of Cluster API (\<open>extension/hooks.go\<close>) and the controller that creates the
  ClusterAddon of a new cluster (\<open>internal/controller/clusteraddoncreate_controller.go\<close>). The
  handler keeps a record of the hooks it has started, a map from cluster and class to hook. The
  outcome \<open>None\<close> is a nil dereference: of the topology of the cluster, or of the patch helper
  that could not be created.
\<close>

section \<open>The handler\<close>

definition BeforeClusterUpgradeHook :: string where
  "BeforeClusterUpgradeHook = ''BeforeClusterUpgrade''"

datatype response_status = StatusUnset | ResponseStatusSuccess | ResponseStatusFailure

record hook_response =
  rsp_status :: response_status
  rsp_message :: string
  rsp_retryAfter :: nat

type_synonym HookRecord = "(string \<times> string) list"

record hook_env =
  he_get :: "NamespacedName \<Rightarrow> (api_error, ClusterAddon) result"
  he_newHelper :: "string option"
  he_patch :: "ClusterAddon \<Rightarrow> api_error option"

record hook_result =
  hr_response :: hook_response
  hr_record :: HookRecord
  hr_patched :: "ClusterAddon list"

definition SetStatus :: "response_status \<Rightarrow> hook_response \<Rightarrow> hook_response" where
  "SetStatus st r = r\<lparr>rsp_status := st\<rparr>"

definition fail_response :: "string \<Rightarrow> hook_response \<Rightarrow> hook_response" where
  "fail_response msg r = r\<lparr>rsp_status := ResponseStatusFailure, rsp_message := msg\<rparr>"

definition addon_key :: "Cluster \<Rightarrow> NamespacedName" where
  "addon_key cluster = \<lparr>nn_name = ''cluster-addon-'' @ m_name (cl_meta cluster),
     nn_namespace = m_namespace (cl_meta cluster)\<rparr>"

definition getHookRecordKey :: "Cluster \<Rightarrow> string option" where
  "getHookRecordKey cluster = map_option (\<lambda>tp. m_name (cl_meta cluster) @ ''/'' @
     m_namespace (cl_meta cluster) @ ''/'' @ top_class tp) (cl_topology cluster)"

definition hasAlreadyPatchedClusterAddon :: "HookRecord \<Rightarrow> string \<Rightarrow> string \<Rightarrow> bool" where
  "hasAlreadyPatchedClusterAddon rec key hook =
     (case map_of rec key of None \<Rightarrow> False | Some val \<Rightarrow> val = hook)"

text \<open>Setting the hook of an addon and forgetting that its charts were applied.\<close>

definition start_hook :: "string \<Rightarrow> ClusterAddon \<Rightarrow> ClusterAddon" where
  "start_hook hook a = ca_conditions (cond_Delete HelmChartAppliedCondition)
     (a\<lparr>ca_spec := (ca_spec a)\<lparr>cas_hook := hook\<rparr>\<rparr>)"

definition DoBeforeClusterUpgrade ::
    "hook_env \<Rightarrow> HookRecord \<Rightarrow> Cluster \<Rightarrow> hook_response \<Rightarrow> hook_result option" where
  "DoBeforeClusterUpgrade env rec cluster response =
     (case he_get env (addon_key cluster) of
        Inl e \<Rightarrow> Some \<lparr>hr_response = fail_response (error_text e) response, hr_record = rec, hr_patched = []\<rparr>
      | Inr addon \<Rightarrow>
          (case getHookRecordKey cluster of
             None \<Rightarrow> None
           | Some key \<Rightarrow>
               let finish = (\<lambda>a rec' patched resp.
                     \<lparr>hr_response = SetStatus ResponseStatusSuccess
                        (if cond_IsTrue (as_conditions (ca_status a)) HelmChartAppliedCondition
                         then resp else resp\<lparr>rsp_retryAfter := 10\<rparr>),
                      hr_record = rec', hr_patched = patched\<rparr>)
               in if cas_hook (ca_spec addon) \<noteq> ''BeforeClusterUpgrade''
                     \<and> \<not> hasAlreadyPatchedClusterAddon rec key BeforeClusterUpgradeHook
                  then (case he_newHelper env of
                      Some _ \<Rightarrow> None
                    | None \<Rightarrow>
                        let a = start_hook BeforeClusterUpgradeHook addon;
                            resp = (case he_patch env a of
                                Some e \<Rightarrow> fail_response (error_text e) response | None \<Rightarrow> response)
                        in Some (finish a (AList.update key BeforeClusterUpgradeHook rec) [a] resp))
                  else Some (finish addon rec [] response)))"

definition DoAfterClusterUpgrade :: "hook_response \<Rightarrow> hook_response" where
  "DoAfterClusterUpgrade response = SetStatus ResponseStatusSuccess response"

definition DoAfterControlPlaneInitialized ::
    "hook_env \<Rightarrow> HookRecord \<Rightarrow> Cluster \<Rightarrow> hook_response \<Rightarrow> hook_result option" where
  "DoAfterControlPlaneInitialized env rec cluster response =
     (case he_get env (addon_key cluster) of
        Inl e \<Rightarrow> Some \<lparr>hr_response = fail_response (error_text e) response, hr_record = rec, hr_patched = []\<rparr>
      | Inr addon \<Rightarrow>
          if cas_hook (ca_spec addon) \<noteq> ''AfterControlPlaneInitialized''
          then (case he_newHelper env of
              Some _ \<Rightarrow> None
            | None \<Rightarrow>
                let a = start_hook ''AfterControlPlaneInitialized'' addon;
                    resp = (case he_patch env a of
                        Some e \<Rightarrow> fail_response (''failed to patch clusterAddon: '' @ error_text e) response
                      | None \<Rightarrow> response)
                in Some \<lparr>hr_response = SetStatus ResponseStatusSuccess resp, hr_record = rec, hr_patched = [a]\<rparr>)
          else Some \<lparr>hr_response = SetStatus ResponseStatusSuccess response, hr_record = rec, hr_patched = []\<rparr>)"

section \<open>Creating the addon of a cluster\<close>

record addon_create_env =
  ace_getCluster :: "(api_error, Cluster) result"
  ace_getAddon :: "NamespacedName \<Rightarrow> api_error option"
  ace_create :: "ClusterAddon \<Rightarrow> api_error option"

datatype addon_create_error = GetClusterFailed api_error | GetAddonFailed api_error | CreateAddonFailed api_error

definition new_addon :: "Cluster \<Rightarrow> ClusterAddon" where
  "new_addon cluster =
     (let m = cl_meta cluster in
      \<lparr>ca_meta = empty_meta\<lparr>m_name := ''cluster-addon-'' @ m_name m, m_namespace := m_namespace m,
         m_kind := ''ClusterAddon'', m_apiVersion := ''clusterstack.x-k8s.io/v1alpha1'',
         m_ownerReferences := [\<lparr>or_apiVersion = m_apiVersion m, or_kind = m_kind m,
           or_name = m_name m, or_uid = m_uid m\<rparr>]\<rparr>,
       ca_spec = \<lparr>cas_clusterStack = [], cas_version = [], cas_hook = [],
         cas_clusterRef = Some \<lparr>ref_apiVersion = m_apiVersion m, ref_kind = m_kind m,
           ref_name = m_name m, ref_namespace = m_namespace m, ref_uid = m_uid m\<rparr>\<rparr>,
       ca_status = \<lparr>as_resources = [], as_stages = [], as_ready = False, as_conditions = []\<rparr>\<rparr>)"

definition addon_create_Reconcile ::
    "addon_create_env \<Rightarrow> addon_create_error option \<times> ClusterAddon list" where
  "addon_create_Reconcile env =
     (case ace_getCluster env of
        Inl e \<Rightarrow> (if IsNotFound e then None else Some (GetClusterFailed e), [])
      | Inr cluster \<Rightarrow>
          (case ace_getAddon env (addon_key cluster) of
             None \<Rightarrow> (None, [])
           | Some e \<Rightarrow>
               if \<not> IsNotFound e then (Some (GetAddonFailed e), [])
               else (map_option CreateAddonFailed (ace_create env (new_addon cluster)), [new_addon cluster])))"

section \<open>Properties\<close>

text \<open>
  The hook before an upgrade starts the addons of a cluster class once: after a call, further
  calls for the same cluster and class change neither the addon nor the record, whether the patch
  succeeded or not.
\<close>

theorem upgrade_hook_starts_once:
  assumes "DoBeforeClusterUpgrade env rec cluster resp = Some r1" and "hr_patched r1 \<noteq> []"
    and "DoBeforeClusterUpgrade env' (hr_record r1) cluster resp' = Some r2"
  shows "hr_patched r2 = [] \<and> hr_record r2 = hr_record r1"
proof -
  obtain key where k: "getHookRecordKey cluster = Some key"
    "map_of (hr_record r1) key = Some BeforeClusterUpgradeHook"
    using assms(1,2)
    by (auto simp: DoBeforeClusterUpgrade_def Let_def update_conv split: sum.splits option.splits if_splits)
  with assms(3) show ?thesis
    by (auto simp: DoBeforeClusterUpgrade_def Let_def hasAlreadyPatchedClusterAddon_def
        split: sum.splits option.splits if_splits)
qed

text \<open>
  The upgrade goes on only with applied addons: when the handler answers success without
  asking to call again, the addon it read has its charts applied and no hook was started by this
  call.
\<close>

theorem upgrade_waits_for_addon:
  assumes "DoBeforeClusterUpgrade env rec cluster resp = Some r"
    and "conds_ok (as_conditions (ca_status addon))" and "he_get env (addon_key cluster) = Inr addon"
    and "rsp_retryAfter (hr_response r) = 0"
  shows "cond_IsTrue (as_conditions (ca_status addon)) HelmChartAppliedCondition \<and> hr_patched r = []"
  using assms
  by (auto simp: DoBeforeClusterUpgrade_def Let_def start_hook_def SetStatus_def mark_reads
      split: option.splits if_splits)

text \<open>
  A failed patch is answered with success: whenever the handler gets past reading the addon
  it reports success, also when the addon could not be patched.
\<close>

theorem failed_patch_reports_success:
  assumes "DoBeforeClusterUpgrade env rec cluster resp = Some r"
    and "he_get env (addon_key cluster) = Inr addon"
  shows "rsp_status (hr_response r) = ResponseStatusSuccess"
  using assms
  by (auto simp: DoBeforeClusterUpgrade_def Let_def SetStatus_def split: option.splits if_splits)

definition hook_cluster :: Cluster where
  "hook_cluster = \<lparr>cl_meta = empty_meta\<lparr>m_name := ''c'', m_namespace := ''ns''\<rparr>,
     cl_topology = Some \<lparr>top_class = ''docker-ferrol-1-27-v1'', top_version = ''1.27.3''\<rparr>,
     cl_controlPlaneRef = None, cl_infrastructureRef = None\<rparr>"

definition applied_addon :: ClusterAddon where
  "applied_addon = ca_conditions (cond_MarkTrue HelmChartAppliedCondition) fresh_addon"

definition hook_sample :: "string \<Rightarrow> hook_env" where
  "hook_sample hook = \<lparr>he_get = (\<lambda>_. Inr (applied_addon\<lparr>ca_spec := (ca_spec applied_addon)\<lparr>cas_hook := hook\<rparr>\<rparr>)),
     he_newHelper = None, he_patch = (\<lambda>_. Some (OtherError ''conflict''))\<rparr>"

definition empty_response :: hook_response where
  "empty_response = \<lparr>rsp_status = StatusUnset, rsp_message = [], rsp_retryAfter = 0\<rparr>"

definition first_call :: hook_result where
  "first_call = the (DoBeforeClusterUpgrade (hook_sample []) [] hook_cluster empty_response)"

lemma first_call:
  "DoBeforeClusterUpgrade (hook_sample []) [] hook_cluster empty_response = Some first_call \<and>
    hr_patched first_call \<noteq> []"
  unfolding first_call_def by code_simp

theorem upgrade_hook_starts_once_witness:
  "\<exists>r2. DoBeforeClusterUpgrade (hook_sample []) (hr_record first_call) hook_cluster empty_response = Some r2
    \<and> hr_patched r2 = []"
proof -
  have "DoBeforeClusterUpgrade (hook_sample []) (hr_record first_call) hook_cluster empty_response \<noteq> None"
    by code_simp
  then show ?thesis using upgrade_hook_starts_once[of "hook_sample []" "[]" hook_cluster empty_response first_call]
      first_call by blast
qed

theorem upgrade_waits_for_addon_witness:
  "\<exists>r. DoBeforeClusterUpgrade (hook_sample ''BeforeClusterUpgrade'') [] hook_cluster empty_response = Some r \<and>
    hr_patched r = []"
proof -
  let ?r = "the (DoBeforeClusterUpgrade (hook_sample ''BeforeClusterUpgrade'') [] hook_cluster empty_response)"
  have r: "DoBeforeClusterUpgrade (hook_sample ''BeforeClusterUpgrade'') [] hook_cluster empty_response = Some ?r"
    "rsp_retryAfter (hr_response ?r) = 0"
    by code_simp+
  have "conds_ok (as_conditions (ca_status applied_addon))"
    by (simp add: applied_addon_def fresh_addon_def mark_ok)
  then show ?thesis
    using upgrade_waits_for_addon[OF r(1), of "applied_addon\<lparr>ca_spec := (ca_spec applied_addon)
        \<lparr>cas_hook := ''BeforeClusterUpgrade''\<rparr>\<rparr>"] r
    by (auto simp: hook_sample_def)
qed

theorem failed_patch_reports_success_witness:
  "rsp_status (hr_response first_call) = ResponseStatusSuccess \<and>
    he_patch (hook_sample []) (hd (hr_patched first_call)) = Some (OtherError ''conflict'')"
  using failed_patch_reports_success[OF conjunct1[OF first_call],
      of "applied_addon\<lparr>ca_spec := (ca_spec applied_addon)\<lparr>cas_hook := []\<rparr>\<rparr>"]
  by (simp add: hook_sample_def)

end
