(* ===== verification/AssetsClients.thy ===== *)
theory AssetsClients
  imports Addons
begin

text \<open>
  The clients of the release assets (\<open>pkg/assetsclient\<close>: \<open>github\<close>, \<open>oci\<close>, \<open>fake\<close>), the choice
  between them in \<open>cmd/main.go\<close> and the configuration of a workload cluster
  (\<open>pkg/workloadcluster/restconfig.go\<close>). GitHub, the OCI registry, HTTP, the file system and the
  environment variables are parameters.
\<close>

type_synonym environment = "string \<Rightarrow> string option"

definition os_Getenv :: "environment \<Rightarrow> string \<Rightarrow> string" where
  "os_Getenv env name = (case env name of None \<Rightarrow> [] | Some v \<Rightarrow> v)"

datatype config_problem = EnvNotSet string | OnlyGithub

section \<open>GitHub\<close>

definition EnvGitProvider :: string where "EnvGitProvider = ''GIT_PROVIDER''"
definition EnvGitOrgName :: string where "EnvGitOrgName = ''GIT_ORG_NAME''"
definition EnvGitRepositoryName :: string where "EnvGitRepositoryName = ''GIT_REPOSITORY_NAME''"
definition EnvGitAccessToken :: string where "EnvGitAccessToken = ''GIT_ACCESS_TOKEN''"

record GitConfig =
  GitProvider :: string
  GitOrgName :: string
  GitRepoName :: string
  GitAccessToken :: string

text \<open>\<open>val == "" || !ok\<close>: a variable that is unset or empty.\<close>

definition lookup_set :: "environment \<Rightarrow> string \<Rightarrow> string option" where
  "lookup_set env name = (case env name of None \<Rightarrow> None | Some v \<Rightarrow> if v = [] then None else Some v)"

definition NewGitConfig :: "environment \<Rightarrow> (config_problem, GitConfig) result" where
  "NewGitConfig env =
     (case lookup_set env EnvGitProvider of
        None \<Rightarrow> Inl (EnvNotSet EnvGitProvider)
      | Some provider \<Rightarrow>
          if provider \<noteq> ''github'' then Inl OnlyGithub
          else (case lookup_set env EnvGitOrgName of
              None \<Rightarrow> Inl (EnvNotSet EnvGitOrgName)
            | Some org \<Rightarrow>
                (case lookup_set env EnvGitRepositoryName of
                   None \<Rightarrow> Inl (EnvNotSet EnvGitRepositoryName)
                 | Some repo \<Rightarrow> Inr \<lparr>GitProvider = provider, GitOrgName = org, GitRepoName = repo,
                     GitAccessToken = os_Getenv env EnvGitAccessToken\<rparr>)))"

text \<open>
  The answers of GitHub: pointers of a release or an asset that may be nil are options, and the
  body of a response is represented by whether it can be copied and closed.
\<close>

record gh_asset =
  ga_name :: string
  ga_id :: int
  ga_downloadURL :: "string option"

record http_body =
  hb_copy :: bool
  hb_close :: bool

datatype asset_answer = AssetBody http_body | AssetRedirect string

record github_api =
  gh_access :: "GitConfig \<Rightarrow> string option"
  gh_list :: "GitConfig \<Rightarrow> (string, string option list \<times> int option) result"
  gh_byTag :: "GitConfig \<Rightarrow> string \<Rightarrow> (string, gh_asset list \<times> int) result"
  gh_download :: "GitConfig \<Rightarrow> int \<Rightarrow> (string, asset_answer) result"
  gh_newRequest :: "string \<Rightarrow> bool"
  gh_http :: "bool \<Rightarrow> string \<Rightarrow> (string, int \<times> http_body) result"

text \<open>A client: the configuration and whether its HTTP client carries the token.\<close>

record realGhClient =
  gc_config :: GitConfig
  gc_oauth :: bool

datatype assets_error =
    BadConfig config_problem
  | AccessFailed string
  | ListFailed string
  | UnexpectedStatus int
  | TagFailed string
  | TagStatus int
  | CreateDirectory
  | CreateAsset string
  | DownloadAsset string
  | NewRequest
  | GetURL string
  | AssetStatus int
  | CopyAsset
  | CloseResponse
  | CloseAsset
  | NewRepository string
  | ListTags string
  | FileStore
  | CopyArtifacts bool
  | CloseStore

definition verifyAccess :: "github_api \<Rightarrow> GitConfig \<Rightarrow> assets_error option" where
  "verifyAccess gh creds = map_option AccessFailed (gh_access gh creds)"

definition githubAndOAuthClientWithToken :: "github_api \<Rightarrow> GitConfig \<Rightarrow> (assets_error, bool) result" where
  "githubAndOAuthClientWithToken gh creds =
     (case verifyAccess gh creds of
        Some e \<Rightarrow> Inl e
      | None \<Rightarrow> Inr (GitAccessToken creds \<noteq> []))"

definition github_NewClient :: "github_api \<Rightarrow> environment \<Rightarrow> (assets_error, realGhClient) result" where
  "github_NewClient gh env =
     (case NewGitConfig env of
        Inl e \<Rightarrow> Inl (BadConfig e)
      | Inr creds \<Rightarrow>
          (case githubAndOAuthClientWithToken gh creds of
             Inl e \<Rightarrow> Inl e
           | Inr oauth \<Rightarrow> Inr \<lparr>gc_config = creds, gc_oauth = oauth\<rparr>))"

text \<open>A release without a name is dereferenced: \<open>None\<close> is the panic.\<close>

fun release_names :: "string option list \<Rightarrow> string list option" where
  "release_names [] = Some []"
| "release_names (None # rs) = None"
| "release_names (Some n # rs) = map_option ((#) n) (release_names rs)"

definition github_ListRelease ::
    "github_api \<Rightarrow> realGhClient \<Rightarrow> (assets_error, string list) result option" where
  "github_ListRelease gh c =
     (case gh_list gh (gc_config c) of
        Inl e \<Rightarrow> Some (Inl (ListFailed e))
      | Inr (repoRelease, status) \<Rightarrow>
          if status \<noteq> None \<and> status \<noteq> Some 200 then Some (Inl (UnexpectedStatus (the status)))
          else map_option Inr (release_names repoRelease))"

definition getReleaseByTag ::
    "github_api \<Rightarrow> realGhClient \<Rightarrow> string \<Rightarrow> (assets_error, gh_asset list \<times> int) result" where
  "getReleaseByTag gh c tag = map_error TagFailed (gh_byTag gh (gc_config c) tag)"

definition handleRedirect :: "github_api \<Rightarrow> realGhClient \<Rightarrow> string \<Rightarrow> assets_error option" where
  "handleRedirect gh c url =
     (if \<not> gh_newRequest gh url then Some NewRequest
      else (case gh_http gh (gc_oauth c) url of
          Inl e \<Rightarrow> Some (GetURL e)
        | Inr (status, body) \<Rightarrow>
            if status \<noteq> 200 then Some (AssetStatus status)
            else if \<not> hb_copy body then Some CopyAsset
            else if \<not> hb_close body then Some CloseResponse
            else None))"

text \<open>The file operations of a download.\<close>

record asset_files =
  af_mkdirAll :: "string \<Rightarrow> bool"
  af_create :: "string \<Rightarrow> bool"
  af_close :: "string \<Rightarrow> bool"

text \<open>How the loop over the assets may be left: with an error, or by the panic \<open>None\<close>.\<close>

definition fetch_asset ::
    "github_api \<Rightarrow> realGhClient \<Rightarrow> gh_asset \<Rightarrow> assets_error option option" where
  "fetch_asset gh c asset =
     (case gh_download gh (gc_config c) (ga_id asset) of
        Inl e \<Rightarrow> (case ga_downloadURL asset of None \<Rightarrow> None | Some url \<Rightarrow> Some (Some (DownloadAsset url)))
      | Inr (AssetRedirect url) \<Rightarrow> Some (handleRedirect gh c url)
      | Inr (AssetBody body) \<Rightarrow>
          Some (if \<not> hb_copy body then Some CopyAsset
                else if \<not> hb_close body then Some CloseResponse else None))"

definition download_asset ::
    "github_api \<Rightarrow> asset_files \<Rightarrow> realGhClient \<Rightarrow> string \<Rightarrow> gh_asset \<Rightarrow> file_write list
      \<Rightarrow> assets_error option option \<times> file_write list" where
  "download_asset gh files c path asset fw =
     (let assetPath = filepath_Join [path, ga_name asset]; file = filepath_Clean assetPath;
          fw = fw @ [CreateFile file] in
      if \<not> af_create files file then (Some (Some (CreateAsset assetPath)), fw)
      else (case fetch_asset gh c asset of
          None \<Rightarrow> (Some None, fw)
        | Some (Some e) \<Rightarrow> (Some (Some e), fw)
        | Some None \<Rightarrow> (if af_close files file then None else Some (Some CloseAsset), fw)))"

text \<open>The outer option of the result is \<open>None\<close> for a panic; the inner one is the error.\<close>

definition github_DownloadReleaseAssets ::
    "github_api \<Rightarrow> asset_files \<Rightarrow> realGhClient \<Rightarrow> string \<Rightarrow> string \<Rightarrow> assets_error option option \<times> file_write list" where
  "github_DownloadReleaseAssets gh files c tag path =
     (case getReleaseByTag gh c tag of
        Inl e \<Rightarrow> (Some (Some e), [])
      | Inr (assets, status) \<Rightarrow>
          if status \<noteq> 200 then (Some (Some (TagStatus status)), [])
          else if \<not> af_mkdirAll files path then (Some (Some CreateDirectory), [MkdirAll path])
          else (case for_each (download_asset gh files c path) assets [MkdirAll path] of
              (Some None, fw) \<Rightarrow> (None, fw)
            | (Some (Some e), fw) \<Rightarrow> (Some (Some e), fw)
            | (None, fw) \<Rightarrow> (Some None, fw)))"

section \<open>OCI\<close>

definition envOCIRegistry :: string where "envOCIRegistry = ''OCI_REGISTRY''"
definition envOCIRepository :: string where "envOCIRepository = ''OCI_REPOSITORY''"
definition envOCIAccessToken :: string where "envOCIAccessToken = ''OCI_ACCESS_TOKEN''"
definition envOCIUsername :: string where "envOCIUsername = ''OCI_USERNAME''"
definition envOCIPassword :: string where "envOCIPassword = ''OCI_PASSWORD''"

record ociConfig =
  oc_registry :: string
  oc_repository :: string
  oc_accessToken :: string
  oc_username :: string
  oc_password :: string

text \<open>\<open>base64.StdEncoding.EncodeToString\<close> on the bytes of a string.\<close>

definition base64_alphabet :: string where
  "base64_alphabet = ''ABCDEFGHIJKLMNOPQRSTUVWXYZabcdefghijklmnopqrstuvwxyz0123456789+/''"

definition b64 :: "nat \<Rightarrow> char" where "b64 i = base64_alphabet ! (i mod 64)"

fun base64_encode :: "nat list \<Rightarrow> string" where
  "base64_encode [] = []"
| "base64_encode [a] = [b64 (a div 4), b64 (a mod 4 * 16), CHR ''='', CHR ''='']"
| "base64_encode [a, b] = [b64 (a div 4), b64 (a mod 4 * 16 + b div 16), b64 (b mod 16 * 4), CHR ''='']"
| "base64_encode (a # b # c # rest) =
     [b64 (a div 4), b64 (a mod 4 * 16 + b div 16), b64 (b mod 16 * 4 + c div 64), b64 (c mod 64)]
     @ base64_encode rest"

definition EncodeToString :: "string \<Rightarrow> string" where
  "EncodeToString s = base64_encode (map of_char s)"

definition newOCIConfig :: "environment \<Rightarrow> (config_problem, ociConfig) result" where
  "newOCIConfig env =
     (if os_Getenv env envOCIRegistry = [] then Inl (EnvNotSet envOCIRegistry)
      else if os_Getenv env envOCIRepository = [] then Inl (EnvNotSet envOCIRepository)
      else Inr \<lparr>oc_registry = os_Getenv env envOCIRegistry, oc_repository = os_Getenv env envOCIRepository,
        oc_accessToken = EncodeToString (os_Getenv env envOCIAccessToken),
        oc_username = os_Getenv env envOCIUsername, oc_password = os_Getenv env envOCIPassword\<rparr>)"

record oci_api =
  oa_newRepository :: "string \<Rightarrow> string option"
  oa_tags :: "ociConfig \<Rightarrow> (string, string list) result"
  oa_newStore :: "string \<Rightarrow> bool"
  oa_copy :: "ociConfig \<Rightarrow> string \<Rightarrow> string \<Rightarrow> bool"
  oa_closeStore :: "string \<Rightarrow> bool"

definition oci_NewClient :: "oci_api \<Rightarrow> environment \<Rightarrow> (assets_error, ociConfig) result" where
  "oci_NewClient api env =
     (case newOCIConfig env of
        Inl e \<Rightarrow> Inl (BadConfig e)
      | Inr config \<Rightarrow>
          (case oa_newRepository api (oc_repository config) of
             Some e \<Rightarrow> Inl (NewRepository e)
           | None \<Rightarrow> Inr config))"

definition oci_ListRelease :: "oci_api \<Rightarrow> ociConfig \<Rightarrow> (assets_error, string list) result" where
  "oci_ListRelease api c = map_error ListTags (oa_tags api c)"

text \<open>\<open>errors.Join\<close> of the errors of the copy and of the deferred close.\<close>

definition oci_DownloadReleaseAssets ::
    "oci_api \<Rightarrow> ociConfig \<Rightarrow> string \<Rightarrow> string \<Rightarrow> assets_error option" where
  "oci_DownloadReleaseAssets api c tag path =
     (if \<not> oa_newStore api path then Some FileStore
      else if \<not> oa_copy api c tag path then Some (CopyArtifacts (oa_closeStore api path))
      else if \<not> oa_closeStore api path then Some CloseStore
      else None)"

section \<open>Local mode and the choice of a source\<close>

definition fake_ListRelease :: "(assets_error, string list) result" where
  "fake_ListRelease = Inr []"

definition fake_DownloadReleaseAssets :: "string \<Rightarrow> string \<Rightarrow> assets_error option" where
  "fake_DownloadReleaseAssets tag path = None"

datatype assets_factory = FakeFactory | OciFactory | GithubFactory

text \<open>\<open>None\<close>: the program exits with status 1.\<close>

definition choose_factory :: "bool \<Rightarrow> string \<Rightarrow> assets_factory option" where
  "choose_factory localMode source =
     (if localMode then Some FakeFactory
      else if source = ''oci'' then Some OciFactory
      else if source = ''github'' then Some GithubFactory
      else None)"

section \<open>The workload cluster\<close>

datatype rest_error = GetSecret api_error | BadKubeconfig | BadRestConfig

definition RestConfig ::
    "(NamespacedName \<Rightarrow> (api_error, (string \<times> string) list) result) \<Rightarrow> (string \<Rightarrow> 'c option) \<Rightarrow> ('c \<Rightarrow> 'r option)
      \<Rightarrow> string \<Rightarrow> string \<Rightarrow> (rest_error, 'r) result" where
  "RestConfig getSecret newClientConfig clientConfig clusterName namespace =
     (case getSecret \<lparr>nn_name = clusterName @ ''-kubeconfig'', nn_namespace = namespace\<rparr> of
        Inl e \<Rightarrow> Inl (GetSecret e)
      | Inr bytes \<Rightarrow>
          (case newClientConfig (case map_of bytes ''value'' of None \<Rightarrow> [] | Some v \<Rightarrow> v) of
             None \<Rightarrow> Inl BadKubeconfig
           | Some cfg \<Rightarrow> (case clientConfig cfg of None \<Rightarrow> Inl BadRestConfig | Some r \<Rightarrow> Inr r)))"

section \<open>Properties\<close>

text \<open>The test vectors of RFC 4648, section 10.\<close>

lemma base64_vectors:
  "EncodeToString [] = []" "EncodeToString ''f'' = ''Zg==''" "EncodeToString ''fo'' = ''Zm8=''"
  "EncodeToString ''foo'' = ''Zm9v''" "EncodeToString ''foob'' = ''Zm9vYg==''"
  "EncodeToString ''fooba'' = ''Zm9vYmE=''" "EncodeToString ''foobar'' = ''Zm9vYmFy''"
  by code_simp+

lemma base64_length: "length (base64_encode bs) = 4 * ((length bs + 2) div 3)"
proof (induction bs rule: base64_encode.induct)
  case (4 a b c rest)
  then show ?case by simp presburger
qed auto

lemma download_asset_done:
  assumes "download_asset gh files c path asset fw = (None, fw')"
  shows "fw' = fw @ [CreateFile (filepath_Clean (filepath_Join [path, ga_name asset]))] \<and>
    fetch_asset gh c asset = Some None"
  using assms by (auto simp: download_asset_def Let_def split: if_splits option.splits)

lemma download_assets_done:
  "for_each (download_asset gh files c path) assets fw = (None, fw') \<Longrightarrow>
    fw' = fw @ map (\<lambda>a. CreateFile (filepath_Clean (filepath_Join [path, ga_name a]))) assets \<and>
    (\<forall>a\<in>set assets. fetch_asset gh c a = Some None)"
proof (induction assets arbitrary: fw)
  case (Cons a as)
  obtain fw1 where "download_asset gh files c path a fw = (None, fw1)"
    "for_each (download_asset gh files c path) as fw1 = (None, fw')"
    using Cons.prems by (auto split: prod.splits option.splits)
  then show ?case using Cons.IH download_asset_done by fastforce
qed simp

text \<open>
  C39. A download from GitHub that reports success has created one file for every asset of the
  release with that tag, in order and in the given directory, and fetched every asset; nothing
  else was written.
\<close>

theorem github_download_complete:
  assumes "github_DownloadReleaseAssets gh files c tag path = (Some None, fw)"
  shows "\<exists>assets. gh_byTag gh (gc_config c) tag = Inr (assets, 200) \<and>
    fw = MkdirAll path # map (\<lambda>a. CreateFile (filepath_Clean (filepath_Join [path, ga_name a]))) assets \<and>
    (\<forall>a\<in>set assets. fetch_asset gh c a = Some None)"
proof -
  obtain assets where a: "gh_byTag gh (gc_config c) tag = Inr (assets, 200)"
    "for_each (download_asset gh files c path) assets [MkdirAll path] = (None, fw)"
    using assms by (auto simp: github_DownloadReleaseAssets_def getReleaseByTag_def map_error_def
        split: sum.splits prod.splits if_splits option.splits)
  then show ?thesis using download_assets_done[OF a(2)] by simp
qed

definition sample_github :: github_api where
  "sample_github = \<lparr>gh_access = (\<lambda>_. None), gh_list = (\<lambda>_. Inr ([Some ''docker-ferrol-1-27-v1''], Some 200)),
     gh_byTag = (\<lambda>_ _. Inr ([\<lparr>ga_name = ''metadata.yaml'', ga_id = 1, ga_downloadURL = None\<rparr>], 200)),
     gh_download = (\<lambda>_ _. Inr (AssetRedirect ''https://example.org/1'')), gh_newRequest = (\<lambda>_. True),
     gh_http = (\<lambda>_ _. Inr (200, \<lparr>hb_copy = True, hb_close = True\<rparr>))\<rparr>"

definition sample_client :: realGhClient where
  "sample_client = \<lparr>gc_config = \<lparr>GitProvider = ''github'', GitOrgName = ''o'', GitRepoName = ''r'', GitAccessToken = []\<rparr>,
     gc_oauth = False\<rparr>"

definition willing_files :: asset_files where
  "willing_files = \<lparr>af_mkdirAll = (\<lambda>_. True), af_create = (\<lambda>_. True), af_close = (\<lambda>_. True)\<rparr>"

definition sample_download :: "assets_error option option \<times> file_write list" where
  "sample_download = github_DownloadReleaseAssets sample_github willing_files sample_client ''t'' ''/tmp/t''"

lemma sample_download_done: "fst sample_download = Some None"
  by code_simp

theorem github_download_complete_witness:
  "snd sample_download = [MkdirAll ''/tmp/t'', CreateFile ''/tmp/t/metadata.yaml'']"
proof -
  have "github_DownloadReleaseAssets sample_github willing_files sample_client ''t'' ''/tmp/t'' =
      (Some None, snd sample_download)"
    using sample_download_done by (metis sample_download_def prod.collapse)
  moreover have "filepath_Clean (filepath_Join [''/tmp/t'', ''metadata.yaml'']) = ''/tmp/t/metadata.yaml''"
    by code_simp
  ultimately show ?thesis
    using github_download_complete[of sample_github willing_files sample_client "''t''" "''/tmp/t''"]
    by (fastforce simp: sample_github_def)
qed

end
