(* ===== verification/Startup.thy ===== *)
theory Startup
  imports AssetsClients
begin

text \<open>
  The start of the operator (\<open>cmd/main.go\<close>): the options of the command line, the steps that set up
  controllers, webhooks and hook server, and the concurrent run of the manager and the hook server
  until both have stopped. The flag library, the manager and the server are parameters; QPS, burst,
  the client configuration and log lines are left out. The logger (\<open>pkg/utillog\<close>) and the version
  (\<open>pkg/csoversion\<close>) are at the end.
\<close>

section \<open>Options\<close>

record options =
  opt_metricsAddr :: string
  opt_probeAddr :: string
  opt_leaderElection :: bool
  opt_leaderNamespace :: string
  opt_watchFilter :: string
  opt_watchNamespace :: string
  opt_stackConcurrency :: int
  opt_releaseConcurrency :: int
  opt_addonConcurrency :: int
  opt_logLevel :: string
  opt_releaseDir :: string
  opt_localMode :: bool
  opt_source :: string
  opt_hookPort :: int
  opt_hookCertDir :: string

definition default_options :: options where
  "default_options = \<lparr>opt_metricsAddr = '':8080'', opt_probeAddr = '':9440'', opt_leaderElection = True,
     opt_leaderNamespace = [], opt_watchFilter = [], opt_watchNamespace = [], opt_stackConcurrency = 1,
     opt_releaseConcurrency = 1, opt_addonConcurrency = 1, opt_logLevel = ''info'',
     opt_releaseDir = ''/tmp/downloads/'', opt_localMode = False, opt_source = ''github'',
     opt_hookPort = 9442, opt_hookCertDir = ''/tmp/k8s-hook-server/serving-certs/''\<rparr>"

section \<open>Setting up\<close>

datatype controller = ClusterStackController | ClusterStackReleaseController
  | ClusterAddonController | ClusterAddonCreateController

text \<open>
  What a reconciler is built with. Fields that a literal does not name have their zero value; no
  limit of concurrency is the default of the library.
\<close>

record reconciler =
  rc_directory :: string
  rc_assets :: "assets_factory option"
  rc_watchFilter :: string
  rc_concurrency :: "int option"

record manager_options =
  mo_probeAddr :: string
  mo_leaderElection :: bool
  mo_leaderElectionID :: string
  mo_leaderNamespace :: string
  mo_namespaces :: "string list"
  mo_webhookPort :: int

datatype webhook = ClusterStackWebhook bool | ClusterAddonWebhook | ClusterWebhook
  | ClusterStackReleaseWebhook

datatype lifecycle_hook = HookBeforeUpgrade | HookAfterUpgrade
  | HookAfterControlPlane

datatype setup_action =
    NewManager manager_options
  | SetupController controller reconciler
  | SetupWebhook webhook
  | AddHealthzCheck
  | AddReadyzCheck
  | NewHookServer int string
  | AddExtensionHandler lifecycle_hook string

definition manager_of :: "options \<Rightarrow> manager_options" where
  "manager_of opts = \<lparr>mo_probeAddr = opt_probeAddr opts, mo_leaderElection = opt_leaderElection opts,
     mo_leaderElectionID = ''clusterstack.x-k8s.io'', mo_leaderNamespace = opt_leaderNamespace opts,
     mo_namespaces = (if opt_watchNamespace opts \<noteq> [] then [opt_watchNamespace opts] else []),
     mo_webhookPort = 9443\<rparr>"

definition controller_actions :: "options \<Rightarrow> assets_factory \<Rightarrow> setup_action list" where
  "controller_actions opts assets =
     [SetupController ClusterStackController \<lparr>rc_directory = opt_releaseDir opts, rc_assets = Some assets,
        rc_watchFilter = opt_watchFilter opts, rc_concurrency = Some (opt_stackConcurrency opts)\<rparr>,
      SetupController ClusterStackReleaseController \<lparr>rc_directory = opt_releaseDir opts, rc_assets = Some assets,
        rc_watchFilter = opt_watchFilter opts, rc_concurrency = Some (opt_releaseConcurrency opts)\<rparr>,
      SetupController ClusterAddonController \<lparr>rc_directory = opt_releaseDir opts, rc_assets = Some assets,
        rc_watchFilter = opt_watchFilter opts, rc_concurrency = Some (opt_addonConcurrency opts)\<rparr>,
      SetupController ClusterAddonCreateController \<lparr>rc_directory = [], rc_assets = None,
        rc_watchFilter = [], rc_concurrency = None\<rparr>]"

definition setUpWebhookWithManager :: "options \<Rightarrow> setup_action list" where
  "setUpWebhookWithManager opts = map SetupWebhook
     [ClusterStackWebhook (opt_localMode opts), ClusterAddonWebhook, ClusterWebhook, ClusterStackReleaseWebhook]"

definition hook_actions :: "options \<Rightarrow> setup_action list" where
  "hook_actions opts =
     [NewHookServer (opt_hookPort opts) (opt_hookCertDir opts),
      AddExtensionHandler HookBeforeUpgrade ''before-cluster-upgrade'',
      AddExtensionHandler HookAfterUpgrade ''after-cluster-upgrade'',
      AddExtensionHandler HookAfterControlPlane ''after-control-plane-initialized'']"

definition setup_actions :: "options \<Rightarrow> assets_factory \<Rightarrow> setup_action list" where
  "setup_actions opts assets = controller_actions opts assets @ setUpWebhookWithManager opts
     @ [AddHealthzCheck, AddReadyzCheck] @ hook_actions opts"

text \<open>
  Each action is performed in order; \<open>perform\<close> gives the error of an action, if it has one, and
  the first error ends the program with status 1. The result lists the actions that succeeded.
\<close>

type_synonym performer = "setup_action \<Rightarrow> string option"

definition perform_action :: "performer \<Rightarrow> setup_action \<Rightarrow> setup_action list \<Rightarrow> string option \<times> setup_action list" where
  "perform_action perform a performed =
     (case perform a of Some e \<Rightarrow> (Some e, performed) | None \<Rightarrow> (None, performed @ [a]))"

datatype setup_result = SetupExit nat "setup_action list" | SetupDone "setup_action list"

definition main_setup :: "performer \<Rightarrow> options \<Rightarrow> setup_result" where
  "main_setup perform opts =
     (case perform_action perform (NewManager (manager_of opts)) [] of
        (Some e, performed) \<Rightarrow> SetupExit 1 performed
      | (None, performed) \<Rightarrow>
          (case choose_factory (opt_localMode opts) (opt_source opts) of
             None \<Rightarrow> SetupExit 1 performed
           | Some assets \<Rightarrow>
               (case for_each (perform_action perform) (setup_actions opts assets) performed of
                  (Some e, performed) \<Rightarrow> SetupExit 1 performed
                | (None, performed) \<Rightarrow> SetupDone performed)))"

lemma perform_action_simps:
  "perform a = None \<Longrightarrow> perform_action perform a performed = (None, performed @ [a])"
  "perform a = Some e \<Longrightarrow> perform_action perform a performed = (Some e, performed)"
  by (simp_all add: perform_action_def)

lemma for_each_performs:
  "for_each (perform_action perform) as performed = (None, performed') \<Longrightarrow>
     performed' = performed @ as \<and> (\<forall>a\<in>set as. perform a = None)"
proof (induction as arbitrary: performed)
  case (Cons a as)
  have n: "perform a = None"
    using Cons.prems by (cases "perform a") (simp_all add: perform_action_simps)
  then have "for_each (perform_action perform) as (performed @ [a]) = (None, performed')"
    using Cons.prems by (simp add: perform_action_simps)
  from Cons.IH[OF this] n show ?case by simp
qed simp

lemma main_setup_done:
  assumes "main_setup perform opts = SetupDone performed"
  obtains assets where "choose_factory (opt_localMode opts) (opt_source opts) = Some assets"
    and "performed = NewManager (manager_of opts) # setup_actions opts assets"
    and "\<forall>a\<in>set performed. perform a = None"
proof -
  have p: "perform (NewManager (manager_of opts)) = None"
    using assms by (cases "perform (NewManager (manager_of opts))")
      (simp_all add: main_setup_def perform_action_simps)
  with assms obtain assets where f: "choose_factory (opt_localMode opts) (opt_source opts) = Some assets"
    by (cases "choose_factory (opt_localMode opts) (opt_source opts)")
      (simp_all add: main_setup_def perform_action_simps)
  obtain e performed' where l: "for_each (perform_action perform) (setup_actions opts assets)
      [NewManager (manager_of opts)] = (e, performed')"
    by (cases "for_each (perform_action perform) (setup_actions opts assets) [NewManager (manager_of opts)]")
  have e: "e = None \<and> performed' = performed"
    using assms p f l by (cases e) (simp_all add: main_setup_def perform_action_simps)
  show thesis
    using that[OF f] for_each_performs[of perform "setup_actions opts assets"] l e p by fastforce
qed

section \<open>Which events reach a controller\<close>

text \<open>
  \<open>ResourceNotPausedAndHasFilterLabel\<close> of the Cluster API: the object has no annotation that pauses
  it and, if a filter is set, carries the label of the filter with that value.
\<close>

datatype event_kind = CreateEvent | UpdateEvent | DeleteEvent | GenericEvent

definition WatchLabel :: string where
  "WatchLabel = ''cluster.x-k8s.io/watch-filter''"

definition PausedAnnotation :: string where
  "PausedAnnotation = ''cluster.x-k8s.io/paused''"

definition passes_filter :: "string \<Rightarrow> ObjectMeta \<Rightarrow> bool" where
  "passes_filter labelValue m \<longleftrightarrow> map_of (m_annotations m) PausedAnnotation = None \<and>
     (labelValue = [] \<or> map_of (m_labels m) WatchLabel = Some labelValue)"

text \<open>The events of clusters that the controller which creates addons handles.\<close>

definition addon_create_event :: "reconciler \<Rightarrow> event_kind \<Rightarrow> Cluster \<Rightarrow> bool" where
  "addon_create_event r kind cluster \<longleftrightarrow>
     passes_filter (rc_watchFilter r) (cl_meta cluster) \<and> kind = CreateEvent"

text \<open>
  The watch filter of the command line reaches every controller but the one that creates
  addons: once the operator is set up, the creation of any cluster that is not paused is handled
  there, whatever filter was asked for.
\<close>

theorem addon_create_ignores_watch_filter:
  assumes "main_setup perform opts = SetupDone performed"
    and "map_of (m_annotations (cl_meta cluster)) PausedAnnotation = None"
  shows "\<exists>r. SetupController ClusterAddonCreateController r \<in> set performed \<and>
      addon_create_event r CreateEvent cluster \<and>
      (\<forall>c r'. SetupController c r' \<in> set performed \<longrightarrow> c \<noteq> ClusterAddonCreateController \<longrightarrow>
        rc_watchFilter r' = opt_watchFilter opts)"
  using assms
  by (auto elim!: main_setup_done simp: setup_actions_def controller_actions_def
      setUpWebhookWithManager_def hook_actions_def addon_create_event_def passes_filter_def)

section \<open>Running\<close>

text \<open>
  After the set-up three goroutines run. Two of them wait for a component: the manager and the hook
  server. When its component fails, such a goroutine sends the error to a channel with room for one
  error and then tells the wait group that it is done; otherwise it does the latter at once. The third
  waits for an error or for the end of the context, whichever it sees first: after an error it ends
  the program with status 1, at the end of the context it just returns. \<open>main\<close> itself returns, with
  status 0, when the wait group has seen both components. A fourth goroutine belongs to
  \<open>ctrl.SetupSignalHandler\<close>: the first signal ends the context and a second one ends the program
  with status 1. \<open>returns p ended\<close> tells whether component \<open>p\<close> may return without an error when the
  context has ended or not.
\<close>

datatype operator_part = ManagerPart | HookServerPart

datatype part_state = Running | Failed | Reported | Stopped | FailedAndStopped

datatype watcher_state = Watching | Received | Left

record operator_state =
  op_parts :: "operator_part \<Rightarrow> part_state"
  op_channel :: bool
  op_watcher :: watcher_state
  op_signals :: nat
  op_exit :: "nat option"

definition operator_start :: operator_state where
  "operator_start = \<lparr>op_parts = (\<lambda>_. Running), op_channel = False, op_watcher = Watching,
     op_signals = 0, op_exit = None\<rparr>"

definition set_part :: "operator_part \<Rightarrow> part_state \<Rightarrow> operator_state \<Rightarrow> operator_state" where
  "set_part p x s = s\<lparr>op_parts := (op_parts s)(p := x)\<rparr>"

text \<open>The context of both components has ended.\<close>

definition op_ended :: "operator_state \<Rightarrow> bool" where
  "op_ended s \<longleftrightarrow> 0 < op_signals s"

definition group_done :: "operator_state \<Rightarrow> bool" where
  "group_done s \<longleftrightarrow>
     (\<forall>p\<in>{ManagerPart, HookServerPart}. op_parts s p = Stopped \<or> op_parts s p = FailedAndStopped)"

inductive operator_step ::
    "(operator_part \<Rightarrow> bool \<Rightarrow> bool) \<Rightarrow> operator_state \<Rightarrow> operator_state \<Rightarrow> bool"
  for returns where
  signal: "op_exit s = None \<Longrightarrow> op_signals s = 0 \<Longrightarrow> operator_step returns s (s\<lparr>op_signals := 1\<rparr>)"
| second_signal: "op_exit s = None \<Longrightarrow> op_signals s = 1 \<Longrightarrow>
    operator_step returns s (s\<lparr>op_signals := 2, op_exit := Some 1\<rparr>)"
| stops: "op_exit s = None \<Longrightarrow> op_parts s p = Running \<Longrightarrow> returns p (op_ended s) \<Longrightarrow>
    operator_step returns s (set_part p Stopped s)"
| fails: "op_exit s = None \<Longrightarrow> op_parts s p = Running \<Longrightarrow> operator_step returns s (set_part p Failed s)"
| sends: "op_exit s = None \<Longrightarrow> op_parts s p = Failed \<Longrightarrow> \<not> op_channel s \<Longrightarrow>
    operator_step returns s ((set_part p Reported s)\<lparr>op_channel := True\<rparr>)"
| reports: "op_exit s = None \<Longrightarrow> op_parts s p = Reported \<Longrightarrow>
    operator_step returns s (set_part p FailedAndStopped s)"
| receives: "op_exit s = None \<Longrightarrow> op_watcher s = Watching \<Longrightarrow> op_channel s \<Longrightarrow>
    operator_step returns s (s\<lparr>op_channel := False, op_watcher := Received\<rparr>)"
| aborts: "op_exit s = None \<Longrightarrow> op_watcher s = Received \<Longrightarrow> operator_step returns s (s\<lparr>op_exit := Some 1\<rparr>)"
| leaves: "op_exit s = None \<Longrightarrow> op_watcher s = Watching \<Longrightarrow> op_ended s \<Longrightarrow>
    operator_step returns s (s\<lparr>op_watcher := Left\<rparr>)"
| main_returns: "op_exit s = None \<Longrightarrow> group_done s \<Longrightarrow> operator_step returns s (s\<lparr>op_exit := Some 0\<rparr>)"

definition operator_reaches :: "(operator_part \<Rightarrow> bool \<Rightarrow> bool) \<Rightarrow> operator_state \<Rightarrow> bool" where
  "operator_reaches returns s \<longleftrightarrow> (operator_step returns)\<^sup>*\<^sup>* operator_start s"

text \<open>What is true whenever the documented behaviour of the components is.\<close>

definition operator_inv :: "operator_state \<Rightarrow> bool" where
  "operator_inv s \<longleftrightarrow>
     (op_channel s \<longrightarrow> (\<exists>p. op_parts s p = Reported \<or> op_parts s p = FailedAndStopped)) \<and>
     (op_watcher s = Received \<longrightarrow> (\<exists>p. op_parts s p = Reported \<or> op_parts s p = FailedAndStopped)) \<and>
     (op_watcher s = Left \<longrightarrow> op_ended s) \<and>
     (\<forall>p. op_parts s p = Stopped \<longrightarrow> op_ended s) \<and>
     (op_signals s \<le> 1 \<or> op_signals s = 2 \<and> op_exit s = Some 1) \<and>
     (op_exit s = Some 0 \<longrightarrow> group_done s) \<and>
     (\<forall>x. op_exit s = Some x \<longrightarrow> x = 0 \<or> x = 1 \<and> (op_watcher s = Received \<or> op_signals s = 2))"

lemma all_parts: "(\<forall>p. P p) \<longleftrightarrow> P ManagerPart \<and> P HookServerPart"
  by (metis operator_part.exhaust)

lemma ex_part: "(\<exists>p. P p) \<longleftrightarrow> P ManagerPart \<or> P HookServerPart"
  by (metis operator_part.exhaust)

lemma operator_inv_step:
  assumes "operator_step returns s t" "operator_inv s" "\<And>p. \<not> returns p False"
  shows "operator_inv t"
  using assms(1)
proof (cases rule: operator_step.cases)
  case (stops p)
  then have "op_ended s" using assms(3) by (cases "op_ended s") auto
  with stops assms(2) show ?thesis
    by (cases p) (auto simp: operator_inv_def op_ended_def set_part_def all_parts ex_part)
next
  case (fails p)
  with assms(2) show ?thesis by (cases p) (auto simp: operator_inv_def op_ended_def set_part_def all_parts ex_part)
next
  case (sends p)
  with assms(2) show ?thesis by (cases p) (auto simp: operator_inv_def op_ended_def set_part_def all_parts ex_part)
next
  case (reports p)
  with assms(2) show ?thesis by (cases p) (auto simp: operator_inv_def op_ended_def set_part_def all_parts ex_part)
next
  case main_returns
  then show ?thesis using assms(2) by (simp add: operator_inv_def op_ended_def group_done_def all_parts)
qed (use assms(2) in \<open>auto simp: operator_inv_def op_ended_def group_done_def all_parts ex_part\<close>)

lemma operator_inv_reached:
  assumes "operator_reaches returns s" "\<And>p. \<not> returns p False"
  shows "operator_inv s"
  using assms(1) unfolding operator_reaches_def
proof (induction rule: rtranclp_induct)
  case base
  show ?case by (simp add: operator_inv_def operator_start_def)
next
  case (step s t)
  then show ?case using operator_inv_step assms(2) by blast
qed

inductive_cases hung_step: "operator_step returns s t"

lemma reaches_step: "operator_reaches returns s \<Longrightarrow> operator_step returns s t \<Longrightarrow> operator_reaches returns t"
  by (simp add: operator_reaches_def)

text \<open>
  C25. The status with which the operator exits once its components run: 1 only after a component
  failed or a second signal came, and 0 only when both components have stopped, and then either one
  signal came or both of them failed.
\<close>

theorem operator_exit_status:
  assumes "operator_reaches returns s" and "\<And>p. \<not> returns p False" and "op_exit s = Some x"
  shows "x = 1 \<and> ((\<exists>p. op_parts s p = Reported \<or> op_parts s p = FailedAndStopped) \<or> op_signals s = 2) \<or>
    x = 0 \<and> group_done s \<and> (op_signals s = 1 \<or> op_signals s = 0 \<and> (\<forall>p. op_parts s p = FailedAndStopped))"
proof -
  have inv: "operator_inv s" by (rule operator_inv_reached[OF assms(1,2)])
  then have "x = 0 \<or> x = 1 \<and> (op_watcher s = Received \<or> op_signals s = 2)"
    using assms(3) by (simp add: operator_inv_def)
  then show ?thesis
  proof
    assume x: "x = 0"
    then have g: "group_done s" using inv assms(3) by (simp add: operator_inv_def)
    have "op_signals s = 1 \<or> op_signals s = 0" using inv assms(3) x by (simp add: operator_inv_def) arith
    moreover have "op_parts s p \<noteq> Stopped" if "op_signals s = 0" for p
      using inv that by (auto simp: operator_inv_def op_ended_def)
    then have "op_signals s = 0 \<longrightarrow> (\<forall>p. op_parts s p = FailedAndStopped)"
      using g by (auto simp: group_done_def all_parts)
    ultimately show ?thesis using x g by auto
  next
    assume "x = 1 \<and> (op_watcher s = Received \<or> op_signals s = 2)"
    then show ?thesis using inv unfolding operator_inv_def by blast
  qed
qed

text \<open>Every step uses up some of what is left to do.\<close>

fun part_steps :: "part_state \<Rightarrow> nat" where
  "part_steps Running = 3"
| "part_steps Failed = 2"
| "part_steps Reported = 1"
| "part_steps Stopped = 0"
| "part_steps FailedAndStopped = 0"

definition steps_left :: "operator_state \<Rightarrow> nat" where
  "steps_left s = part_steps (op_parts s ManagerPart) + part_steps (op_parts s HookServerPart)
     + (if op_watcher s = Watching then 1 else 0) + (if op_ended s then 0 else 1)
     + (if op_exit s = None then 1 else 0)"

lemma step_uses_up:
  assumes "operator_step returns s t"
  shows "steps_left t < steps_left s"
  using assms
proof (cases rule: operator_step.cases)
  case (stops p)
  then show ?thesis by (cases p) (simp_all add: steps_left_def op_ended_def set_part_def)
next
  case (fails p)
  then show ?thesis by (cases p) (simp_all add: steps_left_def op_ended_def set_part_def)
next
  case (sends p)
  then show ?thesis by (cases p) (simp_all add: steps_left_def op_ended_def set_part_def)
next
  case (reports p)
  then show ?thesis by (cases p) (simp_all add: steps_left_def op_ended_def set_part_def)
qed (simp_all add: steps_left_def op_ended_def)

lemma steps_use_up: "(operator_step returns ^^ n) s t \<Longrightarrow> n + steps_left t \<le> steps_left s"
proof (induction n arbitrary: t)
  case (Suc n)
  then obtain u where "(operator_step returns ^^ n) s u" "operator_step returns u t" by auto
  then show ?case using Suc.IH[of u] step_uses_up[of returns u t] by linarith
qed simp

text \<open>The one situation in which the operator waits forever.\<close>

definition hangs :: "operator_state \<Rightarrow> bool" where
  "hangs s \<longleftrightarrow> op_exit s = None \<and> op_ended s \<and> op_watcher s = Left \<and> op_channel s \<and>
     (\<exists>p q. op_parts s p = Failed \<and> op_parts s q = FailedAndStopped)"

text \<open>A step that does not come from outside, as a signal does.\<close>

definition own_step :: "(operator_part \<Rightarrow> bool \<Rightarrow> bool) \<Rightarrow> operator_state \<Rightarrow> operator_state \<Rightarrow> bool" where
  "own_step returns s t \<longleftrightarrow> operator_step returns s t \<and> op_signals t = op_signals s"

lemma own_steps:
  "op_exit s = None \<Longrightarrow> op_parts s p = Running \<Longrightarrow> \<exists>t. own_step returns s t"
  "op_exit s = None \<Longrightarrow> op_parts s p = Failed \<Longrightarrow> \<not> op_channel s \<Longrightarrow> \<exists>t. own_step returns s t"
  "op_exit s = None \<Longrightarrow> op_parts s p = Reported \<Longrightarrow> \<exists>t. own_step returns s t"
  "op_exit s = None \<Longrightarrow> op_watcher s = Watching \<Longrightarrow> op_channel s \<Longrightarrow> \<exists>t. own_step returns s t"
  "op_exit s = None \<Longrightarrow> op_watcher s = Received \<Longrightarrow> \<exists>t. own_step returns s t"
  "op_exit s = None \<Longrightarrow> group_done s \<Longrightarrow> \<exists>t. own_step returns s t"
proof -
  have here: "\<exists>t. own_step returns s t" if "operator_step returns s u" "op_signals u = op_signals s" for u
    using that by (auto simp: own_step_def)
  show "op_exit s = None \<Longrightarrow> op_parts s p = Running \<Longrightarrow> \<exists>t. own_step returns s t"
    by (rule here[OF fails]) (simp_all add: set_part_def)
  show "op_exit s = None \<Longrightarrow> op_parts s p = Failed \<Longrightarrow> \<not> op_channel s \<Longrightarrow> \<exists>t. own_step returns s t"
    by (rule here[OF sends]) (simp_all add: set_part_def)
  show "op_exit s = None \<Longrightarrow> op_parts s p = Reported \<Longrightarrow> \<exists>t. own_step returns s t"
    by (rule here[OF reports]) (simp_all add: set_part_def)
  show "op_exit s = None \<Longrightarrow> op_watcher s = Watching \<Longrightarrow> op_channel s \<Longrightarrow> \<exists>t. own_step returns s t"
    by (rule here[OF receives]) simp_all
  show "op_exit s = None \<Longrightarrow> op_watcher s = Received \<Longrightarrow> \<exists>t. own_step returns s t"
    by (rule here[OF aborts]) simp_all
  show "op_exit s = None \<Longrightarrow> group_done s \<Longrightarrow> \<exists>t. own_step returns s t"
    by (rule here[OF main_returns]) simp_all
qed

lemma no_step_hangs:
  assumes "operator_reaches returns s" "\<And>p. \<not> returns p False"
    and "\<nexists>t. own_step returns s t" "op_exit s = None"
  shows "hangs s"
proof -
  have inv: "operator_inv s" by (rule operator_inv_reached[OF assms(1,2)])
  have parts: "op_parts s p \<noteq> Running" "op_parts s p \<noteq> Reported" "op_parts s p = Failed \<Longrightarrow> op_channel s" for p
    using assms(3,4) by (blast intro: own_steps)+
  have "\<not> group_done s" "op_watcher s \<noteq> Received" using assms(3,4) by (blast intro: own_steps)+
  then obtain p where p: "op_parts s p = Failed"
    using parts(1,2) by (auto simp: group_done_def) (metis part_state.exhaust)+
  with parts(3) have c: "op_channel s" by blast
  then have "op_watcher s = Left"
    using assms(3,4) \<open>op_watcher s \<noteq> Received\<close> by (cases "op_watcher s") (auto dest: own_steps(4))
  then show ?thesis
    using inv p c parts(2) assms(4) by (auto simp: operator_inv_def hangs_def)
qed

text \<open>
  C26. The operator takes at most nine steps, and when it can take none of its own it has exited, or
  it hangs: after a signal both components failed and nobody is left to read the second error.
\<close>

theorem operator_ends_or_hangs:
  assumes "(operator_step returns ^^ n) operator_start s" and "\<And>p. \<not> returns p False"
  shows "n \<le> 9 \<and> ((\<exists>t. operator_step returns s t \<and> op_signals t = op_signals s) \<or> op_exit s \<noteq> None \<or> hangs s)"
proof -
  have "n \<le> 9" using steps_use_up[OF assms(1)] by (simp add: steps_left_def operator_start_def op_ended_def)
  moreover have "operator_reaches returns s"
    using assms(1) by (auto simp: operator_reaches_def intro: relpowp_imp_rtranclp)
  ultimately show ?thesis using no_step_hangs assms(2) by (fastforce simp: own_step_def)
qed

text \<open>A state in which nothing can happen any more, and the way to it.\<close>

definition hung_state :: operator_state where
  "hung_state = \<lparr>op_parts = (\<lambda>_. Running)(ManagerPart := FailedAndStopped, HookServerPart := Failed),
     op_channel = True, op_watcher = Left, op_signals = 1, op_exit = None\<rparr>"

lemma hung_state_reached: "operator_reaches returns hung_state"
proof -
  let ?left = "operator_start\<lparr>op_signals := 1\<rparr>\<lparr>op_watcher := Left\<rparr>"
  let ?failed = "set_part ManagerPart Failed ?left"
  let ?sent = "(set_part ManagerPart Reported ?failed)\<lparr>op_channel := True\<rparr>"
  have "operator_reaches returns operator_start" by (simp add: operator_reaches_def)
  then have "operator_reaches returns (operator_start\<lparr>op_signals := 1\<rparr>)"
    by (rule reaches_step) (rule signal, simp_all add: operator_start_def)
  then have "operator_reaches returns ?left"
    by (rule reaches_step) (rule leaves, simp_all add: operator_start_def op_ended_def)
  then have "operator_reaches returns ?failed"
    by (rule reaches_step) (rule fails, simp_all add: operator_start_def)
  then have "operator_reaches returns ?sent"
    by (rule reaches_step) (rule sends, simp_all add: operator_start_def set_part_def)
  then have "operator_reaches returns (set_part ManagerPart FailedAndStopped ?sent)"
    by (rule reaches_step) (rule reports, simp_all add: operator_start_def set_part_def)
  then have "operator_reaches returns (set_part HookServerPart Failed (set_part ManagerPart FailedAndStopped ?sent))"
    by (rule reaches_step) (rule fails, simp_all add: operator_start_def set_part_def)
  then show ?thesis by (simp add: hung_state_def operator_start_def set_part_def fun_upd_twist)
qed

text \<open>
  A shutdown can hang: after a signal the third goroutine may leave first; when the manager and
  the hook server then both fail, the error of the second stays in front of the full channel and the
  wait group never sees it. Only a second signal ends the program then.
\<close>

theorem shutdown_can_hang:
  "\<exists>s. operator_reaches returns s \<and> op_signals s = 1 \<and> op_exit s = None \<and>
    (\<forall>t. operator_step returns s t \<longrightarrow> t = s\<lparr>op_signals := 2, op_exit := Some 1\<rparr>)"
proof (intro exI conjI)
  show "operator_reaches returns hung_state" by (rule hung_state_reached)
  show "\<forall>t. operator_step returns hung_state t \<longrightarrow> t = hung_state\<lparr>op_signals := 2, op_exit := Some 1\<rparr>"
  proof (intro allI impI)
    fix t assume "operator_step returns hung_state t"
    moreover have "op_parts hung_state p = (case p of ManagerPart \<Rightarrow> FailedAndStopped | HookServerPart \<Rightarrow> Failed)" for p
      by (cases p) (simp_all add: hung_state_def)
    ultimately show "t = hung_state\<lparr>op_signals := 2, op_exit := Some 1\<rparr>"
      by (cases rule: operator_step.cases)
        (simp_all add: hung_state_def group_done_def split: operator_part.splits if_splits)
  qed
qed (simp_all add: hung_state_def)

section \<open>Logger and version\<close>

datatype log_level = ErrorLevel | DebugLevel | InfoLevel

record logger_config =
  lg_development :: bool
  lg_level :: log_level

definition logger_config_of :: "string \<Rightarrow> logger_config" where
  "logger_config_of logLevel =
     (if logLevel = ''error'' then \<lparr>lg_development = False, lg_level = ErrorLevel\<rparr>
      else if logLevel = ''debug'' then \<lparr>lg_development = True, lg_level = DebugLevel\<rparr>
      else \<lparr>lg_development = True, lg_level = InfoLevel\<rparr>)"

text \<open>\<open>None\<close>: the configuration cannot be built and the program ends.\<close>

definition GetDefaultLogger :: "(logger_config \<Rightarrow> 'l option) \<Rightarrow> string \<Rightarrow> 'l option" where
  "GetDefaultLogger build logLevel = build (logger_config_of logLevel)"

text \<open>The variables that the linker sets, and what the runtime tells of itself.\<close>

record version_vars =
  vv_gitMajor :: string
  vv_gitMinor :: string
  vv_gitVersion :: string
  vv_gitCommit :: string
  vv_gitTreeState :: string
  vv_buildDate :: string

record go_runtime =
  go_version :: string
  go_compiler :: string
  go_os :: string
  go_arch :: string

record Info =
  in_Major :: string
  in_Minor :: string
  in_GitVersion :: string
  in_GitCommit :: string
  in_GitTreeState :: string
  in_BuildDate :: string
  in_GoVersion :: string
  in_Compiler :: string
  in_Platform :: string

definition csoversion_Get :: "version_vars \<Rightarrow> go_runtime \<Rightarrow> Info" where
  "csoversion_Get v rt = \<lparr>in_Major = vv_gitMajor v, in_Minor = vv_gitMinor v, in_GitVersion = vv_gitVersion v,
     in_GitCommit = vv_gitCommit v, in_GitTreeState = vv_gitTreeState v, in_BuildDate = vv_buildDate v,
     in_GoVersion = go_version rt, in_Compiler = go_compiler rt, in_Platform = go_os rt @ ''/'' @ go_arch rt\<rparr>"

definition Info_String :: "Info \<Rightarrow> string" where
  "Info_String info = in_GitVersion info"

section \<open>Witnesses\<close>

definition documented_return :: "operator_part \<Rightarrow> bool \<Rightarrow> bool" where
  "documented_return p ended = ended"

definition failed_start :: operator_state where
  "failed_start = \<lparr>op_parts = (\<lambda>_. Running)(ManagerPart := Reported), op_channel = False,
     op_watcher = Received, op_signals = 0, op_exit = Some 1\<rparr>"

lemma failed_start_run: "(operator_step documented_return ^^ 4) operator_start failed_start"
proof -
  let ?r = documented_return
  let ?failed = "set_part ManagerPart Failed operator_start"
  let ?sent = "(set_part ManagerPart Reported ?failed)\<lparr>op_channel := True\<rparr>"
  let ?received = "?sent\<lparr>op_channel := False, op_watcher := Received\<rparr>"
  have "operator_step ?r operator_start ?failed"
    by (rule fails) (simp_all add: operator_start_def)
  moreover have "operator_step ?r ?failed ?sent"
    by (rule sends) (simp_all add: operator_start_def set_part_def)
  moreover have "operator_step ?r ?sent ?received"
    by (rule receives) (simp_all add: operator_start_def set_part_def)
  moreover have "operator_step ?r ?received (?received\<lparr>op_exit := Some 1\<rparr>)"
    by (rule aborts) (simp_all add: operator_start_def set_part_def)
  moreover have "?received\<lparr>op_exit := Some 1\<rparr> = failed_start"
    by (simp add: failed_start_def operator_start_def set_part_def)
  ultimately show ?thesis by (auto simp: numeral_eq_Suc)
qed

lemma documented_return_ok: "\<not> documented_return p False"
  by (simp add: documented_return_def)

theorem operator_exit_status_witness:
  "\<exists>p. op_parts failed_start p = Reported \<or> op_parts failed_start p = FailedAndStopped"
proof -
  have "operator_reaches documented_return failed_start"
    using failed_start_run by (auto simp: operator_reaches_def intro: relpowp_imp_rtranclp)
  from operator_exit_status[OF this documented_return_ok, of 1] show ?thesis
    by (simp add: failed_start_def ex_part)
qed

theorem operator_ends_or_hangs_witness:
  "(4 :: nat) \<le> 9 \<and> ((\<exists>t. operator_step documented_return failed_start t \<and>
     op_signals t = op_signals failed_start) \<or> op_exit failed_start \<noteq> None \<or>
     hangs failed_start)"
  by (rule operator_ends_or_hangs[OF failed_start_run documented_return_ok])

definition filtered_options :: options where
  "filtered_options = default_options\<lparr>opt_watchFilter := ''mine''\<rparr>"

definition filtered_setup :: "setup_action list" where
  "filtered_setup = (case main_setup (\<lambda>_. None) filtered_options of SetupDone performed \<Rightarrow> performed
     | SetupExit _ performed \<Rightarrow> [])"

lemma filtered_setup_done: "main_setup (\<lambda>_. None) filtered_options = SetupDone filtered_setup"
proof -
  have "case main_setup (\<lambda>_. None) filtered_options of SetupDone _ \<Rightarrow> True | SetupExit _ _ \<Rightarrow> False"
    by code_simp
  then show ?thesis by (simp add: filtered_setup_def split: setup_result.splits)
qed

theorem addon_create_ignores_watch_filter_witness:
  "\<exists>r. SetupController ClusterAddonCreateController r \<in> set filtered_setup \<and>
      addon_create_event r CreateEvent \<lparr>cl_meta = empty_meta, cl_topology = None,
        cl_controlPlaneRef = None, cl_infrastructureRef = None\<rparr> \<and>
      (\<forall>c r'. SetupController c r' \<in> set filtered_setup \<longrightarrow> c \<noteq> ClusterAddonCreateController \<longrightarrow>
        rc_watchFilter r' = ''mine'')"
  using addon_create_ignores_watch_filter[OF filtered_setup_done,
      of "\<lparr>cl_meta = empty_meta, cl_topology = None, cl_controlPlaneRef = None, cl_infrastructureRef = None\<rparr>"]
  by (simp add: empty_meta_def filtered_options_def)

end
