(* ===== verification/Watches.thy ===== *)
theory Watches
  imports StackLoop AddonController Hooks Startup
begin

text \<open>
  Which events wake which controller: the \<open>SetupWithManager\<close> functions of the four controllers
  (\<open>internal/controller\<close>), with the sources and handlers of controller-runtime's builder they use.
  An event of an object is mapped to the requests it puts into the queue of a controller; the queue
  drops doubles. The parameter \<open>controllerOf\<close> is \<open>metav1.GetControllerOf\<close>: the owner reference that
  is marked as the controller, a mark the records of the model do not have.
\<close>

section \<open>Events\<close>

datatype api_object =
    StackObject ClusterStackObject
  | ReleaseObject ClusterStackRelease
  | AddonObject ClusterAddon
  | ClusterObject Cluster

fun object_meta :: "api_object \<Rightarrow> ObjectMeta" where
  "object_meta (StackObject x) = csk_meta x"
| "object_meta (ReleaseObject x) = csr_meta x"
| "object_meta (AddonObject x) = ca_meta x"
| "object_meta (ClusterObject x) = cl_meta x"

datatype api_event =
    Created api_object
  | Updated api_object api_object
  | Deleted api_object
  | Resynced api_object

text \<open>The object the event filters and the handler of \<open>For\<close> look at: after an update the new one.\<close>

fun event_object :: "api_event \<Rightarrow> api_object" where
  "event_object (Created x) = x"
| "event_object (Updated old new) = new"
| "event_object (Deleted x) = x"
| "event_object (Resynced x) = x"

text \<open>A handler with a map function maps both objects of an update.\<close>

fun event_objects :: "api_event \<Rightarrow> api_object list" where
  "event_objects (Updated old new) = [old, new]"
| "event_objects ev = [event_object ev]"

definition meta_key :: "ObjectMeta \<Rightarrow> NamespacedName" where
  "meta_key m = \<lparr>nn_name = m_name m, nn_namespace = m_namespace m\<rparr>"

definition ResourceNotPausedAndHasFilterLabel :: "string \<Rightarrow> api_event \<Rightarrow> bool" where
  "ResourceNotPausedAndHasFilterLabel labelValue ev = passes_filter labelValue (object_meta (event_object ev))"

section \<open>Sources\<close>

definition is_stack :: "api_object \<Rightarrow> bool" where
  "is_stack x = (case x of StackObject _ \<Rightarrow> True | _ \<Rightarrow> False)"

definition is_release :: "api_object \<Rightarrow> bool" where
  "is_release x = (case x of ReleaseObject _ \<Rightarrow> True | _ \<Rightarrow> False)"

definition is_addon :: "api_object \<Rightarrow> bool" where
  "is_addon x = (case x of AddonObject _ \<Rightarrow> True | _ \<Rightarrow> False)"

definition is_cluster :: "api_object \<Rightarrow> bool" where
  "is_cluster x = (case x of ClusterObject _ \<Rightarrow> True | _ \<Rightarrow> False)"

text \<open>\<open>For\<close>: the handler asks for the object of the event.\<close>

definition for_source :: "(api_object \<Rightarrow> bool) \<Rightarrow> api_event \<Rightarrow> NamespacedName list" where
  "for_source kind ev = (if kind (event_object ev) then [meta_key (object_meta (event_object ev))] else [])"

text \<open>\<open>Owns\<close>: the handler asks for the owner that is the controller, if it has the type of \<open>For\<close>.\<close>

definition owner_requests ::
    "(ObjectMeta \<Rightarrow> OwnerReference option) \<Rightarrow> string \<Rightarrow> string \<Rightarrow> api_object \<Rightarrow> NamespacedName list" where
  "owner_requests controllerOf grp kind x =
     (case controllerOf (object_meta x) of
        None \<Rightarrow> []
      | Some ref \<Rightarrow>
          (case ParseGroupVersion (or_apiVersion ref) of
             None \<Rightarrow> []
           | Some gv \<Rightarrow> if or_kind ref = kind \<and> gv_group gv = grp
               then [\<lparr>nn_name = or_name ref, nn_namespace = m_namespace (object_meta x)\<rparr>] else []))"

definition owns_source ::
    "(ObjectMeta \<Rightarrow> OwnerReference option) \<Rightarrow> string \<Rightarrow> string \<Rightarrow> (api_object \<Rightarrow> bool) \<Rightarrow> api_event
      \<Rightarrow> NamespacedName list" where
  "owns_source controllerOf grp kind owned ev =
     concat (map (\<lambda>x. if owned x then owner_requests controllerOf grp kind x else []) (event_objects ev))"

section \<open>The controllers\<close>

definition release_update_filter :: "api_event \<Rightarrow> bool" where
  "release_update_filter ev = (case ev of
       Updated (ReleaseObject old) (ReleaseObject new) \<Rightarrow> release_event_filter (watch_event.UpdateEvent old new)
     | Updated _ _ \<Rightarrow> False
     | Resynced _ \<Rightarrow> release_event_filter watch_event.GenericEvent
     | Created _ \<Rightarrow> release_event_filter watch_event.CreateEvent
     | Deleted _ \<Rightarrow> release_event_filter watch_event.DeleteEvent)"

definition release_owners :: "api_object \<Rightarrow> NamespacedName list" where
  "release_owners x = (case x of ReleaseObject r \<Rightarrow> ClusterStackReleaseToClusterStack r | _ \<Rightarrow> [])"

definition stack_SetupWithManager ::
    "(ObjectMeta \<Rightarrow> OwnerReference option) \<Rightarrow> string \<Rightarrow> api_event \<Rightarrow> NamespacedName list" where
  "stack_SetupWithManager controllerOf watchFilterValue ev =
     (if \<not> ResourceNotPausedAndHasFilterLabel watchFilterValue ev then []
      else for_source is_stack ev
        @ owns_source controllerOf ''clusterstack.x-k8s.io'' ''ClusterStack'' is_release ev
        @ (if is_release (event_object ev) \<and> release_update_filter ev
           then concat (map release_owners (event_objects ev)) else []))"

definition release_SetupWithManager :: "string \<Rightarrow> api_event \<Rightarrow> NamespacedName list" where
  "release_SetupWithManager watchFilterValue ev =
     (if ResourceNotPausedAndHasFilterLabel watchFilterValue ev then for_source is_release ev else [])"

text \<open>The raw source of the clusters has only its own predicate: the event filter is not added to it.\<close>

definition addon_SetupWithManager :: "string \<Rightarrow> api_event \<Rightarrow> NamespacedName list" where
  "addon_SetupWithManager watchFilterValue ev =
     (if ResourceNotPausedAndHasFilterLabel watchFilterValue ev then for_source is_addon ev else [])
     @ (case ev of
          Updated (ClusterObject oldCluster) (ClusterObject newCluster) \<Rightarrow>
            (if cluster_event_filter oldCluster newCluster
             then clusterToClusterAddon oldCluster @ clusterToClusterAddon newCluster else [])
        | _ \<Rightarrow> [])"

definition addon_create_SetupWithManager :: "string \<Rightarrow> api_event \<Rightarrow> NamespacedName list" where
  "addon_create_SetupWithManager watchFilterValue ev =
     (case ev of
        Created x \<Rightarrow> if ResourceNotPausedAndHasFilterLabel watchFilterValue ev then for_source is_cluster ev else []
      | _ \<Rightarrow> [])"

section \<open>What the ClusterStack controller creates\<close>

text \<open>Every release it creates is a new one in the namespace of the request, owned by the stack.\<close>

fun fresh_create :: "string \<Rightarrow> OwnerReference \<Rightarrow> stack_write \<Rightarrow> bool" where
  "fresh_create ns owner (CreateRelease r) \<longleftrightarrow> (\<exists>n p. r = new_release n ns owner p)"
| "fresh_create ns owner _ \<longleftrightarrow> True"

definition creates_fresh :: "string \<Rightarrow> OwnerReference \<Rightarrow> stack_state \<Rightarrow> bool" where
  "creates_fresh ns owner s \<longleftrightarrow> list_all (fresh_create ns owner) (sk_writes s) \<and>
     generateOwnerReference (sk_object s) = owner"

lemma fresh_new: "fresh_create ns owner (CreateRelease (new_release n ns owner p))"
  by auto

lemma owner_frame: "evolves J T s t \<Longrightarrow> generateOwnerReference (sk_object t) = generateOwnerReference (sk_object s)"
  using evolves_frame by (simp add: generateOwnerReference_def)

lemma delete_creates_fresh:
  assumes "delete_release_step env r s = (e, t)" and "creates_fresh ns owner s"
  shows "creates_fresh ns owner t"
  using assms by (auto simp: delete_release_step_def creates_fresh_def stack_send_def split: option.splits)

lemma getOrCreate_fresh:
  assumes "getOrCreateClusterStackRelease env n ns owner p s = (e, t)" and "creates_fresh ns owner s"
  shows "creates_fresh ns owner t"
  using assms fresh_new
  by (auto simp: getOrCreateClusterStackRelease_def Let_def creates_fresh_def stack_send_def
      simp del: fresh_create.simps(1) split: option.splits if_splits)

lemma provider_writes_fresh: "list_all (fresh_create ns owner) (map ProviderWrite ws)"
  by (simp add: list_all_iff)

lemma provider_step_fresh:
  assumes "provider_step env n s = (r, t)" and "creates_fresh ns owner s"
  shows "creates_fresh ns owner t"
proof -
  have "list_all (fresh_create ns owner) (sk_writes t)"
    using assms provider_writes_fresh
    by (auto simp: provider_step_def creates_fresh_def mark_stack_def
        split: if_splits prod.splits sum.splits provider_error.splits)
  then show ?thesis
    using owner_frame[OF provider_step_evolves[OF assms(1)]] assms(2) by (simp add: creates_fresh_def)
qed

lemma create_release_fresh:
  assumes "create_release_step env ns owner r s = (e, t)" and "creates_fresh ns owner s"
  shows "creates_fresh ns owner t"
proof (cases "release_Summary r")
  case (Inl x)
  then show ?thesis using assms by (auto simp: create_release_step_def)
next
  case (Inr sm)
  let ?s = "s\<lparr>sk_summary := sk_summary s @ [sm]\<rparr>"
  obtain x u where u: "provider_step env (csr_name r) ?s = (x, u)" by fastforce
  have fu: "creates_fresh ns owner u"
    using provider_step_fresh[OF u, of ns owner] assms(2) by (simp add: creates_fresh_def)
  show ?thesis
  proof (cases x)
    case (Inl exit)
    then show ?thesis using assms(1) Inr u fu by (simp add: create_release_step_def)
  next
    case (Inr ref)
    obtain g v where v: "getOrCreateClusterStackRelease env (csr_name r) ns owner ref u = (g, v)" by fastforce
    then have fv: "creates_fresh ns owner v" using getOrCreate_fresh fu by blast
    have "t = v \<or> t = mark_stack (cond_MarkFalse ClusterStackReleasesSyncedCondition
        FailedToCreateOrUpdateReason ConditionSeverityWarning) v"
      using assms(1) \<open>release_Summary r = Inr sm\<close> u v Inr by (auto simp: create_release_step_def split: option.splits)
    then show ?thesis using fv by (auto simp: creates_fresh_def mark_stack_def generateOwnerReference_def)
  qed
qed

lemma report_writes: "report_stack env existing lr s = (e, t) \<Longrightarrow> sk_writes t = sk_writes s"
  by (auto simp: report_stack_def Let_def set_status_def mark_stack_def split: sum.splits option.splits if_splits)

lemma sync_releases_fresh:
  assumes "sync_releases env ns existing lr latest s = (x, t)" and "creates_fresh ns owner s"
  shows "list_all (fresh_create ns owner) (sk_writes t)"
proof (cases "\<exists>inUse inSpec. getClusterStackReleasesInUse (se_clusters env) = Inr inUse \<and>
    getClusterStackReleasesInSpec (csk_spec (sk_object s)) = Inr inSpec")
  case False
  then have "t = s" using assms(1) by (auto simp: sync_releases_def split: sum.splits)
  then show ?thesis using assms(2) by (simp add: creates_fresh_def)
next
  case True
  then obtain inUse inSpec where u: "getClusterStackReleasesInUse (se_clusters env) = Inr inUse"
    "getClusterStackReleasesInSpec (csk_spec (sk_object s)) = Inr inSpec" by blast
  obtain new old where d: "makeDiff existing latest (fst lr) (se_order env inSpec) inUse = (new, old)" by fastforce
  obtain e1 s1 where 1: "for_each (delete_release_step env) old s = (e1, s1)" by fastforce
  have f1: "creates_fresh ns owner s1"
    using for_each_inv[of "creates_fresh ns owner" s old "delete_release_step env"] assms(2) 1 delete_creates_fresh
    by (metis snd_conv)
  obtain e2 s2 where 2: "for_each (create_release_step env ns (generateOwnerReference (sk_object s1))) new s1 = (e2, s2)"
    by fastforce
  have "generateOwnerReference (sk_object s1) = owner" using f1 by (simp add: creates_fresh_def)
  then have f2: "creates_fresh ns owner s2"
    using for_each_inv[of "creates_fresh ns owner" s1 new "create_release_step env ns owner"] f1 2 create_release_fresh
    by (metis snd_conv)
  obtain e3 s3 where 3: "report_stack env existing lr s2 = (e3, s3)" by fastforce
  have "t = s1 \<or> t = s2 \<or> t = s3"
    using assms(1) u d 1 2 3 by (auto simp: sync_releases_def split: option.splits)
  then show ?thesis using f1 f2 report_writes[OF 3] by (auto simp: creates_fresh_def)
qed

lemma subscribe_writes: "subscribe env s = (r, t) \<Longrightarrow> sk_writes t = sk_writes s"
  by (auto simp: subscribe_def Let_def set_status_def mark_stack_def
      split: if_splits option.splits sum.splits)

lemma created_release_shape:
  assumes "se_get env = Inr cs" and "CreateRelease r \<in> set (sr_writes (stack_Reconcile env req))"
  shows "\<exists>n p. r = new_release n (nn_namespace req) (generateOwnerReference cs) p"
proof -
  let ?owner = "generateOwnerReference cs"
  have h: "se_newHelper env = None"
    using assms by (cases "se_newHelper env") (auto simp: stack_Reconcile_def)
  define s0 where "s0 = \<lparr>sk_object = cs, sk_writes = [], sk_summary = []\<rparr>"
  obtain x s where run: "reconcile_stack env (nn_namespace req) s0 = (x, s)"
    and w: "sr_writes (stack_Reconcile env req) =
      sk_writes s @ [PatchStack (csk_conditions cond_SetSummary (sk_object s))]"
    unfolding s0_def using stack_Reconcile_run[OF assms(1) h, of req] by blast
  have f0: "creates_fresh ns ?owner s0" for ns by (simp add: s0_def creates_fresh_def)
  obtain a u where u: "subscribe env s0 = (a, u)" by fastforce
  have fu: "creates_fresh ns ?owner u" for ns
    using f0[of ns] subscribe_writes[OF u] owner_frame[OF subscribe_evolves[OF u]] by (simp add: creates_fresh_def)
  consider "s = s0" | "s = u" | existing lr latest where "sync_releases env (nn_namespace req) existing lr latest u = (x, s)"
    using run u by (auto simp: reconcile_stack_def split: if_splits sum.splits prod.splits)
  then have "list_all (fresh_create (nn_namespace req) ?owner) (sk_writes s)"
  proof cases
    case 3
    then show ?thesis using sync_releases_fresh fu by blast
  qed (use f0 fu in \<open>auto simp: creates_fresh_def\<close>)
  then show ?thesis using assms(2) w by (auto simp: list_all_iff)
qed

lemma created_addon_shape:
  "a \<in> set (snd (addon_create_Reconcile env)) \<Longrightarrow> \<exists>cluster. ace_getCluster env = Inr cluster \<and> a = new_addon cluster"
  by (auto simp: addon_create_Reconcile_def split: sum.splits option.splits if_splits)

lemma unlabelled_unseen:
  "m_labels m = [] \<Longrightarrow> m_annotations m = [] \<Longrightarrow> passes_filter f m \<longleftrightarrow> f = []"
  by (auto simp: passes_filter_def)

lemma new_release_meta [simp]:
  "m_labels (csr_meta (new_release n ns o1 p)) = []" "m_annotations (csr_meta (new_release n ns o1 p)) = []"
  by (simp_all add: new_release_def empty_meta_def)

lemma new_addon_meta [simp]:
  "m_labels (ca_meta (new_addon c)) = []" "m_annotations (ca_meta (new_addon c)) = []"
  "meta_key (ca_meta (new_addon c)) = addon_key c"
  by (simp_all add: new_addon_def Let_def empty_meta_def meta_key_def addon_key_def)

lemma woken_addon: "clusterToClusterAddon c = [addon_key c]"
  by (simp add: clusterToClusterAddon_def addon_key_def)

lemma same_addon_key: "meta_key (cl_meta a) = meta_key (cl_meta b) \<Longrightarrow> addon_key a = addon_key b"
  by (simp add: addon_key_def meta_key_def)

lemma filter_of_controllers:
  assumes "main_setup perform opts = SetupDone performed" and "SetupController c r \<in> set performed"
  shows "rc_watchFilter r = (if c = ClusterAddonCreateController then [] else opt_watchFilter opts)"
  using assms
  by (auto elim!: main_setup_done simp: setup_actions_def controller_actions_def
      setUpWebhookWithManager_def hook_actions_def)

section \<open>Properties\<close>

text \<open>
  C24. What one controller creates wakes the next one exactly when the operator runs without a watch
  filter. The release of a ClusterStack and the addon of a new cluster carry no label, so with a
  filter the controllers of releases and addons never hear of them, although the creation of any
  cluster that is not paused is handled.
\<close>

theorem created_objects_seen_iff_unfiltered:
  assumes "main_setup perform opts = SetupDone performed"
    and "SetupController ClusterStackReleaseController r1 \<in> set performed"
    and "SetupController ClusterAddonController r2 \<in> set performed"
    and "SetupController ClusterAddonCreateController r3 \<in> set performed"
    and "se_get env = Inr cs" and "CreateRelease r \<in> set (sr_writes (stack_Reconcile env req))"
    and "a \<in> set (snd (addon_create_Reconcile cenv))"
    and "map_of (m_annotations (cl_meta cluster)) PausedAnnotation = None"
  shows "release_SetupWithManager (rc_watchFilter r1) (Created (ReleaseObject r)) =
      (if opt_watchFilter opts = [] then [meta_key (csr_meta r)] else []) \<and>
    addon_SetupWithManager (rc_watchFilter r2) (Created (AddonObject a)) =
      (if opt_watchFilter opts = [] then [meta_key (ca_meta a)] else []) \<and>
    addon_create_SetupWithManager (rc_watchFilter r3) (Created (ClusterObject cluster)) = [meta_key (cl_meta cluster)]"
proof -
  obtain n p where r: "r = new_release n (nn_namespace req) (generateOwnerReference cs) p"
    using created_release_shape[OF assms(5,6)] by blast
  obtain c where a: "a = new_addon c" using created_addon_shape[OF assms(7)] by blast
  have "passes_filter [] (cl_meta cluster)" using assms(8) by (simp add: passes_filter_def)
  then show ?thesis
    using filter_of_controllers[OF assms(1,2)] filter_of_controllers[OF assms(1,3)]
      filter_of_controllers[OF assms(1,4)]
    by (simp add: release_SetupWithManager_def addon_SetupWithManager_def addon_create_SetupWithManager_def
        ResourceNotPausedAndHasFilterLabel_def r a unlabelled_unseen for_source_def is_release_def is_addon_def
        is_cluster_def)
qed

text \<open>
  C22. The deletion of a release and a change of its status wake the ClusterStack that owns the release
  exactly when the release is not paused and carries the label of the watch filter, if there is one,
  whether or not the reference marks the owner as its controller.
\<close>

theorem release_change_wakes_stack:
  assumes "owned_by cs r" and "m_namespace (csr_meta r) = m_namespace (csk_meta cs)"
    and "ev = Deleted (ReleaseObject r) \<or> ev = Updated (ReleaseObject old) (ReleaseObject r) \<and> csr_status old \<noteq> csr_status r"
  shows "meta_key (csk_meta cs) \<in> set (stack_SetupWithManager controllerOf f ev) \<longleftrightarrow>
    map_of (m_annotations (csr_meta r)) PausedAnnotation = None \<and>
    (f = [] \<or> map_of (m_labels (csr_meta r)) WatchLabel = Some f)"
proof -
  obtain ref where "ref \<in> set (m_ownerReferences (csr_meta r))" "or_name ref = m_name (csk_meta cs)"
    using assms(1) by (auto simp: owned_by_def list_ex_iff matchesOwnerRef_def split: option.splits)
  then have "meta_key (csk_meta cs) \<in> set (ClusterStackReleaseToClusterStack r)"
    using assms(2) by (force simp: ClusterStackReleaseToClusterStack_def meta_key_def)
  then show ?thesis
    using assms(3) by (auto simp: stack_SetupWithManager_def ResourceNotPausedAndHasFilterLabel_def is_release_def
        release_update_filter_def release_event_filter_def release_owners_def passes_filter_def)
qed

text \<open>
  C23. Of all events of a cluster exactly the updates that change the class of its topology wake an
  addon, and the addon is the one that was created for that cluster and that the hook server patches:
  not the first topology a cluster gets, nor the loss of it, nor a new version. The watch filter and a
  paused cluster make no difference.
\<close>

theorem class_change_wakes_addon:
  assumes "meta_key (cl_meta old) = meta_key (cl_meta new)"
  shows "set (addon_SetupWithManager f (Updated (ClusterObject old) (ClusterObject new))) =
      (if \<exists>a b. cl_topology old = Some a \<and> cl_topology new = Some b \<and> top_class a \<noteq> top_class b
       then {addon_key new} else {}) \<and>
    addon_SetupWithManager f (Created (ClusterObject new)) = [] \<and>
    addon_SetupWithManager f (Deleted (ClusterObject new)) = [] \<and>
    addon_SetupWithManager f (Resynced (ClusterObject new)) = [] \<and>
    meta_key (ca_meta (new_addon new)) = addon_key new"
  using same_addon_key[OF assms]
  by (auto simp: addon_SetupWithManager_def for_source_def is_addon_def woken_addon cluster_event_filter_def
      split: option.splits)

section \<open>Witnesses\<close>

definition sample_release_of :: "string \<Rightarrow> ClusterStackRelease" where
  "sample_release_of n = new_release n ''default'' (generateOwnerReference sample_stack) None"

lemma sample_created:
  "CreateRelease (sample_release_of ''docker-ferrol-1-27-v1-alpha-9'')
    \<in> set (sr_writes (stack_Reconcile (sample_env []) sample_request))"
  by code_simp

definition sample_creation :: addon_create_env where
  "sample_creation = \<lparr>ace_getCluster = Inr hook_cluster, ace_getAddon = \<lambda>_. Some (NotFound []), ace_create = \<lambda>_. None\<rparr>"

lemma filtered_setup_controllers:
  "SetupController ClusterStackReleaseController \<lparr>rc_directory = ''/tmp/downloads/'', rc_assets = Some GithubFactory,
     rc_watchFilter = ''mine'', rc_concurrency = Some 1\<rparr> \<in> set filtered_setup"
  "SetupController ClusterAddonController \<lparr>rc_directory = ''/tmp/downloads/'', rc_assets = Some GithubFactory,
     rc_watchFilter = ''mine'', rc_concurrency = Some 1\<rparr> \<in> set filtered_setup"
  "SetupController ClusterAddonCreateController \<lparr>rc_directory = [], rc_assets = None,
     rc_watchFilter = [], rc_concurrency = None\<rparr> \<in> set filtered_setup"
  by code_simp+

theorem created_objects_seen_iff_unfiltered_witness:
  "release_SetupWithManager ''mine'' (Created (ReleaseObject (sample_release_of ''docker-ferrol-1-27-v1-alpha-9''))) = [] \<and>
   addon_SetupWithManager ''mine'' (Created (AddonObject (new_addon hook_cluster))) = [] \<and>
   addon_create_SetupWithManager [] (Created (ClusterObject hook_cluster)) = [meta_key (cl_meta hook_cluster)]"
proof -
  have "se_get (sample_env []) = Inr sample_stack" by (simp add: sample_env_def)
  moreover have "new_addon hook_cluster \<in> set (snd (addon_create_Reconcile sample_creation))"
    by (simp add: addon_create_Reconcile_def sample_creation_def IsNotFound_def)
  moreover have "map_of (m_annotations (cl_meta hook_cluster)) PausedAnnotation = None"
    by (simp add: hook_cluster_def empty_meta_def)
  ultimately show ?thesis
    using created_objects_seen_iff_unfiltered[OF filtered_setup_done filtered_setup_controllers _ sample_created]
    by (simp add: filtered_options_def)
qed

theorem release_change_wakes_stack_witness:
  "meta_key (csk_meta sample_stack) \<in>
     set (stack_SetupWithManager (\<lambda>_. None) [] (Deleted (ReleaseObject (sample_release_of ''r'')))) \<and>
   meta_key (csk_meta sample_stack) \<notin>
     set (stack_SetupWithManager (\<lambda>_. None) ''mine'' (Deleted (ReleaseObject (sample_release_of ''r''))))"
proof -
  have owned: "owned_by sample_stack (sample_release_of ''r'')"
    "m_namespace (csr_meta (sample_release_of ''r'')) = m_namespace (csk_meta sample_stack)" by code_simp+
  show ?thesis
    using release_change_wakes_stack[OF owned, of "Deleted (ReleaseObject (sample_release_of ''r''))"]
    by (simp add: sample_release_of_def)
qed

definition upgraded_cluster :: Cluster where
  "upgraded_cluster = hook_cluster\<lparr>cl_topology :=
     Some \<lparr>top_class = ''docker-ferrol-1-27-v2'', top_version = ''1.27.3''\<rparr>\<rparr>"

theorem class_change_wakes_addon_witness:
  "set (addon_SetupWithManager ''mine'' (Updated (ClusterObject hook_cluster) (ClusterObject upgraded_cluster))) =
     {addon_key upgraded_cluster} \<and>
   set (addon_SetupWithManager ''mine'' (Updated (ClusterObject hook_cluster) (ClusterObject hook_cluster))) = {}"
proof -
  have "meta_key (cl_meta hook_cluster) = meta_key (cl_meta upgraded_cluster)"
    by (simp add: upgraded_cluster_def)
  from class_change_wakes_addon[OF this, of "''mine''"] class_change_wakes_addon[of hook_cluster hook_cluster "''mine''"]
  show ?thesis by (simp add: upgraded_cluster_def hook_cluster_def)
qed

end
