(* ===== verification/RestConfigs.thy ===== *)
theory RestConfigs
  imports Kube
begin

text \<open>
  The client that deletes an object (\<open>newRestClient\<close> of \<open>pkg/kube/helpers.go\<close>): it writes the group
  and version of the object into the configuration the reconciler holds, and builds a client from
  it. The reconciler of the releases gives the same configuration to all its reconciliations
  (\<open>clusterstackrelease_controller.go\<close>), of which \<open>MaxConcurrentReconciles\<close> run at a time, so the
  lines of the function are the steps of a transition relation. Reading the configuration at the end
  is one step; what \<open>RESTClientFor\<close> checks beyond the group version is the parameter \<open>connect\<close>.
\<close>

section \<open>One call\<close>

record RestConfig =
  rc_GroupVersion :: "GroupVersion option"
  rc_APIPath :: string

record RestClient =
  rcl_GroupVersion :: GroupVersion
  rcl_APIPath :: string

datatype call_line =
    ResetContentConfig
  | AssignGroupVersion
  | AssignAPIPath
  | BuildClient
  | CallReturned "(string, RestClient) result"

definition RESTClientFor :: "(RestConfig \<Rightarrow> string option) \<Rightarrow> RestConfig \<Rightarrow> (string, RestClient) result" where
  "RESTClientFor connect config =
     (case rc_GroupVersion config of
        None \<Rightarrow> Inl ''GroupVersion is required when initializing a RESTClient''
      | Some gv \<Rightarrow>
          (case connect config of
             Some e \<Rightarrow> Inl e
           | None \<Rightarrow> Inr \<lparr>rcl_GroupVersion = gv, rcl_APIPath = rc_APIPath config\<rparr>))"

definition api_path :: "GroupVersion \<Rightarrow> string" where
  "api_path gv = (if gv_group gv = [] then ''/api'' else ''/apis'')"

text \<open>\<open>UnstructuredPlusDefaultContentConfig\<close> has no group version, so the first line clears it.\<close>

fun call_step ::
    "(RestConfig \<Rightarrow> string option) \<Rightarrow> GroupVersion \<Rightarrow> call_line \<Rightarrow> RestConfig \<Rightarrow> call_line \<times> RestConfig" where
  "call_step connect gv ResetContentConfig config = (AssignGroupVersion, config\<lparr>rc_GroupVersion := None\<rparr>)"
| "call_step connect gv AssignGroupVersion config = (AssignAPIPath, config\<lparr>rc_GroupVersion := Some gv\<rparr>)"
| "call_step connect gv AssignAPIPath config = (BuildClient, config\<lparr>rc_APIPath := api_path gv\<rparr>)"
| "call_step connect gv BuildClient config =
     (CallReturned (map_error (\<lambda>e. ''failed to get REST client: '' @ e) (RESTClientFor connect config)), config)"
| "call_step connect gv (CallReturned r) config = (CallReturned r, config)"

definition newRestClient ::
    "(RestConfig \<Rightarrow> string option) \<Rightarrow> GroupVersion \<Rightarrow> RestConfig \<Rightarrow> (string, RestClient) result \<times> RestConfig" where
  "newRestClient connect gv config =
     (let run = (\<lambda>(line, config). call_step connect gv line config) in
      case (run ^^ 4) (ResetContentConfig, config) of
        (CallReturned r, config) \<Rightarrow> (r, config)
      | (_, config) \<Rightarrow> (Inl [], config))"

definition right_client :: "GroupVersion \<Rightarrow> RestClient" where
  "right_client gv = \<lparr>rcl_GroupVersion = gv, rcl_APIPath = api_path gv\<rparr>"

definition right_config :: "GroupVersion \<Rightarrow> RestConfig \<Rightarrow> RestConfig" where
  "right_config gv config = config\<lparr>rc_GroupVersion := Some gv, rc_APIPath := api_path gv\<rparr>"

lemma newRestClient_alone:
  "newRestClient connect gv config =
    (case connect (right_config gv config) of
       Some e \<Rightarrow> Inl (''failed to get REST client: '' @ e) | None \<Rightarrow> Inr (right_client gv),
     right_config gv config)"
  by (simp add: newRestClient_def eval_nat_numeral RESTClientFor_def right_client_def right_config_def
      map_error_def split: option.split)

section \<open>Concurrent calls\<close>

text \<open>
  The calls are numbered; \<open>sh_active\<close> lists those a worker is executing. A call starts when a worker
  is free and leaves when it has returned.
\<close>

record shared_state =
  sh_config :: RestConfig
  sh_line :: "nat \<Rightarrow> call_line"
  sh_active :: "nat list"

definition shared_start :: "RestConfig \<Rightarrow> shared_state" where
  "shared_start config = \<lparr>sh_config = config, sh_line = \<lambda>_. ResetContentConfig, sh_active = []\<rparr>"

definition returned :: "call_line \<Rightarrow> bool" where
  "returned l = (case l of CallReturned _ \<Rightarrow> True | _ \<Rightarrow> False)"

inductive shared_step ::
    "(RestConfig \<Rightarrow> string option) \<Rightarrow> nat \<Rightarrow> (nat \<Rightarrow> GroupVersion) \<Rightarrow> shared_state \<Rightarrow> shared_state \<Rightarrow> bool"
  for connect :: "RestConfig \<Rightarrow> string option" and workers :: nat and gvs :: "nat \<Rightarrow> GroupVersion"
where
  call_starts:
    "i \<notin> set (sh_active s) \<Longrightarrow> sh_line s i = ResetContentConfig \<Longrightarrow> length (sh_active s) < workers \<Longrightarrow>
       shared_step connect workers gvs s (s\<lparr>sh_active := i # sh_active s\<rparr>)"
| call_runs:
    "i \<in> set (sh_active s) \<Longrightarrow> \<not> returned (sh_line s i) \<Longrightarrow>
       call_step connect (gvs i) (sh_line s i) (sh_config s) = (l, config) \<Longrightarrow>
       shared_step connect workers gvs s (s\<lparr>sh_line := (sh_line s)(i := l), sh_config := config\<rparr>)"
| call_leaves:
    "i \<in> set (sh_active s) \<Longrightarrow> returned (sh_line s i) \<Longrightarrow>
       shared_step connect workers gvs s (s\<lparr>sh_active := removeAll i (sh_active s)\<rparr>)"

abbreviation shared_steps ::
    "(RestConfig \<Rightarrow> string option) \<Rightarrow> nat \<Rightarrow> (nat \<Rightarrow> GroupVersion) \<Rightarrow> shared_state \<Rightarrow> shared_state \<Rightarrow> bool" where
  "shared_steps connect workers gvs \<equiv> (shared_step connect workers gvs)\<^sup>*\<^sup>*"

section \<open>One worker\<close>

text \<open>What a call has written to the configuration when it stands at a line.\<close>

fun written :: "GroupVersion \<Rightarrow> call_line \<Rightarrow> RestConfig \<Rightarrow> bool" where
  "written gv AssignAPIPath config \<longleftrightarrow> rc_GroupVersion config = Some gv"
| "written gv BuildClient config \<longleftrightarrow> rc_GroupVersion config = Some gv \<and> rc_APIPath config = api_path gv"
| "written gv (CallReturned (Inr client)) config \<longleftrightarrow> client = right_client gv"
| "written gv _ config \<longleftrightarrow> True"

lemma call_step_written:
  "written gv l config \<Longrightarrow> call_step connect gv l config = (l', config') \<Longrightarrow> written gv l' config'"
  by (cases l) (auto simp: RESTClientFor_def right_client_def map_error_def split: option.splits)

definition at_rest :: "GroupVersion \<Rightarrow> call_line \<Rightarrow> bool" where
  "at_rest gv l \<longleftrightarrow> l = ResetContentConfig \<or> (\<exists>r. l = CallReturned r \<and> (\<forall>client. r = Inr client \<longrightarrow> client = right_client gv))"

definition serial_inv :: "(nat \<Rightarrow> GroupVersion) \<Rightarrow> shared_state \<Rightarrow> bool" where
  "serial_inv gvs s \<longleftrightarrow> length (sh_active s) \<le> 1 \<and>
     (\<forall>i. if i \<in> set (sh_active s) then written (gvs i) (sh_line s i) (sh_config s)
          else at_rest (gvs i) (sh_line s i))"

lemma returned_at_rest: "returned l \<Longrightarrow> written gv l config \<Longrightarrow> at_rest gv l"
  by (auto simp: returned_def at_rest_def split: call_line.splits)

lemma serial_step:
  assumes "shared_step connect workers gvs s t" and "serial_inv gvs s" and "workers \<le> 1"
  shows "serial_inv gvs t"
  using assms
proof cases
  case (call_starts i)
  then have "sh_active s = []" using assms(3) by (cases "sh_active s") auto
  then show ?thesis using call_starts assms(2) by (auto simp: serial_inv_def)
next
  case (call_runs i l config)
  then have "sh_active s = [i]" using assms(2) by (cases "sh_active s") (auto simp: serial_inv_def)
  then show ?thesis using call_runs assms(2) call_step_written[OF _ call_runs(4)] by (auto simp: serial_inv_def)
next
  case (call_leaves i)
  then have "sh_active s = [i]" using assms(2) by (cases "sh_active s") (auto simp: serial_inv_def)
  then show ?thesis using call_leaves(1) assms(2) returned_at_rest[OF call_leaves(3)]
    by (auto simp: serial_inv_def split: if_splits)
qed

lemma serial_steps:
  assumes "shared_steps connect workers gvs (shared_start config) s" and "workers \<le> 1"
  shows "serial_inv gvs s"
  using assms(1)
proof (induction rule: rtranclp_induct)
  case base
  show ?case by (simp add: shared_start_def serial_inv_def at_rest_def)
next
  case (step t u)
  then show ?case using serial_step assms(2) by blast
qed

lemma serial_client:
  "serial_inv gvs s \<Longrightarrow> sh_line s i = CallReturned (Inr client) \<Longrightarrow> client = right_client (gvs i)"
  unfolding serial_inv_def at_rest_def by (metis call_line.distinct(7) call_line.inject written.simps(3))

section \<open>Two workers\<close>

lemma step_run:
  assumes "shared_steps connect workers gvs s t" and "i \<in> set (sh_active t)" and "\<not> returned (sh_line t i)"
    and "call_step connect (gvs i) (sh_line t i) (sh_config t) = (l, config)"
  shows "shared_steps connect workers gvs s (t\<lparr>sh_line := (sh_line t)(i := l), sh_config := config\<rparr>)"
  by (rule rtranclp.rtrancl_into_rtrancl[OF assms(1)], rule call_runs) (use assms in simp_all)

lemma step_start:
  assumes "shared_steps connect workers gvs s t" and "i \<notin> set (sh_active t)" and "sh_line t i = ResetContentConfig"
    and "length (sh_active t) < workers"
  shows "shared_steps connect workers gvs s (t\<lparr>sh_active := i # sh_active t\<rparr>)"
  by (rule rtranclp.rtrancl_into_rtrancl[OF assms(1)], rule call_starts) (use assms in simp_all)

text \<open>A call that has just started runs up to the line that builds the client.\<close>

lemma call_prepared:
  assumes "shared_steps connect workers gvs s t" and "i \<in> set (sh_active t)" and "sh_line t i = ResetContentConfig"
  shows "shared_steps connect workers gvs s
    (t\<lparr>sh_line := (sh_line t)(i := BuildClient), sh_config := right_config (gvs i) (sh_config t)\<rparr>)"
proof -
  have 1: "shared_steps connect workers gvs s (t\<lparr>sh_line := (sh_line t)(i := AssignGroupVersion),
      sh_config := (sh_config t)\<lparr>rc_GroupVersion := None\<rparr>\<rparr>)"
    using step_run[OF assms(1,2)] assms(3) by (simp add: returned_def)
  have 2: "shared_steps connect workers gvs s (t\<lparr>sh_line := (sh_line t)(i := AssignAPIPath),
      sh_config := (sh_config t)\<lparr>rc_GroupVersion := Some (gvs i)\<rparr>\<rparr>)"
    using step_run[OF 1, of i] assms(2) by (simp add: returned_def)
  show ?thesis
    using step_run[OF 2, of i] assms(2) by (simp add: returned_def right_config_def)
qed

section \<open>Properties\<close>

text \<open>
  C34. With one worker, which is the default of the flag, every client for the deletion of an object
  is built for the group and version of that object, whatever the earlier calls left in the shared
  configuration.
\<close>

theorem deletion_client_fits:
  assumes "shared_steps connect workers gvs (shared_start config) s" and "workers \<le> 1"
    and "sh_line s i = CallReturned (Inr client)"
  shows "rcl_GroupVersion client = gvs i \<and> rcl_APIPath client = api_path (gvs i)"
  using serial_client[OF serial_steps[OF assms(1,2)] assms(3)] by (simp add: right_client_def)

text \<open>
  C35. With two workers or more the calls of two reconciliations race for the configuration: there is
  a run in which the client for an object of one kind is built for the group and version of the
  object another reconciliation deletes.
\<close>

theorem deletion_clients_race:
  assumes "2 \<le> workers" and "i \<noteq> j" and "connect (right_config (gvs j) (right_config (gvs i) config)) = None"
  shows "\<exists>s client. shared_steps connect workers gvs (shared_start config) s \<and>
    sh_line s i = CallReturned (Inr client) \<and> rcl_GroupVersion client = gvs j"
proof -
  let ?R = "shared_steps connect workers gvs (shared_start config)"
  define s1 where "s1 = (shared_start config)\<lparr>sh_active := [i]\<rparr>"
  define s2 where "s2 = s1\<lparr>sh_line := (sh_line s1)(i := BuildClient), sh_config := right_config (gvs i) config\<rparr>"
  define s3 where "s3 = s2\<lparr>sh_active := [j, i]\<rparr>"
  define s4 where "s4 = s3\<lparr>sh_line := (sh_line s3)(j := BuildClient),
    sh_config := right_config (gvs j) (right_config (gvs i) config)\<rparr>"
  note defs = s1_def s2_def s3_def s4_def shared_start_def
  have "?R s1" using step_start[of connect workers gvs _ "shared_start config" i] assms(1) by (simp add: defs)
  then have "?R s2" using call_prepared[of connect workers gvs _ s1 i] by (simp add: defs)
  then have "?R s3" using step_start[of connect workers gvs _ s2 j] assms(1,2) by (simp add: defs)
  then have "?R s4" using call_prepared[of connect workers gvs _ s3 j] assms(2) by (simp add: defs)
  moreover have "call_step connect (gvs i) (sh_line s4 i) (sh_config s4) =
      (CallReturned (Inr (right_client (gvs j))), sh_config s4)"
    using assms(2,3) by (simp add: defs RESTClientFor_def right_config_def right_client_def map_error_def)
  ultimately have "?R (s4\<lparr>sh_line := (sh_line s4)(i := CallReturned (Inr (right_client (gvs j)))),
      sh_config := sh_config s4\<rparr>)"
    using assms(2) by (intro step_run) (simp_all add: defs returned_def)
  then show ?thesis
    by (intro exI[of _ "s4\<lparr>sh_line := (sh_line s4)(i := CallReturned (Inr (right_client (gvs j)))),
      sh_config := sh_config s4\<rparr>"] exI[of _ "right_client (gvs j)"]) (simp add: right_client_def)
qed

definition two_versions :: "nat \<Rightarrow> GroupVersion" where
  "two_versions i = (if i = 0 then \<lparr>gv_group = [], gv_version = ''v1''\<rparr>
     else \<lparr>gv_group = ''apps'', gv_version = ''v1''\<rparr>)"

definition empty_config :: RestConfig where
  "empty_config = \<lparr>rc_GroupVersion = None, rc_APIPath = []\<rparr>"

theorem deletion_clients_race_witness:
  "\<exists>s client. shared_steps (\<lambda>_. None) 2 two_versions (shared_start empty_config) s \<and>
    sh_line s 0 = CallReturned (Inr client) \<and> rcl_GroupVersion client = two_versions 1"
  by (rule deletion_clients_race) simp_all

lemma one_worker_run:
  "shared_steps (\<lambda>_. None) 1 two_versions (shared_start empty_config)
    \<lparr>sh_config = right_config (two_versions 0) empty_config,
     sh_line = (\<lambda>_. ResetContentConfig)(0 := CallReturned (Inr (right_client (two_versions 0)))), sh_active = [0]\<rparr>"
proof -
  let ?R = "shared_steps (\<lambda>_. None) 1 two_versions (shared_start empty_config)"
  have "?R ((shared_start empty_config)\<lparr>sh_active := [0]\<rparr>)"
    using step_start[of _ 1 two_versions _ "shared_start empty_config" 0] by (simp add: shared_start_def)
  from call_prepared[OF this, of 0]
  have "?R \<lparr>sh_config = right_config (two_versions 0) empty_config,
      sh_line = (\<lambda>_. ResetContentConfig)(0 := BuildClient), sh_active = [0]\<rparr>"
    by (simp add: shared_start_def)
  from step_run[OF this, of 0] show ?thesis
    by (simp add: returned_def RESTClientFor_def right_config_def right_client_def map_error_def)
qed

theorem deletion_client_fits_witness:
  "rcl_GroupVersion (right_client (two_versions 0)) = two_versions 0 \<and>
    rcl_APIPath (right_client (two_versions 0)) = api_path (two_versions 0)"
  by (rule deletion_client_fits[OF one_worker_run]) simp_all

end
