(* ===== verification/Webhooks.thy ===== *)
theory Webhooks
  imports Release
begin

text \<open>
  The validating webhooks of \<open>api/v1alpha1\<close> (\<open>clusterstack_webhook.go\<close>, \<open>cluster_webhook.go\<close>,
  \<open>clusteraddon_webhook.go\<close>, \<open>clusterstackrelease_webhook.go\<close>, \<open>webhook.go\<close>). The objects are
  given with their type, so the failed type assertions are left out, and so is the wording of
  warnings and errors. Listing clusters and getting a release are parameters.
\<close>

section \<open>Answers\<close>

datatype violation =
    InvalidVersion version_error
  | EmptyProviderRef
  | ProviderImmutable
  | NameImmutable
  | ChannelImmutable
  | KubernetesVersionImmutable
  | EmptyTopology
  | EmptyClass
  | WrongTopologyVersion
  | ProviderChanged
  | StackNameChanged
  | KubernetesVersionSkew
  | EmptyClusterRef
  | ClusterRefNotCluster
  | ClusterRefNameImmutable
  | ClusterRefNamespace
  | ClusterRefKindImmutable

datatype admission =
    Allowed
  | AllowedWithWarning
  | Invalid "violation list"
  | InUseBy "string list"
  | MalformedClass cs_error
  | WebhookPanic

definition aggregateObjErrors :: "violation list \<Rightarrow> admission" where
  "aggregateObjErrors allErrs = (if length allErrs = 0 then Allowed else Invalid allErrs)"

definition rejected :: "admission \<Rightarrow> bool" where
  "rejected a = (case a of Allowed \<Rightarrow> False | AllowedWithWarning \<Rightarrow> False | _ \<Rightarrow> True)"

section \<open>ClusterStack\<close>

text \<open>
  In local mode the code builds an error for a cluster stack that subscribes and drops it; the
  mode has no effect.
\<close>

fun version_violations :: "string list \<Rightarrow> violation list" where
  "version_violations [] = []"
| "version_violations (v # vs) =
     (case version_New v of Inl e \<Rightarrow> [InvalidVersion e] | Inr _ \<Rightarrow> []) @ version_violations vs"

definition stack_ValidateCreate :: "bool \<Rightarrow> ClusterStackObject \<Rightarrow> admission" where
  "stack_ValidateCreate localMode clusterStack =
     aggregateObjErrors
       (version_violations (css_versions (csk_spec clusterStack)) @
        (if css_providerRef (csk_spec clusterStack) = None \<and> \<not> css_noProvider (csk_spec clusterStack)
         then [EmptyProviderRef] else []))"

definition stack_ValidateUpdate ::
    "bool \<Rightarrow> ClusterStackObject \<Rightarrow> ClusterStackObject \<Rightarrow> admission" where
  "stack_ValidateUpdate localMode oldStack newStack =
     (let old = csk_spec oldStack; new = csk_spec newStack in
      aggregateObjErrors
        ((if css_provider old \<noteq> css_provider new then [ProviderImmutable] else []) @
         (if css_name old \<noteq> css_name new then [NameImmutable] else []) @
         (if css_channel old \<noteq> css_channel new then [ChannelImmutable] else []) @
         (if css_kubernetesVersion old \<noteq> css_kubernetesVersion new
          then [KubernetesVersionImmutable] else [])))"

definition uses_stack :: "ClusterStackSpec \<Rightarrow> Cluster \<Rightarrow> bool" where
  "uses_stack spec cluster =
     (case cl_topology cluster of
        None \<Rightarrow> False
      | Some tp \<Rightarrow>
          if top_class tp = [] then False
          else (case NewFromClusterClassProperties (top_class tp) of
                  Inl _ \<Rightarrow> False
                | Inr cs \<Rightarrow>
                    css_provider spec = cs_provider cs
                    \<and> css_channel spec = ver_channel (cs_version cs)
                    \<and> css_name spec = cs_name cs
                    \<and> css_kubernetesVersion spec = kv_StringWithDot (cs_kube cs)))"

definition getClustersUsingClusterStack ::
    "(api_error, Cluster list) result \<Rightarrow> ClusterStackObject \<Rightarrow> (api_error, string list) result" where
  "getClustersUsingClusterStack listed clusterStack =
     (case listed of
        Inl e \<Rightarrow> Inl e
      | Inr items \<Rightarrow> Inr (map (\<lambda>c. m_name (cl_meta c))
          (filter (uses_stack (csk_spec clusterStack)) items)))"

definition stack_ValidateDelete ::
    "(api_error, Cluster list) result \<Rightarrow> ClusterStackObject \<Rightarrow> admission" where
  "stack_ValidateDelete listed clusterStack =
     (case getClustersUsingClusterStack listed clusterStack of
        Inl _ \<Rightarrow> AllowedWithWarning
      | Inr clusters \<Rightarrow> if length clusters > 0 then InUseBy clusters else Allowed)"

section \<open>ClusterStackRelease\<close>

datatype use_error = ListClusters api_error | BadClass cs_error | BadRelease cs_error

fun clusters_using_release ::
    "string \<Rightarrow> Cluster list \<Rightarrow> (use_error, string list) result" where
  "clusters_using_release releaseName [] = Inr []"
| "clusters_using_release releaseName (cluster # clusters) =
     (case cl_topology cluster of
        None \<Rightarrow> clusters_using_release releaseName clusters
      | Some tp \<Rightarrow>
          (case NewFromClusterClassProperties (top_class tp) of
             Inl e \<Rightarrow> Inl (BadClass e)
           | Inr class_cs \<Rightarrow>
               (case NewFromClusterStackReleaseProperties releaseName of
                  Inl e \<Rightarrow> Inl (BadRelease e)
                | Inr release_cs \<Rightarrow>
                    (case clusters_using_release releaseName clusters of
                       Inl e \<Rightarrow> Inl e
                     | Inr names \<Rightarrow>
                         Inr (if cs_name class_cs = cs_name release_cs
                                 \<and> cs_provider class_cs = cs_provider release_cs
                                 \<and> cs_kube class_cs = cs_kube release_cs
                                 \<and> version_String (cs_version class_cs) = version_String (cs_version release_cs)
                              then m_name (cl_meta cluster) # names else names)))))"

definition getClustersUsingClusterStackRelease ::
    "(api_error, Cluster list) result \<Rightarrow> ClusterStackRelease \<Rightarrow> (use_error, string list) result" where
  "getClustersUsingClusterStackRelease listed csr =
     (case listed of
        Inl e \<Rightarrow> Inl (ListClusters e)
      | Inr items \<Rightarrow> clusters_using_release (csr_name csr) items)"

definition release_ValidateCreate :: "ClusterStackRelease \<Rightarrow> admission" where
  "release_ValidateCreate csr = Allowed"

definition release_ValidateUpdate :: "ClusterStackRelease \<Rightarrow> ClusterStackRelease \<Rightarrow> admission" where
  "release_ValidateUpdate old new = Allowed"

definition release_ValidateDelete ::
    "(api_error, Cluster list) result \<Rightarrow> ClusterStackRelease \<Rightarrow> admission" where
  "release_ValidateDelete listed csr =
     (case getClustersUsingClusterStackRelease listed csr of
        Inl _ \<Rightarrow> AllowedWithWarning
      | Inr clusters \<Rightarrow> if length clusters > 0 then InUseBy clusters else Allowed)"

section \<open>Cluster\<close>

type_synonym release_getter = "NamespacedName \<Rightarrow> (api_error, ClusterStackRelease) result"

definition getClusterStackReleaseVersion ::
    "release_getter \<Rightarrow> string \<Rightarrow> string \<Rightarrow> (api_error, string) result" where
  "getClusterStackReleaseVersion get name namespace =
     (case get \<lparr>nn_name = name, nn_namespace = namespace\<rparr> of
        Inl e \<Rightarrow> Inl e
      | Inr csr \<Rightarrow> Inr (rs_kubernetesVersion (csr_status csr)))"

definition isVersionCorrect :: "release_getter \<Rightarrow> Cluster \<Rightarrow> admission" where
  "isVersionCorrect get cluster =
     (case cl_topology cluster of
        None \<Rightarrow> Invalid [EmptyTopology]
      | Some tp \<Rightarrow>
          if top_class tp = [] then Invalid [EmptyClass]
          else (case getClusterStackReleaseVersion get
                       (ConvertFromClusterClassToClusterStackFormat (top_class tp))
                       (m_namespace (cl_meta cluster)) of
                  Inl _ \<Rightarrow> AllowedWithWarning
                | Inr want \<Rightarrow>
                    if want = [] then AllowedWithWarning
                    else if top_version tp \<noteq> want then Invalid [WrongTopologyVersion]
                    else Allowed))"

definition cluster_ValidateCreate :: "release_getter \<Rightarrow> Cluster \<Rightarrow> admission" where
  "cluster_ValidateCreate get cluster = isVersionCorrect get cluster"

definition class_change_violations :: "ClusterStack \<Rightarrow> ClusterStack \<Rightarrow> violation list" where
  "class_change_violations csOld csNew =
     (let diff = wrap_int (kv_minor (cs_kube csNew) - kv_minor (cs_kube csOld)) in
      (if cs_provider csOld \<noteq> cs_provider csNew then [ProviderChanged] else []) @
      (if cs_name csOld \<noteq> cs_name csNew then [StackNameChanged] else []) @
      (if diff \<noteq> 1 \<and> diff \<noteq> 0 then [KubernetesVersionSkew] else []))"

definition cluster_ValidateUpdate :: "release_getter \<Rightarrow> Cluster \<Rightarrow> Cluster \<Rightarrow> admission" where
  "cluster_ValidateUpdate get oldCluster newCluster =
     (if isVersionCorrect get newCluster \<noteq> Allowed then isVersionCorrect get newCluster
      else (case cl_topology oldCluster of
          None \<Rightarrow> WebhookPanic
        | Some oldTop \<Rightarrow>
            (case NewFromClusterClassProperties (top_class oldTop) of
               Inl e \<Rightarrow> MalformedClass e
             | Inr csOld \<Rightarrow>
                 (case cl_topology newCluster of
                    None \<Rightarrow> WebhookPanic
                  | Some newTop \<Rightarrow>
                      (case NewFromClusterClassProperties (top_class newTop) of
                         Inl e \<Rightarrow> MalformedClass e
                       | Inr csNew \<Rightarrow> aggregateObjErrors (class_change_violations csOld csNew))))))"

definition cluster_ValidateDelete :: "Cluster \<Rightarrow> admission" where
  "cluster_ValidateDelete cluster = Allowed"

section \<open>ClusterAddon\<close>

definition addon_ValidateCreate :: "ClusterAddon \<Rightarrow> admission" where
  "addon_ValidateCreate a =
     aggregateObjErrors
       (case cas_clusterRef (ca_spec a) of
          None \<Rightarrow> [EmptyClusterRef]
        | Some ref \<Rightarrow> if ref_kind ref \<noteq> ''Cluster'' then [ClusterRefNotCluster] else [])"

definition addon_ValidateUpdate :: "ClusterAddon \<Rightarrow> ClusterAddon \<Rightarrow> admission" where
  "addon_ValidateUpdate old a =
     (case cas_clusterRef (ca_spec a) of
        None \<Rightarrow> aggregateObjErrors [EmptyClusterRef]
      | Some ref \<Rightarrow>
          (case cas_clusterRef (ca_spec old) of
             None \<Rightarrow> WebhookPanic
           | Some oldRef \<Rightarrow>
               aggregateObjErrors
                 ((if ref_name oldRef \<noteq> ref_name ref then [ClusterRefNameImmutable] else []) @
                  (if ref_namespace ref \<noteq> m_namespace (ca_meta a) then [ClusterRefNamespace] else []) @
                  (if ref_kind oldRef \<noteq> ref_kind ref then [ClusterRefKindImmutable] else []))))"

definition addon_ValidateDelete :: "ClusterAddon \<Rightarrow> admission" where
  "addon_ValidateDelete a = Allowed"

section \<open>Facts\<close>

lemma aggregate_Allowed [simp]: "aggregateObjErrors errs = Allowed \<longleftrightarrow> errs = []"
  by (simp add: aggregateObjErrors_def)

lemma version_violations_Nil: "version_violations vs = [] \<longleftrightarrow> (\<forall>v\<in>set vs. is_ok (version_New v))"
  by (induction vs) (auto split: sum.splits)

lemma stack_ValidateCreate_Allowed:
  "stack_ValidateCreate lm cs = Allowed \<longleftrightarrow> (\<forall>v\<in>set (css_versions (csk_spec cs)). is_ok (version_New v)) \<and>
     (css_noProvider (csk_spec cs) \<or> css_providerRef (csk_spec cs) \<noteq> None)"
  by (auto simp: stack_ValidateCreate_def version_violations_Nil)

lemma unsigned_minor_diff:
  assumes "kv_unsigned a" "kv_unsigned b"
  shows "wrap_int (kv_minor a - kv_minor b) = kv_minor a - kv_minor b"
  using assms by (simp add: kv_unsigned_def kv_fits_def fits_int_def min_int_def max_int_def)

lemma class_change_ok:
  assumes "parsed_stack a" "parsed_stack b"
  shows "class_change_violations a b = [] \<longleftrightarrow> cs_provider a = cs_provider b \<and> cs_name a = cs_name b \<and>
    kv_minor (cs_kube b) \<in> {kv_minor (cs_kube a), kv_minor (cs_kube a) + 1}"
  using assms unsigned_minor_diff[of "cs_kube b" "cs_kube a"]
  by (auto simp: class_change_violations_def parsed_stack_def Let_def)

lemma using_release_reported:
  assumes "clusters_using_release n clusters = Inr names" and "c \<in> set clusters"
    and "cl_topology c = Some tp" and "NewFromClusterClassProperties (top_class tp) = Inr cs"
    and "NewFromClusterStackReleaseProperties n = Inr cs"
  shows "m_name (cl_meta c) \<in> set names"
  using assms by (induction clusters arbitrary: names) (auto split: option.splits sum.splits)

section \<open>Properties\<close>

text \<open>
  A cluster stack is admitted without complaint exactly when each version of its spec can be
  parsed and it names a provider or runs without one, in local mode as well.
\<close>

theorem stack_create_admitted_iff:
  "stack_ValidateCreate localMode cs = Allowed \<longleftrightarrow>
     list_all (\<lambda>v. is_ok (version_New v)) (css_versions (csk_spec cs)) \<and>
     (css_noProvider (csk_spec cs) \<or> css_providerRef (csk_spec cs) \<noteq> None)"
  by (simp add: stack_ValidateCreate_Allowed list_all_iff)

lemma aggregate_no_warning [simp]: "aggregateObjErrors errs \<noteq> AllowedWithWarning"
  by (simp add: aggregateObjErrors_def)

lemma isVersionCorrect_answers:
  "isVersionCorrect get new = Allowed \<longleftrightarrow> (\<exists>tp csr. cl_topology new = Some tp \<and> top_class tp \<noteq> [] \<and>
     get \<lparr>nn_name = ConvertFromClusterClassToClusterStackFormat (top_class tp),
          nn_namespace = m_namespace (cl_meta new)\<rparr> = Inr csr \<and>
     rs_kubernetesVersion (csr_status csr) \<noteq> [] \<and> top_version tp = rs_kubernetesVersion (csr_status csr))"
  "isVersionCorrect get new = AllowedWithWarning \<longleftrightarrow> (\<exists>tp. cl_topology new = Some tp \<and> top_class tp \<noteq> [] \<and>
     (case get \<lparr>nn_name = ConvertFromClusterClassToClusterStackFormat (top_class tp),
          nn_namespace = m_namespace (cl_meta new)\<rparr> of
        Inl _ \<Rightarrow> True | Inr csr \<Rightarrow> rs_kubernetesVersion (csr_status csr) = []))"
  by (auto simp: isVersionCorrect_def getClusterStackReleaseVersion_def split: option.splits sum.splits)

text \<open>
  C37. Which updates of a cluster are admitted. Without a warning exactly those whose new class keeps
  the provider and the name of the stack and the minor Kubernetes version, or raises the latter by
  one, and whose new version is the one that the release of the class records. With a warning
  exactly those whose new class has no release that can be read or one that records no version: then
  nothing is compared with the old class, so provider, stack and version may change freely.
\<close>

theorem cluster_update_admitted:
  "(cluster_ValidateUpdate get old new = Allowed \<longleftrightarrow>
    (\<exists>oldTop newTop csOld csNew csr. cl_topology old = Some oldTop \<and> cl_topology new = Some newTop \<and>
      top_class newTop \<noteq> [] \<and>
      NewFromClusterClassProperties (top_class oldTop) = Inr csOld \<and>
      NewFromClusterClassProperties (top_class newTop) = Inr csNew \<and>
      cs_provider csNew = cs_provider csOld \<and> cs_name csNew = cs_name csOld \<and>
      kv_minor (cs_kube csNew) \<in> {kv_minor (cs_kube csOld), kv_minor (cs_kube csOld) + 1} \<and>
      get \<lparr>nn_name = ConvertFromClusterClassToClusterStackFormat (top_class newTop),
           nn_namespace = m_namespace (cl_meta new)\<rparr> = Inr csr \<and>
      rs_kubernetesVersion (csr_status csr) \<noteq> [] \<and> top_version newTop = rs_kubernetesVersion (csr_status csr))) \<and>
   (cluster_ValidateUpdate get old new = AllowedWithWarning \<longleftrightarrow>
    (\<exists>newTop. cl_topology new = Some newTop \<and> top_class newTop \<noteq> [] \<and>
      (case get \<lparr>nn_name = ConvertFromClusterClassToClusterStackFormat (top_class newTop),
           nn_namespace = m_namespace (cl_meta new)\<rparr> of
         Inl _ \<Rightarrow> True | Inr csr \<Rightarrow> rs_kubernetesVersion (csr_status csr) = [])))"
  (is "(_ \<longleftrightarrow> ?exact) \<and> (_ \<longleftrightarrow> ?unchecked)")
proof (cases "isVersionCorrect get new = Allowed")
  case True
  then obtain newTop where n: "cl_topology new = Some newTop"
    using isVersionCorrect_answers(1) by blast
  have ok: "class_change_violations csOld csNew = [] \<longleftrightarrow> cs_provider csOld = cs_provider csNew \<and>
      cs_name csOld = cs_name csNew \<and> kv_minor (cs_kube csNew) \<in> {kv_minor (cs_kube csOld), kv_minor (cs_kube csOld) + 1}"
    if "NewFromClusterClassProperties a = Inr csOld" "NewFromClusterClassProperties b = Inr csNew" for a b csOld csNew
    using that class_change_ok class_parsed by blast
  have "cluster_ValidateUpdate get old new = Allowed \<longleftrightarrow> ?exact"
    using True n isVersionCorrect_answers(1)[of get new] ok
    by (auto simp: cluster_ValidateUpdate_def split: option.splits sum.splits)
  moreover have "cluster_ValidateUpdate get old new \<noteq> AllowedWithWarning"
    using True by (auto simp: cluster_ValidateUpdate_def split: option.splits sum.splits)
  ultimately show ?thesis using True isVersionCorrect_answers(2)[of get new] by auto
next
  case False
  then have "cluster_ValidateUpdate get old new = isVersionCorrect get new"
    by (simp add: cluster_ValidateUpdate_def)
  moreover have "\<not> ?exact" using False isVersionCorrect_answers(1)[of get new] by auto
  ultimately show ?thesis using False isVersionCorrect_answers(2)[of get new] by simp
qed

definition sample_cluster :: "string \<Rightarrow> string \<Rightarrow> Cluster" where
  "sample_cluster name class_name = \<lparr>cl_meta = empty_meta\<lparr>m_name := name, m_namespace := ''default''\<rparr>,
     cl_topology = Some \<lparr>top_class = class_name, top_version = ''1.27.3''\<rparr>,
     cl_controlPlaneRef = None, cl_infrastructureRef = None\<rparr>"

definition sample_getter :: release_getter where
  "sample_getter n = Inr (empty_release\<lparr>csr_status := \<lparr>rs_resources = [],
     rs_kubernetesVersion = ''1.27.3'', rs_ready = True, rs_conditions = []\<rparr>\<rparr>)"

lemma sample_update_admitted:
  "cluster_ValidateUpdate sample_getter (sample_cluster ''c'' ''docker-ferrol-1-26-v1'')
     (sample_cluster ''c'' ''docker-ferrol-1-27-v2'') = Allowed"
  by code_simp

theorem cluster_update_admitted_witness:
  "(\<exists>oldTop csOld. cl_topology (sample_cluster ''c'' ''docker-ferrol-1-26-v1'') = Some oldTop \<and>
     NewFromClusterClassProperties (top_class oldTop) = Inr csOld) \<and>
   cluster_ValidateUpdate (\<lambda>_. Inl (NotFound [])) (sample_cluster ''c'' ''docker-ferrol-1-26-v1'')
     (sample_cluster ''c'' ''openstack-scs-1-29-v2'') = AllowedWithWarning"
  using cluster_update_admitted[of sample_getter "sample_cluster ''c'' ''docker-ferrol-1-26-v1''"
      "sample_cluster ''c'' ''docker-ferrol-1-27-v2''"] sample_update_admitted
    cluster_update_admitted[of "\<lambda>_. Inl (NotFound [])" "sample_cluster ''c'' ''docker-ferrol-1-26-v1''"
      "sample_cluster ''c'' ''openstack-scs-1-29-v2''"]
  by (auto simp: sample_cluster_def)

lemma used_release_rejected:
  assumes "canonical_stack cs" and "csr_name r = cs_String cs" and "c \<in> set clusters"
    and "cl_topology c = Some tp" and "top_class tp = cs_StringWithDot cs"
    and "is_ok (clusters_using_release (csr_name r) clusters)"
  shows "rejected (release_ValidateDelete (Inr clusters) r)"
proof -
  obtain names where n: "clusters_using_release (csr_name r) clusters = Inr names"
    using assms(6) by (cases "clusters_using_release (csr_name r) clusters") auto
  have "m_name (cl_meta c) \<in> set names"
    using using_release_reported[OF n assms(3,4)] assms(1,2,5)
      class_of_StringWithDot release_of_String by metis
  then have "names \<noteq> []" by auto
  then show ?thesis
    by (simp add: release_ValidateDelete_def getClustersUsingClusterStackRelease_def n rejected_def)
qed

lemma clusters_using_release_nonempty:
  assumes "NewFromClusterStackReleaseProperties n = Inr cs"
  shows "(case clusters_using_release n clusters of Inl _ \<Rightarrow> False | Inr names \<Rightarrow> names \<noteq> []) \<longleftrightarrow>
      is_ok (clusters_using_release n clusters) \<and>
      (\<exists>c\<in>set clusters. \<exists>tp d. cl_topology c = Some tp \<and> NewFromClusterClassProperties (top_class tp) = Inr d \<and>
        cs_name d = cs_name cs \<and> cs_provider d = cs_provider cs \<and> cs_kube d = cs_kube cs \<and>
        version_String (cs_version d) = version_String (cs_version cs))"
    and "is_ok (clusters_using_release n clusters) \<longleftrightarrow>
      (\<forall>c\<in>set clusters. \<forall>tp. cl_topology c = Some tp \<longrightarrow> is_ok (NewFromClusterClassProperties (top_class tp)))"
  using assms by (induction clusters) (auto split: option.splits sum.splits)

text \<open>A class prints like a release exactly when the webhook takes it for that release.\<close>

lemma same_release_name:
  assumes "canonical_stack cs" and "parsed_stack d"
  shows "cs_String d = cs_String cs \<longleftrightarrow> cs_name d = cs_name cs \<and> cs_provider d = cs_provider cs \<and>
    cs_kube d = cs_kube cs \<and> version_String (cs_version d) = version_String (cs_version cs)"
proof
  assume eq: "cs_String d = cs_String cs"
  define v where "v = (if ver_channel (cs_version d) = ChannelStable
      then (cs_version d)\<lparr>ver_patch := []\<rparr> else cs_version d)"
  have "canonical_version v"
    using assms(2) by (auto simp: v_def parsed_stack_def canonical_version_def valid_version_def)
  then have "canonical_stack (d\<lparr>cs_version := v\<rparr>)"
    using assms(2) by (simp add: canonical_stack_def parsed_stack_def canonical_version_def)
  moreover have v: "version_String v = version_String (cs_version d)"
    by (simp add: v_def version_String_def)
  then have "cs_String (d\<lparr>cs_version := v\<rparr>) = cs_String cs" using eq by (simp add: cs_String_def)
  ultimately have "d\<lparr>cs_version := v\<rparr> = cs" using assms(1) release_of_String by (metis sum.inject(2))
  with v show "cs_name d = cs_name cs \<and> cs_provider d = cs_provider cs \<and>
    cs_kube d = cs_kube cs \<and> version_String (cs_version d) = version_String (cs_version cs)" by auto
qed (simp add: cs_String_def)

text \<open>
  C38. For a release with the name of a canonical stack, the deletion is rejected exactly when a cluster
  in the namespace uses it, that is, has a class that reads as a stack of this name, and the classes of
  all clusters there can be read. One unreadable class is enough to have the deletion of a release in
  use admitted. The class that the release is deployed as reads as its stack.
\<close>

theorem used_release_delete_rejected:
  assumes "canonical_stack cs" and "csr_name r = cs_String cs"
  shows "(rejected (release_ValidateDelete (Inr clusters) r) \<longleftrightarrow>
      (\<exists>c\<in>set clusters. \<exists>tp d. cl_topology c = Some tp \<and>
        NewFromClusterClassProperties (top_class tp) = Inr d \<and> cs_String d = csr_name r) \<and>
      (\<forall>c\<in>set clusters. \<forall>tp. cl_topology c = Some tp \<longrightarrow> is_ok (NewFromClusterClassProperties (top_class tp)))) \<and>
    NewFromClusterClassProperties (cs_StringWithDot cs) = Inr cs"
proof -
  have n: "NewFromClusterStackReleaseProperties (csr_name r) = Inr cs"
    using release_of_String[OF assms(1)] assms(2) by simp
  have named: "cs_name d = cs_name cs \<and> cs_provider d = cs_provider cs \<and> cs_kube d = cs_kube cs \<and>
      version_String (cs_version d) = version_String (cs_version cs) \<longleftrightarrow> cs_String d = csr_name r"
    if "NewFromClusterClassProperties k = Inr d" for k d
    using same_release_name[OF assms(1) class_parsed[OF that]] assms(2) by simp
  have "rejected (release_ValidateDelete (Inr clusters) r) \<longleftrightarrow>
      (case clusters_using_release (csr_name r) clusters of Inl _ \<Rightarrow> False | Inr names \<Rightarrow> names \<noteq> [])"
    by (simp add: release_ValidateDelete_def getClustersUsingClusterStackRelease_def rejected_def split: sum.split)
  then show ?thesis
    unfolding clusters_using_release_nonempty[OF n]
    using named class_of_StringWithDot[OF assms(1)] by (simp add: conj_commute cong: conj_cong)
qed

definition ferrol_release :: ClusterStackRelease where
  "ferrol_release = empty_release\<lparr>csr_meta := empty_meta\<lparr>m_name := cs_String (ferrol alpha9)\<rparr>\<rparr>"

theorem used_release_delete_rejected_witness:
  "rejected (release_ValidateDelete (Inr [sample_cluster ''c'' (cs_StringWithDot (ferrol alpha9))]) ferrol_release) \<and>
   \<not> rejected (release_ValidateDelete (Inr [sample_cluster ''c'' (cs_StringWithDot (ferrol alpha9)),
     sample_cluster ''d'' ''quick-start'']) ferrol_release)"
proof -
  have "\<not> is_ok (NewFromClusterClassProperties ''quick-start'')" by code_simp
  moreover have "csr_name ferrol_release = cs_String (ferrol alpha9)"
    by (simp add: ferrol_release_def csr_name_def)
  note used = used_release_delete_rejected[OF ferrol_canonical[OF alpha9_canonical] this]
  ultimately show ?thesis
    using used[of "[sample_cluster ''c'' (cs_StringWithDot (ferrol alpha9))]"]
      used[of "[sample_cluster ''c'' (cs_StringWithDot (ferrol alpha9)), sample_cluster ''d'' ''quick-start'']"]
      \<open>csr_name ferrol_release = cs_String (ferrol alpha9)\<close>
    by (auto simp: sample_cluster_def)
qed

text \<open>
  One cluster whose class is not of the expected form disables the protection of all
  releases: the deletion is admitted with a warning, whatever the other clusters use.
\<close>

theorem unreadable_class_opens_delete:
  assumes "c \<in> set clusters" and "cl_topology c = Some tp"
    and "NewFromClusterClassProperties (top_class tp) = Inl e"
  shows "release_ValidateDelete (Inr clusters) r = AllowedWithWarning"
proof -
  have "isl (clusters_using_release (csr_name r) clusters)"
    using assms by (induction clusters) (auto split: option.splits sum.splits)
  then show ?thesis
    by (auto simp: release_ValidateDelete_def getClustersUsingClusterStackRelease_def isl_def)
qed

theorem unreadable_class_opens_delete_witness:
  "release_ValidateDelete (Inr [sample_cluster ''a'' (cs_StringWithDot (ferrol alpha9)), sample_cluster ''b'' ''quick-start''])
     (empty_release\<lparr>csr_meta := empty_meta\<lparr>m_name := cs_String (ferrol alpha9)\<rparr>\<rparr>) = AllowedWithWarning"
proof -
  have "NewFromClusterClassProperties ''quick-start'' = Inl CsErrInvalidFormat" by code_simp
  then show ?thesis
    by (intro unreadable_class_opens_delete[of "sample_cluster ''b'' ''quick-start''" _
          "\<lparr>top_class = ''quick-start'', top_version = ''1.27.3''\<rparr>" CsErrInvalidFormat])
      (simp_all add: sample_cluster_def)
qed

end
