(* ===== verification/ReleaseNotes.thy ===== *)
theory ReleaseNotes
  imports GoStrings "HOL-Library.Sublist"
begin

text \<open>
  The tool that prints the release notes (\<open>hack/tools/release/notes.go\<close>): it reads the merge commits
  since the last tag, sorts their titles by the prefix they start with and prints one section for
  each kind. Strings are bytes in UTF-8; \<open>git\<close> is a parameter. What the notes of a history should
  hold is specified apart from the tool, by the marks of each section, and the tool is shown to print it.
\<close>

section \<open>White space\<close>

text \<open>
  The encodings of the characters that \<open>strings.TrimSpace\<close> and \<open>fmt.Sscanf\<close> treat as space. No
  encoding is a part of another character in well-formed UTF-8.
\<close>

definition space_encodings :: "string list" where
  "space_encodings = map (\<lambda>c. [c]) [CHR 0x09, CHR 0x0A, CHR 0x0B, CHR 0x0C, CHR 0x0D, CHR 0x20]
     @ [[CHR 0xC2, CHR 0x85], [CHR 0xC2, CHR 0xA0], [CHR 0xE1, CHR 0x9A, CHR 0x80]]
     @ map (\<lambda>c. [CHR 0xE2, CHR 0x80, c]) [CHR 0x80, CHR 0x81, CHR 0x82, CHR 0x83, CHR 0x84, CHR 0x85,
         CHR 0x86, CHR 0x87, CHR 0x88, CHR 0x89, CHR 0x8A, CHR 0xA8, CHR 0xA9, CHR 0xAF]
     @ [[CHR 0xE2, CHR 0x81, CHR 0x9F], [CHR 0xE3, CHR 0x80, CHR 0x80]]"

lemma space_encodings_nonempty: "sp \<in> set space_encodings \<Longrightarrow> sp \<noteq> []"
  by (auto simp: space_encodings_def)

definition starts_with_space :: "string \<Rightarrow> string option" where
  "starts_with_space s = find (has_prefix s) space_encodings"

definition ends_with_space :: "string \<Rightarrow> string option" where
  "ends_with_space s = find (has_suffix s) space_encodings"

lemma starts_with_space_Some:
  "starts_with_space s = Some sp \<Longrightarrow> sp \<noteq> [] \<and> has_prefix s sp"
  using space_encodings_nonempty by (auto simp: starts_with_space_def find_Some_iff)

lemma ends_with_space_Some:
  "ends_with_space s = Some sp \<Longrightarrow> sp \<noteq> [] \<and> has_suffix s sp"
  using space_encodings_nonempty by (auto simp: ends_with_space_def find_Some_iff)

lemma trim_prefix_shorter: "has_prefix s p \<Longrightarrow> p \<noteq> [] \<Longrightarrow> length (trim_prefix s p) < length s"
  by (auto simp: has_prefix_iff)

lemma trim_suffix_shorter:
  assumes "has_suffix s p" "p \<noteq> []"
  shows "length (trim_suffix s p) < length s"
proof -
  have "0 < length p" using assms(2) by simp
  then show ?thesis using assms(1) unfolding trim_suffix_def has_suffix_def by (simp; linarith)
qed

function trim_left :: "string \<Rightarrow> string" where
  "trim_left s = (case starts_with_space s of None \<Rightarrow> s | Some sp \<Rightarrow> trim_left (trim_prefix s sp))"
  by auto
termination
  by (relation "measure length")
    (use starts_with_space_Some trim_prefix_shorter in auto)

function trim_right :: "string \<Rightarrow> string" where
  "trim_right s = (case ends_with_space s of None \<Rightarrow> s | Some sp \<Rightarrow> trim_right (trim_suffix s sp))"
  by auto
termination
  by (relation "measure length")
    (use ends_with_space_Some trim_suffix_shorter in auto)

declare trim_left.simps [simp del] trim_right.simps [simp del]

definition TrimSpace :: "string \<Rightarrow> string" where
  "TrimSpace s = trim_right (trim_left s)"

section \<open>Commits\<close>

record commit =
  cm_merge :: string
  cm_body :: string

definition no_commit :: commit where
  "no_commit = \<lparr>cm_merge = [], cm_body = []\<rparr>"

text \<open>
  One line of the output of \<open>git\<close>. Writing to the last commit when there is none is an index out of
  range, and the program panics.
\<close>

definition update_last :: "('a \<Rightarrow> 'a) \<Rightarrow> 'a list \<Rightarrow> unit option \<times> 'a list" where
  "update_last f xs = (if xs = [] then (Some (), xs) else (None, butlast xs @ [f (last xs)]))"

definition read_line :: "string \<Rightarrow> commit list \<Rightarrow> unit option \<times> commit list" where
  "read_line rawLine commits =
     (let line = TrimSpace rawLine in
      if has_prefix line ''commit'' then (None, commits @ [no_commit])
      else if has_prefix line ''Merge'' then update_last (\<lambda>c. c\<lparr>cm_merge := line\<rparr>) commits
      else if line = [] then (None, commits)
      else update_last (\<lambda>c. c\<lparr>cm_body := line\<rparr>) commits)"

definition read_commits :: "string \<Rightarrow> commit list option" where
  "read_commits out = (case for_each read_line (split_on (CHR 0x0A) out) [] of
       (Some _, _) \<Rightarrow> None
     | (None, commits) \<Rightarrow> Some commits)"

section \<open>Titles\<close>

datatype notes_section = Features | Bugs | Documentation | Proposals | Breaking | Others | Unsorted

definition section_title :: "notes_section \<Rightarrow> string" where
  "section_title k = (case k of
       Features \<Rightarrow> '':sparkles: New Features''
     | Bugs \<Rightarrow> '':bug: Bug Fixes''
     | Documentation \<Rightarrow> '':book: Documentation''
     | Proposals \<Rightarrow> '':memo: Proposals''
     | Breaking \<Rightarrow> '':warning: Breaking Changes''
     | Others \<Rightarrow> '':seedling: Others''
     | Unsorted \<Rightarrow> '':question: Sort these by hand'')"

definition outputOrder :: "notes_section list" where
  "outputOrder = [Proposals, Breaking, Features, Bugs, Others, Documentation, Unsorted]"

definition sparkles :: string where "sparkles = [CHR 0xE2, CHR 0x9C, CHR 0xA8]"
definition bug :: string where "bug = [CHR 0xF0, CHR 0x9F, CHR 0x90, CHR 0x9B]"
definition book :: string where "book = [CHR 0xF0, CHR 0x9F, CHR 0x93, CHR 0x96]"
definition seedling :: string where "seedling = [CHR 0xF0, CHR 0x9F, CHR 0x8C, CHR 0xB1]"
definition warning_sign :: string where
  "warning_sign = [CHR 0xE2, CHR 0x9A, CHR 0xA0, CHR 0xEF, CHR 0xB8, CHR 0x8F]"
definition smile :: string where "smile = [CHR 0xF0, CHR 0x9F, CHR 0x98, CHR 0x8A]"

definition marked :: "string \<Rightarrow> string \<Rightarrow> string \<Rightarrow> bool" where
  "marked body name emoji \<longleftrightarrow> has_prefix body name \<or> has_prefix body emoji"

definition unmark :: "string \<Rightarrow> string \<Rightarrow> string \<Rightarrow> string" where
  "unmark body name emoji = trim_prefix (trim_prefix body name) emoji"

definition classify :: "string \<Rightarrow> notes_section \<times> string" where
  "classify body =
     (if marked body '':sparkles:'' sparkles then (Features, unmark body '':sparkles:'' sparkles)
      else if marked body '':bug:'' bug then (Bugs, unmark body '':bug:'' bug)
      else if marked body '':book:'' book then
        let body = unmark body '':book:'' book
        in (if contains_str body ''CAEP'' \<or> contains_str body ''proposal'' then Proposals else Documentation, body)
      else if marked body '':seedling:'' seedling then (Others, unmark body '':seedling:'' seedling)
      else if marked body '':warning:'' warning_sign then (Breaking, unmark body '':warning:'' warning_sign)
      else (Unsorted, body))"

text \<open>
  \<open>fmt.Sscanf(c.merge, "Merge pull request %s from %s", ...)\<close>, of which only the first value is used:
  each word of the format must be there, spaces of the format need at least one space, and the value
  is what comes before the next space. The number stays empty when the line does not match so far.
\<close>

definition scan_word :: "string \<Rightarrow> string \<Rightarrow> string option" where
  "scan_word word s =
     (if has_prefix s word then
        let rest = trim_prefix s word
        in if starts_with_space rest = None then None else Some (trim_left rest)
      else None)"

fun scan_token :: "string \<Rightarrow> string" where
  "scan_token [] = []"
| "scan_token (c # s) = (if starts_with_space (c # s) = None then c # scan_token s else [])"

definition scan_number :: "string \<Rightarrow> string" where
  "scan_number merge =
     (case Option.bind (scan_word ''Merge'' merge)
         (\<lambda>s. Option.bind (scan_word ''pull'' s) (scan_word ''request'')) of
        None \<Rightarrow> []
      | Some s \<Rightarrow> scan_token s)"

definition formatMerge :: "string \<Rightarrow> string \<Rightarrow> string" where
  "formatMerge line prNumber = (if prNumber = [] then line else line @ '' ('' @ prNumber @ '')'')"

text \<open>The map of sections starts with an empty list for each key, present or not.\<close>

definition add_commit :: "commit \<Rightarrow> (notes_section \<Rightarrow> string list) \<Rightarrow> notes_section \<Rightarrow> string list" where
  "add_commit c merges =
     (let (key, rest) = classify (TrimSpace (cm_body c)); body = TrimSpace rest in
      if body = [] then merges
      else
        let line = ''- '' @ body; prNumber = scan_number (cm_merge c)
        in merges(key := merges key @ [if key = Documentation then prNumber else formatMerge line prNumber]))"

definition collect_merges :: "commit list \<Rightarrow> notes_section \<Rightarrow> string list" where
  "collect_merges commits = fold add_commit commits (\<lambda>_. [])"

section \<open>The notes\<close>

definition newline :: string where "newline = [CHR 0x0A]"

definition print_section :: "(notes_section \<Rightarrow> string list) \<Rightarrow> notes_section \<Rightarrow> string" where
  "print_section merges key =
     (let mergeslice = merges key in
      if mergeslice = [] then []
      else if key = Documentation then
        '':book: Additionally, there have been '' @ show_nat (length mergeslice)
          @ '' contributions to our documentation and book. ('' @ join_with '', '' mergeslice @ '') ''
          @ newline @ newline
      else ''## '' @ section_title key @ newline @ concat (map (\<lambda>m. m @ newline) mergeslice) @ newline)"

definition print_notes :: "string \<Rightarrow> (notes_section \<Rightarrow> string list) \<Rightarrow> string" where
  "print_notes tag merges = ''Changes since '' @ tag @ newline @ ''---'' @ newline
     @ concat (map (print_section merges) outputOrder)
     @ newline @ ''_Thanks to all our contributors!_ '' @ smile @ newline"

record git_env =
  ge_fromTag :: string
  ge_describe :: "string option"
  ge_firstCommit :: "string option"
  ge_merges :: "string \<Rightarrow> bool \<times> string"

definition firstCommit :: "git_env \<Rightarrow> string" where
  "firstCommit env = (case ge_firstCommit env of None \<Rightarrow> ''UNKNOWN'' | Some out \<Rightarrow> TrimSpace out)"

definition lastTag :: "git_env \<Rightarrow> string" where
  "lastTag env =
     (if ge_fromTag env \<noteq> [] then ge_fromTag env
      else (case ge_describe env of None \<Rightarrow> firstCommit env | Some out \<Rightarrow> TrimSpace out))"

text \<open>The status of the program and what it prints; \<open>None\<close> is a panic.\<close>

definition notes_run :: "git_env \<Rightarrow> (nat \<times> string) option" where
  "notes_run env =
     (let tag = lastTag env; (ok, out) = ge_merges env (tag @ ''..HEAD'') in
      if \<not> ok then Some (1, ''Error'' @ newline @ out @ newline)
      else (case read_commits out of
          None \<Rightarrow> None
        | Some commits \<Rightarrow> Some (0, print_notes tag (collect_merges commits))))"

section \<open>What the notes should hold\<close>

text \<open>
  Without the tool: a merged change has the line of its merge and the lines of its message, and its
  title is the last line of the message that is not blank. The history is what
  \<open>git rev-list --pretty=format:%B\<close> prints of the changes, each after the line with its hash.
\<close>

record merged_change =
  mc_hash :: string
  mc_merge :: string
  mc_message :: "string list"

definition history_lines :: "merged_change list \<Rightarrow> string list" where
  "history_lines hist = concat (map (\<lambda>c. (''commit '' @ mc_hash c) # mc_merge c # mc_message c) hist)"

definition git_history :: "merged_change list \<Rightarrow> string" where
  "git_history hist = join_with newline (history_lines hist)"

definition change_title :: "merged_change \<Rightarrow> string" where
  "change_title c = last ([] # filter (\<lambda>l. l \<noteq> []) (map TrimSpace (mc_message c)))"

text \<open>Lines are lines, a merge says so, and no line of a message looks like a hash or a merge.\<close>

definition proper_change :: "merged_change \<Rightarrow> bool" where
  "proper_change c \<longleftrightarrow> list_all (\<lambda>l. CHR 0x0A \<notin> set l) (mc_hash c # mc_merge c # mc_message c) \<and>
     has_prefix (TrimSpace (mc_merge c)) ''Merge'' \<and>
     list_all (\<lambda>l. \<not> has_prefix (TrimSpace l) ''commit'' \<and> \<not> has_prefix (TrimSpace l) ''Merge'') (mc_message c)"

text \<open>The marks of a section, as words and as emojis, and the text of a title after them.\<close>

fun section_marks :: "notes_section \<Rightarrow> (string \<times> string) option" where
  "section_marks Features = Some ('':sparkles:'', [CHR 0xE2, CHR 0x9C, CHR 0xA8])"
| "section_marks Bugs = Some ('':bug:'', [CHR 0xF0, CHR 0x9F, CHR 0x90, CHR 0x9B])"
| "section_marks Documentation = Some ('':book:'', [CHR 0xF0, CHR 0x9F, CHR 0x93, CHR 0x96])"
| "section_marks Proposals = Some ('':book:'', [CHR 0xF0, CHR 0x9F, CHR 0x93, CHR 0x96])"
| "section_marks Others = Some ('':seedling:'', [CHR 0xF0, CHR 0x9F, CHR 0x8C, CHR 0xB1])"
| "section_marks Breaking = Some ('':warning:'', [CHR 0xE2, CHR 0x9A, CHR 0xA0, CHR 0xEF, CHR 0xB8, CHR 0x8F])"
| "section_marks Unsorted = None"

definition bears_mark :: "string \<Rightarrow> notes_section \<Rightarrow> bool" where
  "bears_mark title k = (case section_marks k of None \<Rightarrow> False
     | Some (word, emoji) \<Rightarrow> has_prefix title word \<or> has_prefix title emoji)"

definition text_after_marks :: "notes_section \<Rightarrow> string \<Rightarrow> string" where
  "text_after_marks k title = (case section_marks k of None \<Rightarrow> title
     | Some (word, emoji) \<Rightarrow>
         if has_prefix title (word @ emoji) then drop (length (word @ emoji)) title
         else if has_prefix title word then drop (length word) title
         else drop (length emoji) title)"

definition is_proposal :: "string \<Rightarrow> bool" where
  "is_proposal t \<longleftrightarrow> contains_str t ''CAEP'' \<or> contains_str t ''proposal''"

definition belongs :: "notes_section \<Rightarrow> string \<Rightarrow> bool" where
  "belongs k title = (case k of
       Unsorted \<Rightarrow> list_all (\<lambda>j. \<not> bears_mark title j) [Features, Bugs, Documentation, Others, Breaking]
     | Documentation \<Rightarrow> bears_mark title k \<and> \<not> is_proposal (text_after_marks k title)
     | Proposals \<Rightarrow> bears_mark title k \<and> is_proposal (text_after_marks k title)
     | _ \<Rightarrow> bears_mark title k)"

text \<open>The entry of a change in a section, and all entries of a section.\<close>

definition headline :: "notes_section \<Rightarrow> merged_change \<Rightarrow> string" where
  "headline k c = TrimSpace (text_after_marks k (change_title c))"

definition notes_entry :: "notes_section \<Rightarrow> merged_change \<Rightarrow> string" where
  "notes_entry k c = (let number = scan_number (TrimSpace (mc_merge c)) in
     if k = Documentation then number
     else ''- '' @ headline k c @ (if number = [] then [] else '' ('' @ number @ '')''))"

definition filed :: "merged_change \<Rightarrow> notes_section \<Rightarrow> bool" where
  "filed c k \<longleftrightarrow> belongs k (change_title c) \<and> headline k c \<noteq> []"

definition expected_entries :: "merged_change list \<Rightarrow> notes_section \<Rightarrow> string list" where
  "expected_entries hist k = map (notes_entry k) (filter (\<lambda>c. filed c k) hist)"

section \<open>The titles are sorted as they should\<close>

definition all_marks :: "string list" where
  "all_marks = ['':sparkles:'', sparkles, '':bug:'', bug, '':book:'', book, '':seedling:'', seedling,
     '':warning:'', warning_sign]"

lemma marks_apart: "list_all (\<lambda>a. list_all (\<lambda>b. a = b \<or> \<not> has_prefix a b) all_marks) all_marks"
  by code_simp

lemma one_mark:
  assumes "has_prefix t a" "has_prefix t b" "a \<in> set all_marks" "b \<in> set all_marks"
  shows "a = b"
proof -
  have "has_prefix a b \<or> has_prefix b a"
    using assms(1,2) by (auto simp: has_prefix_iff append_eq_append_conv2)
  then show ?thesis using marks_apart assms(3,4) by (auto simp: list_all_iff)
qed

lemma emoji_after_word:
  "trim_prefix (trim_prefix t w) e = (if has_prefix t (w @ e) then drop (length (w @ e)) t
     else if has_prefix t w then drop (length w) t else trim_prefix t e)"
  by (auto simp: trim_prefix_def has_prefix_iff)

lemma mark_conflicts:
  assumes "a \<in> set all_marks" "has_prefix t a"
  shows "list_all (\<lambda>b. b = a \<or> \<not> has_prefix t b) all_marks"
  using one_mark[OF assms(2) _ assms(1)] by (auto simp: list_all_iff)

lemma section_marks_named:
  "section_marks Features = Some ('':sparkles:'', sparkles)" "section_marks Bugs = Some ('':bug:'', bug)"
  "section_marks Documentation = Some ('':book:'', book)" "section_marks Proposals = Some ('':book:'', book)"
  "section_marks Others = Some ('':seedling:'', seedling)"
  "section_marks Breaking = Some ('':warning:'', warning_sign)"
  by (simp_all add: sparkles_def bug_def book_def seedling_def warning_sign_def)

lemma marks_known: "section_marks k = Some (w, e) \<Longrightarrow> w \<in> set all_marks \<and> e \<in> set all_marks"
  by (cases k) (auto simp: section_marks_named all_marks_def simp del: section_marks.simps(1-6))

lemma marks_tell_sections:
  assumes "section_marks j = Some (w, e)" "section_marks k = Some (w', e')" "w = w' \<or> w = e' \<or> e = w' \<or> e = e'"
  shows "section_marks j = section_marks k"
  using assms by (cases j; cases k) auto

lemma one_section:
  assumes "bears_mark t j" "bears_mark t k"
  shows "section_marks j = section_marks k"
proof -
  obtain w e where j: "section_marks j = Some (w, e)" "has_prefix t w \<or> has_prefix t e"
    using assms(1) by (auto simp: bears_mark_def split: option.splits)
  obtain w' e' where k: "section_marks k = Some (w', e')" "has_prefix t w' \<or> has_prefix t e'"
    using assms(2) by (auto simp: bears_mark_def split: option.splits)
  have "w = w' \<or> w = e' \<or> e = w' \<or> e = e'"
    using j(2) k(2) one_mark[of t] marks_known[OF j(1)] marks_known[OF k(1)] by blast
  then show ?thesis using marks_tell_sections j(1) k(1) by blast
qed

lemma belongs_marked: "belongs k t \<Longrightarrow> k \<noteq> Unsorted \<Longrightarrow> bears_mark t k"
  by (cases k) (auto simp: belongs_def)

lemma belongs_once:
  assumes "belongs j t" "belongs k t"
  shows "j = k"
proof (cases "j = Unsorted \<or> k = Unsorted")
  case True
  have "\<not> belongs Unsorted t" if "bears_mark t i" for i
    using that by (cases i) (auto simp: belongs_def bears_mark_def)
  then show ?thesis using True assms belongs_marked by metis
next
  case False
  then have m: "section_marks j = section_marks k"
    using assms belongs_marked one_section by blast
  then have "text_after_marks j t = text_after_marks k t" by (simp add: text_after_marks_def)
  then show ?thesis using m assms False by (cases j; cases k) (auto simp: belongs_def)
qed

lemma unmark_text:
  assumes "section_marks k = Some (w, e)"
  shows "marked t w e \<longleftrightarrow> bears_mark t k" and "bears_mark t k \<Longrightarrow> unmark t w e = text_after_marks k t"
proof -
  show m: "marked t w e \<longleftrightarrow> bears_mark t k" using assms by (simp add: marked_def bears_mark_def)
  assume "bears_mark t k"
  then have "trim_prefix t e = drop (length e) t" if "\<not> has_prefix t w"
    using that m by (auto simp: marked_def trim_prefix_def)
  then show "unmark t w e = text_after_marks k t"
    unfolding unmark_def emoji_after_word using assms by (simp add: text_after_marks_def)
qed

lemma classify_belongs: "belongs (fst (classify t)) t \<and> snd (classify t) = text_after_marks (fst (classify t)) t"
proof -
  note texts = section_marks_named[THEN unmark_text(1)] section_marks_named[THEN unmark_text(2)]
  have same: "bears_mark t Proposals \<longleftrightarrow> bears_mark t Documentation"
    "text_after_marks Proposals t = text_after_marks Documentation t"
    by (simp_all add: bears_mark_def text_after_marks_def)
  have none: "text_after_marks Unsorted t = t" by (simp add: text_after_marks_def)
  show ?thesis
    by (simp add: classify_def Let_def texts(1-3,5-6) texts(7-9,11-12) belongs_def is_proposal_def same none)
qed

section \<open>White space is trimmed once\<close>

lemma trim_left_done: "starts_with_space (trim_left s) = None"
proof (induction s rule: trim_left.induct)
  case (1 s)
  then show ?case by (cases "starts_with_space s") (simp_all add: trim_left.simps[of s])
qed

lemma trim_right_done: "ends_with_space (trim_right s) = None"
proof (induction s rule: trim_right.induct)
  case (1 s)
  then show ?case by (cases "ends_with_space s") (simp_all add: trim_right.simps[of s])
qed

lemma trim_right_prefix: "\<exists>x. s = trim_right s @ x"
proof (induction s rule: trim_right.induct)
  case (1 s)
  show ?case
  proof (cases "ends_with_space s")
    case None
    then show ?thesis by (simp add: trim_right.simps[of s])
  next
    case (Some sp)
    then obtain x where "trim_suffix s sp = trim_right (trim_suffix s sp) @ x" using "1.IH" by blast
    moreover obtain y where "s = trim_suffix s sp @ y"
      by (metis append_Nil2 append_take_drop_id trim_suffix_def)
    ultimately show ?thesis
      using Some by (metis append.assoc option.simps(5) trim_right.simps)
  qed
qed

lemma TrimSpace_idem [simp]: "TrimSpace (TrimSpace s) = TrimSpace s"
proof -
  let ?l = "trim_left s"
  obtain x where x: "?l = trim_right ?l @ x" using trim_right_prefix by blast
  have "\<not> has_prefix (trim_right ?l) sp" if "sp \<in> set space_encodings" for sp
    using trim_left_done[of s] x that by (force simp: starts_with_space_def find_None_iff has_prefix_iff)
  then have "starts_with_space (trim_right ?l) = None" by (auto simp: starts_with_space_def find_None_iff)
  then show ?thesis
    using trim_right_done[of ?l] by (simp add: TrimSpace_def trim_left.simps[of "trim_right _"] trim_right.simps[of "trim_right _"])
qed

text \<open>No character of the word \<open>commit\<close> is a part of a space, so the word survives.\<close>

lemma trim_right_keeps:
  assumes "w \<noteq> []" and "\<And>sp. sp \<in> set space_encodings \<Longrightarrow> last w \<notin> set sp"
  shows "\<exists>y. trim_right (w @ x) = w @ y"
proof (induction "length x" arbitrary: x rule: less_induct)
  case less
  show ?case
  proof (cases "ends_with_space (w @ x)")
    case None
    then show ?thesis by (simp add: trim_right.simps[of "w @ x"])
  next
    case (Some sp)
    then have sp: "sp \<in> set space_encodings" "sp \<noteq> []" "length sp \<le> length (w @ x)"
        "drop (length (w @ x) - length sp) (w @ x) = sp"
      using ends_with_space_Some[OF Some] by (auto simp: ends_with_space_def find_Some_iff has_suffix_def)
    have le: "length sp \<le> length x"
    proof (rule ccontr)
      assume "\<not> length sp \<le> length x"
      then have "sp = drop (length (w @ x) - length sp) w @ x" "length (w @ x) - length sp < length w"
        using sp(3,4) by auto
      then have "last w \<in> set sp"
        by (metis Un_iff drop_eq_Nil2 last_drop last_in_set leD set_append)
      then show False using assms(2) sp(1) by blast
    qed
    have x: "trim_suffix (w @ x) sp = w @ take (length x - length sp) x"
      using ends_with_space_Some[OF Some] le by (simp add: trim_suffix_def)
    have "length (take (length x - length sp) x) < length x" using le sp(2) by (cases sp) auto
    from less[OF this] show ?thesis using Some x by (simp add: trim_right.simps[of "w @ x"])
  qed
qed

lemma hash_line: "has_prefix (TrimSpace (''commit '' @ h)) ''commit''"
proof -
  have "starts_with_space (''commit '' @ h) = None"
    by (simp add: starts_with_space_def space_encodings_def has_prefix_def)
  then have "TrimSpace (''commit '' @ h) = trim_right (''commit'' @ '' '' @ h)"
    using trim_left.simps[of "''commit '' @ h"] by (simp add: TrimSpace_def)
  moreover have "\<exists>y. trim_right (''commit'' @ '' '' @ h) = ''commit'' @ y"
    by (rule trim_right_keeps) (auto simp: space_encodings_def)
  ultimately show ?thesis by (simp add: has_prefix_iff del: append.simps)
qed

section \<open>The history is read back\<close>

definition read_change :: "merged_change \<Rightarrow> commit" where
  "read_change c = \<lparr>cm_merge = TrimSpace (mc_merge c), cm_body = change_title c\<rparr>"

lemma no_prefix_of_Nil [simp]: "has_prefix [] (c # cs) \<longleftrightarrow> False"
  by (simp add: has_prefix_def)

lemma update_last_snoc [simp]: "update_last f (xs @ [x]) = (None, xs @ [f x])"
  by (simp add: update_last_def)

lemma read_message:
  assumes "list_all (\<lambda>l. \<not> has_prefix (TrimSpace l) ''commit'' \<and> \<not> has_prefix (TrimSpace l) ''Merge'') ls"
  shows "for_each read_line ls (cs @ [x]) =
    (None, cs @ [x\<lparr>cm_body := last (cm_body x # filter (\<lambda>l. l \<noteq> []) (map TrimSpace ls))\<rparr>])"
  using assms by (induction ls arbitrary: x) (simp_all add: read_line_def Let_def)

lemma read_one:
  assumes "proper_change c"
  shows "for_each read_line ((''commit '' @ mc_hash c) # mc_merge c # mc_message c) cs = (None, cs @ [read_change c])"
proof -
  have m: "has_prefix (TrimSpace (mc_merge c)) ''Merge''" "\<not> has_prefix (TrimSpace (mc_merge c)) ''commit''"
    using assms by (auto simp: proper_change_def has_prefix_iff)
  have "read_line (''commit '' @ mc_hash c) cs = (None, cs @ [no_commit])"
    using hash_line[of "mc_hash c"] by (simp add: read_line_def)
  moreover have "read_line (mc_merge c) (cs @ [no_commit]) = (None, cs @ [no_commit\<lparr>cm_merge := TrimSpace (mc_merge c)\<rparr>])"
    using m by (simp add: read_line_def Let_def)
  ultimately show ?thesis
    using read_message[of "mc_message c" cs] assms
    by (simp add: proper_change_def read_change_def no_commit_def change_title_def)
qed

lemma read_history:
  "list_all proper_change hist \<Longrightarrow>
    for_each read_line (history_lines hist) cs = (None, cs @ map read_change hist)"
proof (induction hist arbitrary: cs)
  case (Cons c hist)
  have "history_lines (c # hist) = ((''commit '' @ mc_hash c) # mc_merge c # mc_message c) @ history_lines hist"
    by (simp add: history_lines_def)
  then show ?case using Cons read_one[of c cs] by (simp only: for_each_append) simp
qed (simp add: history_lines_def)

lemma read_back:
  assumes "list_all proper_change hist"
  shows "read_commits (git_history hist) = Some (map read_change hist)"
proof (cases "hist = []")
  case True
  then show ?thesis
    by (simp add: git_history_def history_lines_def read_commits_def read_line_def TrimSpace_def Let_def
        trim_left.simps[of "[]"] trim_right.simps[of "[]"] starts_with_space_def ends_with_space_def
        space_encodings_def has_suffix_def)
next
  case False
  have "split_on (CHR 0x0A) (git_history hist) = history_lines hist"
    unfolding git_history_def newline_def
  proof (rule split_join)
    show "history_lines hist \<noteq> []" using False by (cases hist) (simp_all add: history_lines_def)
    show "CHR 0x0A \<notin> set l" if "l \<in> set (history_lines hist)" for l
      using that assms by (auto simp: history_lines_def proper_change_def list_all_iff)
  qed
  then show ?thesis using read_history[OF assms, of "[]"] by (simp add: read_commits_def)
qed

lemma title_trimmed: "TrimSpace (change_title c) = change_title c"
proof -
  have "change_title c = [] \<or> change_title c \<in> TrimSpace ` set (mc_message c)"
    using last_in_set[of "filter (\<lambda>l. l \<noteq> []) (map TrimSpace (mc_message c))"]
    by (auto simp: change_title_def split: if_splits)
  moreover have "TrimSpace [] = []"
    by (simp add: TrimSpace_def trim_left.simps[of "[]"] trim_right.simps[of "[]"] starts_with_space_def
        ends_with_space_def space_encodings_def has_suffix_def)
  ultimately show ?thesis by auto
qed

lemma add_change:
  "add_commit (read_change c) merges = (\<lambda>k. merges k @ (if filed c k then [notes_entry k c] else []))"
proof -
  obtain k x where kx: "classify (change_title c) = (k, x)" by fastforce
  then have k: "belongs k (change_title c)" "x = text_after_marks k (change_title c)"
    using classify_belongs[of "change_title c"] by simp_all
  have "filed c j \<longleftrightarrow> j = k \<and> headline k c \<noteq> []" for j
    using belongs_once k(1) by (auto simp: filed_def)
  then show ?thesis
    using kx k(2) by (auto simp: add_commit_def read_change_def title_trimmed headline_def notes_entry_def
        formatMerge_def Let_def fun_eq_iff)
qed

lemma collected_entries: "collect_merges (map read_change hist) = expected_entries hist"
proof -
  have "fold add_commit (map read_change hist) merges k = merges k @ expected_entries hist k" for merges k
    by (induction hist arbitrary: merges) (simp_all add: add_change expected_entries_def)
  then show ?thesis by (simp add: collect_merges_def fun_eq_iff)
qed

section \<open>The entries are printed\<close>

lemma sublist_concat: "x \<in> set xs \<Longrightarrow> sublist x (concat xs)"
  by (fastforce simp: sublist_def dest!: split_list)

lemma sublist_around: "sublist x y \<Longrightarrow> sublist x (a @ y @ b)"
  by (metis sublist_appendI sublist_order.order_trans)

lemma sublist_join: "x \<in> set xs \<Longrightarrow> sublist x (join_with sep xs)"
proof (induction sep xs rule: join_with.induct)
  case (3 sep y z zs)
  show ?case
  proof (cases "x = y")
    case True
    then show ?thesis
      using sublist_appendI[of y "[]" "sep @ join_with sep (z # zs)"] by (simp only: join_with.simps append_Nil)
  next
    case False
    then have "sublist x (join_with sep (z # zs))" using 3 by simp
    from sublist_around[OF this, of "y @ sep" "[]"] show ?thesis by simp
  qed
qed simp_all

lemma entry_in_section:
  assumes "m \<in> set (entries k)"
  shows "sublist m (print_section entries k)"
proof (cases "k = Documentation")
  case True
  have "sublist m (join_with '', '' (entries k))" using assms by (rule sublist_join)
  from sublist_around[OF this, of "'':book: Additionally, there have been '' @ show_nat (length (entries k))
      @ '' contributions to our documentation and book. (''" "'') '' @ newline @ newline"]
  show ?thesis using assms True by (auto simp: print_section_def Let_def)
next
  case False
  have "sublist m (m @ newline)" by simp
  moreover have "sublist (m @ newline) (concat (map (\<lambda>m. m @ newline) (entries k)))"
    using assms by (intro sublist_concat) simp
  ultimately have "sublist m (concat (map (\<lambda>m. m @ newline) (entries k)))" by (rule sublist_order.order_trans)
  from sublist_around[OF this, of "''## '' @ section_title k @ newline" newline]
  show ?thesis using assms False by (auto simp: print_section_def Let_def)
qed

lemma entry_printed:
  assumes "m \<in> set (entries k)"
  shows "sublist m (print_notes tag entries)"
proof -
  have "sublist (print_section entries k) (concat (map (print_section entries) outputOrder))"
    by (rule sublist_concat) (cases k; simp add: outputOrder_def)
  then have "sublist m (concat (map (print_section entries) outputOrder))"
    by (rule sublist_order.order_trans[rotated]) (rule entry_in_section[where entries = entries, OF assms])
  from sublist_around[OF this, of "''Changes since '' @ tag @ newline @ ''---'' @ newline"
      "newline @ ''_Thanks to all our contributors!_ '' @ smile @ newline"]
  show ?thesis by (simp add: print_notes_def)
qed


section \<open>Reading the history\<close>

lemma update_last_grows: "xs \<noteq> [] \<Longrightarrow> \<exists>ys. update_last f xs = (None, ys) \<and> ys \<noteq> []"
  by (simp add: update_last_def)

lemma read_line_later:
  "commits \<noteq> [] \<Longrightarrow> \<exists>commits'. read_line l commits = (None, commits') \<and> commits' \<noteq> []"
  using update_last_grows by (auto simp: read_line_def Let_def)

lemma read_lines_later: "commits \<noteq> [] \<Longrightarrow> fst (for_each read_line ls commits) = None"
proof (induction ls arbitrary: commits)
  case (Cons l ls)
  obtain commits' where "read_line l commits = (None, commits')" "commits' \<noteq> []"
    using read_line_later[OF Cons.prems] by blast
  then show ?case using Cons.IH by simp
qed simp

definition blank :: "string \<Rightarrow> bool" where
  "blank l \<longleftrightarrow> TrimSpace l = []"

lemma read_lines_start:
  "fst (for_each read_line ls []) = None \<longleftrightarrow>
     (case dropWhile blank ls of [] \<Rightarrow> True | l # _ \<Rightarrow> has_prefix (TrimSpace l) ''commit'')"
proof (induction ls)
  case (Cons l ls)
  show ?case
  proof (cases "blank l")
    case True
    then have "read_line l [] = (None, [])"
      by (simp add: read_line_def blank_def has_prefix_def)
    then show ?thesis using Cons.IH True by simp
  next
    case False
    show ?thesis
    proof (cases "has_prefix (TrimSpace l) ''commit''")
      case True
      then have "read_line l [] = (None, [no_commit])" by (simp add: read_line_def)
      then show ?thesis using True False read_lines_later[of "[no_commit]" ls] by simp
    next
      case no: False
      then have "read_line l [] = (Some (), [])"
        using False by (simp add: read_line_def update_last_def blank_def Let_def)
      then show ?thesis using False no by simp
    qed
  qed
qed simp

text \<open>
  The tool panics on the output of \<open>git\<close> exactly when the first line that is not blank does not
  start with \<open>commit\<close>.
\<close>

theorem notes_panic_iff:
  "read_commits out = None \<longleftrightarrow> (\<exists>l ls. dropWhile blank (split_on (CHR 0x0A) out) = l # ls \<and>
     \<not> has_prefix (TrimSpace l) ''commit'')"
proof -
  have "read_commits out = None \<longleftrightarrow> fst (for_each read_line (split_on (CHR 0x0A) out) []) \<noteq> None"
    by (simp add: read_commits_def split: prod.split option.split)
  then show ?thesis
    unfolding read_lines_start by (cases "dropWhile blank (split_on (CHR 0x0A) out)") (auto simp del: dropWhile_eq_Nil_conv)
qed

lemma update_last_members:
  "update_last f xs = (r, ys) \<Longrightarrow> y \<in> set ys \<Longrightarrow> y \<in> set xs \<or> (\<exists>x\<in>set xs. y = f x)"
  by (auto simp: update_last_def split: if_splits dest: in_set_butlastD)

text \<open>
  A title is mistaken for the start of a commit or for the line of its merge when it begins with
  \<open>commit\<close> or \<open>Merge\<close>: no commit that was read has such a title, so the change is missing from the
  notes.
\<close>

theorem commit_titles_lost:
  assumes "read_commits out = Some commits" and "c \<in> set commits"
  shows "\<not> has_prefix (cm_body c) ''commit'' \<and> \<not> has_prefix (cm_body c) ''Merge''"
proof -
  let ?I = "\<lambda>cs. \<forall>c\<in>set cs. \<not> has_prefix (cm_body c) ''commit'' \<and> \<not> has_prefix (cm_body c) ''Merge''"
  have "?I (snd (for_each read_line (split_on (CHR 0x0A) out) []))"
  proof (rule for_each_inv)
    fix l cs e cs' assume I: "?I cs" and r: "read_line l cs = (e, cs')"
    show "?I cs'"
    proof
      fix c assume "c \<in> set cs'"
      then have "c = no_commit \<or> c \<in> set cs \<or> (\<exists>d\<in>set cs. c = d\<lparr>cm_merge := TrimSpace l\<rparr>) \<or>
          (\<not> has_prefix (TrimSpace l) ''commit'' \<and> \<not> has_prefix (TrimSpace l) ''Merge'' \<and>
           (\<exists>d. c = d\<lparr>cm_body := TrimSpace l\<rparr>))"
        using r update_last_members by (fastforce simp: read_line_def Let_def split: if_splits)
      then show "\<not> has_prefix (cm_body c) ''commit'' \<and> \<not> has_prefix (cm_body c) ''Merge''"
        using I by (auto simp: no_commit_def)
    qed
  qed simp
  then show ?thesis
    using assms by (auto simp: read_commits_def split: prod.splits option.splits)
qed

section \<open>Examples\<close>

definition sample_history :: string where
  "sample_history = join_with newline
     [''commit 1a'', ''Merge pull request #7 from fork/fix'', [], bug @ '' Fix the mutex'',
      ''commit 2b'', ''Merge pull request #8 from fork/docs'', [], '':book: Explain hooks'',
      ''commit 3c'', ''Merge pull request #9 from fork/x'', [], ''commit early'']"

definition sample_commits :: "commit list" where
  "sample_commits = (case read_commits sample_history of None \<Rightarrow> [] | Some commits \<Rightarrow> commits)"

lemma sample_commits_read: "read_commits sample_history = Some sample_commits"
proof -
  have "read_commits sample_history \<noteq> None" by code_simp
  then show ?thesis by (auto simp: sample_commits_def)
qed

lemma sample_notes:
  "collect_merges sample_commits Bugs = [''- Fix the mutex (#7)''] \<and>
   collect_merges sample_commits Documentation = [''#8''] \<and> collect_merges sample_commits Unsorted = []"
  by code_simp

theorem commit_titles_lost_witness:
  "length sample_commits = 4 \<and>
   (\<forall>c\<in>set sample_commits. \<not> has_prefix (cm_body c) ''commit'')"
proof
  show "length sample_commits = 4" by code_simp
  show "\<forall>c\<in>set sample_commits. \<not> has_prefix (cm_body c) ''commit''"
    using commit_titles_lost[OF sample_commits_read] by blast
qed

definition merged_changes :: "merged_change list" where
  "merged_changes =
     [\<lparr>mc_hash = ''1a'', mc_merge = ''Merge pull request #7 from fork/fix'', mc_message = [[], bug @ '' Fix the mutex'']\<rparr>,
      \<lparr>mc_hash = ''2b'', mc_merge = ''Merge pull request #8 from fork/docs'', mc_message = [[], '':book: Explain hooks'']\<rparr>]"

definition sample_git :: git_env where
  "sample_git = \<lparr>ge_fromTag = ''v1'', ge_describe = None, ge_firstCommit = None,
     ge_merges = \<lambda>_. (True, git_history merged_changes)\<rparr>"


end
