(* ===== verification/ReleaseDeletion.thy ===== *)
theory ReleaseDeletion
  imports ReleaseController Webhooks
begin

text \<open>
  What becomes of a \<open>ClusterStackRelease\<close> that is being deleted while a cluster uses it: which of the
  two guards of \<open>internal/controller/clusterstackrelease_controller.go\<close>, the search for users in
  \<open>reconcileDelete\<close> and the check of the assets in the deferred function, decides.
\<close>

section \<open>The names of classes\<close>

text \<open>
  In the notation of a release a version outside the stable channel has one dash more than in that
  of a class, so a class that can be read never has the name of such a release.
\<close>

lemma class_pieces: "NewFromClusterClassProperties s = Inr d \<Longrightarrow> length (split_on CHR ''-'' s) \<le> 6"
  by (auto simp: NewFromClusterClassProperties_def parse_pieces_def Let_def Separator_def split: if_splits)

lemma release_pieces:
  "canonical_stack cs \<Longrightarrow> ver_channel (cs_version cs) \<noteq> ChannelStable \<Longrightarrow> length (split_on CHR ''-'' (cs_String cs)) = 7"
  by (simp add: canonical_stack_def split_cs_String split_version_String head_pieces_def)

lemma readable_classes:
  assumes "is_ok (clusters_using_release n clusters)" and "c \<in> set clusters" and "cl_topology c = Some tp"
  shows "is_ok (NewFromClusterClassProperties (top_class tp))"
  using assms by (induction clusters) (auto split: option.splits sum.splits)

lemma used_class_names:
  "getUsedClusterClasses (Inr clusters) = Inr used \<Longrightarrow>
    n \<in> set used \<longleftrightarrow> n \<noteq> [] \<and> (\<exists>c\<in>set clusters. \<exists>tp. cl_topology c = Some tp \<and> top_class tp = n)"
  by (force simp: getUsedClusterClasses_def split: option.splits if_splits)

lemma unstable_release_unseen:
  assumes "canonical_stack cs" and "ver_channel (cs_version cs) \<noteq> ChannelStable"
    and "is_ok (clusters_using_release n clusters)" and "getUsedClusterClasses (Inr clusters) = Inr used"
  shows "cs_String cs \<notin> set used"
proof
  assume "cs_String cs \<in> set used"
  then obtain c tp where "c \<in> set clusters" "cl_topology c = Some tp" "top_class tp = cs_String cs"
    using used_class_names[OF assms(4)] by auto
  then obtain d where "NewFromClusterClassProperties (cs_String cs) = Inr d"
    using readable_classes[OF assms(3)] by (metis isl_def sum.collapse(2))
  then show False using class_pieces release_pieces[OF assms(1,2)] by fastforce
qed

section \<open>Which answers are used\<close>

text \<open>The list of clusters is read by \<open>reconcileDelete\<close> alone.\<close>

lemma other_answers:
  "re_get (env\<lparr>re_clusters := l\<rparr>) = re_get env"
  "re_newHelper (env\<lparr>re_clusters := l\<rparr>) = re_newHelper env"
  "re_fs (env\<lparr>re_clusters := l\<rparr>) = re_fs env"
  "re_unmarshal (env\<lparr>re_clusters := l\<rparr>) = re_unmarshal env"
  "re_directory (env\<lparr>re_clusters := l\<rparr>) = re_directory env"
  "re_newAssetsClient (env\<lparr>re_clusters := l\<rparr>) = re_newAssetsClient env"
  "re_download (env\<lparr>re_clusters := l\<rparr>) = re_download env"
  "re_removeAll (env\<lparr>re_clusters := l\<rparr>) = re_removeAll env"
  "re_exec (env\<lparr>re_clusters := l\<rparr>) = re_exec env"
  "re_yaml (env\<lparr>re_clusters := l\<rparr>) = re_yaml env"
  "re_kube (env\<lparr>re_clusters := l\<rparr>) = re_kube env"
  "re_getProvider (env\<lparr>re_clusters := l\<rparr>) = re_getProvider env"
  "re_newProviderHelper (env\<lparr>re_clusters := l\<rparr>) = re_newProviderHelper env"
  "re_setController (env\<lparr>re_clusters := l\<rparr>) = re_setController env"
  "re_patchProvider (env\<lparr>re_clusters := l\<rparr>) = re_patchProvider env"
  "re_watch (env\<lparr>re_clusters := l\<rparr>) = re_watch env"
  "re_patch (env\<lparr>re_clusters := l\<rparr>) = re_patch env"
  by simp_all

lemma clusters_unread:
  "templateClusterClassHelmChart (env\<lparr>re_clusters := l\<rparr>) = templateClusterClassHelmChart env"
  "download_release (env\<lparr>re_clusters := l\<rparr>) = download_release env"
  "updateProviderClusterStackRelease (env\<lparr>re_clusters := l\<rparr>) = updateProviderClusterStackRelease env"
  unfolding fun_eq_iff templateClusterClassHelmChart_def download_release_def
    updateProviderClusterStackRelease_def other_answers by simp_all

lemma apply_clusters_unread:
  "templateAndApply (env\<lparr>re_clusters := l\<rparr>) = templateAndApply env"
  "apply_release (env\<lparr>re_clusters := l\<rparr>) = apply_release env"
  "provide_release (env\<lparr>re_clusters := l\<rparr>) = provide_release env"
proof -
  show a: "templateAndApply (env\<lparr>re_clusters := l\<rparr>) = templateAndApply env"
    unfolding fun_eq_iff templateAndApply_def clusters_unread other_answers by simp
  show b: "apply_release (env\<lparr>re_clusters := l\<rparr>) = apply_release env"
    unfolding fun_eq_iff apply_release_def a by simp
  show "provide_release (env\<lparr>re_clusters := l\<rparr>) = provide_release env"
    unfolding fun_eq_iff provide_release_def b clusters_unread by simp
qed

lemma reconcileDelete_unused:
  assumes "getUsedClusterClasses (re_clusters env) = Inr used" and "csr_name (rl_object s) \<notin> set used"
  shows "reconcileDelete env rel ns s = reconcileDelete (env\<lparr>re_clusters := Inr []\<rparr>) rel ns s"
proof -
  have "getUsedClusterClasses (Inr []) = Inr []" by (simp add: getUsedClusterClasses_def)
  then show ?thesis
    unfolding reconcileDelete_def clusters_unread other_answers using assms by simp
qed

lemma Reconcile_unused:
  assumes "re_get env = Inr obj" and "getUsedClusterClasses (re_clusters env) = Inr used" and "csr_name obj \<notin> set used"
  shows "release_Reconcile env req = release_Reconcile (env\<lparr>re_clusters := Inr []\<rparr>) req"
proof -
  have "reconcile_release env ns s = reconcile_release (env\<lparr>re_clusters := Inr []\<rparr>) ns s"
    if "csr_name (rl_object s) = csr_name obj" for ns s
    unfolding reconcile_release_def clusters_unread apply_clusters_unread other_answers Let_def
    using that assms(3) reconcileDelete_unused[OF assms(2)]
    by (simp split: sum.split prod.split option.split)
  then show ?thesis unfolding release_Reconcile_def other_answers
    using assms(1) by (cases "re_newHelper env") simp_all
qed

section \<open>Usable assets\<close>

definition assets_usable :: "release_env \<Rightarrow> ClusterStackRelease \<Rightarrow> bool" where
  "assets_usable env obj \<longleftrightarrow>
     (case release_New (re_fs env) (re_unmarshal env) (csr_name obj) (re_directory env) of
        Inr (rel, False) \<Rightarrow> CheckHelmCharts (re_fs env) rel = None
      | _ \<Rightarrow> False)"

definition no_kube_writes :: "release_write list \<Rightarrow> bool" where
  "no_kube_writes ws \<longleftrightarrow> list_all (\<lambda>w. case w of KubeWrite _ \<Rightarrow> False | _ \<Rightarrow> True) ws"

lemma unusable_assets_marked:
  assumes "reconcile_release env ns s = (x, t)" and "\<not> assets_usable env (rl_object s)"
    and "conds_ok (rs_conditions (csr_status (rl_object s)))"
  shows "cond_IsFalse (rs_conditions (csr_status (rl_object t))) ClusterStackReleaseAssetsReadyCondition \<and>
    conds_ok (rs_conditions (csr_status (rl_object t))) \<and> same_frame s t \<and>
    (no_kube_writes (rl_writes s) \<longrightarrow> no_kube_writes (rl_writes t))"
  using assms
  by (auto simp: reconcile_release_def assets_usable_def download_release_def downloadReleaseAssets_def Let_def
      no_kube_writes_def cond_simps split: sum.splits bool.splits option.splits if_splits prod.splits)

lemma usable_assets:
  assumes "assets_usable env (rl_object s)"
  obtains rel where "reconcile_release env ns s =
    (let s = mark_release (cond_MarkTrue ClusterStackReleaseAssetsReadyCondition) s
     in if m_deleting (csr_meta (rl_object s)) then reconcileDelete env rel ns s else provide_release env ns rel s)"
  using assms by (auto simp: assets_usable_def reconcile_release_def split: sum.splits bool.splits prod.splits)

section \<open>Properties\<close>

definition let_go :: "release_result \<Rightarrow> bool" where
  "let_go r \<longleftrightarrow> (case rr_object r of
       None \<Rightarrow> False
     | Some final \<Rightarrow> ClusterStackReleaseFinalizer \<notin> set (m_finalizers (csr_meta final)) \<and> no_kube_writes (rr_writes r))"

definition waits :: "release_result \<Rightarrow> bool" where
  "waits r \<longleftrightarrow> (case rr_object r of
       None \<Rightarrow> False
     | Some final \<Rightarrow> ClusterStackReleaseFinalizer \<in> set (m_finalizers (csr_meta final)) \<and>
         rr_writes r = [PatchRelease final]) \<and>
     (case rr_exit r of ReleaseRequeueAfter n \<Rightarrow> n = 60 | ReleaseFail (PatchReleaseError _) \<Rightarrow> True | _ \<Rightarrow> False)"

lemma unusable_release_let_go:
  assumes "re_get env = Inr obj" and "re_newHelper env = None" and "m_deleting (csr_meta obj)"
    and "conds_ok (rs_conditions (csr_status obj))" and "\<not> assets_usable env obj"
  shows "let_go (release_Reconcile env req)"
proof -
  let ?s0 = "\<lparr>rl_object = map_meta (AddFinalizer ClusterStackReleaseFinalizer) obj, rl_writes = []\<rparr>"
  obtain x s where run: "reconcile_release env (nn_namespace req) ?s0 = (x, s)"
    and fin: "rr_object (release_Reconcile env req) = Some (finish_release (rl_object s))"
    "rr_writes (release_Reconcile env req) = rl_writes s @ [PatchRelease (finish_release (rl_object s))]"
    using release_Reconcile_run[OF assms(1,2)] by metis
  have u: "\<not> assets_usable env (rl_object ?s0)" using assms(5) by (simp add: assets_usable_def)
  have "no_kube_writes (rl_writes ?s0)" by (simp add: no_kube_writes_def)
  then show ?thesis
    using unusable_assets_marked[OF run u] fin assms(3,4)
    by (simp add: let_go_def finish_release_def Let_def same_frame_def cond_simps no_kube_writes_def)
qed

lemma seen_release_waits:
  assumes "re_get env = Inr obj" and "re_newHelper env = None" and "m_deleting (csr_meta obj)"
    and "conds_ok (rs_conditions (csr_status obj))" and "assets_usable env obj"
    and "getUsedClusterClasses (re_clusters env) = Inr used" and "csr_name obj \<in> set used"
  shows "waits (release_Reconcile env req)"
proof -
  let ?s0 = "\<lparr>rl_object = map_meta (AddFinalizer ClusterStackReleaseFinalizer) obj, rl_writes = []\<rparr>"
  let ?s1 = "mark_release (cond_MarkTrue ClusterStackReleaseAssetsReadyCondition) ?s0"
  obtain x s where run: "reconcile_release env (nn_namespace req) ?s0 = (x, s)"
    and fin: "rr_object (release_Reconcile env req) = Some (finish_release (rl_object s))"
    "rr_writes (release_Reconcile env req) = rl_writes s @ [PatchRelease (finish_release (rl_object s))]"
    "rr_exit (release_Reconcile env req) = x \<or> (\<exists>e. rr_exit (release_Reconcile env req) = ReleaseFail (PatchReleaseError e))"
    using release_Reconcile_run[OF assms(1,2)] by metis
  have u: "assets_usable env (rl_object ?s0)" using assms(5) by (simp add: assets_usable_def)
  have "x = ReleaseRequeueAfter 60 \<and> s = ?s1"
    using run assms(3,6,7) usable_assets[OF u, of "nn_namespace req"] by (auto simp: reconcileDelete_def Let_def)
  then show ?thesis
    using fin assms(4) by (auto simp: waits_def finish_release_def Let_def cond_simps)
qed

text \<open>
  C16. What the controller does with a release that is being deleted and that a cluster uses. When its
  assets are not on disk, as after a restart of the operator, it loses its finalizer and no object
  of it is deleted. Otherwise it waits for the cluster in the stable channel, and in any other
  channel the reconciliation is the one of a release that nobody uses.
\<close>

theorem deleting_release_in_use:
  assumes "re_get env = Inr obj" and "re_newHelper env = None" and "m_deleting (csr_meta obj)"
    and "conds_ok (rs_conditions (csr_status obj))"
    and "canonical_stack cs" and "csr_name obj = cs_String cs" and "re_clusters env = Inr clusters"
    and "c \<in> set clusters" and "cl_topology c = Some tp" and "top_class tp = cs_StringWithDot cs"
    and "is_ok (clusters_using_release (csr_name obj) clusters)"
  shows "if \<not> assets_usable env obj then let_go (release_Reconcile env req)
    else if ver_channel (cs_version cs) = ChannelStable then waits (release_Reconcile env req)
    else release_Reconcile env req = release_Reconcile (env\<lparr>re_clusters := Inr []\<rparr>) req"
proof -
  obtain used where u: "getUsedClusterClasses (re_clusters env) = Inr used"
    using assms(7) by (simp add: getUsedClusterClasses_def)
  have "csr_name obj \<noteq> []" using assms(6) by (simp add: cs_String_def Separator_def)
  then have "csr_name obj \<in> set used" if "ver_channel (cs_version cs) = ChannelStable"
    using that assms(6-10) notations_agree[of cs] used_class_names u by auto
  moreover have "csr_name obj \<notin> set used" if "ver_channel (cs_version cs) \<noteq> ChannelStable"
    using that assms(5-7,11) unstable_release_unseen u by auto
  ultimately show ?thesis
    using unusable_release_let_go[OF assms(1-4)] seen_release_waits[OF assms(1-4) _ u] Reconcile_unused[OF assms(1) u]
    by simp
qed

section \<open>Witnesses\<close>

definition deleted_alpha9 :: ClusterStackRelease where
  "deleted_alpha9 = map_meta (\<lambda>m. m\<lparr>m_name := ''docker-ferrol-1-27-v1-alpha-9''\<rparr>) (sample_release_object True [])"

definition alpha9_in_use :: "Cluster list" where
  "alpha9_in_use = [sample_cluster ''c'' ''docker-ferrol-1-27-v1-alpha.9'']"

definition used_release_env :: release_env where
  "used_release_env = (sample_release_env deleted_alpha9)\<lparr>re_clusters := Inr alpha9_in_use,
     re_fs := chart_fs\<lparr>fs_readDir := \<lambda>_. Some [(''docker-ferrol-1-27-cluster-class-v1-alpha.9.tgz'', False),
       (''docker-ferrol-1-27-cluster-addon-v2.tgz'', False)]\<rparr>\<rparr>"

lemma used_release_facts:
  "assets_usable used_release_env deleted_alpha9"
  "is_ok (clusters_using_release (csr_name deleted_alpha9) alpha9_in_use)"
  "cs_String (ferrol alpha9) = csr_name deleted_alpha9"
  "cs_StringWithDot (ferrol alpha9) = ''docker-ferrol-1-27-v1-alpha.9''"
  "ver_channel (cs_version (ferrol alpha9)) \<noteq> ChannelStable"
  subgoal by code_simp
  subgoal by code_simp
  subgoal by code_simp
  subgoal by code_simp
  subgoal by code_simp
  done

theorem deleting_release_in_use_witness:
  "release_Reconcile used_release_env release_request =
    release_Reconcile (used_release_env\<lparr>re_clusters := Inr []\<rparr>) release_request"
proof -
  let ?tp = "\<lparr>top_class = ''docker-ferrol-1-27-v1-alpha.9'', top_version = ''1.27.3''\<rparr>"
  have "re_get used_release_env = Inr deleted_alpha9" "re_newHelper used_release_env = None"
    "m_deleting (csr_meta deleted_alpha9)" "conds_ok (rs_conditions (csr_status deleted_alpha9))"
    "re_clusters used_release_env = Inr alpha9_in_use"
    "sample_cluster ''c'' ''docker-ferrol-1-27-v1-alpha.9'' \<in> set alpha9_in_use"
    "cl_topology (sample_cluster ''c'' ''docker-ferrol-1-27-v1-alpha.9'') = Some ?tp"
    by (simp_all add: used_release_env_def sample_release_env_def deleted_alpha9_def sample_release_object_def
        alpha9_in_use_def sample_cluster_def)
  from deleting_release_in_use[OF this(1-4) ferrol_canonical[OF alpha9_canonical] used_release_facts(3)[symmetric]
      this(5-7) _ used_release_facts(2), of release_request]
  show ?thesis using used_release_facts(1,4,5) by simp
qed

end
