(* ===== verification/AddonSafety.thy ===== *)
theory AddonSafety
  imports AddonController
begin

text \<open>
  When the reconciliation of a cluster addon cannot panic: the steps of
  \<open>internal/controller/clusteraddon_controller.go\<close> one after the other, for an environment in
  which every expanded file of values is a map.
\<close>

definition values_are_maps :: "addon_env \<Rightarrow> bool" where
  "values_are_maps env \<longleftrightarrow> (\<forall>b v. ae_unmarshalValues env b = Some v \<longrightarrow> (\<exists>m. v = JObject m))"

lemma build_values_no_panic:
  assumes "values_are_maps env"
  shows "buildTemplateFromClusterAddonValues env fs path cluster \<noteq> None"
proof -
  have "template_values b (JObject m) \<noteq> None" for b m
    by (auto simp: template_values_def split: option.splits json.splits)
  then show ?thesis
    using assms by (fastforce simp: buildTemplateFromClusterAddonValues_def values_are_maps_def
        split: option.splits sum.splits)
qed

section \<open>Stages\<close>

lemma addon_template_no_panic:
  assumes "values_are_maps env"
  shows "templateNewClusterStackAddonHelmChart env inp name s \<noteq> (Inl stop, t)"
proof -
  note [simp] = build_values_no_panic[OF assms]
  have "\<not> isl (fst (template_old_chart env inp name s))" for s
    by (simp add: template_old_chart_def template_failed_def Let_def split: option.split sum.split)
  moreover have "\<not> isl (fst (template_new_chart env inp name s))" for s
    by (simp add: template_new_chart_def template_failed_def Let_def split: option.split sum.split)
  ultimately show ?thesis
    by (auto simp: templateNewClusterStackAddonHelmChart_def split: prod.split sum.split option.split)
      (metis fst_conv isl_def)+
qed

lemma check_stage_no_panic:
  assumes "values_are_maps env"
  shows "check_stage env inp stage s \<noteq> StageReturn (Inl AddonPanic) t"
proof -
  have "apply_stage env inp stage s \<noteq> StageReturn (Inl AddonPanic) t"
    using addon_template_no_panic[OF assms, of inp "sg_name stage" s]
    by (simp add: apply_stage_def Let_def split: prod.split sum.split option.split)
  moreover have "delete_stage env inp stage s \<noteq> StageReturn (Inl AddonPanic) t"
    by (auto simp: delete_stage_def Let_def split: option.splits)
  moreover have "check_pre env stage s \<noteq> StageReturn (Inl AddonPanic) t"
    "check_post env stage s \<noteq> StageReturn (Inl AddonPanic) t"
    by (auto simp: check_pre_def check_post_def split: option.splits)
  ultimately show ?thesis by (simp add: check_stage_def split: StagePhase.split)
qed

lemma executeStage_no_panic:
  assumes "values_are_maps env"
  shows "fst (executeStage env inp stage s) \<noteq> Inl AddonPanic"
proof
  assume p: "fst (executeStage env inp stage s) = Inl AddonPanic"
  then have "sg_name stage \<in> set (in_chartMap inp)" by (auto simp: executeStage_def split: if_splits)
  with p obtain t where "stage_loop env inp stage s = (Inl AddonPanic, t)"
    by (cases "stage_loop env inp stage s") (auto simp: executeStage_def)
  then show False using stage_loop_passes check_stage_no_panic[OF assms] by blast
qed

lemma execute_stages_no_panic:
  assumes "values_are_maps env" and "execute_stages env inp stages s = (Some x, t)"
  shows "x \<noteq> AddonStop AddonPanic"
proof
  assume "x = AddonStop AddonPanic"
  from for_each_error[OF assms(2)[unfolded this execute_stages_def]]
  obtain stage u v where "(case executeStage env inp stage u of
         (Inl stop, s) \<Rightarrow> (Some (AddonStop stop), s)
       | (Inr True, s) \<Rightarrow> (Some (AddonRequeueAfter 20), s)
       | (Inr False, s) \<Rightarrow> (None, s)) = (Some (AddonStop AddonPanic), v)"
    by blast
  then show False
    using executeStage_no_panic[OF assms(1), of inp stage u]
    by (auto split: prod.splits sum.splits bool.splits)
qed

section \<open>Replacing the objects of the old release\<close>

lemma collect_stages_no_panic:
  assumes "values_are_maps env"
  shows "collect_stages env fs cl dir (Some version) stages \<noteq> Inl AddonPanic"
proof
  assume "collect_stages env fs cl dir (Some version) stages = Inl AddonPanic"
  then obtain st where "for_each (collect_stage env fs cl dir (Some version)) stages no_objects = (Some AddonPanic, st)"
    by (auto simp: collect_stages_def split: prod.splits option.splits)
  from for_each_error[OF this] obtain stage u v
    where "collect_stage env fs cl dir (Some version) stage u = (Some AddonPanic, v)" by blast
  then show False
    by (auto simp: collect_stage_def build_values_no_panic[OF assms] Let_def
        split: option.splits sum.splits if_splits)
qed

lemma cleanUp_no_panic: "fst (cleanUpResources env oldList newList s) \<noteq> Inl AddonPanic"
proof
  assume "fst (cleanUpResources env oldList newList s) = Inl AddonPanic"
  then obtain st where "for_each (delete_extra (ae_kube env)) (extra_resources oldList newList)
      (False, ad_kube s) = (Some AddonPanic, st)"
    by (auto simp: cleanUpResources_def split: prod.splits option.splits)
  from for_each_error[OF this] obtain r u v where "delete_extra (ae_kube env) r u = (Some AddonPanic, v)"
    by blast
  then show False by (auto simp: delete_extra_def Let_def split: sum.splits)
qed

lemma replace_objects_no_panic:
  assumes "values_are_maps env" and "replace_objects env inp cfg (Some rel) s = (Some x, t)"
  shows "x \<noteq> AddonStop AddonPanic"
proof -
  have "getOldReleaseObjects env inp cfg (Some rel) s \<noteq> Inl AddonPanic"
    using collect_stages_no_panic[OF assms(1)]
    by (auto simp: build_values_no_panic[OF assms(1)] getOldReleaseObjects_def old_chart_objects_def getClusterAddonConfigPath_def Let_def
        split: stat_result.splits option.splits sum.splits)
  moreover have "getNewReleaseObjects env inp cfg s \<noteq> Inl AddonPanic"
    using collect_stages_no_panic[OF assms(1)] by (simp add: getNewReleaseObjects_def)
  ultimately show ?thesis
    using assms(2) cleanUp_no_panic[of env _ _ s]
    by (auto simp: replace_objects_def split: sum.splits prod.splits if_splits) (metis fst_conv)
qed

section \<open>The two flows\<close>

lemma apply_chart_no_panic:
  "values_are_maps env \<Longrightarrow> fst (templateAndApplyClusterAddonHelmChart env inp s) \<noteq> Inl AddonPanic"
  by (simp add: templateAndApplyClusterAddonHelmChart_def build_values_no_panic Let_def
      split: option.split sum.split)

lemma single_chart_no_panic:
  assumes "values_are_maps env"
  shows "fst (single_chart env inp rel class_name s) \<noteq> AddonStop AddonPanic"
proof -
  obtain r1 s1 where 1: "templateAndApplyClusterAddonHelmChart env inp (set_ready False s) = (r1, s1)" by fastforce
  obtain r2 s2 where 2: "templateAndApplyClusterAddonHelmChart env inp s = (r2, s2)" by fastforce
  have "r1 \<noteq> Inl AddonPanic" "r2 \<noteq> Inl AddonPanic"
    using apply_chart_no_panic[OF assms] 1 2 by (metis fst_conv)+
  then show ?thesis
    by (auto simp: single_chart_def 1 2 Let_def not_applied_def partly_applied_def finish_new_stack_def
        finish_same_stack_def split: sum.split bool.split)
qed

lemma run_stages_no_panic:
  assumes "values_are_maps env"
    and "cas_hook (addon_spec s) = beforeClusterUpgradeHook \<Longrightarrow> oldRelease \<noteq> None"
  shows "fst (run_stages env inp cfg oldRelease rel class_name s) \<noteq> AddonStop AddonPanic"
proof -
  define p where "p = prepare_stages cfg oldRelease rel class_name s"
  have hook: "cas_hook (addon_spec p) = cas_hook (addon_spec s)"
    by (simp add: p_def prepare_stages_def Let_def stage_simps)
  have ex: "execute_stages env inp stages u \<noteq> (Some (AddonStop AddonPanic), v)" for stages u v
    using execute_stages_no_panic[OF assms(1)] by blast
  have re: "replace_objects env inp cfg oldRelease u \<noteq> (Some (AddonStop AddonPanic), v)"
    if "oldRelease \<noteq> None" for u v
    using replace_objects_no_panic[OF assms(1)] that by blast
  have "fst (upgrade_in_place env inp cfg oldRelease class_name p) \<noteq> AddonStop AddonPanic"
    if "same_kubernetes oldRelease rel"
  proof -
    have "oldRelease \<noteq> None" using that by (auto simp: same_kubernetes_def split: option.splits)
    then show ?thesis
      using ex re by (auto simp: upgrade_in_place_def Let_def close_hook_done split: prod.split option.split)
  qed
  moreover have "fst (run_hook env inp cfg oldRelease class_name p) \<noteq> AddonStop AddonPanic"
    using ex re assms(2) hook
    by (auto simp: run_hook_def Let_def close_hook_done split: prod.split option.split)
  ultimately show ?thesis by (simp add: run_stages_def p_def[symmetric] Let_def)
qed

text \<open>The old release of an addon can be read whenever it has been downloaded.\<close>

definition old_release_readable :: "addon_env \<Rightarrow> string \<Rightarrow> bool" where
  "old_release_readable env stack \<longleftrightarrow> ae_newAssetsClient env = None \<and>
     (\<forall>fw rel. release_New (ae_fs env fw) (ae_unmarshalMetadata env)
        (ConvertFromClusterClassToClusterStackFormat stack) (ae_directory env) = Inr (rel, False) \<longrightarrow>
      CheckHelmCharts (ae_fs env fw) rel = None)"

lemma load_old_no_panic:
  assumes "cas_clusterStack (addon_spec s) \<noteq> [] \<Longrightarrow> old_release_readable env (cas_clusterStack (addon_spec s))"
    and "load_old_release env inp s = (r, t)"
  shows "r \<noteq> Inl (AddonStop AddonPanic) \<and>
    (\<forall>inp' old. r = Inr (inp', old) \<longrightarrow> old = None \<longrightarrow> cas_clusterStack (addon_spec s) = [])"
proof (cases "cas_clusterStack (addon_spec s) = []")
  case True
  then show ?thesis using assms(2) by (auto simp: load_old_release_def)
next
  case False
  note old = assms(1)[OF False, unfolded old_release_readable_def]
  obtain d u where d: "downloadOldClusterStackRelease env s = (d, u)" by fastforce
  have "d \<noteq> Inl AddonPanic \<and> d \<noteq> Inr (None, False)"
    using d old by (auto simp: downloadOldClusterStackRelease_def Let_def
        split: option.splits sum.splits prod.splits if_splits)
  then show ?thesis
    using assms(2) False
    by (auto simp: load_old_release_def d Let_def split: sum.splits prod.splits option.splits if_splits)
qed

lemma staged_charts_no_panic:
  assumes "values_are_maps env"
    and "cas_clusterStack (addon_spec s) \<noteq> [] \<Longrightarrow> old_release_readable env (cas_clusterStack (addon_spec s))"
    and "cas_hook (addon_spec s) = beforeClusterUpgradeHook \<Longrightarrow> cas_clusterStack (addon_spec s) \<noteq> []"
  shows "fst (staged_charts env inp rel class_name s) \<noteq> AddonStop AddonPanic"
proof -
  obtain r1 s1 where 1: "getAddonStagesInput env (in_chartPath inp) s = (r1, s1)" by fastforce
  define s2 where "s2 = mark_addon (cond_MarkTrue ClusterAddonConfigValidatedCondition) s1"
  have spec: "addon_spec s2 = addon_spec s"
    using stages_input_same[OF 1] by (simp add: s2_def stage_simps same_addon_def)
  have old: "r \<noteq> Inl (AddonStop AddonPanic)" if "load_old_release env inp' s2 = (r, u)" for inp' r u
    using load_old_no_panic[OF _ that] assms(2) spec by auto
  have run: "fst (run_stages env inp'' cfg old rel class_name u) \<noteq> AddonStop AddonPanic"
    if l: "load_old_release env inp' s2 = (Inr (inp'', old), u)" for inp' inp'' old u cfg
  proof (rule run_stages_no_panic[OF assms(1)])
    have "addon_spec u = addon_spec s" using load_old_same[OF l] spec by simp
    then show "old \<noteq> None" if "cas_hook (addon_spec u) = beforeClusterUpgradeHook"
      using load_old_no_panic[OF _ l] assms(2,3) spec that by auto
  qed
  show ?thesis
    using old run
    by (auto simp: staged_charts_def 1 s2_def[symmetric] Let_def split: option.split sum.split prod.split)
qed

lemma release_assets_no_panic:
  assumes "values_are_maps env" and "cl_topology cluster \<noteq> None"
    and "cas_clusterStack (addon_spec s) \<noteq> [] \<Longrightarrow> old_release_readable env (cas_clusterStack (addon_spec s))"
    and "cas_hook (addon_spec s) = beforeClusterUpgradeHook \<Longrightarrow> cas_clusterStack (addon_spec s) \<noteq> []"
  shows "fst (reconcile_release_assets env cluster s) \<noteq> AddonStop AddonPanic"
proof -
  define s1 where "s1 = mark_addon (cond_MarkTrue ClusterStackReleaseAssetsReadyCondition)
    (mark_addon (cond_MarkTrue ClusterReadyCondition) s)"
  have spec: "addon_spec s1 = addon_spec s" by (simp add: s1_def stage_simps)
  have staged: "fst (staged_charts env inp rel class_name s1) \<noteq> AddonStop AddonPanic" for inp rel class_name
    using staged_charts_no_panic[OF assms(1), of s1] assms(3,4) spec by simp
  show ?thesis
    using assms(2) staged single_chart_no_panic[OF assms(1)]
    by (auto simp: reconcile_release_assets_def s1_def[symmetric] Let_def getClusterAddonConfigPath_def
        split: option.split sum.split prod.split stat_result.split)
qed

section \<open>The reconciliation\<close>

lemma addon_Reconcile_no_panic:
  assumes "ae_get env = Inr addon" and "cas_clusterRef (ca_spec addon) = Some ref"
    and "\<And>cluster. ae_getCluster env \<lparr>nn_name = ref_name ref, nn_namespace = ref_namespace ref\<rparr> = Inr cluster
      \<Longrightarrow> cl_topology cluster \<noteq> None"
    and "values_are_maps env"
    and "cas_clusterStack (ca_spec addon) \<noteq> [] \<Longrightarrow> old_release_readable env (cas_clusterStack (ca_spec addon))"
    and "cas_hook (ca_spec addon) = beforeClusterUpgradeHook \<Longrightarrow> cas_clusterStack (ca_spec addon) \<noteq> []"
  shows "ar_exit (addon_Reconcile env locked) \<noteq> AddonStop AddonPanic"
proof -
  have spec: "addon_spec (addon_start addon locked) = ca_spec addon" by (simp add: addon_start_def)
  have "fst (reconcile_release_assets env cluster (addon_start addon locked)) \<noteq> AddonStop AddonPanic"
    if "ae_getCluster env \<lparr>nn_name = ref_name ref, nn_namespace = ref_namespace ref\<rparr> = Inr cluster" for cluster
    using release_assets_no_panic[OF assms(4) assms(3)[OF that], of "addon_start addon locked"] assms(5,6) spec
    by simp
  then have "fst (reconcile_addon env (addon_start addon locked)) \<noteq> AddonStop AddonPanic"
    using assms(2) spec by (simp add: reconcile_addon_def split: sum.split)
  then show ?thesis
    using assms(1)
    by (cases "reconcile_addon env (addon_start addon locked)")
      (auto simp: addon_Reconcile_def addon_start_def[symmetric] Let_def split: option.split)
qed

lemma sample_values: "values_are_maps (sample_addon_env a config cel)"
  by (simp add: values_are_maps_def sample_addon_env_def)

end
