(* ===== verification/Spec2Isabelle.thy ===== *)
theory Spec2Isabelle
  imports DeepCopy Watches KubeVersions RestConfigs StackLoop ReleaseController Webhooks Hooks AssetsClients
    Startup ReleaseNotes ReleaseDeletion AddonSafety
begin

text \<open>
  A model of the Cluster Stack Operator, the Kubernetes operator that installs and upgrades cluster
  stacks: releases of cluster classes, node images and cluster addons for Cluster API.

  \<^bold>\<open>The program.\<close> A user creates a \<open>ClusterStack\<close>. Its controller
  (\<open>internal/controller/clusterstack_controller.go\<close>) compares the versions of the specification and
  the latest release of the remote repository with the \<open>ClusterStackRelease\<close> objects that exist, and
  creates and deletes such objects. The controller of a \<open>ClusterStackRelease\<close>
  (\<open>clusterstackrelease_controller.go\<close>) downloads the assets of the release through a client of
  \<open>pkg/assetsclient\<close>, templates the chart of the cluster class and applies its objects through
  \<open>pkg/kube\<close>. When a cluster of that class appears, \<open>clusteraddoncreate_controller.go\<close> creates its
  \<open>ClusterAddon\<close>, whose controller (\<open>clusteraddon_controller.go\<close>) applies the addon charts to the
  workload cluster, in stages with pre and post conditions. The hook server (\<open>extension/hooks.go\<close>)
  answers the lifecycle calls of Cluster API and hands them to the addon controller through the
  field \<open>spec.hook\<close>. The webhooks of \<open>api/v1alpha1\<close> admit or reject the objects. The controllers
  share nothing but the API server, the download directory and the names of releases, so the
  properties below that span components are about these names, about what a webhook admits, and
  about objects one component writes and another reads.

  \<^bold>\<open>The theories.\<close>
  \<^item> \<open>Prelude\<close>: results of fallible functions, facts on lists and maps, collections of rewrite rules.
  \<^item> \<open>GoStrings\<close>, \<open>GoRegexp\<close>: the functions of \<open>strings\<close>, \<open>strconv\<close>, \<open>fmt\<close> and \<open>regexp\<close> in use.
  \<^item> \<open>Versions\<close> (\<open>pkg/version\<close>), \<open>KubeVersions\<close> (\<open>pkg/kubernetesversion\<close>), \<open>ClusterStacks\<close>
    (\<open>pkg/clusterstack\<close>): parsers, printers, validation and order of the names; the lemmas give the
    ranges of the parsers and the round trips. Go's \<open>sort\<close> is the locale \<open>go_sort\<close>, interpreted on
    the insertion sort Go uses for short slices.
  \<^item> \<open>Conditions\<close>: the condition constants and the setters, getters and summary of Cluster API.
  \<^item> \<open>Unstructured\<close>: JSON objects with the accessors of apimachinery.
  \<^item> \<open>ApiTypes\<close> (\<open>resources.go\<close> and the \<open>_types.go\<close> files of \<open>api/v1alpha1\<close>): the objects as records.
  \<^item> \<open>Kube\<close> (\<open>pkg/kube\<close>): applying and deleting a template; the state is the trace of the writes sent
    to the API server, and the lemmas say which writes are sent, and when a second run sends none.
  \<^item> \<open>RestConfigs\<close> (\<open>newRestClient\<close> of \<open>pkg/kube/helpers.go\<close>): the calls of concurrent reconciliations
    on the configuration they share, as a step relation bounded by the number of workers.
  \<^item> \<open>StackDiff\<close>, \<open>ProviderObjects\<close>, \<open>StackController\<close>: the decisions of the ClusterStack controller,
    the provider objects it keeps, and its reconciliation. \<open>StackLoop\<close> closes the loop: the writes of
    one reconciliation change the store the next one reads, and the controller comes to rest.
  \<^item> \<open>Release\<close> (\<open>pkg/release\<close>), \<open>ReleaseController\<close>: a release on disk and the reconciliation of a
    \<open>ClusterStackRelease\<close>, with what a ready release guarantees and when its finalizer goes.
    \<open>ReleaseDeletion\<close>: what becomes of a release that is deleted while a cluster uses it.
  \<^item> \<open>Webhooks\<close> (the \<open>_webhook.go\<close> files), \<open>Hooks\<close> (\<open>extension/hooks.go\<close> and
    \<open>clusteraddoncreate_controller.go\<close>): what is admitted, and when an upgrade goes on.
  \<^item> \<open>Addons\<close> (\<open>pkg/clusteraddon\<close> and the lower half of the addon controller), \<open>AddonStages\<close>
    (\<open>executeStage\<close>), \<open>AddonController\<close> (\<open>Reconcile\<close> with the flow of a single chart and the flow
    with stages), \<open>AddonSafety\<close> (when it cannot panic). A stage refines an abstract machine over
    its phase and the writes sent for it; the finalizer, the recorded class and the clean-up have their own lemmas.
  \<^item> \<open>AssetsClients\<close> (\<open>pkg/assetsclient\<close>, \<open>pkg/workloadcluster\<close>): the clients of GitHub and of the
    OCI registry, the one of the local mode, and the configuration of a workload cluster.
  \<^item> \<open>Startup\<close> (\<open>cmd/main.go\<close>, \<open>pkg/utillog\<close>, \<open>pkg/csoversion\<close>): options, set-up, and the goroutines
    of the shutdown, the handler of signals included, as a step relation, with the exit status of every
    run.
  \<^item> \<open>Watches\<close> (the four \<open>SetupWithManager\<close> functions): the requests an event of the API puts into the
    queue of each controller, and which writes of one controller wake the next.
  \<^item> \<open>Memory\<close>, \<open>DeepCopy\<close> (\<open>api/v1alpha1/zz_generated.deepcopy.go\<close>): an explicit memory with addresses,
    and the generated copies as functions on it. The locale \<open>deep_copier\<close> is what a deep copy promises;
    it is interpreted on the copy of a runtime object. This is why all other theories may take the
    objects a controller reads as values.
  \<^item> \<open>ReleaseNotes\<close> (\<open>hack/tools/release/notes.go\<close>): the tool that prints release notes, against a
    specification of what the notes of a history should hold.
  \<^item> This theory: properties of several components together.

  \<^bold>\<open>Conventions.\<close> A function of type \<open>(T, error)\<close> returns a sum with the error on the left, a panic is
  a value of its own (an exit \<open>Panic\<close>, an error or \<open>None\<close>), and definitions keep the names of the
  source, prefixed by their type where two clash. The API server, the file system, the remote
  repository, helm and the YAML, template and CEL libraries are fields of an environment. Answers may
  depend on the past: those of the API server on the writes sent before, reads of the file system on
  the file operations before. Pointers to resources carry an address where the code compares them, and
  the mutex of the download directory is part of the state of the addon controller. A map that the
  code iterates is given with its order by the environment.

  \<^bold>\<open>Termination.\<close> No definition has fuel. The jump of \<open>executeStage\<close> is a recursion that ends by the
  rank of the recorded phase, and \<open>stage_jumps_at_most_twice\<close> bounds it; trimming ends by the length
  of the string; every run of the operator's step relation is finite by a measure.

  \<^bold>\<open>Assumptions of properties.\<close> The loop of \<open>StackLoop\<close> takes deletions as complete before the next
  reconciliation, that is, the release controller has removed its finalizer. \<open>values_are_maps\<close> says
  that expanded values decode to a map, and \<open>old_release_readable\<close> that there is an assets client and
  that the charts of the previous release are in its directory; without them the code can panic.
  \<open>proper_change\<close> says that no line of a commit message looks like a hash or a merge. \<open>object_fit\<close> says that a memory
  is well typed, as the type system of Go makes it.

  \<^bold>\<open>Not modelled.\<close> The registration of schemes, mocks and the test helpers; event records and log
  lines; the tuning and transport of REST clients; the options of the controllers and the cache the
  release controller starts for provider objects; a rest configuration that is nil; a null
  entry in the list of stages of an addon configuration; malformed
  UTF-8 in \<open>Sscanf\<close>; messages and transition times of conditions. These are input and output,
  generated, or have no effect on the states and answers stated here.
\<close>

section \<open>Names of releases\<close>

lemma kv_NewFromString_unsigned:
  assumes "kubernetesversion_NewFromString s = Inr kv" and "CHR ''-'' \<notin> set s"
  shows "kv_unsigned kv"
proof -
  let ?ps = "split_on CHR ''.'' s"
  have len: "length ?ps = 2" and new: "kubernetesversion_New (?ps ! 0) (?ps ! 1) = Inr kv"
    using assms(1) by (auto simp: kubernetesversion_NewFromString_def kubernetesversion_New_def Let_def
        split: if_splits option.splits)
  have "?ps ! 0 \<in> set ?ps" "?ps ! 1 \<in> set ?ps" using len by (simp_all add: nth_mem)
  then show ?thesis using kv_New_unsigned[OF new] set_split_on_piece assms(2) by blast
qed

text \<open>The printers drop a patch of the stable channel, so they print a canonical version.\<close>

lemma printed_canonical:
  assumes "valid_version v"
  shows "\<exists>w. canonical_version w \<and> version_String w = version_String v \<and> version_StringWithDot w = version_StringWithDot v"
proof (cases "canonical_version v")
  case False
  then have "ver_channel v = ChannelStable" using assms by (auto simp: canonical_version_def)
  with assms show ?thesis
    by (intro exI[of _ "v\<lparr>ver_patch := []\<rparr>"])
      (simp add: canonical_version_def valid_version_def version_String_def version_StringWithDot_def)
qed auto

lemma new_stack_printed:
  assumes "clusterstack_New provider name kubernetes v = Inr cs"
    and "dash_free provider" and "dash_free name" and "CHR ''-'' \<notin> set kubernetes"
  shows "\<exists>d. canonical_stack d \<and> cs_provider d = provider \<and> cs_name d = name \<and> cs_String d = cs_String cs"
proof -
  obtain kv w where p: "kubernetesversion_NewFromString kubernetes = Inr kv" "version_New v = Inr w"
    "cs = \<lparr>cs_provider = provider, cs_name = name, cs_kube = kv, cs_version = w\<rparr>"
    using assms(1) by (auto simp: clusterstack_New_def Let_def split: sum.splits option.splits)
  obtain x where x: "canonical_version x" "version_String x = version_String w"
    using printed_canonical[OF new_valid[OF p(2)]] by blast
  then show ?thesis
    using assms(2-4) kv_NewFromString_unsigned[OF p(1)] p(3)
    by (intro exI[of _ "cs\<lparr>cs_version := x\<rparr>"])
      (simp add: canonical_stack_def parsed_stack_def cs_String_def canonical_version_def)
qed

text \<open>
  C21. The controllers agree on the name of a release. For a specification whose provider and name
  have neither dash nor dot and whose Kubernetes version has no sign, every name the ClusterStack
  controller creates is read back by the release controller to a stack of that provider and name,
  the dotted name of its class is read to the same stack, and the addon controller and the webhooks
  convert the name of the class to that very release.
\<close>

theorem one_release_everywhere:
  assumes "getClusterStackReleasesInSpec spec = Inr names" and "name \<in> set names"
    and "dash_free (css_provider spec)" and "dash_free (css_name spec)"
    and "CHR ''.'' \<notin> set (css_provider spec)" and "CHR ''.'' \<notin> set (css_name spec)"
    and "CHR ''-'' \<notin> set (css_kubernetesVersion spec)"
  shows "\<exists>cs. name = cs_String cs \<and> cs_provider cs = css_provider spec \<and> cs_name cs = css_name spec \<and>
    NewFromClusterStackReleaseProperties name = Inr cs \<and>
    NewFromClusterClassProperties (cs_StringWithDot cs) = Inr cs \<and>
    ConvertFromClusterClassToClusterStackFormat (cs_StringWithDot cs) = name"
proof -
  obtain cs v where "clusterstack_New (css_provider spec) (css_name spec) (css_kubernetesVersion spec) v = Inr cs"
    "name = cs_String cs"
    using in_spec_names[of spec "css_versions spec" "[]" names] assms(1,2)
    by (auto simp: getClusterStackReleasesInSpec_def)
  with new_stack_printed assms(3,4,7) obtain d where
    d: "canonical_stack d" "cs_provider d = css_provider spec" "cs_name d = css_name spec" "name = cs_String d"
    by metis
  then show ?thesis
    using assms(5,6) release_of_String[OF d(1)] class_of_StringWithDot[OF d(1)] convert_dotted[OF d(1)]
    by auto
qed

definition channel_spec :: ClusterStackSpec where
  "channel_spec = (csk_spec sample_stack)\<lparr>css_kubernetesVersion := ''1.27'', css_versions := [''v1-alpha.9'', ''v2'']\<rparr>"

lemma channel_spec_names:
  "getClusterStackReleasesInSpec channel_spec = Inr [''docker-ferrol-1-27-v1-alpha-9'', ''docker-ferrol-1-27-v2'']"
  by code_simp

theorem one_release_everywhere_witness:
  "\<exists>cs. ''docker-ferrol-1-27-v1-alpha-9'' = cs_String cs \<and>
    cs_provider cs = css_provider channel_spec \<and> cs_name cs = css_name channel_spec \<and>
    NewFromClusterStackReleaseProperties ''docker-ferrol-1-27-v1-alpha-9'' = Inr cs \<and>
    NewFromClusterClassProperties (cs_StringWithDot cs) = Inr cs \<and>
    ConvertFromClusterClassToClusterStackFormat (cs_StringWithDot cs) = ''docker-ferrol-1-27-v1-alpha-9''"
  by (rule one_release_everywhere[OF channel_spec_names])
    (simp_all add: channel_spec_def sample_stack_def dash_free_def)

section \<open>Cluster stacks and their webhook\<close>

lemma provider_step_no_panic:
  assumes "css_noProvider (csk_spec (sk_object s)) \<or> css_providerRef (csk_spec (sk_object s)) \<noteq> None"
  shows "fst (provider_step env name s) \<noteq> Inl Panic"
proof -
  have "fst (createOrUpdateProviderClusterStackRelease api name (sk_object s)) \<noteq> Inl NilProviderRef"
    if "css_providerRef (csk_spec (sk_object s)) \<noteq> None" for api
    using that by (auto simp: createOrUpdateProviderClusterStackRelease_def Let_def
        split: option.splits sum.splits prod.splits if_splits)
  then show ?thesis
    using assms by (auto simp: provider_step_def split: prod.split sum.split provider_error.split)
      (metis fst_conv)
qed

definition provider_known :: "ClusterStackSpec \<Rightarrow> bool" where
  "provider_known spec \<longleftrightarrow> css_noProvider spec \<or> css_providerRef spec \<noteq> None"

lemma create_release_no_panic:
  assumes "provider_known (csk_spec (sk_object s))"
    and "create_release_step env ns owner csr s = (Some x, t)"
  shows "x \<noteq> Panic"
proof (cases "release_Summary csr")
  case (Inr sm)
  have "fst (provider_step env (csr_name csr) (s\<lparr>sk_summary := sk_summary s @ [sm]\<rparr>)) \<noteq> Inl Panic"
    using assms(1) by (intro provider_step_no_panic) (simp add: provider_known_def)
  then show ?thesis
    using assms(2) Inr
    by (auto simp: create_release_step_def Let_def split: prod.splits sum.splits option.splits)
qed (use assms in \<open>auto simp: create_release_step_def\<close>)

lemma sync_releases_no_panic:
  assumes "provider_known (csk_spec (sk_object s))"
    and "sync_releases env ns existing lr latest s = (x, t)"
  shows "x \<noteq> Panic"
proof
  assume panic: "x = Panic"
  let ?I = "\<lambda>s. provider_known (csk_spec (sk_object s))"
  obtain inUse inSpec where u: "getClusterStackReleasesInUse (se_clusters env) = Inr inUse"
    "getClusterStackReleasesInSpec (csk_spec (sk_object s)) = Inr inSpec"
    using assms(2) panic by (auto simp: sync_releases_def split: sum.splits)
  obtain new old where d: "makeDiff existing latest (fst lr) (se_order env inSpec) inUse = (new, old)" by fastforce
  obtain e1 s1 where 1: "for_each (delete_release_step env) old s = (e1, s1)" by fastforce
  have "e1 \<noteq> Some Panic"
    using for_each_error[of "delete_release_step env" old s Panic s1] 1
    by (auto simp: delete_release_step_def split: option.splits if_splits)
  moreover have I1: "?I s1"
    using for_each_inv[of ?I s old "delete_release_step env"] assms(1) 1 delete_release_evolves evolves_frame
    by (metis snd_conv)
  let ?c = "create_release_step env ns (generateOwnerReference (sk_object s1))"
  obtain e2 s2 where 2: "for_each ?c new s1 = (e2, s2)" by fastforce
  have "e2 \<noteq> Some Panic"
    using for_each_error_inv[of ?c new s1 Panic s2 ?I] 2 I1 create_release_no_panic
      create_release_evolves evolves_frame by metis
  moreover have "fst (report_stack env existing lr s2) \<noteq> Panic"
    by (simp add: report_stack_def Let_def split: sum.split)
  ultimately show False
    using assms(2) panic by (auto simp: sync_releases_def u d 1 2 split: option.splits)
qed

text \<open>
  C18. A ClusterStack that the webhook admits on creation never makes the controller panic, whatever
  the API server, the remote repository and the provider answer.
\<close>

theorem admitted_stack_never_panics:
  assumes "stack_ValidateCreate localMode cs = Allowed" and "se_get env = Inr cs"
  shows "sr_exit (stack_Reconcile env req) \<noteq> Panic"
proof -
  have known: "provider_known (csk_spec cs)"
    using assms(1) by (auto simp: stack_ValidateCreate_Allowed provider_known_def)
  define s0 where "s0 = \<lparr>sk_object = cs, sk_writes = [], sk_summary = []\<rparr>"
  obtain r t where t: "subscribe env s0 = (r, t)" by fastforce
  have r: "r \<noteq> Inl Panic"
    using t by (auto simp: subscribe_def Let_def split: if_splits option.splits sum.splits)
  have "provider_known (csk_spec (sk_object t))"
    using evolves_frame[OF subscribe_evolves[OF t]] known by (simp add: s0_def)
  then have "fst (sync_releases env ns existing lr latest t) \<noteq> Panic" for ns existing lr latest
    using sync_releases_no_panic by (metis prod.collapse)
  then have "fst (reconcile_stack env (nn_namespace req) s0) \<noteq> Panic"
    using r t by (auto simp: reconcile_stack_def split: sum.split)
  then show ?thesis
    using assms(2)
    by (auto simp: stack_Reconcile_def s0_def[symmetric] Let_def split: option.split prod.split)
qed

section \<open>Releases in use and their webhook\<close>

text \<open>
  C19. A release that a cluster uses, but that the controller does not keep, stops its ClusterStack:
  the controller tries to delete it, the webhook of the releases rejects the deletion, and the
  reconciliation fails before it creates anything. Outside the stable channel every release in use
  that the specification does not list is such a release, since a class is named in the dotted
  notation and a release is not.
\<close>

theorem in_use_release_blocks_sync:
  assumes "canonical_stack cs" and "csr_name r = cs_String cs" and "r \<in> set existing"
    and "c \<in> set clusters" and "cl_topology c = Some tp" and "top_class tp = cs_StringWithDot cs"
    and "is_ok (clusters_using_release (csr_name r) clusters)"
    and "se_clusters env = Inr clusters"
    and "\<And>tr r. rejected (release_ValidateDelete (Inr clusters) r) \<Longrightarrow>
      \<exists>e. se_delete env tr r = Some e \<and> \<not> IsNotFound e"
    and "getClusterStackReleasesInUse (Inr clusters) = Inr inUse"
    and "getClusterStackReleasesInSpec (csk_spec (sk_object s)) = Inr inSpec"
    and "csr_name r \<notin> set_option latest \<union> set_option (fst latestReady) \<union> set (se_order env inSpec) \<union> set inUse"
  shows "\<exists>e t. sync_releases env ns existing latestReady latest s = (Fail (DeleteReleaseFailed e), t) \<and>
    (\<exists>ws. sk_writes t = sk_writes s @ map DeleteRelease ws)"
proof -
  obtain new old where d: "makeDiff existing latest (fst latestReady) (se_order env inSpec) inUse = (new, old)"
    by fastforce
  have old: "r \<in> set old"
    using makeDiff_names[of existing latest "fst latestReady" "se_order env inSpec" inUse] d assms(3,12) by auto
  have "rejected (release_ValidateDelete (Inr clusters) r)"
    using assms(1-7) by (intro used_release_rejected)
  then have "fst (delete_release_step env r u) \<noteq> None" for u
    using assms(9)[of r "sk_writes u"] by (auto simp: delete_release_step_def)
  then have "fst (for_each (delete_release_step env) old s) \<noteq> None"
    by (rule for_each_stops[OF old])
  then obtain x t where x: "for_each (delete_release_step env) old s = (Some x, t)"
    by (cases "for_each (delete_release_step env) old s") auto
  obtain e where e: "x = Fail (DeleteReleaseFailed e)"
    using for_each_error[OF x] by (auto simp: delete_release_step_def split: option.splits if_splits)
  have "\<exists>ws. sk_writes (snd (for_each (delete_release_step env) old s)) = sk_writes s @ map DeleteRelease ws"
  proof (rule for_each_inv[where I = "\<lambda>u. \<exists>ws. sk_writes u = sk_writes s @ map DeleteRelease ws"])
    show "\<exists>ws. sk_writes s = sk_writes s @ map DeleteRelease ws" by (rule exI[of _ "[]"]) simp
  next
    fix y u e v
    assume "\<exists>ws. sk_writes u = sk_writes s @ map DeleteRelease ws" "delete_release_step env y u = (e, v)"
    then obtain ws where "sk_writes v = sk_writes s @ map DeleteRelease (ws @ [y])"
      by (auto simp: delete_release_step_def stack_send_def split: option.splits)
    then show "\<exists>ws. sk_writes v = sk_writes s @ map DeleteRelease ws" by blast
  qed
  then show ?thesis using assms(8,10,11) d x e by (simp add: sync_releases_def)
qed

definition blocked_env :: stack_env where
  "blocked_env = (sample_env [])\<lparr>
     se_clusters := Inr [sample_cluster ''c'' (cs_StringWithDot (ferrol alpha9))],
     se_delete := \<lambda>_ r. if rejected (release_ValidateDelete
         (Inr [sample_cluster ''c'' (cs_StringWithDot (ferrol alpha9))]) r)
       then Some (OtherError ''in use'') else None\<rparr>"

definition unlisted_state :: stack_state where
  "unlisted_state = \<lparr>sk_object = sample_stack\<lparr>csk_spec := (csk_spec sample_stack)\<lparr>css_versions := []\<rparr>\<rparr>,
     sk_writes = [], sk_summary = []\<rparr>"

lemma blocked_facts:
  "getClusterStackReleasesInUse (Inr [sample_cluster ''c'' (cs_StringWithDot (ferrol alpha9))]) =
     Inr [''docker-ferrol-1-27-v1-alpha.9'']"
  "getClusterStackReleasesInSpec (csk_spec (sk_object unlisted_state)) = Inr []"
  "cs_String (ferrol alpha9) = ''docker-ferrol-1-27-v1-alpha-9''"
  "is_ok (clusters_using_release (csr_name (named_release (cs_String (ferrol alpha9))))
     [sample_cluster ''c'' (cs_StringWithDot (ferrol alpha9))])"
  subgoal by code_simp
  subgoal by code_simp
  subgoal by code_simp
  subgoal by code_simp
  done

theorem in_use_release_blocks_sync_witness:
  "\<exists>e t. sync_releases blocked_env ''default'' [named_release (cs_String (ferrol alpha9))] (None, []) None
      unlisted_state = (Fail (DeleteReleaseFailed e), t) \<and>
    (\<exists>ws. sk_writes t = sk_writes unlisted_state @ map DeleteRelease ws)"
proof (rule in_use_release_blocks_sync[OF ferrol_canonical[OF alpha9_canonical] _ _ _ _ _ blocked_facts(4) _ _
      blocked_facts(1,2), where c = "sample_cluster ''c'' (cs_StringWithDot (ferrol alpha9))"
        and tp = "\<lparr>top_class = cs_StringWithDot (ferrol alpha9), top_version = ''1.27.3''\<rparr>"])
  show "csr_name (named_release (cs_String (ferrol alpha9))) = cs_String (ferrol alpha9)"
    by (simp add: named_release_def csr_name_def)
qed (simp_all add: blocked_facts(3) sample_cluster_def blocked_env_def sample_env_def IsNotFound_def)

theorem admitted_stack_never_panics_witness:
  "sr_exit (stack_Reconcile (sample_env []) sample_request) \<noteq> Panic"
proof (rule admitted_stack_never_panics)
  show "stack_ValidateCreate True sample_stack = Allowed" by code_simp
qed (simp add: sample_env_def)

section \<open>Cluster addons, their webhook and the hooks\<close>

lemma admitted_addon_has_ref:
  "addon_ValidateCreate a = Allowed \<Longrightarrow> \<exists>ref. cas_clusterRef (ca_spec a) = Some ref"
  by (auto simp: addon_ValidateCreate_def aggregateObjErrors_def split: option.splits)

lemma admitted_cluster_has_topology:
  "\<not> rejected (cluster_ValidateCreate get c) \<Longrightarrow> cl_topology c \<noteq> None"
  by (cases "cl_topology c") (simp_all add: cluster_ValidateCreate_def isVersionCorrect_def rejected_def)



lemma execute_stages_not_done:
  assumes "execute_stages env inp stages s = (Some x, t)"
  shows "x \<noteq> AddonDone"
proof -
  from for_each_error[OF assms[unfolded execute_stages_def]]
  obtain stage u v where "(case executeStage env inp stage u of
         (Inl stop, s) \<Rightarrow> (Some (AddonStop stop), s)
       | (Inr True, s) \<Rightarrow> (Some (AddonRequeueAfter 20), s)
       | (Inr False, s) \<Rightarrow> (None, s)) = (Some x, v)"
    by blast
  then show ?thesis by (auto split: prod.splits sum.splits bool.splits)
qed

lemma replace_objects_not_done: "replace_objects env inp cfg old s = (Some x, t) \<Longrightarrow> x \<noteq> AddonDone"
  by (auto simp: replace_objects_def split: sum.splits prod.splits if_splits)

text \<open>A hook that ran to its end leaves the charts marked as applied.\<close>

lemma finished_hook_applied:
  assumes "run_hook env inp cfg old class_name s = (AddonDone, t)" and "cas_hook (addon_spec s) \<noteq> []"
    and "conds_ok (as_conditions (addon_status s))"
  shows "conds_ok (as_conditions (addon_status t)) \<and>
    cond_IsTrue (as_conditions (addon_status t)) HelmChartAppliedCondition \<and> cas_hook (addon_spec t) = []"
proof -
  define s0 where "s0 = mark_addon (cond_MarkTrue HookServerReadyCondition) s"
  obtain x1 s1 where 1: "execute_stages env inp (hook_stages cfg (cas_hook (addon_spec s))) s0 = (x1, s1)" by fastforce
  obtain x2 s2 where 2: "replace_objects env inp cfg old s1 = (x2, s2)" by fastforce
  have "keeps s s0" by (simp add: s0_def)
  moreover have "keeps s0 s1" "keeps s1 s2"
    using execute_stages_same[OF 1] replace_objects_same[OF 2] by (simp_all add: same_addon_def)
  ultimately have k: "keeps s s1" "keeps s s2" using keeps_trans by blast+
  have x: "x1 \<noteq> Some AddonDone" "x2 \<noteq> Some AddonDone"
    using 1 2 execute_stages_not_done replace_objects_not_done by blast+
  obtain u where u: "keeps s u" "close_hook u = (AddonDone, t)"
  proof -
    have c: "keeps s (adopt_stack class_name (map_addon (SetStageAnnotations v) s1))"
      "keeps s (adopt_stack class_name (map_addon (SetStageAnnotations v) (map_addon (SetStageAnnotations w) s2)))" for v w
      using k by (simp_all add: adopt_stack_def)
    show ?thesis
      using assms(1,2) x that c k
      by (auto simp: run_hook_def s0_def[symmetric] 1 2 Let_def split: option.splits if_splits)
  qed
  have "conds_ok (as_conditions (addon_status u))" using u(1) assms(3) by (simp add: keeps_def)
  then show ?thesis using u(2) by (auto simp: close_hook_def stage_simps cond_simps)
qed

text \<open>
  C20. The hook server and the addon controller meet, through the addon and through the record that the
  hook server keeps in memory. Once the addon controller has finished the upgrade hook and the hook
  server reads the addon as it was left and can build a patch helper: if the record says that the hook was started for the cluster
  and its class, the next call answers with success, does not ask the cluster to wait and leaves the
  addon alone. If it does not, as after a restart of the operator, the call starts the finished
  hook once more and the cluster has to wait again.
\<close>

theorem upgrade_proceeds_after_hook:
  assumes "run_hook env inp cfg old class_name s = (AddonDone, t)"
    and "cas_hook (addon_spec s) = beforeClusterUpgradeHook"
    and "conds_ok (as_conditions (addon_status s))"
    and "he_get henv (addon_key cluster) = Inr (ca_conditions cond_SetSummary (ad_addon t))"
    and "getHookRecordKey cluster = Some key" and "he_newHelper henv = None"
  shows "\<exists>r. DoBeforeClusterUpgrade henv rec cluster resp = Some r \<and>
    rsp_status (hr_response r) = ResponseStatusSuccess \<and>
    (if map_of rec key = Some BeforeClusterUpgradeHook
     then hr_patched r = [] \<and> rsp_retryAfter (hr_response r) = rsp_retryAfter resp
     else hr_patched r = [start_hook BeforeClusterUpgradeHook (ca_conditions cond_SetSummary (ad_addon t))] \<and>
       rsp_retryAfter (hr_response r) = 10)"
proof -
  have "cas_hook (addon_spec s) \<noteq> []" using assms(2) by (simp add: beforeClusterUpgradeHook_def)
  note applied = finished_hook_applied[OF assms(1) this assms(3)]
  then have "cond_IsTrue (cond_SetSummary (as_conditions (addon_status t))) HelmChartAppliedCondition"
    and "\<not> cond_IsTrue (cond_Delete HelmChartAppliedCondition
      (cond_SetSummary (as_conditions (addon_status t)))) HelmChartAppliedCondition"
    by (simp_all add: cond_simps)
  with applied show ?thesis
    using assms(4-6)
    by (auto simp: DoBeforeClusterUpgrade_def hasAlreadyPatchedClusterAddon_def start_hook_def Let_def
        SetStatus_def BeforeClusterUpgradeHook_def fail_response_def split: option.splits)
qed

definition hook_start :: addon_state where
  "hook_start = set_spec (\<lambda>sp. sp\<lparr>cas_hook := beforeClusterUpgradeHook,
     cas_clusterStack := ''docker-ferrol-1-27-v0''\<rparr>) (stage_start StagePhasePending)"

definition hook_run :: "addon_exit \<times> addon_state" where
  "hook_run = run_hook plain_env sample_input sample_config (Some sample_loaded) ''docker-ferrol-1-27-v1'' hook_start"

definition hook_stages_run :: "addon_exit option \<times> addon_state" where
  "hook_stages_run = execute_stages plain_env sample_input (hook_stages sample_config beforeClusterUpgradeHook)
     (mark_addon (cond_MarkTrue HookServerReadyCondition) hook_start)"

definition hook_replaced :: "addon_exit option \<times> addon_state" where
  "hook_replaced = replace_objects plain_env sample_input sample_config (Some sample_loaded) (snd hook_stages_run)"

lemma hook_run_parts: "fst hook_stages_run = None" "fst hook_replaced = None"
  subgoal by code_simp
  subgoal by code_simp
  done

lemma hook_run_done: "fst hook_run = AddonDone"
proof -
  have hook: "cas_hook (addon_spec hook_start) = beforeClusterUpgradeHook" "beforeClusterUpgradeHook \<noteq> []"
    by (simp_all add: hook_start_def stage_simps beforeClusterUpgradeHook_def)
  have run: "execute_stages plain_env sample_input (hook_stages sample_config beforeClusterUpgradeHook)
      (mark_addon (cond_MarkTrue HookServerReadyCondition) hook_start) = (None, snd hook_stages_run)"
    using hook_run_parts(1) by (simp add: hook_stages_run_def prod_eq_iff)
  have swap: "replace_objects plain_env sample_input sample_config (Some sample_loaded) (snd hook_stages_run)
      = (None, snd hook_replaced)"
    using hook_run_parts(2) by (simp add: hook_replaced_def prod_eq_iff)
  show ?thesis by (simp add: hook_run_def run_hook_def Let_def hook run swap close_hook_done)
qed

definition upgrade_server :: hook_env where
  "upgrade_server = (hook_sample [])\<lparr>he_get := \<lambda>_. Inr (ca_conditions cond_SetSummary (ad_addon (snd hook_run)))\<rparr>"

text \<open>The record of the operator that started the hook, and that of the operator after a restart.\<close>

theorem upgrade_proceeds_after_hook_witness:
  "(\<exists>r. DoBeforeClusterUpgrade upgrade_server [(''c/ns/docker-ferrol-1-27-v1'', BeforeClusterUpgradeHook)]
       hook_cluster empty_response = Some r \<and> hr_patched r = [] \<and> rsp_retryAfter (hr_response r) = 0) \<and>
   (\<exists>r. DoBeforeClusterUpgrade upgrade_server [] hook_cluster empty_response = Some r \<and>
     hr_patched r \<noteq> [] \<and> rsp_retryAfter (hr_response r) = 10)"
proof -
  have run: "run_hook plain_env sample_input sample_config (Some sample_loaded) ''docker-ferrol-1-27-v1'' hook_start
      = (AddonDone, snd hook_run)"
    using hook_run_done by (metis hook_run_def prod.collapse)
  have start: "cas_hook (addon_spec hook_start) = beforeClusterUpgradeHook"
    "conds_ok (as_conditions (addon_status hook_start))"
    by (simp_all add: hook_start_def stage_simps stage_start_def fresh_addon_def)
  have get: "he_get upgrade_server (addon_key hook_cluster) = Inr (ca_conditions cond_SetSummary (ad_addon (snd hook_run)))"
    "he_newHelper upgrade_server = None"
    by (simp_all add: upgrade_server_def hook_sample_def)
  have key: "getHookRecordKey hook_cluster = Some ''c/ns/docker-ferrol-1-27-v1''" by code_simp
  note proceeds = upgrade_proceeds_after_hook[OF run start get(1) key get(2)]
  show ?thesis
    using proceeds[of "[(''c/ns/docker-ferrol-1-27-v1'', BeforeClusterUpgradeHook)]" empty_response]
      proceeds[of "[]" empty_response]
    by (auto simp: empty_response_def)
qed

end
